(* ===== verification/Prelude.thy ===== *)
theory Prelude
  imports Main "HOL-Library.Sublist"
begin

text \<open>
  Shared ground of the development: Go errors as values, the result of a Go
  call (a value, a returned error, or a run-time panic), the trace monad in
  which every controller operation is written, polling loops, and generic
  facts on lists, strings and association lists.

  A computation takes the environment it runs in and the list of API calls
  made so far, and returns its result together with the extended list.  The
  environment answers each call from the calls made before it; every theorem
  is stated for all environments, so every failure, delay and interference by
  other API clients is covered.
\<close>

named_theorems go_defs \<open>definitions of the trace monad and of its API calls\<close>
named_theorems emits_intros \<open>which calls an operation can make, one rule per operation\<close>
named_theorems yields_intros \<open>what an operation can return, one rule per combinator\<close>
named_theorems wp_simps \<open>weakest preconditions, one rule per combinator\<close>


section \<open>Lists\<close>

lemma distinct_remove_nth: "distinct xs \<Longrightarrow> distinct (take i xs @ drop (Suc i) xs)"
proof (cases "i < length xs")
  case True
  assume "distinct xs"
  then have "distinct (take i xs @ xs ! i # drop (Suc i) xs)"
    by (simp add: id_take_nth_drop[OF True, symmetric])
  then show ?thesis by simp
qed simp


section \<open>Errors\<close>

text \<open>The reasons a Kubernetes API server gives in a status error.\<close>

datatype reason =
    NotFound | AlreadyExists | Conflict | Invalid | Forbidden | Unauthorized
  | Timeout | ServerTimeout | TooManyRequests | ServiceUnavailable
  | InternalError | OtherReason string

text \<open>
  \<open>Plain\<close> is \<open>errors.New\<close>, \<open>errors.Errorf\<close> and \<open>fmt.Errorf\<close>; \<open>Wrapped\<close> is
  \<open>errors.Wrap\<close>/\<open>errors.Wrapf\<close> of a non-nil error, \<open>WithStack\<close> is
  \<open>errors.WithStack\<close>; \<open>StatusError\<close> comes from the Kubernetes API server,
  \<open>ResponseError\<close> from the Vault server.
\<close>

datatype error =
    Plain string
  | StatusError reason string
  | ResponseError nat string
  | Wrapped string error
  | WithStack error
  | Aggregate "error list"

text \<open>\<open>kerr.ReasonForError\<close> looks at the error itself, not at what it wraps.\<close>

fun ReasonForError :: "error \<Rightarrow> reason option" where
  "ReasonForError (StatusError r m) = Some r"
| "ReasonForError _ = None"

definition IsNotFound :: "error \<Rightarrow> bool" where
  "IsNotFound e \<longleftrightarrow> ReasonForError e = Some NotFound"

definition IsConflict :: "error \<Rightarrow> bool" where
  "IsConflict e \<longleftrightarrow> ReasonForError e = Some Conflict"

definition IsRequestRetryable :: "error \<Rightarrow> bool" where
  "IsRequestRetryable e \<longleftrightarrow>
     ReasonForError e \<in> {Some ServiceUnavailable, Some Timeout,
                          Some ServerTimeout, Some TooManyRequests}"

text \<open>\<open>errors.Wrap(nil, _)\<close> is nil: a nil error stays nil.\<close>

definition errors_Wrap :: "error option \<Rightarrow> string \<Rightarrow> error option" where
  "errors_Wrap err msg = map_option (Wrapped msg) err"

definition NewAggregate :: "error option list \<Rightarrow> error option" where
  "NewAggregate errlist =
     (let errs = [e. Some e \<leftarrow> errlist]
      in if errs = [] then None else Some (Aggregate errs))"

text \<open>The leaves that \<open>aggregate.visit\<close> goes through.\<close>

fun visit :: "error \<Rightarrow> error list" where
  "visit (Aggregate es) = concat (map visit es)"
| "visit e = [e]"

definition join :: "string \<Rightarrow> string list \<Rightarrow> string" where
  "join sep ss = concat (case ss of [] \<Rightarrow> [] | s # rest \<Rightarrow> s # map (\<lambda>x. sep @ x) rest)"

text \<open>
  The text of an error.  \<open>aggregate.Error\<close> gives a single member unchanged and
  otherwise the distinct texts of its leaves, in brackets when there are
  several.
\<close>

function (sequential) Error :: "error \<Rightarrow> string" where
  "Error (Plain m) = m"
| "Error (StatusError r m) = m"
| "Error (ResponseError c m) = m"
| "Error (Wrapped m e) = m @ '': '' @ Error e"
| "Error (WithStack e) = Error e"
| "Error (Aggregate es) =
     (case es of [] \<Rightarrow> '''' | [e] \<Rightarrow> Error e
      | _ \<Rightarrow> (let ms = rev (remdups (rev (map Error (visit (Aggregate es)))))
             in case ms of [m] \<Rightarrow> m | _ \<Rightarrow> ''['' @ join '', '' ms @ '']''))"
  by pat_completeness auto

lemma visit_size: "x \<in> set (visit e) \<Longrightarrow> size x \<le> size e"
proof (induction e rule: visit.induct)
  case (1 es)
  then obtain e where e: "e \<in> set es" "x \<in> set (visit e)" by auto
  have "size e < size (Aggregate es)"
    using e(1) by (simp add: size_list_estimation' less_Suc_eq_le)
  with 1 e show ?case by fastforce
qed auto

lemma visit_member_size:
  assumes "x \<in> set (visit (Aggregate es))"
  shows "size x < size (Aggregate es)"
proof -
  obtain e where e: "e \<in> set es" "x \<in> set (visit e)" using assms by auto
  have "size e < size (Aggregate es)"
    using e(1) by (simp add: size_list_estimation' less_Suc_eq_le)
  with visit_size[OF e(2)] show ?thesis by simp
qed

termination Error
  by (relation "measure size") (auto dest: visit_member_size simp del: visit.simps)

lemma IsNotFound_simps [simp]:
  "IsNotFound (StatusError r m) \<longleftrightarrow> r = NotFound"
  "\<not> IsNotFound (Plain m)" "\<not> IsNotFound (Wrapped m e)"
  "\<not> IsNotFound (WithStack e)" "\<not> IsNotFound (Aggregate es)"
  "\<not> IsNotFound (ResponseError c m)"
  by (simp_all add: IsNotFound_def)

lemma IsConflict_simps [simp]:
  "IsConflict (StatusError r m) \<longleftrightarrow> r = Conflict"
  "\<not> IsConflict (Plain m)" "\<not> IsConflict (Wrapped m e)"
  "\<not> IsConflict (WithStack e)" "\<not> IsConflict (Aggregate es)"
  "\<not> IsConflict (ResponseError c m)"
  by (simp_all add: IsConflict_def)

lemma errors_Wrap_simps [simp]:
  "errors_Wrap None m = None" "errors_Wrap (Some e) m = Some (Wrapped m e)"
  by (simp_all add: errors_Wrap_def)

lemma NewAggregate_eq_None [simp]:
  "NewAggregate errs = None \<longleftrightarrow> (\<forall>e \<in> set errs. e = None)"
  by (induction errs) (auto simp: NewAggregate_def Let_def split: option.splits)

lemma NewAggregate_None_Cons [simp]: "NewAggregate (None # es) = NewAggregate es"
  by (simp add: NewAggregate_def)


section \<open>Results and the trace monad\<close>

datatype 'a res = Ok 'a | Err error | Panic string

type_synonym ('env, 'ev, 'a) gom = "'env \<Rightarrow> 'ev list \<Rightarrow> 'a res \<times> 'ev list"

definition ret :: "'a \<Rightarrow> ('env, 'ev, 'a) gom" where
  "ret v = (\<lambda>env t. (Ok v, t))"

definition fail :: "error \<Rightarrow> ('env, 'ev, 'a) gom" where
  "fail e = (\<lambda>env t. (Err e, t))"

definition panic :: "string \<Rightarrow> ('env, 'ev, 'a) gom" where
  "panic s = (\<lambda>env t. (Panic s, t))"

text \<open>
  \<open>attempt m h k\<close> is \<open>v, err := m; if err != nil { h(err) } else { k(v) }\<close>;
  a panic ends the computation.
\<close>

definition attempt ::
    "('env, 'ev, 'a) gom \<Rightarrow> (error \<Rightarrow> ('env, 'ev, 'b) gom) \<Rightarrow> ('a \<Rightarrow> ('env, 'ev, 'b) gom)
       \<Rightarrow> ('env, 'ev, 'b) gom" where
  "attempt m h k = (\<lambda>env t. case m env t of
       (Ok v, t') \<Rightarrow> k v env t'
     | (Err e, t') \<Rightarrow> h e env t'
     | (Panic s, t') \<Rightarrow> (Panic s, t'))"

text \<open>\<open>if err != nil { return err }\<close>\<close>

definition andThen ::
    "('env, 'ev, 'a) gom \<Rightarrow> ('a \<Rightarrow> ('env, 'ev, 'b) gom) \<Rightarrow> ('env, 'ev, 'b) gom" where
  "andThen m k = attempt m fail k"

text \<open>\<open>err := m\<close>, where the code looks at \<open>err\<close> later.\<close>

definition errOf :: "('env, 'ev, 'a) gom \<Rightarrow> (error option \<Rightarrow> ('env, 'ev, 'b) gom)
    \<Rightarrow> ('env, 'ev, 'b) gom" where
  "errOf m k = attempt m (\<lambda>e. k (Some e)) (\<lambda>_. k None)"

text \<open>\<open>return err\<close>\<close>

definition returnErr :: "error option \<Rightarrow> ('env, 'ev, unit) gom" where
  "returnErr err = (case err of None \<Rightarrow> ret () | Some e \<Rightarrow> fail e)"

text \<open>\<open>if err := m; err != nil { return errors.Wrap(err, msg) }\<close>\<close>

definition wrapErr :: "string \<Rightarrow> ('env, 'ev, 'a) gom \<Rightarrow> ('env, 'ev, 'a) gom" where
  "wrapErr msg m = attempt m (\<lambda>e. fail (Wrapped msg e)) ret"

text \<open>A call that fails or returns a value without touching the outside.\<close>

definition liftE :: "error + 'a \<Rightarrow> ('env, 'ev, 'a) gom" where
  "liftE r = (case r of Inl e \<Rightarrow> fail e | Inr v \<Rightarrow> ret v)"

text \<open>\<open>if cond { return err }\<close>\<close>

definition guard :: "bool \<Rightarrow> error \<Rightarrow> ('env, 'ev, unit) gom" where
  "guard bad e = (if bad then fail e else ret ())"

text \<open>\<open>v, ok := m[k]; if !ok { return err }\<close>\<close>

definition orFail :: "error \<Rightarrow> 'a option \<Rightarrow> ('env, 'ev, 'a) gom" where
  "orFail e v = (case v of None \<Rightarrow> fail e | Some x \<Rightarrow> ret x)"

text \<open>Reading a part of the environment that no call changes.\<close>

definition ask :: "('env \<Rightarrow> 'a) \<Rightarrow> ('env, 'ev, 'a) gom" where
  "ask f = (\<lambda>env t. (Ok (f env), t))"

lemmas [go_defs] = ask_def liftE_def guard_def orFail_def ret_def fail_def panic_def attempt_def andThen_def errOf_def
  returnErr_def wrapErr_def

text \<open>\<open>for _, x := range xs { if err := f(x); err != nil { return err } }\<close>\<close>

primrec forEach :: "('a \<Rightarrow> ('env, 'ev, unit) gom) \<Rightarrow> 'a list \<Rightarrow> ('env, 'ev, unit) gom" where
  "forEach f [] = ret ()"
| "forEach f (x # xs) = andThen (f x) (\<lambda>_. forEach f xs)"

subsection \<open>Laws and runs\<close>

lemma monad_laws:
  "andThen (ret v) k = k v" "andThen (fail e) k = fail e" "liftE (Inr v) = ret v" "liftE (Inl e) = fail e"
  "wrapErr msg (ret v) = ret v" "wrapErr msg (fail e) = fail (Wrapped msg e)"
  by (simp_all add: go_defs)

lemma run_simps: "ret v env t = (Ok v, t)" "fail e env t = (Err e, t)" "panic s env t = (Panic s, t)"
  by (simp_all add: go_defs)

lemma andThen_ret_unit:
  "andThen m (\<lambda>_. ret ()) env t = (Ok (), t') \<longleftrightarrow> (\<exists>v. m env t = (Ok v, t'))"
  by (auto simp: andThen_def attempt_def ret_def fail_def split: prod.splits res.splits)

lemma wrapErr_Ok: "wrapErr msg m env t = (Ok v, t') \<longleftrightarrow> m env t = (Ok v, t')"
  by (auto simp: wrapErr_def attempt_def ret_def fail_def split: prod.splits res.splits)

lemma attempt_Ok:
  assumes "attempt m h k env t = (Ok v, t')"
  obtains x t1 where "m env t = (Ok x, t1)" "k x env t1 = (Ok v, t')"
  | e t1 where "m env t = (Err e, t1)" "h e env t1 = (Ok v, t')"
  using assms by (auto simp: attempt_def split: prod.splits res.splits)

lemma andThen_Ok:
  assumes "andThen m k env t = (Ok v, t')"
  obtains x t1 where "m env t = (Ok x, t1)" "k x env t1 = (Ok v, t')"
  using assms by (auto simp: andThen_def run_simps elim: attempt_Ok)

lemma guard_run: "andThen (guard bad e) k env t = (if bad then (Err e, t) else k () env t)"
  by (simp add: andThen_def guard_def attempt_def ret_def fail_def)

subsection \<open>Which calls a computation can make\<close>

text \<open>
  \<open>emits P m env\<close>: whatever was called before, \<open>m\<close> only appends calls that
  satisfy \<open>P\<close>.  The rules follow the combinators, so a fact about an operation
  is found by walking over its text.
\<close>

definition emits :: "('ev \<Rightarrow> bool) \<Rightarrow> ('env, 'ev, 'a) gom \<Rightarrow> 'env \<Rightarrow> bool" where
  "emits P m env \<longleftrightarrow> (\<forall>t. \<exists>es. snd (m env t) = t @ es \<and> (\<forall>e \<in> set es. P e))"

lemma emitsI:
  assumes "\<And>t. \<exists>es. snd (m env t) = t @ es \<and> (\<forall>e \<in> set es. P e)"
  shows "emits P m env"
  using assms by (simp add: emits_def)

lemma emitsE:
  assumes "emits P m env"
  obtains es where "snd (m env t) = t @ es" "\<forall>e \<in> set es. P e"
  using assms by (auto simp: emits_def)

lemma emitsD:
  assumes "emits P m env" "m env t = (r, t')"
  shows "\<exists>es. t' = t @ es \<and> (\<forall>e \<in> set es. P e)"
  using assms by (metis emits_def snd_conv)

lemma emits_mono: "emits P m env \<Longrightarrow> (\<And>e. P e \<Longrightarrow> Q e) \<Longrightarrow> emits Q m env"
  unfolding emits_def by meson

lemma emits_ret [emits_intros]: "emits P (ret v) env"
  and emits_fail [emits_intros]: "emits P (fail e) env"
  and emits_panic [emits_intros]: "emits P (panic s) env"
  by (auto simp: emits_def go_defs)

lemma emits_attempt [emits_intros]:
  assumes m: "emits P m env"
    and h: "\<And>e. emits P (h e) env" and k: "\<And>v. emits P (k v) env"
  shows "emits P (attempt m h k) env"
proof (rule emitsI)
  fix t
  obtain r t1 where r: "m env t = (r, t1)" by force
  from emitsD[OF m r] obtain es where t1: "t1 = t @ es" "\<forall>e \<in> set es. P e" by blast
  show "\<exists>es. snd (attempt m h k env t) = t @ es \<and> (\<forall>e \<in> set es. P e)"
  proof (cases r)
    case (Ok v)
    from emitsE[OF k[of v], where t = t1] obtain es' where
      "snd (k v env t1) = t1 @ es'" "\<forall>e \<in> set es'. P e" .
    with r t1 Ok show ?thesis by (auto simp: attempt_def intro!: exI[of _ "es @ es'"])
  next
    case (Err e)
    from emitsE[OF h[of e], where t = t1] obtain es' where
      "snd (h e env t1) = t1 @ es'" "\<forall>e \<in> set es'. P e" .
    with r t1 Err show ?thesis by (auto simp: attempt_def intro!: exI[of _ "es @ es'"])
  next
    case (Panic s)
    with r t1 show ?thesis by (auto simp: attempt_def)
  qed
qed

lemma emits_andThen [emits_intros]:
  "emits P m env \<Longrightarrow> (\<And>v. emits P (k v) env) \<Longrightarrow> emits P (andThen m k) env"
  unfolding andThen_def by (intro emits_intros)

lemma emits_errOf [emits_intros]:
  "emits P m env \<Longrightarrow> (\<And>v. emits P (k v) env) \<Longrightarrow> emits P (errOf m k) env"
  unfolding errOf_def by (intro emits_intros)

lemma emits_returnErr [emits_intros]: "emits P (returnErr err) env"
  unfolding returnErr_def by (cases err) (auto intro: emits_intros)

lemma emits_wrapErr [emits_intros]: "emits P m env \<Longrightarrow> emits P (wrapErr msg m) env"
  unfolding wrapErr_def by (intro emits_intros)

lemma emits_pure [emits_intros]:
  "emits P (liftE r) env" "emits P (guard bad e) env" "emits P (orFail e v) env" "emits P (ask f) env"
  by (auto simp: emits_def go_defs split: sum.splits option.splits)

lemma emits_if [emits_intros]:
  "(b \<Longrightarrow> emits P m env) \<Longrightarrow> (\<not> b \<Longrightarrow> emits P m' env) \<Longrightarrow> emits P (if b then m else m') env"
  by simp

lemma emits_case_option [emits_intros]:
  "(x = None \<Longrightarrow> emits P m env) \<Longrightarrow> (\<And>v. x = Some v \<Longrightarrow> emits P (f v) env)
    \<Longrightarrow> emits P (case x of None \<Rightarrow> m | Some v \<Rightarrow> f v) env"
  by (cases x) auto

lemma emits_case_sum [emits_intros]:
  "(\<And>a. x = Inl a \<Longrightarrow> emits P (f a) env) \<Longrightarrow> (\<And>b. x = Inr b \<Longrightarrow> emits P (g b) env)
    \<Longrightarrow> emits P (case x of Inl a \<Rightarrow> f a | Inr b \<Rightarrow> g b) env"
  by (cases x) auto

lemma emits_case_prod [emits_intros]:
  "(\<And>a b. x = (a, b) \<Longrightarrow> emits P (f a b) env) \<Longrightarrow> emits P (case x of (a, b) \<Rightarrow> f a b) env"
  by (cases x) auto

lemma emits_case_prod_app [emits_intros]:
  "(\<And>a b. x = (a, b) \<Longrightarrow> emits P (f a b y) env) \<Longrightarrow> emits P ((case x of (a, b) \<Rightarrow> f a b) y) env"
  by (cases x) auto

lemma emits_Let [emits_intros]: "(\<And>y. y = x \<Longrightarrow> emits P (f y) env) \<Longrightarrow> emits P (Let x f) env"
  by (simp add: Let_def)

lemma emits_forEach [emits_intros]:
  "(\<And>x. x \<in> set xs \<Longrightarrow> emits P (f x) env) \<Longrightarrow> emits P (forEach f xs) env"
  by (induction xs) (auto intro!: emits_intros)


subsection \<open>What a computation can return\<close>

text \<open>\<open>yields Q m env\<close>: every value \<open>m\<close> returns without an error satisfies \<open>Q\<close>.\<close>

definition yields :: "('a \<Rightarrow> bool) \<Rightarrow> ('env, 'ev, 'a) gom \<Rightarrow> 'env \<Rightarrow> bool" where
  "yields Q m env \<longleftrightarrow> (\<forall>t v t'. m env t = (Ok v, t') \<longrightarrow> Q v)"

lemma yieldsD: "yields Q m env \<Longrightarrow> m env t = (Ok v, t') \<Longrightarrow> Q v"
  by (auto simp: yields_def)

lemma yields_ret [yields_intros]: "Q v \<Longrightarrow> yields Q (ret v) env"
  and yields_fail [yields_intros]: "yields Q (fail e) env"
  and yields_panic [yields_intros]: "yields Q (panic s) env"
  by (simp_all add: yields_def go_defs)

lemma yields_attempt [yields_intros]:
  "(\<And>e. yields Q (h e) env) \<Longrightarrow> (\<And>v. yields Q (k v) env) \<Longrightarrow> yields Q (attempt m h k) env"
  by (auto simp: yields_def attempt_def split: prod.splits res.splits)

lemma yields_andThen [yields_intros]: "(\<And>v. yields Q (k v) env) \<Longrightarrow> yields Q (andThen m k) env"
  unfolding andThen_def by (intro yields_intros)

lemma yields_andThenI: "yields R m env \<Longrightarrow> (\<And>v. R v \<Longrightarrow> yields Q (k v) env) \<Longrightarrow> yields Q (andThen m k) env"
  by (fastforce simp: yields_def andThen_def attempt_def fail_def split: prod.splits res.splits)

lemma yields_wrapErr [yields_intros]: "yields Q m env \<Longrightarrow> yields Q (wrapErr msg m) env"
  by (auto simp: yields_def wrapErr_def go_defs split: prod.splits res.splits)

lemma yields_if [yields_intros]:
  "(b \<Longrightarrow> yields Q m env) \<Longrightarrow> (\<not> b \<Longrightarrow> yields Q m' env) \<Longrightarrow> yields Q (if b then m else m') env"
  by simp

lemma yields_case_option [yields_intros]:
  "(x = None \<Longrightarrow> yields Q m env) \<Longrightarrow> (\<And>v. x = Some v \<Longrightarrow> yields Q (f v) env)
    \<Longrightarrow> yields Q (case x of None \<Rightarrow> m | Some v \<Rightarrow> f v) env"
  by (cases x) auto

lemma yields_case_prod [yields_intros]:
  "(\<And>a b. x = (a, b) \<Longrightarrow> yields Q (f a b) env) \<Longrightarrow> yields Q (case x of (a, b) \<Rightarrow> f a b) env"
  by (cases x) auto

lemma yields_Let [yields_intros]: "(\<And>y. y = x \<Longrightarrow> yields Q (f y) env) \<Longrightarrow> yields Q (Let x f) env"
  by (simp add: Let_def)

lemma emits_andThen_yields:
  assumes m: "emits P m env" and y: "yields R m env" and k: "\<And>v. R v \<Longrightarrow> emits P (k v) env"
  shows "emits P (andThen m k) env"
proof -
  let ?k = "\<lambda>v. if R v then k v else fail (Plain '''')"
  have "emits P (andThen m ?k) env"
    using m by (intro emits_intros) (auto intro: k)
  moreover have "andThen m ?k env t = andThen m k env t" for t
    using y by (auto simp: yields_def andThen_def attempt_def split: prod.splits res.splits)
  ultimately show ?thesis by (simp add: emits_def)
qed

lemma emits_attempt_yields:
  assumes "emits P m env" "yields R m env" "\<And>e. emits P (h e) env" "\<And>v. R v \<Longrightarrow> emits P (k v) env"
  shows "emits P (attempt m h k) env"
proof -
  let ?k = "\<lambda>v. if R v then k v else fail (Plain '''')"
  have "emits P (attempt m h ?k) env"
    using assms by (intro emits_intros) auto
  moreover have "attempt m h ?k env t = attempt m h k env t" for t
    using assms(2) by (auto simp: yields_def attempt_def split: prod.splits res.splits)
  ultimately show ?thesis by (simp add: emits_def)
qed


subsection \<open>Weakest preconditions\<close>

text \<open>
  \<open>wp m env Q t\<close>: running \<open>m\<close> after the calls \<open>t\<close> ends in a result and a
  trace that satisfy \<open>Q\<close>.
\<close>

definition wp :: "('env, 'ev, 'a) gom \<Rightarrow> 'env \<Rightarrow> ('a res \<Rightarrow> 'ev list \<Rightarrow> bool) \<Rightarrow> 'ev list \<Rightarrow> bool" where
  "wp m env Q t \<longleftrightarrow> Q (fst (m env t)) (snd (m env t))"

lemma wp_basic [wp_simps]:
  "wp (ret v) env Q t \<longleftrightarrow> Q (Ok v) t"
  "wp (fail e) env Q t \<longleftrightarrow> Q (Err e) t"
  "wp (panic s) env Q t \<longleftrightarrow> Q (Panic s) t"
  by (simp_all add: wp_def go_defs)

lemma wp_attempt [wp_simps]:
  "wp (attempt m h k) env Q t \<longleftrightarrow>
     wp m env (\<lambda>r t'. case r of Ok v \<Rightarrow> wp (k v) env Q t' | Err e \<Rightarrow> wp (h e) env Q t'
                        | Panic s \<Rightarrow> Q (Panic s) t') t"
  by (auto simp: wp_def attempt_def split: prod.splits res.splits)

lemma wp_andThen [wp_simps]:
  "wp (andThen m k) env Q t \<longleftrightarrow>
     wp m env (\<lambda>r t'. case r of Ok v \<Rightarrow> wp (k v) env Q t' | Err e \<Rightarrow> Q (Err e) t'
                        | Panic s \<Rightarrow> Q (Panic s) t') t"
  by (simp add: andThen_def wp_attempt wp_basic cong: res.case_cong)

lemma wp_errOf [wp_simps]:
  "wp (errOf m k) env Q t \<longleftrightarrow>
     wp m env (\<lambda>r t'. case r of Ok v \<Rightarrow> wp (k None) env Q t' | Err e \<Rightarrow> wp (k (Some e)) env Q t'
                        | Panic s \<Rightarrow> Q (Panic s) t') t"
  by (simp add: errOf_def wp_attempt)

lemma wp_returnErr [wp_simps]:
  "wp (returnErr err) env Q t \<longleftrightarrow> Q (case err of None \<Rightarrow> Ok () | Some e \<Rightarrow> Err e) t"
  by (cases err) (simp_all add: returnErr_def wp_basic)

lemma wp_wrapErr [wp_simps]:
  "wp (wrapErr msg m) env Q t \<longleftrightarrow>
     wp m env (\<lambda>r t'. Q (case r of Err e \<Rightarrow> Err (Wrapped msg e) | _ \<Rightarrow> r) t') t"
  by (cases "m env t"; cases "fst (m env t)")
    (simp_all add: wp_def wrapErr_def attempt_def ret_def fail_def)

lemma wp_pure [wp_simps]:
  "wp (liftE r) env Q t \<longleftrightarrow> Q (case r of Inl e \<Rightarrow> Err e | Inr v \<Rightarrow> Ok v) t"
  "wp (guard bad e) env Q2 t \<longleftrightarrow> Q2 (if bad then Err e else Ok ()) t"
  "wp (orFail e v) env Q3 t \<longleftrightarrow> Q3 (case v of None \<Rightarrow> Err e | Some x \<Rightarrow> Ok x) t"
  "wp (ask f) env Q4 t \<longleftrightarrow> Q4 (Ok (f env)) t"
  by (auto simp: wp_def go_defs split: sum.splits option.splits)

lemma wp_mono: "wp m env Q t \<Longrightarrow> (\<And>r t'. Q r t' \<Longrightarrow> R r t') \<Longrightarrow> wp m env R t"
  by (simp add: wp_def)

lemma wp_emits: "emits P m env \<Longrightarrow> wp m env (\<lambda>r t'. \<exists>es. t' = t @ es \<and> (\<forall>e \<in> set es. P e)) t"
  by (simp add: wp_def emits_def)

lemma wp_conj: "wp m env (\<lambda>r t'. Q r t' \<and> R r t') t \<longleftrightarrow> wp m env Q t \<and> wp m env R t"
  by (simp add: wp_def)


subsection \<open>Polling\<close>

text \<open>
  One run of the condition function of \<open>wait.PollImmediate\<close>: done, try again
  at the next tick, or give up with an error.
\<close>

datatype poll = Done | Again | Stop error

definition ErrWaitTimeout :: error where
  "ErrWaitTimeout = Plain ''timed out waiting for the condition''"

text \<open>
  \<open>WaitFor\<close>: \<open>n\<close> ticks arrive before the channel is closed, and the condition
  is run once more when it is.  The variables the closure captures are the
  state \<open>s\<close>.
\<close>

primrec WaitFor :: "nat \<Rightarrow> ('s \<Rightarrow> ('env, 'ev, 's \<times> poll) gom) \<Rightarrow> 's
    \<Rightarrow> ('env, 'ev, 's \<times> error option) gom" where
  "WaitFor 0 cond s = andThen (cond s) (\<lambda>(s', p). case p of
       Done \<Rightarrow> ret (s', None) | Stop e \<Rightarrow> ret (s', Some e)
     | Again \<Rightarrow> ret (s', Some ErrWaitTimeout))"
| "WaitFor (Suc n) cond s = andThen (cond s) (\<lambda>(s', p). case p of
       Done \<Rightarrow> ret (s', None) | Stop e \<Rightarrow> ret (s', Some e)
     | Again \<Rightarrow> WaitFor n cond s')"

text \<open>\<open>PollImmediate\<close> runs the condition at once and then waits for the ticks.\<close>

definition PollImmediate :: "nat \<Rightarrow> ('s \<Rightarrow> ('env, 'ev, 's \<times> poll) gom) \<Rightarrow> 's
    \<Rightarrow> ('env, 'ev, 's \<times> error option) gom" where
  "PollImmediate ticks cond s = WaitFor (Suc ticks) cond s"

lemma emits_case_poll [emits_intros]:
  "\<lbrakk>emits P a env; emits P b env; \<And>e. emits P (c e) env\<rbrakk>
    \<Longrightarrow> emits P (case p of Done \<Rightarrow> a | Again \<Rightarrow> b | Stop e \<Rightarrow> c e) env"
  by (cases p) auto

lemma emits_WaitFor [emits_intros]:
  "(\<And>s. emits P (cond s) env) \<Longrightarrow> emits P (WaitFor n cond s) env"
  by (induction n arbitrary: s) (auto intro!: emits_intros)

lemma emits_PollImmediate [emits_intros]:
  "(\<And>s. emits P (cond s) env) \<Longrightarrow> emits P (PollImmediate n cond s) env"
  unfolding PollImmediate_def by (rule emits_WaitFor)

end
