(* ===== verification/Meta_Util.thy ===== *)
theory Meta_Util
  imports Prelude "HOL-Library.AList"
begin

text \<open>
  Object metadata and the helper packages every controller uses on it: string
  helpers, generated names, finalizers, owner references and status
  conditions.
\<close>

section \<open>Strings\<close>

definition Trim :: "string \<Rightarrow> char \<Rightarrow> string" where
  "Trim s c = rev (dropWhile (\<lambda>x. x = c) (rev (dropWhile (\<lambda>x. x = c) s)))"

lemma length_Trim_le: "length (Trim s c) \<le> length s"
  unfolding Trim_def by (metis length_dropWhile_le length_rev order_trans)

lemma Trim_ends:
  assumes "Trim s c \<noteq> []"
  shows "hd (Trim s c) \<noteq> c" "last (Trim s c) \<noteq> c"
proof -
  let ?d = "dropWhile (\<lambda>x. x = c) s"
  have last: "last (Trim s c) \<noteq> c"
    using assms hd_dropWhile[of "\<lambda>x. x = c" "rev ?d"]
    unfolding Trim_def by (metis last_rev rev_is_Nil_conv)
  have ne: "?d \<noteq> []" using assms by (auto simp: Trim_def simp del: dropWhile_eq_Nil_conv)
  have pre: "prefix (Trim s c) ?d"
    unfolding Trim_def using suffix_dropWhile[of "\<lambda>x. x = c" "rev ?d"]
    by (simp add: suffix_to_prefix)
  have "hd (Trim s c) = hd ?d"
    using pre assms by (auto simp: prefix_def)
  with hd_dropWhile[of "\<lambda>x. x = c" s] ne have "hd (Trim s c) \<noteq> c" by auto
  then show "hd (Trim s c) \<noteq> c" "last (Trim s c) \<noteq> c" using last by auto
qed

text \<open>Decimal text of a number, as \<open>%d\<close> prints it.\<close>

fun string_of_nat :: "nat \<Rightarrow> string" where
  "string_of_nat n =
     (if n < 10 then [char_of (48 + n)] else string_of_nat (n div 10) @ [char_of (48 + n mod 10)])"

declare string_of_nat.simps [simp del]

definition string_of_int :: "int \<Rightarrow> string" where
  "string_of_int i = (if i < 0 then ''-'' @ string_of_nat (nat (- i)) else string_of_nat (nat i))"

text \<open>Signed 64-bit arithmetic wraps around.\<close>

definition int64 :: "int \<Rightarrow> int" where
  "int64 x = (x + 2 ^ 63) mod 2 ^ 64 - 2 ^ 63"

lemma int64_bounds: "- (2 ^ 63) \<le> int64 x" "int64 x < 2 ^ 63"
  by (simp_all add: int64_def)

lemma int64_id: "- (2 ^ 63) \<le> x \<Longrightarrow> x < 2 ^ 63 \<Longrightarrow> int64 x = x"
  by (simp add: int64_def)

text \<open>\<open>fmt.Sprintf("%s/%s", ns, name)\<close>\<close>

definition slash :: "string \<Rightarrow> string \<Rightarrow> string" where
  "slash ns n = ns @ ''/'' @ n"


section \<open>Maps of strings\<close>

text \<open>A Go \<open>map[string]string\<close> is an association list with distinct keys.\<close>

type_synonym smap = "(string \<times> string) list"

definition UpsertMap :: "('k \<times> 'v) list \<Rightarrow> ('k \<times> 'v) list \<Rightarrow> ('k \<times> 'v) list" where
  "UpsertMap maps upsert = fold (\<lambda>(k, v). AList.update k v) upsert maps"

lemma distinct_UpsertMap:
  "distinct (map fst m) \<Longrightarrow> distinct (map fst (UpsertMap m u))"
  unfolding UpsertMap_def by (induction u arbitrary: m) (auto simp: distinct_update)

lemma map_of_UpsertMap: "map_of (UpsertMap m u) = map_of m ++ map_of (rev u)"
  unfolding UpsertMap_def
  by (induction u arbitrary: m) (auto simp: update_conv' map_add_def fun_eq_iff split: option.splits)


section \<open>Generated names\<close>

definition DNS1123LabelMaxLength :: nat where
  "DNS1123LabelMaxLength = 63"

definition NameWithSuffix :: "string \<Rightarrow> string \<Rightarrow> string" where
  "NameWithSuffix n sfx =
     (let maxLength = DNS1123LabelMaxLength in
      if length sfx \<ge> maxLength
      then Trim (drop (length sfx - maxLength) sfx) (CHR ''-'')
      else Trim (take (min (length n) (maxLength - length sfx - 1)) n @ ''-'' @ sfx) (CHR ''-''))"

text \<open>Generated names fit in a DNS label whatever the length of their parts.\<close>

lemma length_NameWithSuffix: "length (NameWithSuffix n sfx) \<le> DNS1123LabelMaxLength"
proof (cases "length sfx \<ge> DNS1123LabelMaxLength")
  case True
  then show ?thesis
    using length_Trim_le[of "drop (length sfx - DNS1123LabelMaxLength) sfx" "CHR ''-''"]
    by (simp add: NameWithSuffix_def)
next
  case False
  let ?s = "take (min (length n) (DNS1123LabelMaxLength - length sfx - 1)) n @ ''-'' @ sfx"
  have "length ?s \<le> DNS1123LabelMaxLength" using False by auto
  with False show ?thesis
    using length_Trim_le[of ?s "CHR ''-''"] by (simp add: NameWithSuffix_def Let_def)
qed

text \<open>\<open>meta_util.FilterKeys\<close>: copy the entries of \<open>in\<close> that are not in the domain.\<close>

definition labelKeyBlacklist :: "string list" where
  "labelKeyBlacklist = [''app.kubernetes.io/name'', ''app.kubernetes.io/version'',
     ''app.kubernetes.io/instance'', ''app.kubernetes.io/managed-by'']"

definition IndexRune :: "string \<Rightarrow> char \<Rightarrow> int" where
  "IndexRune s c = (let n = length (takeWhile (\<lambda>x. x \<noteq> c) s)
                    in if n < length s then int n else -1)"

definition FilterKeys :: "string \<Rightarrow> smap \<Rightarrow> smap \<Rightarrow> smap" where
  "FilterKeys domainKey out inp =
     fold (\<lambda>(k, v) acc.
        if k \<in> set labelKeyBlacklist then acc
        else (let n = int (length domainKey); idx = IndexRune k (CHR ''/'') in
              if idx < n then AList.update k v acc
              else if idx = n \<and> take (nat idx) k \<noteq> domainKey then AList.update k v acc
              else if idx > n \<and> take (nat (n + 1)) (drop (nat (idx - n - 1)) k) \<noteq> ''.'' @ domainKey
                then AList.update k v acc
              else acc)) inp out"


section \<open>Object metadata\<close>

record OwnerReference =
  owner_APIVersion :: string
  owner_Kind :: string
  owner_Name :: string
  owner_UID :: string
  owner_Controller :: "bool option"
  owner_BlockOwnerDeletion :: "bool option"

text \<open>Times are seconds since the epoch; \<open>DeletionTimestamp\<close> is a pointer.\<close>

record ObjectMeta =
  Name :: string
  Namespace :: string
  UID :: string
  ResourceVersion :: string
  Generation :: int
  DeletionTimestamp :: "int option"
  Labels :: smap
  Annotations :: smap
  OwnerReferences :: "OwnerReference list"
  Finalizers :: "string list"
  ClusterName :: string

definition ObjectMeta0 :: "string \<Rightarrow> string \<Rightarrow> ObjectMeta" where
  "ObjectMeta0 n ns = \<lparr>Name = n, Namespace = ns, UID = '''', ResourceVersion = '''',
     Generation = 0, DeletionTimestamp = None, Labels = [], Annotations = [],
     OwnerReferences = [], Finalizers = [], ClusterName = ''''\<rparr>"

text \<open>A custom resource: metadata, specification and status.\<close>

record ('spec, 'status) resource =
  Meta :: ObjectMeta
  Spec :: 'spec
  Status :: 'status

definition key :: "('spec, 'status) resource \<Rightarrow> string" where
  "key r = slash (Namespace (Meta r)) (Name (Meta r))"


subsection \<open>Finalizers\<close>

definition Finalizer :: string where
  "Finalizer = ''kubevault.com''"

definition HasFinalizer :: "ObjectMeta \<Rightarrow> string \<Rightarrow> bool" where
  "HasFinalizer m finalizer \<longleftrightarrow> finalizer \<in> set (Finalizers m)"

definition AddFinalizer :: "ObjectMeta \<Rightarrow> string \<Rightarrow> ObjectMeta" where
  "AddFinalizer m finalizer =
     (if finalizer \<in> set (Finalizers m) then m
      else m\<lparr>Finalizers := Finalizers m @ [finalizer]\<rparr>)"

definition RemoveFinalizer :: "ObjectMeta \<Rightarrow> string \<Rightarrow> ObjectMeta" where
  "RemoveFinalizer m finalizer =
     m\<lparr>Finalizers := filter (\<lambda>name. name \<noteq> finalizer) (Finalizers m)\<rparr>"

lemma HasFinalizer_AddFinalizer [simp]: "HasFinalizer (AddFinalizer m f) f"
  by (simp add: HasFinalizer_def AddFinalizer_def)

lemma HasFinalizer_RemoveFinalizer [simp]: "\<not> HasFinalizer (RemoveFinalizer m f) f"
  by (simp add: HasFinalizer_def RemoveFinalizer_def)

lemma RemoveFinalizer_AddFinalizer:
  assumes "\<not> HasFinalizer m f"
  shows "RemoveFinalizer (AddFinalizer m f) f = m"
proof -
  have "filter (\<lambda>n. n \<noteq> f) (Finalizers m) = Finalizers m"
    using assms by (simp add: HasFinalizer_def filter_id_conv) metis
  then show ?thesis using assms
    by (simp add: HasFinalizer_def RemoveFinalizer_def AddFinalizer_def)
qed


subsection \<open>Owner references\<close>

text \<open>Replace the reference with the owner's UID, or append one.\<close>

fun upsertOwner :: "OwnerReference \<Rightarrow> OwnerReference list \<Rightarrow> OwnerReference list" where
  "upsertOwner owner [] = [owner]"
| "upsertOwner owner (r # refs) =
     (if owner_UID r = owner_UID owner then owner # refs else r # upsertOwner owner refs)"

definition EnsureOwnerReference :: "ObjectMeta \<Rightarrow> OwnerReference option \<Rightarrow> ObjectMeta" where
  "EnsureOwnerReference m owner = (case owner of
       None \<Rightarrow> m
     | Some o' \<Rightarrow> m\<lparr>OwnerReferences := upsertOwner o' (OwnerReferences m)\<rparr>)"

lemma upsertOwner_mem [simp]: "owner \<in> set (upsertOwner owner refs)"
  by (induction owner refs rule: upsertOwner.induct) auto

lemma upsertOwner_idem: "upsertOwner owner (upsertOwner owner refs) = upsertOwner owner refs"
  by (induction owner refs rule: upsertOwner.induct) auto

lemma upsertOwner_other:
  "owner_UID r \<noteq> owner_UID owner \<Longrightarrow> r \<in> set (upsertOwner owner refs) \<longleftrightarrow> r \<in> set refs"
  by (induction owner refs rule: upsertOwner.induct) auto


section \<open>Status conditions\<close>

record Condition =
  cond_Type :: string
  cond_Status :: string
  cond_ObservedGeneration :: int
  cond_LastTransitionTime :: int
  cond_Reason :: string
  cond_Message :: string

definition ConditionAvailable :: string where "ConditionAvailable = ''Available''"
definition ConditionFailed :: string where "ConditionFailed = ''Failed''"
definition ConditionRequestApproved :: string where "ConditionRequestApproved = ''Approved''"
definition ConditionRequestDenied :: string where "ConditionRequestDenied = ''Denied''"

definition ConditionTrue :: string where "ConditionTrue = ''True''"
definition ConditionFalse :: string where "ConditionFalse = ''False''"

lemmas condition_consts = ConditionAvailable_def ConditionFailed_def
  ConditionRequestApproved_def ConditionRequestDenied_def ConditionTrue_def ConditionFalse_def

lemma condition_types_distinct [simp]:
  "ConditionAvailable \<noteq> ConditionFailed" "ConditionFailed \<noteq> ConditionAvailable"
  "ConditionRequestApproved \<noteq> ConditionFailed" "ConditionFailed \<noteq> ConditionRequestApproved"
  "ConditionRequestDenied \<noteq> ConditionFailed" "ConditionFailed \<noteq> ConditionRequestDenied"
  "ConditionRequestApproved \<noteq> ConditionAvailable" "ConditionAvailable \<noteq> ConditionRequestApproved"
  "ConditionRequestDenied \<noteq> ConditionAvailable" "ConditionAvailable \<noteq> ConditionRequestDenied"
  "ConditionRequestApproved \<noteq> ConditionRequestDenied" "ConditionRequestDenied \<noteq> ConditionRequestApproved"
  "ConditionRequestApproved \<noteq> ''''" "ConditionRequestDenied \<noteq> ''''"
  "'''' \<noteq> ConditionRequestApproved" "'''' \<noteq> ConditionRequestDenied"
  by (simp_all add: condition_consts)

definition HasCondition :: "Condition list \<Rightarrow> string \<Rightarrow> bool" where
  "HasCondition conditions condType \<longleftrightarrow> (\<exists>c \<in> set conditions. cond_Type c = condType)"

text \<open>The index and the value of the first condition of a type.\<close>

fun GetCondition :: "Condition list \<Rightarrow> string \<Rightarrow> (nat \<times> Condition) option" where
  "GetCondition [] condType = None"
| "GetCondition (c # cs) condType =
     (if cond_Type c = condType then Some (0, c)
      else map_option (apfst Suc) (GetCondition cs condType))"

text \<open>The fields that decide whether a condition is already in its desired state.\<close>

definition sameState :: "Condition \<Rightarrow> Condition \<Rightarrow> bool" where
  "sameState c d \<longleftrightarrow> cond_Status c = cond_Status d \<and> cond_Reason c = cond_Reason d
     \<and> cond_Message c = cond_Message d
     \<and> cond_ObservedGeneration c = cond_ObservedGeneration d"

definition SetCondition :: "int \<Rightarrow> Condition list \<Rightarrow> Condition \<Rightarrow> Condition list" where
  "SetCondition now conditions newCondition =
     (let newCondition' = newCondition\<lparr>cond_LastTransitionTime := now\<rparr> in
      case GetCondition conditions (cond_Type newCondition) of
        Some (idx, curCond) \<Rightarrow>
          if sameState curCond newCondition then conditions
          else conditions[idx := newCondition']
      | None \<Rightarrow> conditions @ [newCondition'])"

definition RemoveCondition :: "Condition list \<Rightarrow> string \<Rightarrow> Condition list" where
  "RemoveCondition conditions condType =
     (case GetCondition conditions condType of
        None \<Rightarrow> conditions
      | Some (idx, _) \<Rightarrow> take idx conditions @ drop (Suc idx) conditions)"

definition IsConditionTrue :: "Condition list \<Rightarrow> string \<Rightarrow> bool" where
  "IsConditionTrue conditions condType \<longleftrightarrow>
     (\<exists>c \<in> set conditions. cond_Type c = condType \<and> cond_Status c = ConditionTrue)"

definition NewCondition :: "int \<Rightarrow> string \<Rightarrow> string \<Rightarrow> int \<Rightarrow> bool \<Rightarrow> Condition" where
  "NewCondition now rsn message generation conditionStatus =
     \<lparr>cond_Type = rsn, cond_Status = (if conditionStatus then ConditionTrue else ConditionFalse),
      cond_ObservedGeneration = generation, cond_LastTransitionTime = now,
      cond_Reason = rsn, cond_Message = message\<rparr>"

text \<open>
  The condition list is used as a finite map from types to conditions: its
  invariant is that no type occurs twice, and \<open>condOf\<close> is the map it stands for.
\<close>

definition wfConditions :: "Condition list \<Rightarrow> bool" where
  "wfConditions cs \<longleftrightarrow> distinct (map cond_Type cs)"

definition condOf :: "Condition list \<Rightarrow> string \<Rightarrow> Condition option" where
  "condOf cs ty = map_option snd (GetCondition cs ty)"

lemma GetCondition_Some:
  "GetCondition cs ty = Some (i, c) \<Longrightarrow> i < length cs \<and> cs ! i = c \<and> cond_Type c = ty"
  by (induction cs ty arbitrary: i rule: GetCondition.induct) (auto split: if_splits)

lemma GetCondition_None: "GetCondition cs ty = None \<longleftrightarrow> ty \<notin> cond_Type ` set cs"
  by (induction cs ty rule: GetCondition.induct) auto

lemma condOf_simps:
  "condOf [] ty = None"
  "condOf (c # cs) ty = (if cond_Type c = ty then Some c else condOf cs ty)"
  by (simp_all add: condOf_def option.map_comp comp_def)

lemma condOf_append: "condOf (cs @ ds) ty = (case condOf cs ty of None \<Rightarrow> condOf ds ty | Some c \<Rightarrow> Some c)"
  by (induction cs) (auto simp: condOf_simps)

lemma HasCondition_condOf: "HasCondition cs ty \<longleftrightarrow> condOf cs ty \<noteq> None"
  by (auto simp: HasCondition_def condOf_def GetCondition_None)

lemma condOf_mem: "wfConditions cs \<Longrightarrow> condOf cs ty = Some c \<longleftrightarrow> c \<in> set cs \<and> cond_Type c = ty"
  by (induction cs) (auto simp: condOf_simps wfConditions_def)

lemma condOf_update:
  assumes "GetCondition cs (cond_Type c) = Some (i, d)"
  shows "condOf (cs[i := c]) ty = (if ty = cond_Type c then Some c else condOf cs ty)"
  using assms
  by (induction cs "cond_Type c" arbitrary: i rule: GetCondition.induct)
    (auto simp: condOf_simps split: if_splits)

lemma condOf_remove:
  assumes "GetCondition cs ty = Some (i, d)" "wfConditions cs"
  shows "condOf (take i cs @ drop (Suc i) cs) ty' = (if ty' = ty then None else condOf cs ty')"
  using assms
proof (induction cs ty arbitrary: i rule: GetCondition.induct)
  case (2 c cs ty)
  have "ty \<notin> cond_Type ` set cs \<Longrightarrow> condOf cs ty = None"
    by (simp add: condOf_def GetCondition_None)
  with 2 show ?case by (auto simp: condOf_simps wfConditions_def split: if_splits)
qed simp

lemma wf_SetCondition:
  assumes "wfConditions cs"
  shows "wfConditions (SetCondition now cs c)"
proof (cases "GetCondition cs (cond_Type c)")
  case None
  moreover from None have "cond_Type c \<notin> cond_Type ` set cs" by (simp add: GetCondition_None)
  ultimately show ?thesis using assms by (simp add: SetCondition_def wfConditions_def)
next
  case (Some p)
  then obtain i d where p: "GetCondition cs (cond_Type c) = Some (i, d)" by (cases p) auto
  from GetCondition_Some[OF p] have "map cond_Type (cs[i := c\<lparr>cond_LastTransitionTime := now\<rparr>]) = map cond_Type cs"
    by (simp add: map_update list_update_same_conv)
  with p assms show ?thesis by (simp add: SetCondition_def wfConditions_def)
qed

lemma wf_RemoveCondition: "wfConditions cs \<Longrightarrow> wfConditions (RemoveCondition cs ty)"
  using distinct_remove_nth[of "map cond_Type cs"]
  by (auto simp: RemoveCondition_def wfConditions_def take_map drop_map simp del: distinct_append
      split: option.splits)

lemma condOf_SetCondition:
  "condOf (SetCondition now cs c) ty =
     (if ty = cond_Type c
      then (case condOf cs ty of
              Some d \<Rightarrow> Some (if sameState d c then d else c\<lparr>cond_LastTransitionTime := now\<rparr>)
            | None \<Rightarrow> Some (c\<lparr>cond_LastTransitionTime := now\<rparr>))
      else condOf cs ty)"
proof (cases "GetCondition cs (cond_Type c)")
  case None
  then have "condOf cs (cond_Type c) = None" by (simp add: condOf_def)
  with None show ?thesis by (auto simp: SetCondition_def condOf_append condOf_simps split: option.splits)
next
  case (Some p)
  obtain i d where p: "GetCondition cs (cond_Type c) = Some (i, d)" using Some by (cases p) auto
  then have "condOf cs (cond_Type c) = Some d" by (simp add: condOf_def)
  moreover have "condOf (cs[i := c\<lparr>cond_LastTransitionTime := now\<rparr>]) ty =
      (if ty = cond_Type c then Some (c\<lparr>cond_LastTransitionTime := now\<rparr>) else condOf cs ty)"
    using condOf_update[of cs "c\<lparr>cond_LastTransitionTime := now\<rparr>" i d] p by simp
  ultimately show ?thesis using p by (auto simp: SetCondition_def)
qed

lemma condOf_RemoveCondition:
  "wfConditions cs \<Longrightarrow> condOf (RemoveCondition cs ty) ty' = (if ty' = ty then None else condOf cs ty')"
proof (cases "GetCondition cs ty")
  case None
  then show ?thesis by (simp add: RemoveCondition_def condOf_def)
next
  case (Some p)
  then show "wfConditions cs \<Longrightarrow> ?thesis"
    using condOf_remove by (cases p) (auto simp: RemoveCondition_def)
qed

subsection \<open>What the controllers rely on\<close>

text \<open>
  The controllers only use the condition list through \<open>SetCondition\<close> and
  \<open>RemoveCondition\<close>; this is the contract they need of it.
\<close>

locale condition_map =
  fixes inv :: "'cs \<Rightarrow> bool"
    and look :: "'cs \<Rightarrow> string \<Rightarrow> Condition option"
    and setc :: "int \<Rightarrow> 'cs \<Rightarrow> Condition \<Rightarrow> 'cs"
    and remove :: "'cs \<Rightarrow> string \<Rightarrow> 'cs"
  assumes inv_set: "inv cs \<Longrightarrow> inv (setc now cs c)"
    and inv_remove: "inv cs \<Longrightarrow> inv (remove cs ty)"
    and look_set_same: "\<exists>d. look (setc now cs c) (cond_Type c) = Some d \<and> sameState d c"
    and look_set_other: "ty \<noteq> cond_Type c \<Longrightarrow> look (setc now cs c) ty = look cs ty"
    and set_stable: "look cs (cond_Type c) = Some d \<Longrightarrow> sameState d c \<Longrightarrow> setc now cs c = cs"
    and look_remove: "inv cs \<Longrightarrow> look (remove cs ty) ty' = (if ty' = ty then None else look cs ty')"
begin

lemma set_again: "setc now' (setc now cs c) c = setc now cs c"
  using look_set_same set_stable by metis

text \<open>The update a controller makes when it has succeeded.\<close>

lemma replace_condition:
  assumes "inv cs" "ty \<noteq> cond_Type c"
  shows "inv (setc now (remove cs ty) c)"
    and "look (setc now (remove cs ty) c) ty = None"
    and "\<exists>d. look (setc now (remove cs ty) c) (cond_Type c) = Some d \<and> sameState d c"
    and "ty' \<noteq> ty \<Longrightarrow> ty' \<noteq> cond_Type c \<Longrightarrow> look (setc now (remove cs ty) c) ty' = look cs ty'"
  using assms by (simp_all add: inv_set inv_remove look_set_same look_set_other look_remove)

end

lemma sameState_refl [simp]: "sameState c c" "sameState (c\<lparr>cond_LastTransitionTime := now\<rparr>) c"
  by (simp_all add: sameState_def)

interpretation conds: condition_map wfConditions condOf SetCondition RemoveCondition
proof
  show "wfConditions (SetCondition now cs c)" if "wfConditions cs" for now cs c
    using that by (rule wf_SetCondition)
  show "wfConditions (RemoveCondition cs ty)" if "wfConditions cs" for cs ty
    using that by (rule wf_RemoveCondition)
  show "\<exists>d. condOf (SetCondition now cs c) (cond_Type c) = Some d \<and> sameState d c" for now cs c
    by (auto simp: condOf_SetCondition split: option.splits)
  show "condOf (SetCondition now cs c) ty = condOf cs ty" if "ty \<noteq> cond_Type c" for now cs c ty
    using that by (simp add: condOf_SetCondition)
  show "SetCondition now cs c = cs"
    if "condOf cs (cond_Type c) = Some d" "sameState d c" for now cs c d
    using that by (auto simp: SetCondition_def condOf_def)
  show "condOf (RemoveCondition cs ty) ty' = (if ty' = ty then None else condOf cs ty')"
    if "wfConditions cs" for cs ty ty'
    using that by (rule condOf_RemoveCondition)
qed

end
