(* ===== verification/Engine_Api.thy ===== *)
theory Engine_Api
  imports Meta_Util
begin

text \<open>
  The engine.kubevault.com API group: secret engines, secret engine roles and
  credential requests, with the helper methods of these types.  Strings of a
  closed set of values stay strings, as in the code; pointers are options;
  raw extensions and byte slices are strings.
\<close>

section \<open>Shared types\<close>

record RoleRef =
  ref_APIGroup :: string
  ref_Kind :: string
  ref_Name :: string
  ref_Namespace :: string

text \<open>Durations are in nanoseconds, as in \<open>time.Duration\<close>.\<close>

record Lease =
  lease_ID :: string
  lease_Duration :: int
  lease_Renewable :: bool

definition RequestStatusPhaseWaitingForApproval :: string where
  "RequestStatusPhaseWaitingForApproval = ''WaitingForApproval''"

record Subject =
  subj_Kind :: string
  subj_APIGroup :: string
  subj_Name :: string
  subj_Namespace :: string

record AppReference =
  app_Namespace :: string
  app_Name :: string
  app_Parameters :: "string option"


section \<open>Credential requests\<close>

text \<open>The four request kinds have the same status.\<close>

record AccessRequestStatus =
  req_Phase :: string
  req_Conditions :: "Condition list"
  req_Secret :: "string option"
  req_Lease :: "Lease option"
  req_ObservedGeneration :: int

definition AccessRequestStatus0 :: AccessRequestStatus where
  "AccessRequestStatus0 = \<lparr>req_Phase = '''', req_Conditions = [], req_Secret = None,
     req_Lease = None, req_ObservedGeneration = 0\<rparr>"

record AWSAccessKeyRequestSpec =
  awsreq_RoleRef :: RoleRef
  awsreq_Subjects :: "Subject list"
  awsreq_RoleARN :: string
  awsreq_TTL :: string
  awsreq_UseSTS :: bool

record AzureAccessKeyRequestSpec =
  azurereq_RoleRef :: RoleRef
  azurereq_Subjects :: "Subject list"

record GCPAccessKeyRequestSpec =
  gcpreq_RoleRef :: RoleRef
  gcpreq_Subjects :: "Subject list"
  gcpreq_KeyAlgorithm :: string
  gcpreq_KeyType :: string

record DatabaseAccessRequestSpec =
  dbreq_RoleRef :: RoleRef
  dbreq_Subjects :: "Subject list"
  dbreq_TTL :: string

type_synonym AWSAccessKeyRequest = "(AWSAccessKeyRequestSpec, AccessRequestStatus) resource"
type_synonym AzureAccessKeyRequest = "(AzureAccessKeyRequestSpec, AccessRequestStatus) resource"
type_synonym GCPAccessKeyRequest = "(GCPAccessKeyRequestSpec, AccessRequestStatus) resource"
type_synonym DatabaseAccessRequest = "(DatabaseAccessRequestSpec, AccessRequestStatus) resource"


section \<open>Roles\<close>

text \<open>The six role kinds have the same status.\<close>

record RoleStatus =
  role_Phase :: string
  role_ObservedGeneration :: int
  role_Conditions :: "Condition list"

definition RoleStatus0 :: RoleStatus where
  "RoleStatus0 = \<lparr>role_Phase = '''', role_ObservedGeneration = 0, role_Conditions = []\<rparr>"

record AWSRoleSpec =
  awsrole_VaultRef :: string
  awsrole_Path :: string
  awsrole_CredentialType :: string
  awsrole_RoleARNs :: "string list"
  awsrole_PolicyARNs :: "string list"
  awsrole_PolicyDocument :: string
  awsrole_Policy :: "string option"
  awsrole_DefaultSTSTTL :: string
  awsrole_MaxSTSTTL :: string

record AzureRoleSpec =
  azurerole_VaultRef :: string
  azurerole_Path :: string
  azurerole_AzureRoles :: string
  azurerole_ApplicationObjectID :: string
  azurerole_TTL :: string
  azurerole_MaxTTL :: string

record GCPRoleSpec =
  gcprole_VaultRef :: string
  gcprole_Path :: string
  gcprole_SecretType :: string
  gcprole_Project :: string
  gcprole_Bindings :: string
  gcprole_TokenScopes :: "string list option"

record MongoDBRoleSpec =
  mongorole_VaultRef :: string
  mongorole_DatabaseRef :: "AppReference option"
  mongorole_DatabaseName :: string
  mongorole_Path :: string
  mongorole_DefaultTTL :: string
  mongorole_MaxTTL :: string
  mongorole_CreationStatements :: "string list"
  mongorole_RevocationStatements :: "string list"

record MySQLRoleSpec =
  mysqlrole_VaultRef :: string
  mysqlrole_DatabaseRef :: "AppReference option"
  mysqlrole_DatabaseName :: string
  mysqlrole_Path :: string
  mysqlrole_DefaultTTL :: string
  mysqlrole_MaxTTL :: string
  mysqlrole_CreationStatements :: "string list"
  mysqlrole_RevocationStatements :: "string list"

record PostgresRoleSpec =
  pgrole_VaultRef :: string
  pgrole_DatabaseRef :: "AppReference option"
  pgrole_DatabaseName :: string
  pgrole_Path :: string
  pgrole_DefaultTTL :: string
  pgrole_MaxTTL :: string
  pgrole_CreationStatements :: "string list"
  pgrole_RevocationStatements :: "string list"
  pgrole_RollbackStatements :: "string list"
  pgrole_RenewStatements :: "string list"

type_synonym AWSRole = "(AWSRoleSpec, RoleStatus) resource"
type_synonym AzureRole = "(AzureRoleSpec, RoleStatus) resource"
type_synonym GCPRole = "(GCPRoleSpec, RoleStatus) resource"
type_synonym MongoDBRole = "(MongoDBRoleSpec, RoleStatus) resource"
type_synonym MySQLRole = "(MySQLRoleSpec, RoleStatus) resource"
type_synonym PostgresRole = "(PostgresRoleSpec, RoleStatus) resource"


section \<open>Secret engines\<close>

record LeaseConfig =
  lc_Lease :: string
  lc_LeaseMax :: string

record AWSConfiguration =
  awscfg_CredentialSecret :: string
  awscfg_Region :: string
  awscfg_IAMEndpoint :: string
  awscfg_STSEndpoint :: string
  awscfg_MaxRetries :: "int option"
  awscfg_LeaseConfig :: "LeaseConfig option"

record GCPConfiguration =
  gcpcfg_CredentialSecret :: string
  gcpcfg_TTL :: string
  gcpcfg_MaxTTL :: string

record AzureConfiguration =
  azurecfg_CredentialSecret :: string
  azurecfg_Environment :: string

record PostgresConfiguration =
  pgcfg_DatabaseRef :: AppReference
  pgcfg_PluginName :: string
  pgcfg_AllowedRoles :: "string list"
  pgcfg_MaxOpenConnections :: int
  pgcfg_MaxIdleConnections :: int
  pgcfg_MaxConnectionLifetime :: string

record MongoDBConfiguration =
  mongocfg_DatabaseRef :: AppReference
  mongocfg_PluginName :: string
  mongocfg_AllowedRoles :: "string list"
  mongocfg_WriteConcern :: string

record MySQLConfiguration =
  mysqlcfg_DatabaseRef :: AppReference
  mysqlcfg_PluginName :: string
  mysqlcfg_AllowedRoles :: "string list"
  mysqlcfg_MaxOpenConnections :: int
  mysqlcfg_MaxIdleConnections :: int
  mysqlcfg_MaxConnectionLifetime :: string

record SecretEngineSpec =
  se_VaultRef :: string
  se_Path :: string
  se_AWS :: "AWSConfiguration option"
  se_Azure :: "AzureConfiguration option"
  se_GCP :: "GCPConfiguration option"
  se_Postgres :: "PostgresConfiguration option"
  se_MongoDB :: "MongoDBConfiguration option"
  se_MySQL :: "MySQLConfiguration option"

type_synonym SecretEngine = "(SecretEngineSpec, RoleStatus) resource"

definition EngineTypeAWS :: string where "EngineTypeAWS = ''aws''"
definition EngineTypeGCP :: string where "EngineTypeGCP = ''gcp''"
definition EngineTypeAzure :: string where "EngineTypeAzure = ''azure''"
definition EngineTypeDatabase :: string where "EngineTypeDatabase = ''database''"

lemmas engine_types = EngineTypeAWS_def EngineTypeGCP_def EngineTypeAzure_def EngineTypeDatabase_def


section \<open>Names of the objects created in Vault\<close>

text \<open>
  \<open>k8s.<cluster>.<namespace>.<name>\<close>; the cluster name is a flag of the process
  (\<open>clusterid.ClusterName\<close>) except for database roles, which read it from the
  object's metadata.
\<close>

definition qualifiedName :: "string \<Rightarrow> string \<Rightarrow> string \<Rightarrow> string" where
  "qualifiedName cluster ns n =
     ''k8s.'' @ (if cluster \<noteq> '''' then cluster else ''-'') @ ''.'' @ ns @ ''.'' @ n"

definition AWSRole_RoleName :: "string \<Rightarrow> AWSRole \<Rightarrow> string" where
  "AWSRole_RoleName cluster r = qualifiedName cluster (Namespace (Meta r)) (Name (Meta r))"

definition AzureRole_RoleName :: "string \<Rightarrow> AzureRole \<Rightarrow> string" where
  "AzureRole_RoleName cluster r = qualifiedName cluster (Namespace (Meta r)) (Name (Meta r))"

definition GCPRole_RoleName :: "string \<Rightarrow> GCPRole \<Rightarrow> string" where
  "GCPRole_RoleName cluster r = qualifiedName cluster (Namespace (Meta r)) (Name (Meta r))"

definition MongoDBRole_RoleName :: "MongoDBRole \<Rightarrow> string" where
  "MongoDBRole_RoleName r =
     qualifiedName (ClusterName (Meta r)) (Namespace (Meta r)) (Name (Meta r))"

definition MySQLRole_RoleName :: "MySQLRole \<Rightarrow> string" where
  "MySQLRole_RoleName r =
     qualifiedName (ClusterName (Meta r)) (Namespace (Meta r)) (Name (Meta r))"

definition PostgresRole_RoleName :: "PostgresRole \<Rightarrow> string" where
  "PostgresRole_RoleName r =
     qualifiedName (ClusterName (Meta r)) (Namespace (Meta r)) (Name (Meta r))"

definition GetPolicyName :: "string \<Rightarrow> SecretEngine \<Rightarrow> string" where
  "GetPolicyName cluster e = qualifiedName cluster (Namespace (Meta e)) (Name (Meta e))"

definition GetDBNameFromAppBindingRef :: "string \<Rightarrow> AppReference \<Rightarrow> string" where
  "GetDBNameFromAppBindingRef cluster ref = qualifiedName cluster (app_Namespace ref) (app_Name ref)"

lemmas role_name_defs = AWSRole_RoleName_def AzureRole_RoleName_def GCPRole_RoleName_def
  MongoDBRole_RoleName_def MySQLRole_RoleName_def PostgresRole_RoleName_def GetPolicyName_def
  GetDBNameFromAppBindingRef_def

text \<open>
  Kubernetes namespaces are DNS labels and contain no dot, so within one
  cluster two objects never share a name in Vault.
\<close>

lemma dot_split:
  assumes "CHR ''.'' \<notin> set a" "CHR ''.'' \<notin> set b" "a @ CHR ''.'' # s = b @ CHR ''.'' # t"
  shows "a = b" "s = t"
proof -
  have "takeWhile (\<lambda>c. c \<noteq> CHR ''.'') (a @ CHR ''.'' # s) = a"
    using assms(1) by (subst takeWhile_append2) auto
  moreover have "takeWhile (\<lambda>c. c \<noteq> CHR ''.'') (b @ CHR ''.'' # t) = b"
    using assms(2) by (subst takeWhile_append2) auto
  ultimately show "a = b" using assms(3) by simp
  with assms(3) show "s = t" by simp
qed

lemma qualifiedName_inj:
  assumes "CHR ''.'' \<notin> set ns" "CHR ''.'' \<notin> set ns'"
    and "qualifiedName cluster ns n = qualifiedName cluster ns' n'"
  shows "ns = ns'" "n = n'"
  using assms dot_split[OF assms(1,2), of n n'] by (auto simp: qualifiedName_def)


section \<open>Defaults of database configurations\<close>

definition MySQLConfiguration_SetDefaults :: "MySQLConfiguration \<Rightarrow> MySQLConfiguration" where
  "MySQLConfiguration_SetDefaults m =
     (let m = (if mysqlcfg_AllowedRoles m = [] then m\<lparr>mysqlcfg_AllowedRoles := [''*'']\<rparr> else m)
      in if mysqlcfg_PluginName m = '''' then m\<lparr>mysqlcfg_PluginName := ''mysql-database-plugin''\<rparr> else m)"

definition MongoDBConfiguration_SetDefaults :: "MongoDBConfiguration \<Rightarrow> MongoDBConfiguration" where
  "MongoDBConfiguration_SetDefaults m =
     (let m = (if mongocfg_AllowedRoles m = [] then m\<lparr>mongocfg_AllowedRoles := [''*'']\<rparr> else m)
      in if mongocfg_PluginName m = '''' then m\<lparr>mongocfg_PluginName := ''mongodb-database-plugin''\<rparr> else m)"

definition PostgresConfiguration_SetDefaults :: "PostgresConfiguration \<Rightarrow> PostgresConfiguration" where
  "PostgresConfiguration_SetDefaults p =
     (let p = (if pgcfg_AllowedRoles p = [] then p\<lparr>pgcfg_AllowedRoles := [''*'']\<rparr> else p)
      in if pgcfg_PluginName p = '''' then p\<lparr>pgcfg_PluginName := ''postgresql-database-plugin''\<rparr> else p)"

end
