(* ===== verification/Core_Types.thy ===== *)
theory Core_Types
  imports Engine_Api
begin

text \<open>
  The Kubernetes objects the operator reads and writes besides its own custom
  resources, and the upsert helpers it edits pod templates with.  Parts of a
  pod that the operator only copies (affinity, resources, probes, security
  contexts) are kept as opaque text.
\<close>

type_synonym opaque = string


section \<open>Secrets, config maps, RBAC and application bindings\<close>

record Secret =
  sec_Meta :: ObjectMeta
  sec_Type :: string
  sec_Data :: smap

record ConfigMap =
  cm_Meta :: ObjectMeta
  cm_Data :: smap

record ServiceAccount =
  sa_Meta :: ObjectMeta
  sa_Secrets :: "string list"

record PolicyRule =
  rule_APIGroups :: "string list"
  rule_Resources :: "string list"
  rule_ResourceNames :: "string list"
  rule_Verbs :: "string list"

record RbacRole =
  rbac_Meta :: ObjectMeta
  rbac_Rules :: "PolicyRule list"

record RbacRoleRef =
  rr_APIGroup :: string
  rr_Kind :: string
  rr_Name :: string

record RoleBinding =
  rb_Meta :: ObjectMeta
  rb_RoleRef :: RbacRoleRef
  rb_Subjects :: "Subject list"

definition rbac_GroupName :: string where
  "rbac_GroupName = ''rbac.authorization.k8s.io''"

record ServiceReference =
  svcref_Scheme :: string
  svcref_Name :: string
  svcref_Port :: int
  svcref_Path :: string
  svcref_Query :: string

record ClientConfig =
  cc_URL :: "string option"
  cc_Service :: "ServiceReference option"
  cc_InsecureSkipTLSVerify :: bool
  cc_CABundle :: string

text \<open>
  \<open>Parameters\<close> holds the decoded \<open>VaultServerConfiguration\<close> of an application
  binding; a raw extension that does not decode is \<open>Inl\<close>.
\<close>

record KubernetesAuthConfig =
  kac_ServiceAccountName :: string
  kac_TokenReviewerServiceAccountName :: string
  kac_UsePodServiceAccountForCSIDriver :: bool

record AzureAuthConfig =
  azac_SubscriptionID :: string
  azac_ResourceGroupName :: string
  azac_VmName :: string
  azac_VmssName :: string

record AWSAuthConfig =
  awsac_HeaderValue :: string

record VaultServerConfiguration =
  vsc_Path :: string
  vsc_VaultRole :: string
  vsc_Kubernetes :: "KubernetesAuthConfig option"
  vsc_Azure :: "AzureAuthConfig option"
  vsc_AWS :: "AWSAuthConfig option"

text \<open>A secret transform holds at most one of four operations.\<close>

record AddKeyTransform =
  adk_Key :: string
  adk_Value :: string
  adk_StringValue :: "string option"

record SecretTransform =
  tr_RenameKey :: "(string \<times> string) option"
  tr_AddKey :: "AddKeyTransform option"
  tr_AddKeysFrom :: "(string \<times> string) option"
  tr_RemoveKey :: "string option"

record AppBinding =
  ab_Meta :: ObjectMeta
  ab_Type :: string
  ab_Version :: string
  ab_ClientConfig :: ClientConfig
  ab_Secret :: "string option"
  ab_SecretTransforms :: "SecretTransform list"
  ab_Parameters :: "(error + VaultServerConfiguration) option"


section \<open>Pods\<close>

datatype EnvVarSource = SecretKeyRef string string | OtherEnvSource opaque

record EnvVar =
  ev_Name :: string
  ev_Value :: string
  ev_ValueFrom :: "EnvVarSource option"

record VolumeMount =
  vm_Name :: string
  vm_MountPath :: string
  vm_ReadOnly :: bool

text \<open>A secret volume may pick keys of the secret and the files they go to.\<close>

datatype VolumeSource =
    SecretVolume string "(string \<times> string) list"
  | ConfigMapVolume string
  | EmptyDirVolume
  | PersistentVolumeClaimVolume string
  | OtherVolume opaque

record Volume =
  vol_Name :: string
  vol_Source :: VolumeSource

record ContainerPort =
  cp_Name :: string
  cp_Protocol :: string
  cp_ContainerPort :: int

record Container =
  c_Name :: string
  c_Image :: string
  c_ImagePullPolicy :: string
  c_Command :: "string list"
  c_Args :: "string list"
  c_Env :: "EnvVar list"
  c_Ports :: "ContainerPort list"
  c_VolumeMounts :: "VolumeMount list"
  c_Resources :: opaque
  c_SecurityContext :: opaque
  c_ReadinessProbe :: opaque

definition Container0 :: Container where
  "Container0 = \<lparr>c_Name = '''', c_Image = '''', c_ImagePullPolicy = '''', c_Command = [],
     c_Args = [], c_Env = [], c_Ports = [], c_VolumeMounts = [], c_Resources = '''',
     c_SecurityContext = '''', c_ReadinessProbe = ''''\<rparr>"

record PodSpec =
  ps_InitContainers :: "Container list"
  ps_Containers :: "Container list"
  ps_Volumes :: "Volume list"
  ps_ServiceAccountName :: string
  ps_NodeSelector :: smap
  ps_Affinity :: opaque
  ps_SchedulerName :: string
  ps_Tolerations :: opaque
  ps_ImagePullSecrets :: "string list"
  ps_PriorityClassName :: string
  ps_Priority :: "int option"
  ps_FSGroup :: "int option"
  ps_SecurityContext :: opaque

record PodTemplateSpec =
  pt_Meta :: ObjectMeta
  pt_Spec :: PodSpec

record Pod =
  pod_Meta :: ObjectMeta
  pod_Containers :: "Container list"
  pod_Phase :: string
  pod_PodIP :: string


section \<open>Services, deployments and volume claims\<close>

record ServicePort =
  sp_Name :: string
  sp_Protocol :: string
  sp_Port :: int
  sp_TargetPort :: int
  sp_NodePort :: int

record ServiceSpec =
  ss_Selector :: smap
  ss_Ports :: "ServicePort list"
  ss_ClusterIP :: string
  ss_Type :: string
  ss_ExternalIPs :: "string list"
  ss_LoadBalancerIP :: string
  ss_LoadBalancerSourceRanges :: "string list"
  ss_ExternalTrafficPolicy :: string
  ss_HealthCheckNodePort :: int
  ss_SessionAffinityConfig :: opaque

record Service =
  svc_Meta :: ObjectMeta
  svc_Spec :: ServiceSpec

datatype DeploymentStrategy = RollingUpdate int int | OtherStrategy opaque

record Deployment =
  dep_Meta :: ObjectMeta
  dep_Replicas :: "int option"
  dep_Selector :: smap
  dep_Template :: PodTemplateSpec
  dep_Strategy :: DeploymentStrategy

text \<open>The access modes and requests of a claim are read or written on their own.\<close>

record PersistentVolumeClaimSpec =
  pvcs_AccessModes :: "string list"
  pvcs_Requests :: smap
  pvcs_Rest :: opaque

record PersistentVolumeClaim =
  pvc_Meta :: ObjectMeta
  pvc_Spec :: PersistentVolumeClaimSpec


section \<open>Upserts\<close>

text \<open>Replace the first element with the same name, or append.\<close>

fun upsertBy :: "('a \<Rightarrow> 'k) \<Rightarrow> 'a \<Rightarrow> 'a list \<Rightarrow> 'a list" where
  "upsertBy f v [] = [v]"
| "upsertBy f v (x # xs) = (if f x = f v then v # xs else x # upsertBy f v xs)"

definition UpsertVolume :: "Volume list \<Rightarrow> Volume list \<Rightarrow> Volume list" where
  "UpsertVolume volumes nv = fold (upsertBy vol_Name) nv volumes"

definition UpsertVolumeMount :: "VolumeMount list \<Rightarrow> VolumeMount list \<Rightarrow> VolumeMount list" where
  "UpsertVolumeMount mounts nv = fold (upsertBy vm_Name) nv mounts"

definition UpsertEnvVars :: "EnvVar list \<Rightarrow> EnvVar list \<Rightarrow> EnvVar list" where
  "UpsertEnvVars vars nv = fold (upsertBy ev_Name) nv vars"

text \<open>\<open>mergo.MergeWithOverwrite\<close>: the fields of \<open>src\<close> that are not empty win.\<close>

definition over :: "'a list \<Rightarrow> 'a list \<Rightarrow> 'a list" where
  "over dst src = (if src = [] then dst else src)"

definition MergeWithOverwrite :: "Container \<Rightarrow> Container \<Rightarrow> Container" where
  "MergeWithOverwrite dst src =
     \<lparr>c_Name = over (c_Name dst) (c_Name src), c_Image = over (c_Image dst) (c_Image src),
      c_ImagePullPolicy = over (c_ImagePullPolicy dst) (c_ImagePullPolicy src),
      c_Command = over (c_Command dst) (c_Command src), c_Args = over (c_Args dst) (c_Args src),
      c_Env = over (c_Env dst) (c_Env src), c_Ports = over (c_Ports dst) (c_Ports src),
      c_VolumeMounts = over (c_VolumeMounts dst) (c_VolumeMounts src),
      c_Resources = over (c_Resources dst) (c_Resources src),
      c_SecurityContext = over (c_SecurityContext dst) (c_SecurityContext src),
      c_ReadinessProbe = over (c_ReadinessProbe dst) (c_ReadinessProbe src)\<rparr>"

fun UpsertContainer :: "Container list \<Rightarrow> Container \<Rightarrow> Container list" where
  "UpsertContainer [] u = [u]"
| "UpsertContainer (c # cs) u =
     (if c_Name c = c_Name u then MergeWithOverwrite c u # cs else c # UpsertContainer cs u)"

definition UpsertContainers :: "Container list \<Rightarrow> Container list \<Rightarrow> Container list" where
  "UpsertContainers containers addons = fold (\<lambda>c out. UpsertContainer out c) addons containers"

text \<open>
  The desired ports, with the node port and protocol a port already has where
  none is asked for.  The later of two current ports with one number counts.
\<close>

definition MergeServicePorts :: "ServicePort list \<Rightarrow> ServicePort list \<Rightarrow> ServicePort list" where
  "MergeServicePorts cur desired =
     (if cur = [] then desired
      else map (\<lambda>dp. case map_of (rev (map (\<lambda>p. (sp_Port p, p)) cur)) (sp_Port dp) of
          None \<Rightarrow> dp
        | Some cp \<Rightarrow> dp\<lparr>sp_NodePort := (if sp_NodePort dp = 0 then sp_NodePort cp else sp_NodePort dp),
                       sp_Protocol := (if sp_Protocol dp = '''' then sp_Protocol cp else sp_Protocol dp)\<rparr>) desired)"

lemma upsertBy_mem [simp]: "v \<in> set (upsertBy f v xs)"
  by (induction f v xs rule: upsertBy.induct) auto

lemma upsertBy_keys: "f ` set (upsertBy f v xs) = insert (f v) (f ` set xs)"
  by (induction f v xs rule: upsertBy.induct) auto

lemma upsertBy_other: "f x \<noteq> f v \<Longrightarrow> x \<in> set (upsertBy f v xs) \<longleftrightarrow> x \<in> set xs"
  by (induction f v xs rule: upsertBy.induct) auto

lemma upsertBy_distinct: "distinct (map f xs) \<Longrightarrow> distinct (map f (upsertBy f v xs))"
proof (induction f v xs rule: upsertBy.induct)
  case (2 f v x xs)
  then show ?case
    by (auto simp: upsertBy_keys simp flip: set_map simp del: list.set_map)
       (metis (no_types, lifting) image_set insert_iff upsertBy_keys)
qed simp

lemma upsertBy_idem: "upsertBy f v (upsertBy f v xs) = upsertBy f v xs"
  by (induction f v xs rule: upsertBy.induct) auto

lemma UpsertContainer_names:
  "c_Name u \<noteq> '''' \<Longrightarrow> c_Name ` set (UpsertContainer cs u) = insert (c_Name u) (c_Name ` set cs)"
  by (induction cs u rule: UpsertContainer.induct) (auto simp: MergeWithOverwrite_def over_def)

end
