(* ===== verification/Kubevault_Api.thy ===== *)
theory Kubevault_Api
  imports Core_Types
begin

text \<open>
  The kubevault.com API group: the VaultServer resource with its storage
  backends, unsealer modes and authentication methods, and the helper methods
  that name the objects of a Vault server.
\<close>

section \<open>Storage backends\<close>

record ConsulSpec =
  consul_Address :: string
  consul_CheckTimeout :: string
  consul_ConsistencyMode :: string
  consul_DisableRegistration :: string
  consul_MaxParallel :: string
  consul_Path :: string
  consul_Scheme :: string
  consul_Service :: string
  consul_ServiceTags :: string
  consul_ServiceAddress :: string
  consul_ACLTokenSecretName :: string
  consul_SessionTTL :: string
  consul_LockWaitTime :: string
  consul_TLSSecretName :: string
  consul_TLSMinVersion :: string
  consul_TLSSkipVerify :: bool

record EtcdSpec =
  etcd_Address :: string
  etcd_EtcdApi :: string
  etcd_HAEnable :: bool
  etcd_Path :: string
  etcd_Sync :: bool
  etcd_DiscoverySrv :: string
  etcd_CredentialSecretName :: string
  etcd_TLSSecretName :: string

record GcsSpec =
  gcs_Bucket :: string
  gcs_ChunkSize :: string
  gcs_MaxParallel :: int
  gcs_HAEnabled :: bool
  gcs_CredentialSecret :: string

record S3Spec =
  s3_Bucket :: string
  s3_Endpoint :: string
  s3_Region :: string
  s3_CredentialSecret :: string
  s3_SessionTokenSecret :: string
  s3_MaxParallel :: int
  s3_ForcePathStyle :: bool
  s3_DisableSSL :: bool

record AzureSpec =
  azure_AccountName :: string
  azure_AccountKeySecret :: string
  azure_Container :: string
  azure_MaxParallel :: int

record PostgreSQLSpec =
  pg_ConnectionURLSecret :: string
  pg_Table :: string
  pg_MaxParallel :: int

record MySQLSpec =
  mysql_Address :: string
  mysql_Database :: string
  mysql_Table :: string
  mysql_UserCredentialSecret :: string
  mysql_TLSCASecret :: string
  mysql_MaxParallel :: int

text \<open>The template of a claim; absent labels differ from an empty map.\<close>

record PersistentVolumeClaimTemplate =
  pvct_Name :: string
  pvct_Labels :: "smap option"
  pvct_Spec :: PersistentVolumeClaimSpec

record FileSpec =
  file_Path :: string
  file_VolumeClaimTemplate :: PersistentVolumeClaimTemplate

record DynamoDBSpec =
  dynamo_Endpoint :: string
  dynamo_Region :: string
  dynamo_HaEnabled :: bool
  dynamo_ReadCapacity :: int
  dynamo_WriteCapacity :: int
  dynamo_Table :: string
  dynamo_CredentialSecret :: string
  dynamo_SessionTokenSecret :: string
  dynamo_MaxParallel :: int

record SwiftSpec =
  swift_AuthURL :: string
  swift_Container :: string
  swift_CredentialSecret :: string
  swift_Tenant :: string
  swift_Region :: string
  swift_TenantID :: string
  swift_Domain :: string
  swift_ProjectDomain :: string
  swift_TrustID :: string
  swift_StorageURL :: string
  swift_AuthTokenSecret :: string
  swift_MaxParallel :: int

text \<open>\<open>InmemSpec\<close> has no fields: the pointer is a flag.\<close>

record BackendStorageSpec =
  be_Inmem :: bool
  be_Etcd :: "EtcdSpec option"
  be_Gcs :: "GcsSpec option"
  be_S3 :: "S3Spec option"
  be_Azure :: "AzureSpec option"
  be_PostgreSQL :: "PostgreSQLSpec option"
  be_MySQL :: "MySQLSpec option"
  be_File :: "FileSpec option"
  be_DynamoDB :: "DynamoDBSpec option"
  be_Swift :: "SwiftSpec option"
  be_Consul :: "ConsulSpec option"


section \<open>Unsealer\<close>

record KubernetesSecretSpec =
  ks_SecretName :: string

record GoogleKmsGcsSpec =
  gkms_KmsCryptoKey :: string
  gkms_KmsKeyRing :: string
  gkms_KmsLocation :: string
  gkms_KmsProject :: string
  gkms_Bucket :: string
  gkms_CredentialSecret :: string

record AwsKmsSsmSpec =
  akms_KmsKeyID :: string
  akms_SsmKeyPrefix :: string
  akms_Region :: string
  akms_CredentialSecret :: string
  akms_Endpoint :: string

record AzureKeyVault =
  akv_VaultBaseURL :: string
  akv_Cloud :: string
  akv_TenantID :: string
  akv_ClientCertSecret :: string
  akv_AADClientSecret :: string
  akv_UseManagedIdentity :: bool

record ModeSpec =
  mode_KubernetesSecret :: "KubernetesSecretSpec option"
  mode_GoogleKmsGcs :: "GoogleKmsGcsSpec option"
  mode_AwsKmsSsm :: "AwsKmsSsmSpec option"
  mode_AzureKeyVault :: "AzureKeyVault option"

record UnsealerSpec =
  un_SecretShares :: int
  un_SecretThreshold :: int
  un_RetryPeriodSeconds :: int
  un_OverwriteExisting :: bool
  un_StoreRootToken :: bool
  un_Mode :: ModeSpec

section \<open>Authentication methods\<close>

record AuthConfig =
  ac_DefaultLeaseTTL :: string
  ac_MaxLeaseTTL :: string
  ac_PluginName :: string
  ac_AuditNonHMACRequestKeys :: "string list"
  ac_AuditNonHMACResponseKeys :: "string list"
  ac_ListingVisibility :: string
  ac_PassthroughRequestHeaders :: "string list"

record AuthMethod =
  am_Type :: string
  am_Path :: string
  am_Description :: string
  am_Config :: "AuthConfig option"
  am_PluginName :: string
  am_Local :: bool

record AuthMethodStatus =
  ams_Type :: string
  ams_Path :: string
  ams_Status :: string
  ams_Reason :: string

definition AuthMethodEnableSucceeded :: string where "AuthMethodEnableSucceeded = ''EnableSucceeded''"
definition AuthMethodEnableFailed :: string where "AuthMethodEnableFailed = ''EnableFailed''"
definition AuthMethodDisableSucceeded :: string where "AuthMethodDisableSucceeded = ''DisableSucceeded''"
definition AuthMethodDisableFailed :: string where "AuthMethodDisableFailed = ''DisableFailed''"

definition AuthTypeKubernetes :: string where "AuthTypeKubernetes = ''kubernetes''"
definition AuthTypeAws :: string where "AuthTypeAws = ''aws''"
definition AuthTypeGcp :: string where "AuthTypeGcp = ''gcp''"
definition AuthTypeUserPass :: string where "AuthTypeUserPass = ''userpass''"
definition AuthTypeCert :: string where "AuthTypeCert = ''cert''"
definition AuthTypeAzure :: string where "AuthTypeAzure = ''azure''"


section \<open>Monitoring\<close>

record PrometheusExporterSpec =
  pe_Port :: int
  pe_Args :: "string list"
  pe_Env :: "EnvVar list"
  pe_Resources :: opaque
  pe_SecurityContext :: opaque

record PrometheusSpec =
  prom_Exporter :: "PrometheusExporterSpec option"

record AgentSpec =
  agent_Agent :: string
  agent_Prometheus :: "PrometheusSpec option"


section \<open>Vault servers\<close>

record TLSPolicy =
  tls_TLSSecret :: string
  tls_CABundle :: string

record PodTemplate =
  ptm_Annotations :: smap
  ptm_Controller_Annotations :: smap
  ptm_NodeSelector :: smap
  ptm_Affinity :: opaque
  ptm_SchedulerName :: string
  ptm_Tolerations :: opaque
  ptm_ImagePullSecrets :: "string list"
  ptm_PriorityClassName :: string
  ptm_Priority :: "int option"
  ptm_FSGroup :: "int option"
  ptm_SecurityContext :: opaque
  ptm_Resources :: opaque

record ServiceTemplate =
  stm_Annotations :: smap
  stm_ClusterIP :: string
  stm_Type :: string
  stm_ExternalIPs :: "string list"
  stm_LoadBalancerIP :: string
  stm_LoadBalancerSourceRanges :: "string list"
  stm_ExternalTrafficPolicy :: string
  stm_HealthCheckNodePort :: int
  stm_SessionAffinityConfig :: opaque

record VaultServerSpec =
  vs_Replicas :: "int option"
  vs_Version :: string
  vs_ConfigSource :: "VolumeSource option"
  vs_DataSources :: "VolumeSource list"
  vs_TLS :: "TLSPolicy option"
  vs_Backend :: BackendStorageSpec
  vs_Unsealer :: "UnsealerSpec option"
  vs_AuthMethods :: "AuthMethod list"
  vs_Monitor :: "AgentSpec option"
  vs_PodTemplate :: PodTemplate
  vs_ServiceTemplate :: ServiceTemplate

record VaultStatus =
  vst_Active :: string
  vst_Standby :: "string list"
  vst_Sealed :: "string list"
  vst_Unsealed :: "string list"

record VaultServerStatus =
  vss_ObservedGeneration :: int
  vss_Phase :: string
  vss_Initialized :: bool
  vss_ServiceName :: string
  vss_ClientPort :: int
  vss_VaultStatus :: VaultStatus
  vss_UpdatedNodes :: "string list"
  vss_Conditions :: "Condition list"
  vss_AuthMethodStatus :: "AuthMethodStatus list"

type_synonym VaultServer = "(VaultServerSpec, VaultServerStatus) resource"

section \<open>Versions\<close>

text \<open>The catalog entry of a version; it is cluster scoped.\<close>

record VaultServerVersionSpec =
  vsv_Version :: string
  vsv_VaultImage :: string
  vsv_UnsealerImage :: string
  vsv_ExporterImage :: string
  vsv_Deprecated :: bool

record VaultServerVersion =
  vsv_Meta :: ObjectMeta
  vsv_Spec :: VaultServerVersionSpec

section \<open>Phases and names\<close>

definition ClusterPhaseProcessing :: string where "ClusterPhaseProcessing = ''Processing''"
definition ClusterPhaseUnInitialized :: string where "ClusterPhaseUnInitialized = ''Uninitialized''"
definition ClusterPhaseRunning :: string where "ClusterPhaseRunning = ''Running''"
definition ClusterPhaseSealed :: string where "ClusterPhaseSealed = ''Sealed''"

lemmas cluster_phases = ClusterPhaseProcessing_def ClusterPhaseUnInitialized_def
  ClusterPhaseRunning_def ClusterPhaseSealed_def


subsection \<open>Names and labels of a Vault server's objects\<close>

definition VaultServer_OffshootName :: "VaultServer \<Rightarrow> string" where
  "VaultServer_OffshootName v = Name (Meta v)"

definition ServiceAccountName :: "VaultServer \<Rightarrow> string" where
  "ServiceAccountName v = Name (Meta v)"

definition ServiceAccountForTokenReviewer :: "VaultServer \<Rightarrow> string" where
  "ServiceAccountForTokenReviewer v = NameWithSuffix (Name (Meta v)) ''k8s-token-reviewer''"

definition PolicyNameForPolicyController :: "VaultServer \<Rightarrow> string" where
  "PolicyNameForPolicyController v = NameWithSuffix (Name (Meta v)) ''policy-controller''"

definition PolicyNameForAuthMethodController :: "VaultServer \<Rightarrow> string" where
  "PolicyNameForAuthMethodController v = NameWithSuffix (Name (Meta v)) ''auth-method-controller''"

definition AppBindingName :: "VaultServer \<Rightarrow> string" where
  "AppBindingName v = Name (Meta v)"

definition VaultServer_OffshootSelectors :: "VaultServer \<Rightarrow> smap" where
  "VaultServer_OffshootSelectors v = [(''app'', ''vault''), (''cluster'', Name (Meta v))]"

definition VaultServer_OffshootLabels :: "VaultServer \<Rightarrow> smap" where
  "VaultServer_OffshootLabels v =
     FilterKeys ''kubevault.com'' (VaultServer_OffshootSelectors v) (Labels (Meta v))"

definition ConfigMapName :: "VaultServer \<Rightarrow> string" where
  "ConfigMapName v = NameWithSuffix (Name (Meta v)) ''vault-config''"

definition TLSSecretName :: "VaultServer \<Rightarrow> string" where
  "TLSSecretName v = NameWithSuffix (Name (Meta v)) ''vault-tls''"

definition StatsServiceName :: "VaultServer \<Rightarrow> string" where
  "StatsServiceName v = NameWithSuffix (Name (Meta v)) ''stats''"

definition StatsLabels :: "VaultServer \<Rightarrow> smap" where
  "StatsLabels v = AList.update ''feature'' ''stats'' (VaultServer_OffshootLabels v)"

end
