(* ===== verification/Policy_Api.thy ===== *)
theory Policy_Api
  imports Engine_Api
begin

text \<open>
  The policy.kubevault.com API group: Vault policies and their bindings to
  Kubernetes service accounts, with the helper methods of these types.
\<close>

record VaultPolicySpec =
  vp_VaultRef :: string
  vp_VaultPolicyName :: string
  vp_PolicyDocument :: string
  vp_Policy :: "string option"

record KubernetesSubjectRef =
  ks_Path :: string
  ks_ServiceAccountNames :: "string list"
  ks_ServiceAccountNamespaces :: "string list"
  ks_TTL :: string
  ks_MaxTTL :: string
  ks_Period :: string

record PolicyIdentifier =
  pid_Name :: string
  pid_Ref :: string

record VaultPolicyBindingSpec =
  vpb_VaultRef :: string
  vpb_VaultRoleName :: string
  vpb_Policies :: "PolicyIdentifier list"
  vpb_Kubernetes :: "KubernetesSubjectRef option"

text \<open>The status of both kinds has the shape of a role's status.\<close>

type_synonym VaultPolicy = "(VaultPolicySpec, RoleStatus) resource"
type_synonym VaultPolicyBinding = "(VaultPolicyBindingSpec, RoleStatus) resource"

definition PolicySuccess :: string where "PolicySuccess = ''Success''"
definition PolicyFailed :: string where "PolicyFailed = ''Failed''"
definition PolicyBindingSuccess :: string where "PolicyBindingSuccess = ''Success''"
definition PolicyBindingFailed :: string where "PolicyBindingFailed = ''Failed''"

definition PolicyName :: "string \<Rightarrow> VaultPolicy \<Rightarrow> string" where
  "PolicyName cluster v =
     (if vp_VaultPolicyName (Spec v) \<noteq> '''' then vp_VaultPolicyName (Spec v)
      else qualifiedName cluster (Namespace (Meta v)) (Name (Meta v)))"

definition PolicyBindingName :: "string \<Rightarrow> VaultPolicyBinding \<Rightarrow> string" where
  "PolicyBindingName cluster v =
     (if vpb_VaultRoleName (Spec v) \<noteq> '''' then vpb_VaultRoleName (Spec v)
      else qualifiedName cluster (Namespace (Meta v)) (Name (Meta v)))"

definition VaultPolicy_OffshootSelectors :: "VaultPolicy \<Rightarrow> smap" where
  "VaultPolicy_OffshootSelectors v = [(''app'', ''vault''), (''vault_policy'', Name (Meta v))]"

definition VaultPolicy_OffshootLabels :: "VaultPolicy \<Rightarrow> smap" where
  "VaultPolicy_OffshootLabels v =
     FilterKeys ''kubevault.com'' (VaultPolicy_OffshootSelectors v) (Labels (Meta v))"

definition VaultPolicyBinding_OffshootSelectors :: "VaultPolicyBinding \<Rightarrow> smap" where
  "VaultPolicyBinding_OffshootSelectors v =
     [(''app'', ''vault''), (''vault_policy_binding'', Name (Meta v))]"

definition VaultPolicyBinding_OffshootLabels :: "VaultPolicyBinding \<Rightarrow> smap" where
  "VaultPolicyBinding_OffshootLabels v =
     FilterKeys ''kubevault.com'' (VaultPolicyBinding_OffshootSelectors v) (Labels (Meta v))"

definition VaultPolicyBinding_SetDefaults :: "string \<Rightarrow> VaultPolicyBinding \<Rightarrow> VaultPolicyBinding" where
  "VaultPolicyBinding_SetDefaults cluster v =
     (let v = (if vpb_VaultRoleName (Spec v) = ''''
               then v\<lparr>Spec := (Spec v)\<lparr>vpb_VaultRoleName := PolicyBindingName cluster v\<rparr>\<rparr> else v)
      in case vpb_Kubernetes (Spec v) of
           Some k \<Rightarrow> if ks_Path k = ''''
                     then v\<lparr>Spec := (Spec v)\<lparr>vpb_Kubernetes := Some (k\<lparr>ks_Path := ''kubernetes''\<rparr>)\<rparr>\<rparr>
                     else v
         | None \<Rightarrow> v)"

text \<open>Defaulting never changes the role name a binding resolves to, and is idempotent.\<close>

lemma qualifiedName_nonempty [simp]: "qualifiedName cluster ns n \<noteq> ''''"
  by (simp add: qualifiedName_def)

lemma PolicyBindingName_nonempty [simp]: "PolicyBindingName cluster v \<noteq> ''''"
  by (simp add: PolicyBindingName_def)

lemma SetDefaults_keeps_PolicyBindingName:
  "PolicyBindingName cluster (VaultPolicyBinding_SetDefaults cluster v) = PolicyBindingName cluster v"
  by (auto simp: VaultPolicyBinding_SetDefaults_def PolicyBindingName_def Let_def split: option.splits)

lemma SetDefaults_idem:
  "VaultPolicyBinding_SetDefaults cluster (VaultPolicyBinding_SetDefaults cluster v)
     = VaultPolicyBinding_SetDefaults cluster v"
  by (auto simp: VaultPolicyBinding_SetDefaults_def Let_def split: option.splits)

end
