(* ===== verification/World.thy ===== *)
theory World
  imports Kubevault_Api Policy_Api
begin

text \<open>
  The outside of the operator: the Kubernetes API server, Vault servers and
  cloud SDKs, the informer caches, the clock and the random source.  They are
  parameters, collected in the record \<open>env\<close>: each is a function of the calls
  made so far, and no theorem assumes anything about it that it does not state.
  On top of them stand the typed clients and the create-or-patch, patch and
  update-status helpers of \<open>client/clientset/versioned/typed/*/util\<close>.
\<close>

section \<open>Requests, answers, events\<close>

datatype json = JNull | JBool bool | JInt int | JString string | JList "json list"
  | JObject "(string \<times> json) list"

record VaultClient =
  vc_Address :: string
  vc_Token :: string

record VaultRequest =
  vr_Client :: VaultClient
  vr_Method :: string
  vr_Path :: string
  vr_Params :: smap
  vr_Body :: "json option"

text \<open>A body is empty, or the JSON value it decodes to, or a decoding error.\<close>

datatype body = NoBody | BadBody error | JsonBody json

record VaultResponse =
  StatusCode :: nat
  Body :: body

text \<open>
  What an HTTP round trip can give: no response at all, or a response, which
  may come with a transport error of its own.
\<close>

datatype vaultAnswer = NoResponse error | Response VaultResponse "error option"

datatype obj =
    AWSAccessKeyRequestObj AWSAccessKeyRequest
  | AzureAccessKeyRequestObj AzureAccessKeyRequest
  | GCPAccessKeyRequestObj GCPAccessKeyRequest
  | DatabaseAccessRequestObj DatabaseAccessRequest
  | AWSRoleObj AWSRole
  | AzureRoleObj AzureRole
  | GCPRoleObj GCPRole
  | MongoDBRoleObj MongoDBRole
  | MySQLRoleObj MySQLRole
  | PostgresRoleObj PostgresRole
  | SecretEngineObj SecretEngine
  | VaultPolicyObj VaultPolicy
  | VaultPolicyBindingObj VaultPolicyBinding
  | VaultServerObj VaultServer
  | SecretObj Secret
  | ConfigMapObj ConfigMap
  | ServiceAccountObj ServiceAccount
  | RbacRoleObj RbacRole
  | RoleBindingObj RoleBinding
  | ClusterRoleBindingObj RoleBinding
  | AppBindingObj AppBinding
  | VaultServerVersionObj VaultServerVersion
  | ServiceObj Service
  | DeploymentObj Deployment
  | PersistentVolumeClaimObj PersistentVolumeClaim
  | PodListObj "Pod list"
  | NoObj

fun objKind :: "obj \<Rightarrow> string" where
  "objKind (AWSAccessKeyRequestObj x) = ''AWSAccessKeyRequest''"
| "objKind (AzureAccessKeyRequestObj x) = ''AzureAccessKeyRequest''"
| "objKind (GCPAccessKeyRequestObj x) = ''GCPAccessKeyRequest''"
| "objKind (DatabaseAccessRequestObj x) = ''DatabaseAccessRequest''"
| "objKind (AWSRoleObj x) = ''AWSRole''"
| "objKind (AzureRoleObj x) = ''AzureRole''"
| "objKind (GCPRoleObj x) = ''GCPRole''"
| "objKind (MongoDBRoleObj x) = ''MongoDBRole''"
| "objKind (MySQLRoleObj x) = ''MySQLRole''"
| "objKind (PostgresRoleObj x) = ''PostgresRole''"
| "objKind (SecretEngineObj x) = ''SecretEngine''"
| "objKind (VaultPolicyObj x) = ''VaultPolicy''"
| "objKind (VaultPolicyBindingObj x) = ''VaultPolicyBinding''"
| "objKind (VaultServerObj x) = ''VaultServer''"
| "objKind (SecretObj x) = ''Secret''"
| "objKind (ConfigMapObj x) = ''ConfigMap''"
| "objKind (ServiceAccountObj x) = ''ServiceAccount''"
| "objKind (RbacRoleObj x) = ''Role''"
| "objKind (RoleBindingObj x) = ''RoleBinding''"
| "objKind (ClusterRoleBindingObj x) = ''ClusterRoleBinding''"
| "objKind (AppBindingObj x) = ''AppBinding''"
| "objKind (VaultServerVersionObj x) = ''VaultServerVersion''"
| "objKind (ServiceObj x) = ''Service''"
| "objKind (DeploymentObj x) = ''Deployment''"
| "objKind (PersistentVolumeClaimObj x) = ''PersistentVolumeClaim''"
| "objKind (PodListObj x) = ''PodList''"
| "objKind NoObj = ''''"

datatype kubeRequest =
    KGet string string string
  | KCreate obj
  | KPatch obj obj
  | KUpdate obj
  | KUpdateStatus obj
  | KDelete string string string
  | KList string string smap

text \<open>The kind a request is about.\<close>

fun requestKind :: "kubeRequest \<Rightarrow> string" where
  "requestKind (KGet k ns n) = k"
| "requestKind (KCreate ob) = objKind ob"
| "requestKind (KPatch cur mod') = objKind mod'"
| "requestKind (KUpdate ob) = objKind ob"
| "requestKind (KUpdateStatus ob) = objKind ob"
| "requestKind (KDelete k ns n) = k"
| "requestKind (KList k ns sel) = k"

text \<open>\<open>Ext\<close> is a call into a cloud SDK, with its arguments and what it returned.\<close>

datatype event =
    Kube kubeRequest "error + obj"
  | Vault VaultRequest vaultAnswer
  | Ext string "string list" "error + string"

type_synonym trace = "event list"

record env =
  kube_answer :: "trace \<Rightarrow> kubeRequest \<Rightarrow> error + obj"
  vault_answer :: "trace \<Rightarrow> VaultRequest \<Rightarrow> vaultAnswer"
  sdk_answer :: "trace \<Rightarrow> string \<Rightarrow> string list \<Rightarrow> error + string"
  cache_answer :: "trace \<Rightarrow> string \<Rightarrow> string \<Rightarrow> error + obj option"
  rand_chars :: "trace \<Rightarrow> string"
  clock :: "trace \<Rightarrow> int"
  poll_ticks :: "trace \<Rightarrow> nat"
  cluster_name :: string
  pem_ok :: "string \<Rightarrow> bool"
  url_hostname :: "string \<Rightarrow> error + string"
  new_client_error :: "string \<Rightarrow> error option"
  rest_host :: string
  rest_ca_data :: "error + string"
  kube_client_error :: "error option"
  private_key_of :: "string \<Rightarrow> string"
  aks_fqdn :: bool
  analytics_client_id :: string
  in_cluster :: bool

type_synonym 'a go = "(env, event, 'a) gom"


section \<open>Primitive calls\<close>

definition kubeCall :: "kubeRequest \<Rightarrow> (obj \<Rightarrow> 'a option) \<Rightarrow> 'a go" where
  "kubeCall req prj = (\<lambda>env t.
     let a = kube_answer env t req in
     (case a of
        Inl e \<Rightarrow> Err e
      | Inr ob \<Rightarrow> (case prj ob of None \<Rightarrow> Err (Plain ''unexpected object kind'') | Some v \<Rightarrow> Ok v),
      t @ [Kube req a]))"

definition extCall :: "string \<Rightarrow> string list \<Rightarrow> string go" where
  "extCall f args = (\<lambda>env t.
     let a = sdk_answer env t f args in
     (case a of Inl e \<Rightarrow> Err e | Inr v \<Rightarrow> Ok v, t @ [Ext f args a]))"

text \<open>Reading the process's own state: clock, random source, ticks, cluster name, caches.\<close>

definition metav1_Now :: "int go" where "metav1_Now = (\<lambda>env t. (Ok (clock env t), t))"
definition randCharacters :: "string go" where "randCharacters = (\<lambda>env t. (Ok (rand_chars env t), t))"
definition pollTicks :: "nat go" where "pollTicks = (\<lambda>env t. (Ok (poll_ticks env t), t))"
definition clusterid_ClusterName :: "string go" where
  "clusterid_ClusterName = ask cluster_name"

definition GetByKey :: "string \<Rightarrow> string \<Rightarrow> obj option go" where
  "GetByKey kind k = (\<lambda>env t. (case cache_answer env t kind k of Inl e \<Rightarrow> Err e | Inr v \<Rightarrow> Ok v, t))"

lemmas [go_defs] = kubeCall_def extCall_def metav1_Now_def randCharacters_def pollTicks_def
  clusterid_ClusterName_def GetByKey_def


subsection \<open>Vault requests\<close>

text \<open>\<open>Response.Error\<close>: 200 to 399 and 429 are no error.\<close>

definition okStatus :: "nat \<Rightarrow> bool" where
  "okStatus c \<longleftrightarrow> 200 \<le> c \<and> c < 400 \<or> c = 429"

definition Response_Error :: "VaultResponse \<Rightarrow> error option" where
  "Response_Error r =
     (if okStatus (StatusCode r) then None
      else Some (ResponseError (StatusCode r) ''Error making API request.''))"

text \<open>\<open>Client.RawRequest\<close> returns a response, an error, or both.\<close>

definition rawResult :: "vaultAnswer \<Rightarrow> VaultResponse option \<times> error option" where
  "rawResult a = (case a of
       NoResponse e \<Rightarrow> (None, Some e)
     | Response r (Some e) \<Rightarrow> (Some r, Some e)
     | Response r None \<Rightarrow> (Some r, Response_Error r))"

definition RawRequest :: "VaultRequest \<Rightarrow> (VaultResponse option \<times> error option) go" where
  "RawRequest req = (\<lambda>env t.
     let a = vault_answer env t req in (Ok (rawResult a), t @ [Vault req a]))"

lemmas [go_defs] = RawRequest_def

definition NewRequest :: "VaultClient \<Rightarrow> string \<Rightarrow> string \<Rightarrow> json option \<Rightarrow> VaultRequest" where
  "NewRequest c method path body =
     \<lparr>vr_Client = c, vr_Method = method, vr_Path = path, vr_Params = [], vr_Body = body\<rparr>"

text \<open>\<open>resp, err := c.RawRequest(req); if err != nil { return err }\<close>\<close>

definition rawRequest_ok :: "VaultRequest \<Rightarrow> VaultResponse go" where
  "rawRequest_ok req = andThen (RawRequest req) (\<lambda>(resp, err).
     case err of Some e \<Rightarrow> fail e
     | None \<Rightarrow> (case resp of Some r \<Rightarrow> ret r | None \<Rightarrow> panic ''nil response''))"

lemma rawResult_cases:
  obtains e where "rawResult a = (None, Some e)"
  | r where "rawResult a = (Some r, None)" "okStatus (StatusCode r)"
  | r e where "rawResult a = (Some r, Some e)"
proof (cases a)
  case (NoResponse e)
  then show ?thesis using that(1) by (simp add: rawResult_def)
next
  case (Response r e)
  show ?thesis
  proof (cases e)
    case None
    then show ?thesis using Response that(2,3)
      by (cases "okStatus (StatusCode r)") (simp_all add: rawResult_def Response_Error_def)
  qed (use Response that(3) in \<open>simp add: rawResult_def\<close>)
qed

section \<open>Typed clients\<close>

text \<open>The typed client of a resource: its kind and how it sits in \<open>obj\<close>.\<close>

record 'o client =
  cl_Kind :: string
  cl_inj :: "'o \<Rightarrow> obj"
  cl_prj :: "obj \<Rightarrow> 'o option"
  cl_Meta :: "'o \<Rightarrow> ObjectMeta"

definition apiGet :: "'o client \<Rightarrow> string \<Rightarrow> string \<Rightarrow> 'o go" where
  "apiGet c ns n = kubeCall (KGet (cl_Kind c) ns n) (cl_prj c)"

definition apiCreate :: "'o client \<Rightarrow> 'o \<Rightarrow> 'o go" where
  "apiCreate c x = kubeCall (KCreate (cl_inj c x)) (cl_prj c)"

definition apiPatch :: "'o client \<Rightarrow> 'o \<Rightarrow> 'o \<Rightarrow> 'o go" where
  "apiPatch c cur mod' = kubeCall (KPatch (cl_inj c cur) (cl_inj c mod')) (cl_prj c)"

definition apiUpdate :: "'o client \<Rightarrow> 'o \<Rightarrow> 'o go" where
  "apiUpdate c x = kubeCall (KUpdate (cl_inj c x)) (cl_prj c)"

definition apiUpdateStatus :: "'o client \<Rightarrow> 'o \<Rightarrow> 'o go" where
  "apiUpdateStatus c x = kubeCall (KUpdateStatus (cl_inj c x)) (cl_prj c)"

definition apiDelete :: "string \<Rightarrow> string \<Rightarrow> string \<Rightarrow> unit go" where
  "apiDelete kind ns n = kubeCall (KDelete kind ns n) (\<lambda>_. Some ())"

lemmas api_defs = apiGet_def apiCreate_def apiPatch_def apiUpdate_def apiUpdateStatus_def apiDelete_def


subsection \<open>Patch and create-or-patch\<close>

text \<open>
  An empty merge patch, that is an unchanged object, is not sent.
\<close>

definition PatchObject :: "'o client \<Rightarrow> 'o \<Rightarrow> 'o \<Rightarrow> 'o go" where
  "PatchObject c cur mod' = (if mod' = cur then ret cur else apiPatch c cur mod')"

definition Patch :: "'o client \<Rightarrow> 'o \<Rightarrow> ('o \<Rightarrow> 'o) \<Rightarrow> 'o go" where
  "Patch c cur transform = PatchObject c cur (transform cur)"

definition CreateOrPatch :: "'o client \<Rightarrow> ObjectMeta \<Rightarrow> (ObjectMeta \<Rightarrow> 'o) \<Rightarrow> ('o \<Rightarrow> 'o) \<Rightarrow> 'o go" where
  "CreateOrPatch c meta new transform =
     attempt (apiGet c (Namespace meta) (Name meta))
       (\<lambda>err. if IsNotFound err then apiCreate c (transform (new meta)) else fail err)
       (\<lambda>cur. Patch c cur transform)"


subsection \<open>Status updates\<close>

text \<open>
  The state of the retry loop is the object to write and the number of
  attempts.  \<open>err\<close> is the outer variable of the same name: the loop runs after
  the first \<open>Get\<close> has succeeded, so it is nil, and it is this variable, not the
  error \<open>e2\<close> of the update, that the loop compares with nil.
\<close>

definition updateStatusOnce ::
    "('s, 'st) resource client \<Rightarrow> ObjectMeta \<Rightarrow> (int \<Rightarrow> 'st \<Rightarrow> 'st) \<Rightarrow> error option
      \<Rightarrow> ('s, 'st) resource \<times> nat \<Rightarrow> ((('s, 'st) resource \<times> nat) \<times> poll) go" where
  "updateStatusOnce c meta transform err = (\<lambda>(cur, tries).
     andThen metav1_Now (\<lambda>now.
     attempt (apiUpdateStatus c (cur\<lparr>Status := transform now (Status cur)\<rparr>))
       (\<lambda>e2. if IsConflict e2 then
               attempt (apiGet c (Namespace meta) (Name meta))
                 (\<lambda>e3. if IsRequestRetryable e3 then ret ((cur, Suc tries), Again)
                       else ret ((cur, Suc tries), Stop e3))
                 (\<lambda>latest. ret ((latest, Suc tries), Again))
             else if err \<noteq> None \<and> \<not> IsRequestRetryable e2 then ret ((cur, Suc tries), Stop e2)
             else ret ((cur, Suc tries), Again))
       (\<lambda>result. ret ((result, Suc tries), Done))))"

definition UpdateStatus ::
    "('s, 'st) resource client \<Rightarrow> ObjectMeta \<Rightarrow> (int \<Rightarrow> 'st \<Rightarrow> 'st) \<Rightarrow> ('s, 'st) resource go" where
  "UpdateStatus c meta transform =
     andThen (apiGet c (Namespace meta) (Name meta)) (\<lambda>cur.
     let err = None in
     andThen pollTicks (\<lambda>n.
     andThen (PollImmediate n (updateStatusOnce c meta transform err) (cur, 0))
       (\<lambda>((result, tries), err'). case err' of
          None \<Rightarrow> ret result
        | Some e \<Rightarrow> fail (Plain (''failed to update status of '' @ cl_Kind c @ '' ''
             @ slash (Namespace meta) (Name meta) @ '' after '' @ string_of_nat tries
             @ '' attempts due to '' @ Error e)))))"

text \<open>\<open>TryUpdate\<close>: read, modify and write back until the write succeeds.\<close>

definition tryUpdateOnce :: "'o client \<Rightarrow> ObjectMeta \<Rightarrow> ('o \<Rightarrow> 'o) \<Rightarrow> 'o option \<times> nat
    \<Rightarrow> (('o option \<times> nat) \<times> poll) go" where
  "tryUpdateOnce c meta transform = (\<lambda>(result, tries).
     attempt (apiGet c (Namespace meta) (Name meta))
       (\<lambda>e2. if IsNotFound e2 then ret ((result, Suc tries), Stop e2)
             else ret ((result, Suc tries), Again))
       (\<lambda>cur. attempt (apiUpdate c (transform cur))
          (\<lambda>e2. ret ((result, Suc tries), Again))
          (\<lambda>x. ret ((Some x, Suc tries), Done))))"

definition TryUpdate :: "'o client \<Rightarrow> ObjectMeta \<Rightarrow> ('o \<Rightarrow> 'o) \<Rightarrow> 'o option go" where
  "TryUpdate c meta transform =
     andThen pollTicks (\<lambda>n.
     andThen (PollImmediate n (tryUpdateOnce c meta transform) (None, 0))
       (\<lambda>((result, tries), err). case err of
          None \<Rightarrow> ret result
        | Some e \<Rightarrow> fail (Plain (''failed to update '' @ cl_Kind c @ '' ''
             @ slash (Namespace meta) (Name meta) @ '' after '' @ string_of_nat tries
             @ '' attempts due to '' @ Error e))))"


section \<open>Which calls they make\<close>

lemma emits_kubeCall [emits_intros]: "(\<And>a. P (Kube req a)) \<Longrightarrow> emits P (kubeCall req prj) env"
  by (auto simp: emits_def kubeCall_def Let_def)

lemma emits_extCall [emits_intros]: "(\<And>a. P (Ext f args a)) \<Longrightarrow> emits P (extCall f args) env"
  by (auto simp: emits_def extCall_def Let_def)

lemma emits_RawRequest [emits_intros]: "(\<And>a. P (Vault req a)) \<Longrightarrow> emits P (RawRequest req) env"
  by (auto simp: emits_def RawRequest_def Let_def)

lemma emits_local [emits_intros]:
  "emits P metav1_Now env" "emits P randCharacters env" "emits P pollTicks env"
  "emits P clusterid_ClusterName env" "emits P (GetByKey kind k) env"
  by (auto simp: emits_def go_defs)

lemma emits_rawRequest_ok [emits_intros]:
  "(\<And>a. P (Vault req a)) \<Longrightarrow> emits P (rawRequest_ok req) env"
  unfolding rawRequest_ok_def by (auto intro!: emits_intros)

lemma emits_apis [emits_intros]:
  "(\<And>a. P (Kube (KGet (cl_Kind c) ns n) a)) \<Longrightarrow> emits P (apiGet c ns n) env"
  "(\<And>a. P (Kube (KCreate (cl_inj c x)) a)) \<Longrightarrow> emits P (apiCreate c x) env"
  "(\<And>a. P (Kube (KPatch (cl_inj c x) (cl_inj c y)) a)) \<Longrightarrow> emits P (apiPatch c x y) env"
  "(\<And>a. P (Kube (KUpdate (cl_inj c x)) a)) \<Longrightarrow> emits P (apiUpdate c x) env"
  "(\<And>a. P (Kube (KUpdateStatus (cl_inj c x)) a)) \<Longrightarrow> emits P (apiUpdateStatus c x) env"
  "(\<And>a. P (Kube (KDelete k ns n) a)) \<Longrightarrow> emits P (apiDelete k ns n) env"
  by (simp_all add: api_defs emits_kubeCall)

lemma emits_Patch [emits_intros]:
  "(\<And>a. P (Kube (KPatch (cl_inj c cur) (cl_inj c (f cur))) a)) \<Longrightarrow> emits P (Patch c cur f) env"
  unfolding Patch_def PatchObject_def by (auto intro!: emits_intros)

lemma emits_CreateOrPatch [emits_intros]:
  assumes "\<And>a. P (Kube (KGet (cl_Kind c) (Namespace meta) (Name meta)) a)"
    and "\<And>a. P (Kube (KCreate (cl_inj c (f (new meta)))) a)"
    and "\<And>cur a. P (Kube (KPatch (cl_inj c cur) (cl_inj c (f cur))) a)"
  shows "emits P (CreateOrPatch c meta new f) env"
  unfolding CreateOrPatch_def by (intro emits_intros assms)

lemma emits_UpdateStatus [emits_intros]:
  assumes "\<And>a. P (Kube (KGet (cl_Kind c) (Namespace meta) (Name meta)) a)"
    and "\<And>cur now a. P (Kube (KUpdateStatus (cl_inj c (cur\<lparr>Status := f now (Status cur)\<rparr>))) a)"
  shows "emits P (UpdateStatus c meta f) env"
  unfolding UpdateStatus_def updateStatusOnce_def Let_def by (intro emits_intros assms)

lemma wp_kubeCall [wp_simps]:
  "wp (kubeCall req prj) env Q t \<longleftrightarrow>
     Q (case kube_answer env t req of Inl e \<Rightarrow> Err e
        | Inr ob \<Rightarrow> (case prj ob of None \<Rightarrow> Err (Plain ''unexpected object kind'') | Some v \<Rightarrow> Ok v))
       (t @ [Kube req (kube_answer env t req)])"
  by (simp add: wp_def kubeCall_def Let_def)

lemma wp_local [wp_simps]:
  "wp metav1_Now env Q t \<longleftrightarrow> Q (Ok (clock env t)) t"
  "wp randCharacters env Q2 t \<longleftrightarrow> Q2 (Ok (rand_chars env t)) t"
  "wp pollTicks env Q3 t \<longleftrightarrow> Q3 (Ok (poll_ticks env t)) t"
  "wp clusterid_ClusterName env Q4 t \<longleftrightarrow> Q4 (Ok (cluster_name env)) t"
  by (simp_all add: wp_def go_defs)

lemma wp_RawRequest [wp_simps]:
  "wp (RawRequest req) env Q t \<longleftrightarrow>
     Q (Ok (rawResult (vault_answer env t req))) (t @ [Vault req (vault_answer env t req)])"
  by (simp add: wp_def RawRequest_def Let_def)


subsection \<open>What a status update leaves behind\<close>

text \<open>The call that writes a resource whose status is \<open>f now\<close> of the one it had.\<close>

definition writesStatus :: "('s, 'st) resource client \<Rightarrow> (int \<Rightarrow> 'st \<Rightarrow> 'st) \<Rightarrow> event \<Rightarrow> bool" where
  "writesStatus c f e \<longleftrightarrow> (\<exists>cur now ob. e =
     Kube (KUpdateStatus (cl_inj c (cur\<lparr>Status := f now (Status cur)\<rparr>))) (Inr ob))"

text \<open>The calls a computation adds, and the last of them when it ends well.\<close>

definition endsWith :: "(event \<Rightarrow> bool) \<Rightarrow> ('a \<Rightarrow> bool) \<Rightarrow> trace \<Rightarrow> 'a res \<Rightarrow> trace \<Rightarrow> bool" where
  "endsWith P good t r t' \<longleftrightarrow> (\<forall>v. r \<noteq> Panic v) \<and>
     (\<exists>us. t' = t @ us \<and> (\<forall>x. r = Ok x \<and> good x \<longrightarrow> (\<exists>es e. us = es @ [e] \<and> P e)))"

lemma endsWith_trans: "endsWith P good (t @ us) r t' \<Longrightarrow> endsWith P good t r t'"
  by (auto simp: endsWith_def)

lemma wp_WaitFor:
  assumes "\<And>s t. wp (cond s) env (endsWith P (\<lambda>(s', p). p = Done) t) t"
  shows "wp (WaitFor n cond s) env (endsWith P (\<lambda>(s', err). err = None) t) t"
proof (induction n arbitrary: s t)
  case (0 s t)
  show ?case
    using assms[of s t]
    by (auto simp: endsWith_def wp_def go_defs split: prod.splits res.splits poll.splits)
next
  case (Suc n s t)
  have "endsWith P (\<lambda>(s', err). err = None) t (fst (WaitFor n cond s' env (t @ us))) (snd (WaitFor n cond s' env (t @ us)))"
    for s' us using Suc[of s' "t @ us"] by (auto simp: wp_def intro: endsWith_trans)
  then show ?case
    using assms[of s t]
    by (auto simp: endsWith_def[of _ "\<lambda>(s', p). p = Done"] wp_simps wp_def go_defs
        split: prod.splits res.splits poll.splits) (auto simp: endsWith_def)
qed

lemma updateStatusOnce_wp:
  "wp (updateStatusOnce c meta f err s) env (endsWith (writesStatus c f) (\<lambda>(s', p). p = Done) t) t"
  by (cases s)
    (auto simp: updateStatusOnce_def endsWith_def writesStatus_def wp_simps api_defs
      split: sum.splits option.splits)

lemma UpdateStatus_wp:
  "wp (UpdateStatus c meta f) env (endsWith (writesStatus c f) (\<lambda>_. True) t) t"
proof -
  have poll: "wp (PollImmediate n (updateStatusOnce c meta f None) s) env
     (endsWith (writesStatus c f) (\<lambda>(s', err). err = None) (t @ us)) (t @ us)" for n s us
    unfolding PollImmediate_def by (rule wp_WaitFor) (rule updateStatusOnce_wp)
  show ?thesis
    unfolding UpdateStatus_def wp_simps api_defs Let_def
    by (auto simp: wp_simps endsWith_def split: sum.splits option.splits prod.splits res.splits
        intro!: wp_mono[OF poll])
qed

lemma UpdateStatus_run:
  assumes "UpdateStatus c meta f env t = (Ok x, t')"
  shows "\<exists>es e. t' = t @ es @ [e] \<and> writesStatus c f e"
  using UpdateStatus_wp[of c meta f env t] assms by (auto simp: wp_def endsWith_def)

subsection \<open>What create-or-patch leaves behind\<close>

text \<open>
  The last call of a successful create-or-patch: the object was created or
  patched with \<open>f\<close> applied, or the read returned one that \<open>f\<close> does not change.
\<close>

definition ensuredBy :: "'o client \<Rightarrow> ObjectMeta \<Rightarrow> (ObjectMeta \<Rightarrow> 'o) \<Rightarrow> ('o \<Rightarrow> 'o) \<Rightarrow> event \<Rightarrow> bool" where
  "ensuredBy c meta new f e \<longleftrightarrow>
     (\<exists>ob. e = Kube (KCreate (cl_inj c (f (new meta)))) (Inr ob))
     \<or> (\<exists>cur ob. e = Kube (KPatch (cl_inj c cur) (cl_inj c (f cur))) (Inr ob))
     \<or> (\<exists>cur ob. e = Kube (KGet (cl_Kind c) (Namespace meta) (Name meta)) (Inr ob)
           \<and> cl_prj c ob = Some cur \<and> f cur = cur)"

lemma CreateOrPatch_wp:
  "wp (CreateOrPatch c meta new f) env
     (\<lambda>r t'. (\<forall>v. r \<noteq> Panic v) \<and>
        (\<forall>x. r = Ok x \<longrightarrow> (\<exists>es e. t' = t @ es @ [e] \<and> ensuredBy c meta new f e))) t"
  by (auto simp: CreateOrPatch_def Patch_def PatchObject_def ensuredBy_def wp_simps api_defs
      split: sum.splits option.splits)

lemma CreateOrPatch_run:
  assumes "CreateOrPatch c meta new f env t = (Ok x, t')"
  obtains es e where "t' = t @ es @ [e]" "ensuredBy c meta new f e"
  using CreateOrPatch_wp[of c meta new f env t] assms by (auto simp: wp_def)

section \<open>Reading JSON\<close>

text \<open>A missing field reads as null, and null leaves the zero value of the target.\<close>

definition jfield :: "string \<Rightarrow> json \<Rightarrow> json" where
  "jfield k j = (case j of JObject m \<Rightarrow> (case map_of m k of Some v \<Rightarrow> v | None \<Rightarrow> JNull) | _ \<Rightarrow> JNull)"

definition jstring :: "json \<Rightarrow> error + string" where
  "jstring j = (case j of JNull \<Rightarrow> Inr '''' | JString s \<Rightarrow> Inr s
     | _ \<Rightarrow> Inl (Plain ''json: cannot unmarshal into Go value of type string''))"

definition jint :: "json \<Rightarrow> error + int" where
  "jint j = (case j of JNull \<Rightarrow> Inr 0 | JInt i \<Rightarrow> Inr i
     | _ \<Rightarrow> Inl (Plain ''json: cannot unmarshal into Go value of type int''))"

definition jbool :: "json \<Rightarrow> error + bool" where
  "jbool j = (case j of JNull \<Rightarrow> Inr False | JBool b \<Rightarrow> Inr b
     | _ \<Rightarrow> Inl (Plain ''json: cannot unmarshal into Go value of type bool''))"

definition jobject :: "json \<Rightarrow> error + (string \<times> json) list" where
  "jobject j = (case j of JNull \<Rightarrow> Inr [] | JObject m \<Rightarrow> Inr m
     | _ \<Rightarrow> Inl (Plain ''json: cannot unmarshal into Go value of type object''))"

definition io_EOF :: error where "io_EOF = Plain ''EOF''"

text \<open>\<open>json.NewDecoder(resp.Body).Decode\<close> into a struct\<close>

definition decodeBody :: "body \<Rightarrow> error + json" where
  "decodeBody b = (case b of
       NoBody \<Rightarrow> Inl io_EOF
     | BadBody e \<Rightarrow> Inl e
     | JsonBody j \<Rightarrow> map_sum id JObject (jobject j))"

text \<open>\<open>vaultapi.Secret\<close> and \<open>vaultapi.ParseSecret\<close>; an empty body is a nil secret.\<close>

record VaultSecret =
  LeaseID :: string
  LeaseDuration :: int
  Renewable :: bool
  Data :: "(string \<times> json) list"

definition parseSecretJson :: "json \<Rightarrow> error + VaultSecret" where
  "parseSecretJson j =
     (case jstring (jfield ''lease_id'' j) of Inl e \<Rightarrow> Inl e | Inr lid \<Rightarrow>
     (case jint (jfield ''lease_duration'' j) of Inl e \<Rightarrow> Inl e | Inr dur \<Rightarrow>
     (case jbool (jfield ''renewable'' j) of Inl e \<Rightarrow> Inl e | Inr ren \<Rightarrow>
     (case jobject (jfield ''data'' j) of Inl e \<Rightarrow> Inl e | Inr dat \<Rightarrow>
        Inr \<lparr>LeaseID = lid, LeaseDuration = dur, Renewable = ren, Data = dat\<rparr>))))"

definition ParseSecret :: "body \<Rightarrow> error + VaultSecret option" where
  "ParseSecret b = (case b of
       NoBody \<Rightarrow> Inr None
     | BadBody e \<Rightarrow> Inl e
     | JsonBody j \<Rightarrow> (case jobject j of Inl e \<Rightarrow> Inl e
         | Inr m \<Rightarrow> map_sum id Some (parseSecretJson (JObject m))))"

end
