(* ===== verification/Clients.thy ===== *)
theory Clients
  imports World
begin

text \<open>
  One typed client per resource kind, and the per-kind helpers of
  \<open>client/clientset/versioned/typed/*/v1alpha1/util\<close>.  The fourteen files of
  that package have the same text up to the name of the kind, so each helper is
  the generic one of \<open>World\<close> at the kind's client.
\<close>

section \<open>Clients\<close>

definition AWSAccessKeyRequests :: "AWSAccessKeyRequest client" where
  "AWSAccessKeyRequests = \<lparr>cl_Kind = ''AWSAccessKeyRequest'', cl_inj = AWSAccessKeyRequestObj,
     cl_prj = (\<lambda>ob. case ob of AWSAccessKeyRequestObj x \<Rightarrow> Some x | _ \<Rightarrow> None), cl_Meta = Meta\<rparr>"

definition AzureAccessKeyRequests :: "AzureAccessKeyRequest client" where
  "AzureAccessKeyRequests = \<lparr>cl_Kind = ''AzureAccessKeyRequest'', cl_inj = AzureAccessKeyRequestObj,
     cl_prj = (\<lambda>ob. case ob of AzureAccessKeyRequestObj x \<Rightarrow> Some x | _ \<Rightarrow> None), cl_Meta = Meta\<rparr>"

definition GCPAccessKeyRequests :: "GCPAccessKeyRequest client" where
  "GCPAccessKeyRequests = \<lparr>cl_Kind = ''GCPAccessKeyRequest'', cl_inj = GCPAccessKeyRequestObj,
     cl_prj = (\<lambda>ob. case ob of GCPAccessKeyRequestObj x \<Rightarrow> Some x | _ \<Rightarrow> None), cl_Meta = Meta\<rparr>"

definition DatabaseAccessRequests :: "DatabaseAccessRequest client" where
  "DatabaseAccessRequests = \<lparr>cl_Kind = ''DatabaseAccessRequest'', cl_inj = DatabaseAccessRequestObj,
     cl_prj = (\<lambda>ob. case ob of DatabaseAccessRequestObj x \<Rightarrow> Some x | _ \<Rightarrow> None), cl_Meta = Meta\<rparr>"

definition AWSRoles :: "AWSRole client" where
  "AWSRoles = \<lparr>cl_Kind = ''AWSRole'', cl_inj = AWSRoleObj,
     cl_prj = (\<lambda>ob. case ob of AWSRoleObj x \<Rightarrow> Some x | _ \<Rightarrow> None), cl_Meta = Meta\<rparr>"

definition AzureRoles :: "AzureRole client" where
  "AzureRoles = \<lparr>cl_Kind = ''AzureRole'', cl_inj = AzureRoleObj,
     cl_prj = (\<lambda>ob. case ob of AzureRoleObj x \<Rightarrow> Some x | _ \<Rightarrow> None), cl_Meta = Meta\<rparr>"

definition GCPRoles :: "GCPRole client" where
  "GCPRoles = \<lparr>cl_Kind = ''GCPRole'', cl_inj = GCPRoleObj,
     cl_prj = (\<lambda>ob. case ob of GCPRoleObj x \<Rightarrow> Some x | _ \<Rightarrow> None), cl_Meta = Meta\<rparr>"

definition MongoDBRoles :: "MongoDBRole client" where
  "MongoDBRoles = \<lparr>cl_Kind = ''MongoDBRole'', cl_inj = MongoDBRoleObj,
     cl_prj = (\<lambda>ob. case ob of MongoDBRoleObj x \<Rightarrow> Some x | _ \<Rightarrow> None), cl_Meta = Meta\<rparr>"

definition MySQLRoles :: "MySQLRole client" where
  "MySQLRoles = \<lparr>cl_Kind = ''MySQLRole'', cl_inj = MySQLRoleObj,
     cl_prj = (\<lambda>ob. case ob of MySQLRoleObj x \<Rightarrow> Some x | _ \<Rightarrow> None), cl_Meta = Meta\<rparr>"

definition PostgresRoles :: "PostgresRole client" where
  "PostgresRoles = \<lparr>cl_Kind = ''PostgresRole'', cl_inj = PostgresRoleObj,
     cl_prj = (\<lambda>ob. case ob of PostgresRoleObj x \<Rightarrow> Some x | _ \<Rightarrow> None), cl_Meta = Meta\<rparr>"

definition SecretEngines :: "SecretEngine client" where
  "SecretEngines = \<lparr>cl_Kind = ''SecretEngine'', cl_inj = SecretEngineObj,
     cl_prj = (\<lambda>ob. case ob of SecretEngineObj x \<Rightarrow> Some x | _ \<Rightarrow> None), cl_Meta = Meta\<rparr>"

definition VaultPolicies :: "VaultPolicy client" where
  "VaultPolicies = \<lparr>cl_Kind = ''VaultPolicy'', cl_inj = VaultPolicyObj,
     cl_prj = (\<lambda>ob. case ob of VaultPolicyObj x \<Rightarrow> Some x | _ \<Rightarrow> None), cl_Meta = Meta\<rparr>"

definition VaultPolicyBindings :: "VaultPolicyBinding client" where
  "VaultPolicyBindings = \<lparr>cl_Kind = ''VaultPolicyBinding'', cl_inj = VaultPolicyBindingObj,
     cl_prj = (\<lambda>ob. case ob of VaultPolicyBindingObj x \<Rightarrow> Some x | _ \<Rightarrow> None), cl_Meta = Meta\<rparr>"

definition VaultServers :: "VaultServer client" where
  "VaultServers = \<lparr>cl_Kind = ''VaultServer'', cl_inj = VaultServerObj,
     cl_prj = (\<lambda>ob. case ob of VaultServerObj x \<Rightarrow> Some x | _ \<Rightarrow> None), cl_Meta = Meta\<rparr>"

definition Secrets :: "Secret client" where
  "Secrets = \<lparr>cl_Kind = ''Secret'', cl_inj = SecretObj,
     cl_prj = (\<lambda>ob. case ob of SecretObj x \<Rightarrow> Some x | _ \<Rightarrow> None), cl_Meta = sec_Meta\<rparr>"

definition ConfigMaps :: "ConfigMap client" where
  "ConfigMaps = \<lparr>cl_Kind = ''ConfigMap'', cl_inj = ConfigMapObj,
     cl_prj = (\<lambda>ob. case ob of ConfigMapObj x \<Rightarrow> Some x | _ \<Rightarrow> None), cl_Meta = cm_Meta\<rparr>"

definition ServiceAccounts :: "ServiceAccount client" where
  "ServiceAccounts = \<lparr>cl_Kind = ''ServiceAccount'', cl_inj = ServiceAccountObj,
     cl_prj = (\<lambda>ob. case ob of ServiceAccountObj x \<Rightarrow> Some x | _ \<Rightarrow> None), cl_Meta = sa_Meta\<rparr>"

definition RbacRoles :: "RbacRole client" where
  "RbacRoles = \<lparr>cl_Kind = ''Role'', cl_inj = RbacRoleObj,
     cl_prj = (\<lambda>ob. case ob of RbacRoleObj x \<Rightarrow> Some x | _ \<Rightarrow> None), cl_Meta = rbac_Meta\<rparr>"

definition RoleBindings :: "RoleBinding client" where
  "RoleBindings = \<lparr>cl_Kind = ''RoleBinding'', cl_inj = RoleBindingObj,
     cl_prj = (\<lambda>ob. case ob of RoleBindingObj x \<Rightarrow> Some x | _ \<Rightarrow> None), cl_Meta = rb_Meta\<rparr>"

definition ClusterRoleBindings :: "RoleBinding client" where
  "ClusterRoleBindings = \<lparr>cl_Kind = ''ClusterRoleBinding'', cl_inj = ClusterRoleBindingObj,
     cl_prj = (\<lambda>ob. case ob of ClusterRoleBindingObj x \<Rightarrow> Some x | _ \<Rightarrow> None), cl_Meta = rb_Meta\<rparr>"

definition AppBindings :: "AppBinding client" where
  "AppBindings = \<lparr>cl_Kind = ''AppBinding'', cl_inj = AppBindingObj,
     cl_prj = (\<lambda>ob. case ob of AppBindingObj x \<Rightarrow> Some x | _ \<Rightarrow> None), cl_Meta = ab_Meta\<rparr>"

definition VaultServerVersions :: "VaultServerVersion client" where
  "VaultServerVersions = \<lparr>cl_Kind = ''VaultServerVersion'', cl_inj = VaultServerVersionObj,
     cl_prj = (\<lambda>ob. case ob of VaultServerVersionObj x \<Rightarrow> Some x | _ \<Rightarrow> None), cl_Meta = vsv_Meta\<rparr>"

definition Services :: "Service client" where
  "Services = \<lparr>cl_Kind = ''Service'', cl_inj = ServiceObj,
     cl_prj = (\<lambda>ob. case ob of ServiceObj x \<Rightarrow> Some x | _ \<Rightarrow> None), cl_Meta = svc_Meta\<rparr>"

definition Deployments :: "Deployment client" where
  "Deployments = \<lparr>cl_Kind = ''Deployment'', cl_inj = DeploymentObj,
     cl_prj = (\<lambda>ob. case ob of DeploymentObj x \<Rightarrow> Some x | _ \<Rightarrow> None), cl_Meta = dep_Meta\<rparr>"

definition PersistentVolumeClaims :: "PersistentVolumeClaim client" where
  "PersistentVolumeClaims = \<lparr>cl_Kind = ''PersistentVolumeClaim'', cl_inj = PersistentVolumeClaimObj,
     cl_prj = (\<lambda>ob. case ob of PersistentVolumeClaimObj x \<Rightarrow> Some x | _ \<Rightarrow> None), cl_Meta = pvc_Meta\<rparr>"

definition listPods :: "string \<Rightarrow> smap \<Rightarrow> Pod list go" where
  "listPods ns sel = kubeCall (KList ''Pod'' ns sel)
     (\<lambda>ob. case ob of PodListObj ps \<Rightarrow> Some ps | _ \<Rightarrow> None)"

lemmas client_defs =
  AWSAccessKeyRequests_def AzureAccessKeyRequests_def GCPAccessKeyRequests_def DatabaseAccessRequests_def AWSRoles_def AzureRoles_def GCPRoles_def MongoDBRoles_def MySQLRoles_def PostgresRoles_def SecretEngines_def VaultPolicies_def VaultPolicyBindings_def VaultServers_def Secrets_def ConfigMaps_def ServiceAccounts_def RbacRoles_def RoleBindings_def ClusterRoleBindings_def AppBindings_def VaultServerVersions_def Services_def Deployments_def PersistentVolumeClaims_def

text \<open>What every client promises: it decodes what it encodes, and only that.\<close>

locale typed_client =
  fixes c :: "'o client"
  assumes prj_inj: "cl_prj c (cl_inj c x) = Some x"
    and inj_prj: "cl_prj c ob = Some x \<Longrightarrow> ob = cl_inj c x"
    and kind_inj [simp]: "objKind (cl_inj c x) = cl_Kind c"
begin

lemma inj_eq [simp]: "cl_inj c x = cl_inj c y \<longleftrightarrow> x = y"
  by (metis option.inject prj_inj)

text \<open>A faithful answer to a read is what the typed client returns.\<close>

lemma apiGet_answer:
  "kube_answer env t (KGet (cl_Kind c) ns n) = Inr (cl_inj c x) \<Longrightarrow>
     apiGet c ns n env t = (Ok x, t @ [Kube (KGet (cl_Kind c) ns n) (Inr (cl_inj c x))])"
  by (simp add: apiGet_def kubeCall_def prj_inj)

lemma apiGet_Ok:
  "apiGet c ns n env t = (Ok x, t') \<Longrightarrow> kube_answer env t (KGet (cl_Kind c) ns n) = Inr (cl_inj c x)"
  by (auto simp: apiGet_def kubeCall_def Let_def inj_prj split: sum.splits option.splits)

text \<open>What a patch that changes something sends, and what it does not send otherwise.\<close>

lemma Patch_unchanged: "f x = x \<Longrightarrow> Patch c x f env t = (Ok x, t)"
  by (simp add: Patch_def PatchObject_def ret_def)

lemma Patch_sent:
  "f x \<noteq> x \<Longrightarrow> \<exists>a. snd (Patch c x f env t) = t @ [Kube (KPatch (cl_inj c x) (cl_inj c (f x))) a]"
  by (simp add: Patch_def PatchObject_def apiPatch_def kubeCall_def Let_def)

end

interpretation AWSAccessKeyRequests: typed_client AWSAccessKeyRequests
  by unfold_locales (auto simp: AWSAccessKeyRequests_def split: obj.splits)

interpretation AzureAccessKeyRequests: typed_client AzureAccessKeyRequests
  by unfold_locales (auto simp: AzureAccessKeyRequests_def split: obj.splits)

interpretation GCPAccessKeyRequests: typed_client GCPAccessKeyRequests
  by unfold_locales (auto simp: GCPAccessKeyRequests_def split: obj.splits)

interpretation DatabaseAccessRequests: typed_client DatabaseAccessRequests
  by unfold_locales (auto simp: DatabaseAccessRequests_def split: obj.splits)

interpretation AWSRoles: typed_client AWSRoles
  by unfold_locales (auto simp: AWSRoles_def split: obj.splits)

interpretation AzureRoles: typed_client AzureRoles
  by unfold_locales (auto simp: AzureRoles_def split: obj.splits)

interpretation GCPRoles: typed_client GCPRoles
  by unfold_locales (auto simp: GCPRoles_def split: obj.splits)

interpretation MongoDBRoles: typed_client MongoDBRoles
  by unfold_locales (auto simp: MongoDBRoles_def split: obj.splits)

interpretation MySQLRoles: typed_client MySQLRoles
  by unfold_locales (auto simp: MySQLRoles_def split: obj.splits)

interpretation PostgresRoles: typed_client PostgresRoles
  by unfold_locales (auto simp: PostgresRoles_def split: obj.splits)

interpretation SecretEngines: typed_client SecretEngines
  by unfold_locales (auto simp: SecretEngines_def split: obj.splits)

interpretation VaultPolicies: typed_client VaultPolicies
  by unfold_locales (auto simp: VaultPolicies_def split: obj.splits)

interpretation VaultPolicyBindings: typed_client VaultPolicyBindings
  by unfold_locales (auto simp: VaultPolicyBindings_def split: obj.splits)

interpretation VaultServers: typed_client VaultServers
  by unfold_locales (auto simp: VaultServers_def split: obj.splits)

interpretation Secrets: typed_client Secrets
  by unfold_locales (auto simp: Secrets_def split: obj.splits)

interpretation ConfigMaps: typed_client ConfigMaps
  by unfold_locales (auto simp: ConfigMaps_def split: obj.splits)

interpretation ServiceAccounts: typed_client ServiceAccounts
  by unfold_locales (auto simp: ServiceAccounts_def split: obj.splits)

interpretation RbacRoles: typed_client RbacRoles
  by unfold_locales (auto simp: RbacRoles_def split: obj.splits)

interpretation RoleBindings: typed_client RoleBindings
  by unfold_locales (auto simp: RoleBindings_def split: obj.splits)

interpretation ClusterRoleBindings: typed_client ClusterRoleBindings
  by unfold_locales (auto simp: ClusterRoleBindings_def split: obj.splits)

interpretation AppBindings: typed_client AppBindings
  by unfold_locales (auto simp: AppBindings_def split: obj.splits)


interpretation VaultServerVersions: typed_client VaultServerVersions
  by unfold_locales (auto simp: VaultServerVersions_def split: obj.splits)

interpretation Services: typed_client Services
  by unfold_locales (auto simp: Services_def split: obj.splits)

interpretation Deployments: typed_client Deployments
  by unfold_locales (auto simp: Deployments_def split: obj.splits)

interpretation PersistentVolumeClaims: typed_client PersistentVolumeClaims
  by unfold_locales (auto simp: PersistentVolumeClaims_def split: obj.splits)


section \<open>Per-kind helpers\<close>

definition CreateOrPatchAWSAccessKeyRequest :: "ObjectMeta \<Rightarrow> (ObjectMeta \<Rightarrow> AWSAccessKeyRequest) \<Rightarrow> (AWSAccessKeyRequest \<Rightarrow> AWSAccessKeyRequest) \<Rightarrow> AWSAccessKeyRequest go" where
  "CreateOrPatchAWSAccessKeyRequest = CreateOrPatch AWSAccessKeyRequests"

definition PatchAWSAccessKeyRequest :: "AWSAccessKeyRequest \<Rightarrow> (AWSAccessKeyRequest \<Rightarrow> AWSAccessKeyRequest) \<Rightarrow> AWSAccessKeyRequest go" where
  "PatchAWSAccessKeyRequest = Patch AWSAccessKeyRequests"

definition TryUpdateAWSAccessKeyRequest :: "ObjectMeta \<Rightarrow> (AWSAccessKeyRequest \<Rightarrow> AWSAccessKeyRequest) \<Rightarrow> AWSAccessKeyRequest option go" where
  "TryUpdateAWSAccessKeyRequest = TryUpdate AWSAccessKeyRequests"

definition UpdateAWSAccessKeyRequestStatus :: "ObjectMeta \<Rightarrow> (int \<Rightarrow> AccessRequestStatus \<Rightarrow> AccessRequestStatus) \<Rightarrow> AWSAccessKeyRequest go" where
  "UpdateAWSAccessKeyRequestStatus = UpdateStatus AWSAccessKeyRequests"

definition CreateOrPatchAzureAccessKeyRequest :: "ObjectMeta \<Rightarrow> (ObjectMeta \<Rightarrow> AzureAccessKeyRequest) \<Rightarrow> (AzureAccessKeyRequest \<Rightarrow> AzureAccessKeyRequest) \<Rightarrow> AzureAccessKeyRequest go" where
  "CreateOrPatchAzureAccessKeyRequest = CreateOrPatch AzureAccessKeyRequests"

definition PatchAzureAccessKeyRequest :: "AzureAccessKeyRequest \<Rightarrow> (AzureAccessKeyRequest \<Rightarrow> AzureAccessKeyRequest) \<Rightarrow> AzureAccessKeyRequest go" where
  "PatchAzureAccessKeyRequest = Patch AzureAccessKeyRequests"

definition TryUpdateAzureAccessKeyRequest :: "ObjectMeta \<Rightarrow> (AzureAccessKeyRequest \<Rightarrow> AzureAccessKeyRequest) \<Rightarrow> AzureAccessKeyRequest option go" where
  "TryUpdateAzureAccessKeyRequest = TryUpdate AzureAccessKeyRequests"

definition UpdateAzureAccessKeyRequestStatus :: "ObjectMeta \<Rightarrow> (int \<Rightarrow> AccessRequestStatus \<Rightarrow> AccessRequestStatus) \<Rightarrow> AzureAccessKeyRequest go" where
  "UpdateAzureAccessKeyRequestStatus = UpdateStatus AzureAccessKeyRequests"

definition CreateOrPatchGCPAccessKeyRequest :: "ObjectMeta \<Rightarrow> (ObjectMeta \<Rightarrow> GCPAccessKeyRequest) \<Rightarrow> (GCPAccessKeyRequest \<Rightarrow> GCPAccessKeyRequest) \<Rightarrow> GCPAccessKeyRequest go" where
  "CreateOrPatchGCPAccessKeyRequest = CreateOrPatch GCPAccessKeyRequests"

definition PatchGCPAccessKeyRequest :: "GCPAccessKeyRequest \<Rightarrow> (GCPAccessKeyRequest \<Rightarrow> GCPAccessKeyRequest) \<Rightarrow> GCPAccessKeyRequest go" where
  "PatchGCPAccessKeyRequest = Patch GCPAccessKeyRequests"

definition TryUpdateGCPAccessKeyRequest :: "ObjectMeta \<Rightarrow> (GCPAccessKeyRequest \<Rightarrow> GCPAccessKeyRequest) \<Rightarrow> GCPAccessKeyRequest option go" where
  "TryUpdateGCPAccessKeyRequest = TryUpdate GCPAccessKeyRequests"

definition UpdateGCPAccessKeyRequestStatus :: "ObjectMeta \<Rightarrow> (int \<Rightarrow> AccessRequestStatus \<Rightarrow> AccessRequestStatus) \<Rightarrow> GCPAccessKeyRequest go" where
  "UpdateGCPAccessKeyRequestStatus = UpdateStatus GCPAccessKeyRequests"

definition CreateOrPatchDatabaseAccessRequest :: "ObjectMeta \<Rightarrow> (ObjectMeta \<Rightarrow> DatabaseAccessRequest) \<Rightarrow> (DatabaseAccessRequest \<Rightarrow> DatabaseAccessRequest) \<Rightarrow> DatabaseAccessRequest go" where
  "CreateOrPatchDatabaseAccessRequest = CreateOrPatch DatabaseAccessRequests"

definition PatchDatabaseAccessRequest :: "DatabaseAccessRequest \<Rightarrow> (DatabaseAccessRequest \<Rightarrow> DatabaseAccessRequest) \<Rightarrow> DatabaseAccessRequest go" where
  "PatchDatabaseAccessRequest = Patch DatabaseAccessRequests"

definition TryUpdateDatabaseAccessRequest :: "ObjectMeta \<Rightarrow> (DatabaseAccessRequest \<Rightarrow> DatabaseAccessRequest) \<Rightarrow> DatabaseAccessRequest option go" where
  "TryUpdateDatabaseAccessRequest = TryUpdate DatabaseAccessRequests"

definition UpdateDatabaseAccessRequestStatus :: "ObjectMeta \<Rightarrow> (int \<Rightarrow> AccessRequestStatus \<Rightarrow> AccessRequestStatus) \<Rightarrow> DatabaseAccessRequest go" where
  "UpdateDatabaseAccessRequestStatus = UpdateStatus DatabaseAccessRequests"

definition CreateOrPatchAWSRole :: "ObjectMeta \<Rightarrow> (ObjectMeta \<Rightarrow> AWSRole) \<Rightarrow> (AWSRole \<Rightarrow> AWSRole) \<Rightarrow> AWSRole go" where
  "CreateOrPatchAWSRole = CreateOrPatch AWSRoles"

definition PatchAWSRole :: "AWSRole \<Rightarrow> (AWSRole \<Rightarrow> AWSRole) \<Rightarrow> AWSRole go" where
  "PatchAWSRole = Patch AWSRoles"

definition TryUpdateAWSRole :: "ObjectMeta \<Rightarrow> (AWSRole \<Rightarrow> AWSRole) \<Rightarrow> AWSRole option go" where
  "TryUpdateAWSRole = TryUpdate AWSRoles"

definition UpdateAWSRoleStatus :: "ObjectMeta \<Rightarrow> (int \<Rightarrow> RoleStatus \<Rightarrow> RoleStatus) \<Rightarrow> AWSRole go" where
  "UpdateAWSRoleStatus = UpdateStatus AWSRoles"

definition CreateOrPatchAzureRole :: "ObjectMeta \<Rightarrow> (ObjectMeta \<Rightarrow> AzureRole) \<Rightarrow> (AzureRole \<Rightarrow> AzureRole) \<Rightarrow> AzureRole go" where
  "CreateOrPatchAzureRole = CreateOrPatch AzureRoles"

definition PatchAzureRole :: "AzureRole \<Rightarrow> (AzureRole \<Rightarrow> AzureRole) \<Rightarrow> AzureRole go" where
  "PatchAzureRole = Patch AzureRoles"

definition TryUpdateAzureRole :: "ObjectMeta \<Rightarrow> (AzureRole \<Rightarrow> AzureRole) \<Rightarrow> AzureRole option go" where
  "TryUpdateAzureRole = TryUpdate AzureRoles"

definition UpdateAzureRoleStatus :: "ObjectMeta \<Rightarrow> (int \<Rightarrow> RoleStatus \<Rightarrow> RoleStatus) \<Rightarrow> AzureRole go" where
  "UpdateAzureRoleStatus = UpdateStatus AzureRoles"

definition CreateOrPatchGCPRole :: "ObjectMeta \<Rightarrow> (ObjectMeta \<Rightarrow> GCPRole) \<Rightarrow> (GCPRole \<Rightarrow> GCPRole) \<Rightarrow> GCPRole go" where
  "CreateOrPatchGCPRole = CreateOrPatch GCPRoles"

definition PatchGCPRole :: "GCPRole \<Rightarrow> (GCPRole \<Rightarrow> GCPRole) \<Rightarrow> GCPRole go" where
  "PatchGCPRole = Patch GCPRoles"

definition TryUpdateGCPRole :: "ObjectMeta \<Rightarrow> (GCPRole \<Rightarrow> GCPRole) \<Rightarrow> GCPRole option go" where
  "TryUpdateGCPRole = TryUpdate GCPRoles"

definition UpdateGCPRoleStatus :: "ObjectMeta \<Rightarrow> (int \<Rightarrow> RoleStatus \<Rightarrow> RoleStatus) \<Rightarrow> GCPRole go" where
  "UpdateGCPRoleStatus = UpdateStatus GCPRoles"

definition CreateOrPatchMongoDBRole :: "ObjectMeta \<Rightarrow> (ObjectMeta \<Rightarrow> MongoDBRole) \<Rightarrow> (MongoDBRole \<Rightarrow> MongoDBRole) \<Rightarrow> MongoDBRole go" where
  "CreateOrPatchMongoDBRole = CreateOrPatch MongoDBRoles"

definition PatchMongoDBRole :: "MongoDBRole \<Rightarrow> (MongoDBRole \<Rightarrow> MongoDBRole) \<Rightarrow> MongoDBRole go" where
  "PatchMongoDBRole = Patch MongoDBRoles"

definition TryUpdateMongoDBRole :: "ObjectMeta \<Rightarrow> (MongoDBRole \<Rightarrow> MongoDBRole) \<Rightarrow> MongoDBRole option go" where
  "TryUpdateMongoDBRole = TryUpdate MongoDBRoles"

definition UpdateMongoDBRoleStatus :: "ObjectMeta \<Rightarrow> (int \<Rightarrow> RoleStatus \<Rightarrow> RoleStatus) \<Rightarrow> MongoDBRole go" where
  "UpdateMongoDBRoleStatus = UpdateStatus MongoDBRoles"

definition CreateOrPatchMySQLRole :: "ObjectMeta \<Rightarrow> (ObjectMeta \<Rightarrow> MySQLRole) \<Rightarrow> (MySQLRole \<Rightarrow> MySQLRole) \<Rightarrow> MySQLRole go" where
  "CreateOrPatchMySQLRole = CreateOrPatch MySQLRoles"

definition PatchMySQLRole :: "MySQLRole \<Rightarrow> (MySQLRole \<Rightarrow> MySQLRole) \<Rightarrow> MySQLRole go" where
  "PatchMySQLRole = Patch MySQLRoles"

definition TryUpdateMySQLRole :: "ObjectMeta \<Rightarrow> (MySQLRole \<Rightarrow> MySQLRole) \<Rightarrow> MySQLRole option go" where
  "TryUpdateMySQLRole = TryUpdate MySQLRoles"

definition UpdateMySQLRoleStatus :: "ObjectMeta \<Rightarrow> (int \<Rightarrow> RoleStatus \<Rightarrow> RoleStatus) \<Rightarrow> MySQLRole go" where
  "UpdateMySQLRoleStatus = UpdateStatus MySQLRoles"

definition CreateOrPatchPostgresRole :: "ObjectMeta \<Rightarrow> (ObjectMeta \<Rightarrow> PostgresRole) \<Rightarrow> (PostgresRole \<Rightarrow> PostgresRole) \<Rightarrow> PostgresRole go" where
  "CreateOrPatchPostgresRole = CreateOrPatch PostgresRoles"

definition PatchPostgresRole :: "PostgresRole \<Rightarrow> (PostgresRole \<Rightarrow> PostgresRole) \<Rightarrow> PostgresRole go" where
  "PatchPostgresRole = Patch PostgresRoles"

definition TryUpdatePostgresRole :: "ObjectMeta \<Rightarrow> (PostgresRole \<Rightarrow> PostgresRole) \<Rightarrow> PostgresRole option go" where
  "TryUpdatePostgresRole = TryUpdate PostgresRoles"

definition UpdatePostgresRoleStatus :: "ObjectMeta \<Rightarrow> (int \<Rightarrow> RoleStatus \<Rightarrow> RoleStatus) \<Rightarrow> PostgresRole go" where
  "UpdatePostgresRoleStatus = UpdateStatus PostgresRoles"

definition CreateOrPatchSecretEngine :: "ObjectMeta \<Rightarrow> (ObjectMeta \<Rightarrow> SecretEngine) \<Rightarrow> (SecretEngine \<Rightarrow> SecretEngine) \<Rightarrow> SecretEngine go" where
  "CreateOrPatchSecretEngine = CreateOrPatch SecretEngines"

definition PatchSecretEngine :: "SecretEngine \<Rightarrow> (SecretEngine \<Rightarrow> SecretEngine) \<Rightarrow> SecretEngine go" where
  "PatchSecretEngine = Patch SecretEngines"

definition TryUpdateSecretEngine :: "ObjectMeta \<Rightarrow> (SecretEngine \<Rightarrow> SecretEngine) \<Rightarrow> SecretEngine option go" where
  "TryUpdateSecretEngine = TryUpdate SecretEngines"

definition UpdateSecretEngineStatus :: "ObjectMeta \<Rightarrow> (int \<Rightarrow> RoleStatus \<Rightarrow> RoleStatus) \<Rightarrow> SecretEngine go" where
  "UpdateSecretEngineStatus = UpdateStatus SecretEngines"

definition CreateOrPatchVaultPolicy :: "ObjectMeta \<Rightarrow> (ObjectMeta \<Rightarrow> VaultPolicy) \<Rightarrow> (VaultPolicy \<Rightarrow> VaultPolicy) \<Rightarrow> VaultPolicy go" where
  "CreateOrPatchVaultPolicy = CreateOrPatch VaultPolicies"

definition PatchVaultPolicy :: "VaultPolicy \<Rightarrow> (VaultPolicy \<Rightarrow> VaultPolicy) \<Rightarrow> VaultPolicy go" where
  "PatchVaultPolicy = Patch VaultPolicies"

definition TryUpdateVaultPolicy :: "ObjectMeta \<Rightarrow> (VaultPolicy \<Rightarrow> VaultPolicy) \<Rightarrow> VaultPolicy option go" where
  "TryUpdateVaultPolicy = TryUpdate VaultPolicies"

definition UpdateVaultPolicyStatus :: "ObjectMeta \<Rightarrow> (int \<Rightarrow> RoleStatus \<Rightarrow> RoleStatus) \<Rightarrow> VaultPolicy go" where
  "UpdateVaultPolicyStatus = UpdateStatus VaultPolicies"

definition CreateOrPatchVaultPolicyBinding :: "ObjectMeta \<Rightarrow> (ObjectMeta \<Rightarrow> VaultPolicyBinding) \<Rightarrow> (VaultPolicyBinding \<Rightarrow> VaultPolicyBinding) \<Rightarrow> VaultPolicyBinding go" where
  "CreateOrPatchVaultPolicyBinding = CreateOrPatch VaultPolicyBindings"

definition PatchVaultPolicyBinding :: "VaultPolicyBinding \<Rightarrow> (VaultPolicyBinding \<Rightarrow> VaultPolicyBinding) \<Rightarrow> VaultPolicyBinding go" where
  "PatchVaultPolicyBinding = Patch VaultPolicyBindings"

definition TryUpdateVaultPolicyBinding :: "ObjectMeta \<Rightarrow> (VaultPolicyBinding \<Rightarrow> VaultPolicyBinding) \<Rightarrow> VaultPolicyBinding option go" where
  "TryUpdateVaultPolicyBinding = TryUpdate VaultPolicyBindings"

definition UpdateVaultPolicyBindingStatus :: "ObjectMeta \<Rightarrow> (int \<Rightarrow> RoleStatus \<Rightarrow> RoleStatus) \<Rightarrow> VaultPolicyBinding go" where
  "UpdateVaultPolicyBindingStatus = UpdateStatus VaultPolicyBindings"

definition CreateOrPatchVaultServer :: "ObjectMeta \<Rightarrow> (ObjectMeta \<Rightarrow> VaultServer) \<Rightarrow> (VaultServer \<Rightarrow> VaultServer) \<Rightarrow> VaultServer go" where
  "CreateOrPatchVaultServer = CreateOrPatch VaultServers"

definition PatchVaultServer :: "VaultServer \<Rightarrow> (VaultServer \<Rightarrow> VaultServer) \<Rightarrow> VaultServer go" where
  "PatchVaultServer = Patch VaultServers"

definition TryUpdateVaultServer :: "ObjectMeta \<Rightarrow> (VaultServer \<Rightarrow> VaultServer) \<Rightarrow> VaultServer option go" where
  "TryUpdateVaultServer = TryUpdate VaultServers"

definition UpdateVaultServerStatus :: "ObjectMeta \<Rightarrow> (int \<Rightarrow> VaultServerStatus \<Rightarrow> VaultServerStatus) \<Rightarrow> VaultServer go" where
  "UpdateVaultServerStatus = UpdateStatus VaultServers"

lemmas util_defs =
  CreateOrPatchAWSAccessKeyRequest_def PatchAWSAccessKeyRequest_def TryUpdateAWSAccessKeyRequest_def UpdateAWSAccessKeyRequestStatus_def
  CreateOrPatchAzureAccessKeyRequest_def PatchAzureAccessKeyRequest_def TryUpdateAzureAccessKeyRequest_def UpdateAzureAccessKeyRequestStatus_def
  CreateOrPatchGCPAccessKeyRequest_def PatchGCPAccessKeyRequest_def TryUpdateGCPAccessKeyRequest_def UpdateGCPAccessKeyRequestStatus_def
  CreateOrPatchDatabaseAccessRequest_def PatchDatabaseAccessRequest_def TryUpdateDatabaseAccessRequest_def UpdateDatabaseAccessRequestStatus_def
  CreateOrPatchAWSRole_def PatchAWSRole_def TryUpdateAWSRole_def UpdateAWSRoleStatus_def
  CreateOrPatchAzureRole_def PatchAzureRole_def TryUpdateAzureRole_def UpdateAzureRoleStatus_def
  CreateOrPatchGCPRole_def PatchGCPRole_def TryUpdateGCPRole_def UpdateGCPRoleStatus_def
  CreateOrPatchMongoDBRole_def PatchMongoDBRole_def TryUpdateMongoDBRole_def UpdateMongoDBRoleStatus_def
  CreateOrPatchMySQLRole_def PatchMySQLRole_def TryUpdateMySQLRole_def UpdateMySQLRoleStatus_def
  CreateOrPatchPostgresRole_def PatchPostgresRole_def TryUpdatePostgresRole_def UpdatePostgresRoleStatus_def
  CreateOrPatchSecretEngine_def PatchSecretEngine_def TryUpdateSecretEngine_def UpdateSecretEngineStatus_def
  CreateOrPatchVaultPolicy_def PatchVaultPolicy_def TryUpdateVaultPolicy_def UpdateVaultPolicyStatus_def
  CreateOrPatchVaultPolicyBinding_def PatchVaultPolicyBinding_def TryUpdateVaultPolicyBinding_def UpdateVaultPolicyBindingStatus_def
  CreateOrPatchVaultServer_def PatchVaultServer_def TryUpdateVaultServer_def UpdateVaultServerStatus_def

end
