(* ===== verification/Vault_Auth.thy ===== *)
theory Vault_Auth
  imports Clients
begin

text \<open>
  How the operator gets a Vault client: from the AppBinding of the Vault
  server it reads the address and the authentication information, picks the
  authentication method, logs in and keeps the token.
  An \<open>AuthInterface\<close> value is represented by its only method \<open>Login\<close>.
  Signing a request with a cloud SDK is an \<open>Ext\<close> call.
\<close>

section \<open>Client configuration from an AppBinding\<close>

definition urlString :: "string \<Rightarrow> string \<Rightarrow> string \<Rightarrow> string \<Rightarrow> string" where
  "urlString scheme host path query =
     (if scheme = '''' then '''' else scheme @ '':'') @ ''//'' @ host
     @ (if path \<noteq> '''' \<and> hd path \<noteq> CHR ''/'' then ''/'' else '''') @ path
     @ (if query = '''' then '''' else ''?'' @ query)"

definition AppBinding_URL :: "AppBinding \<Rightarrow> error + string" where
  "AppBinding_URL a = (let c = ab_ClientConfig a in
     case cc_URL c of
       Some u \<Rightarrow> Inr u
     | None \<Rightarrow> (case cc_Service c of
         Some s \<Rightarrow> Inr (urlString (svcref_Scheme s)
             (svcref_Name s @ ''.'' @ Namespace (ab_Meta a) @ ''.svc:'' @ string_of_int (svcref_Port s))
             (svcref_Path s) (svcref_Query s))
       | None \<Rightarrow> Inl (Plain ''connection url is missing'')))"

definition AppBinding_Hostname :: "(string \<Rightarrow> error + string) \<Rightarrow> AppBinding \<Rightarrow> error + string" where
  "AppBinding_Hostname parse a = (let c = ab_ClientConfig a in
     case cc_Service c of
       Some s \<Rightarrow> Inr (svcref_Name s @ ''.'' @ Namespace (ab_Meta a) @ ''.svc'')
     | None \<Rightarrow> (case cc_URL c of
         Some u \<Rightarrow> parse u
       | None \<Rightarrow> Inl (Plain ''connection url is missing'')))"

text \<open>
  The configuration a Vault client is built from: the address, whether the
  server certificate is checked and the name it is checked against.
\<close>

record VaultConfig =
  cfg_Address :: string
  cfg_InsecureSkipVerify :: bool
  cfg_RootCAs :: string
  cfg_ServerName :: string

definition VaultConfigFromAppBinding :: "AppBinding \<Rightarrow> VaultConfig go" where
  "VaultConfigFromAppBinding app =
     (let clientCfg = ab_ClientConfig app in
      andThen (liftE (AppBinding_URL app)) (\<lambda>address.
      andThen (ask pem_ok) (\<lambda>AppendCertsFromPEM.
      andThen (guard (\<not> cc_InsecureSkipTLSVerify clientCfg \<and> cc_CABundle clientCfg \<noteq> ''''
                 \<and> \<not> AppendCertsFromPEM (cc_CABundle clientCfg))
              (Plain ''error loading CA File: couldn't parse PEM data in CA bundle'')) (\<lambda>_.
      andThen (ask url_hostname) (\<lambda>url_Parse.
      andThen (liftE (AppBinding_Hostname url_Parse app)) (\<lambda>server.
      ret \<lparr>cfg_Address = address, cfg_InsecureSkipVerify = cc_InsecureSkipTLSVerify clientCfg,
           cfg_RootCAs = (if cc_InsecureSkipTLSVerify clientCfg then '''' else cc_CABundle clientCfg),
           cfg_ServerName = server\<rparr>))))))"

text \<open>\<open>vaultapi.NewClient\<close>, a client without a token.\<close>

definition NewVaultClient :: "VaultConfig \<Rightarrow> VaultClient go" where
  "NewVaultClient cfg =
     andThen (ask new_client_error) (\<lambda>NewClient_error.
       case NewClient_error (cfg_Address cfg) of
         Some e \<Rightarrow> fail e
       | None \<Rightarrow> ret \<lparr>vc_Address = cfg_Address cfg, vc_Token = ''''\<rparr>)"

text \<open>The client every authentication method starts from.\<close>

definition clientFor :: "AppBinding \<Rightarrow> string \<Rightarrow> VaultClient go" where
  "clientFor app msg =
     andThen (wrapErr ''failed to create vault config from AppBinding'' (VaultConfigFromAppBinding app))
       (\<lambda>cfg. wrapErr msg (NewVaultClient cfg))"


section \<open>Authentication information\<close>

record AuthInfo =
  ai_VaultApp :: AppBinding
  ai_ServiceAccountRef :: "(string \<times> string) option"
  ai_Secret :: "Secret option"
  ai_Azure :: "AzureAuthConfig option"
  ai_AWS :: "AWSAuthConfig option"
  ai_VaultRole :: string
  ai_Path :: string

definition GetAuthInfoFromAppBinding :: "AppBinding \<Rightarrow> AuthInfo go" where
  "GetAuthInfoFromAppBinding vApp =
     (let ns = Namespace (ab_Meta vApp);
          empty = \<lparr>vsc_Path = '''', vsc_VaultRole = '''', vsc_Kubernetes = None,
                   vsc_Azure = None, vsc_AWS = None\<rparr> in
      andThen (case ab_Parameters vApp of
                 None \<Rightarrow> ret empty
               | Some (Inl e) \<Rightarrow> fail (Wrapped ''failed to unmarshal parameters'' e)
               | Some (Inr c) \<Rightarrow> ret c) (\<lambda>cf.
      let sa = (case vsc_Kubernetes cf of
                  Some k \<Rightarrow> if kac_ServiceAccountName k \<noteq> '''' then Some (ns, kac_ServiceAccountName k)
                            else None
                | None \<Rightarrow> None) in
      andThen (case ab_Secret vApp of
                 None \<Rightarrow> ret None
               | Some n \<Rightarrow> andThen (wrapErr (''failed to get secret '' @ slash ns n) (apiGet Secrets ns n))
                             (\<lambda>s. ret (Some s))) (\<lambda>secret.
      ret \<lparr>ai_VaultApp = vApp, ai_ServiceAccountRef = sa, ai_Secret = secret,
           ai_Azure = vsc_Azure cf, ai_AWS = vsc_AWS cf,
           ai_VaultRole = vsc_VaultRole cf, ai_Path = vsc_Path cf\<rparr>)))"


section \<open>Service account tokens\<close>

text \<open>The first token secret that exists; an error other than not-found ends the search.\<close>

fun firstSecret :: "string \<Rightarrow> string list \<Rightarrow> Secret go" where
  "firstSecret ns [] = fail (Plain ''token secret is not available'')"
| "firstSecret ns (s # ss) = attempt (apiGet Secrets ns s)
     (\<lambda>err. if \<not> IsNotFound err then fail err else firstSecret ns ss) ret"

definition GetJwtTokenSecretFromServiceAccount :: "string \<Rightarrow> string \<Rightarrow> Secret go" where
  "GetJwtTokenSecretFromServiceAccount n ns =
     andThen (apiGet ServiceAccounts ns n) (\<lambda>sa.
       if sa_Secrets sa = [] then fail (Plain ''token secret still haven't created yet'')
       else firstSecret ns (sa_Secrets sa))"

text \<open>The captured variables are the secret and the error of the last attempt.\<close>

definition tryGetJwtOnce :: "string \<Rightarrow> string \<Rightarrow> Secret option \<times> error option
    \<Rightarrow> ((Secret option \<times> error option) \<times> poll) go" where
  "tryGetJwtOnce n ns s = attempt (GetJwtTokenSecretFromServiceAccount n ns)
     (\<lambda>err. ret ((None, Some err), Again)) (\<lambda>secret. ret ((Some secret, None), Done))"

definition TryGetJwtTokenSecretNameFromServiceAccount :: "string \<Rightarrow> string \<Rightarrow> Secret option go" where
  "TryGetJwtTokenSecretNameFromServiceAccount n ns =
     andThen pollTicks (\<lambda>ticks.
     andThen (PollImmediate ticks (tryGetJwtOnce n ns) (None, None)) (\<lambda>((secret, err), err2).
       case err2 of
         Some e2 \<Rightarrow> (case errors_Wrap err (Error e2) of Some e \<Rightarrow> fail e | None \<Rightarrow> ret None)
       | None \<Rightarrow> ret secret))"


section \<open>Logging in\<close>

text \<open>
  \<open>loginResp.Auth.ClientToken\<close>: the \<open>auth\<close> member is a pointer, nil when the
  response has none.
\<close>

definition loginToken :: "VaultResponse \<Rightarrow> string go" where
  "loginToken resp =
     andThen (liftE (decodeBody (Body resp))) (\<lambda>j.
       case jfield ''auth'' j of
         JNull \<Rightarrow> panic ''invalid memory address or nil pointer dereference''
       | JObject m \<Rightarrow> liftE (jstring (jfield ''client_token'' (JObject m)))
       | _ \<Rightarrow> fail (Plain ''json: cannot unmarshal into Go value of type types.Auth''))"

definition postLogin :: "VaultClient \<Rightarrow> string \<Rightarrow> (string \<times> json) list \<Rightarrow> string go" where
  "postLogin vc path payload =
     andThen (rawRequest_ok (NewRequest vc ''POST'' path (Some (JObject payload)))) loginToken"

definition loginPath :: "string \<Rightarrow> string" where
  "loginPath path = ''/v1/auth/'' @ path @ ''/login''"

definition jwtLogin :: "VaultClient \<Rightarrow> string \<Rightarrow> string \<Rightarrow> string \<Rightarrow> string go" where
  "jwtLogin vc jwt role path =
     postLogin vc (loginPath path) [(''jwt'', JString jwt), (''role'', JString role)]"

text \<open>\<open>authInfo.Path\<close> overrides the default mount path of a method.\<close>

definition authPath :: "AuthInfo \<Rightarrow> string \<Rightarrow> string" where
  "authPath info dflt = (if ai_Path info \<noteq> '''' then ai_Path info else dflt)"

type_synonym AuthInterface = "string go"

definition tokenauth_New :: "AuthInfo \<Rightarrow> AuthInterface go" where
  "tokenauth_New info =
     andThen (orFail (Plain ''authentication secret is missing'') (ai_Secret info)) (\<lambda>secret.
     andThen (orFail (Plain ''token is missing'') (map_of (sec_Data secret) ''token'')) (\<lambda>token.
     ret (ret token)))"

definition basicauth_New :: "AuthInfo \<Rightarrow> AuthInterface go" where
  "basicauth_New info =
     andThen (clientFor (ai_VaultApp info) ''failed to create vault client'') (\<lambda>vc.
     andThen (orFail (Plain ''authentication secret is missing'') (ai_Secret info)) (\<lambda>secret.
     andThen (orFail (Plain ''username is missing'') (map_of (sec_Data secret) ''username'')) (\<lambda>user.
     andThen (orFail (Plain ''password is missing'') (map_of (sec_Data secret) ''password'')) (\<lambda>pass.
     ret (postLogin vc (loginPath (authPath info AuthTypeUserPass) @ ''/'' @ user)
            [(''password'', JString pass)])))))"

definition certauth_New :: "AuthInfo \<Rightarrow> AuthInterface go" where
  "certauth_New info =
     andThen (wrapErr ''failed to create vault config from AppBinding''
                (VaultConfigFromAppBinding (ai_VaultApp info))) (\<lambda>cfg.
     andThen (orFail (Plain ''authentication secret is missing'') (ai_Secret info)) (\<lambda>secret.
     andThen (wrapErr ''failed to create vault client''
                (NewVaultClient (cfg\<lparr>cfg_InsecureSkipVerify := True\<rparr>))) (\<lambda>vc.
     ret (postLogin vc (loginPath (authPath info AuthTypeCert))
            [(''name'', JString (ai_VaultRole info))]))))"

definition k8sauth_New :: "AuthInfo \<Rightarrow> AuthInterface go" where
  "k8sauth_New info =
     andThen (clientFor (ai_VaultApp info) ''failed to create vault client'') (\<lambda>vc.
     andThen (orFail (Plain ''authentication secret is missing'') (ai_Secret info)) (\<lambda>secret.
     andThen (orFail (Plain ''jwt is missing'') (map_of (sec_Data secret) ''token'')) (\<lambda>jwt.
     andThen (guard (ai_VaultRole info = '''') (Plain ''Vault role is empty'')) (\<lambda>_.
     ret (jwtLogin vc jwt (ai_VaultRole info) (authPath info AuthTypeKubernetes))))))"

text \<open>
  When the Vault role is empty, \<open>saauth.New\<close> and \<open>awsauth.New\<close> return
  \<open>errors.Wrap(err, ...)\<close> with \<open>err\<close> nil, that is a nil pointer and no error;
  calling \<open>Login\<close> on it dereferences nil.
\<close>

definition nilAuth :: AuthInterface where
  "nilAuth = panic ''invalid memory address or nil pointer dereference''"

definition returnWrapped :: "error option \<Rightarrow> string \<Rightarrow> AuthInterface go" where
  "returnWrapped err msg = (case errors_Wrap err msg of Some e \<Rightarrow> fail e | None \<Rightarrow> ret nilAuth)"

definition saauth_New :: "AuthInfo \<Rightarrow> AuthInterface go" where
  "saauth_New info =
     andThen (clientFor (ai_VaultApp info) ''failed to create vault client'') (\<lambda>vc.
     andThen (orFail (Plain ''service account reference is empty'') (ai_ServiceAccountRef info)) (\<lambda>(ns, n).
     andThen (guard (n = '''' \<or> ns = '''')
                (Plain ''name or namespace is missing in service account reference'')) (\<lambda>_.
     andThen (wrapErr (''failed to get jwt token secret of service account '' @ slash ns n)
                (TryGetJwtTokenSecretNameFromServiceAccount n ns)) (\<lambda>secret.
     case secret of None \<Rightarrow> panic ''invalid memory address or nil pointer dereference''
     | Some s \<Rightarrow>
     andThen (orFail (Plain ''jwt is missing'') (map_of (sec_Data s) ''token'')) (\<lambda>jwt.
     if ai_VaultRole info = '''' then returnWrapped None ''VaultRole is empty''
     else ret (jwtLogin vc jwt (ai_VaultRole info) (authPath info AuthTypeKubernetes)))))))"

text \<open>
  \<open>aws\<close>: the SDK resolves the credentials and signs a \<open>GetCallerIdentity\<close>
  request; the \<open>Ext\<close> calls return the parts of the signed request in the
  base64 form the code puts in the payload.
\<close>

definition generateLoginData :: "string \<Rightarrow> string \<Rightarrow> (string \<times> json) list go" where
  "generateLoginData creds header =
     andThen (extCall ''sts.GetCallerIdentityRequest.Sign'' [creds, header]) (\<lambda>req.
     andThen (extCall ''HTTPRequest.Header'' [req]) (\<lambda>headersJson.
     andThen (extCall ''HTTPRequest.Body'' [req]) (\<lambda>requestBody.
     andThen (extCall ''HTTPRequest.Method'' [req]) (\<lambda>method.
     andThen (extCall ''HTTPRequest.URL'' [req]) (\<lambda>url.
     ret [(''iam_http_request_method'', JString method), (''iam_request_url'', JString url),
          (''iam_request_headers'', JString headersJson), (''iam_request_body'', JString requestBody)])))))"

definition awsauth_Login :: "VaultClient \<Rightarrow> string \<Rightarrow> string \<Rightarrow> string \<Rightarrow> string \<Rightarrow> string go" where
  "awsauth_Login vc creds header role path =
     andThen (wrapErr ''failed to generate login data'' (generateLoginData creds header))
       (\<lambda>loginData. postLogin vc (loginPath path) (loginData @ [(''role'', JString role)]))"

definition awsauth_New :: "AuthInfo \<Rightarrow> AuthInterface go" where
  "awsauth_New info =
     andThen (clientFor (ai_VaultApp info) ''failed to create vault client'') (\<lambda>vc.
     andThen (orFail (Plain ''authentication secret is missing'') (ai_Secret info)) (\<lambda>secret.
     andThen (orFail (Plain ''access_key_id is missing'') (map_of (sec_Data secret) ''access_key_id'')) (\<lambda>keyId.
     andThen (orFail (Plain ''secret_access_key is missing'') (map_of (sec_Data secret) ''secret_access_key'')) (\<lambda>key.
     let token = (case map_of (sec_Data secret) ''security_token'' of Some s \<Rightarrow> s | None \<Rightarrow> '''');
         headerValue = (case ai_AWS info of Some a \<Rightarrow> awsac_HeaderValue a | None \<Rightarrow> '''') in
     andThen (wrapErr ''failed to retrieve credentials'' (extCall ''awsutil.GenerateCredentialChain'' [keyId, key, token]))
       (\<lambda>creds.
     if ai_VaultRole info = '''' then returnWrapped None ''Vault role is empty''
     else ret (awsauth_Login vc creds headerValue (ai_VaultRole info) (authPath info AuthTypeAws)))))))"

definition gcpauth_New :: "AuthInfo \<Rightarrow> AuthInterface go" where
  "gcpauth_New info =
     andThen (clientFor (ai_VaultApp info) ''failed to create vault client'') (\<lambda>vc.
     andThen (orFail (Plain ''authentication secret is missing'') (ai_Secret info)) (\<lambda>secret.
     andThen (orFail (Plain ''google service account credential (i.e. sa.json) is missing'')
                (map_of (sec_Data secret) ''sa.json'')) (\<lambda>saJson.
     andThen (guard (ai_VaultRole info = '''') (Plain ''Vault role is empty'')) (\<lambda>_.
     andThen (wrapErr ''credential Unmarshal failed!'' (extCall ''json.Unmarshal(credentialsFile)'' [saJson])) (\<lambda>cred.
     andThen (wrapErr ''JWT generation failed!'' (extCall ''iam.SignJwt'' [cred, ai_VaultRole info])) (\<lambda>jwt.
     ret (postLogin vc (loginPath (authPath info AuthTypeGcp))
            [(''role'', JString (ai_VaultRole info)), (''jwt'', JString jwt)])))))))"

definition optField :: "string \<Rightarrow> string \<Rightarrow> (string \<times> json) list" where
  "optField k v = (if v \<noteq> '''' then [(k, JString v)] else [])"

definition azureauth_New :: "AuthInfo \<Rightarrow> AuthInterface go" where
  "azureauth_New info =
     andThen (clientFor (ai_VaultApp info) ''failed to create vault client from config'') (\<lambda>vc.
     andThen (orFail (Plain ''authentication secret is missing'') (ai_Secret info)) (\<lambda>secret.
     andThen (orFail (Plain (''msiToken is missing in '' @ slash (Namespace (sec_Meta secret)) (Name (sec_Meta secret))))
                (map_of (sec_Data secret) ''msiToken'')) (\<lambda>jwt.
     andThen (guard (ai_VaultRole info = '''') (Plain ''Vault role is empty'')) (\<lambda>_.
     ret (postLogin vc (loginPath (authPath info AuthTypeAzure))
       ([(''role'', JString (ai_VaultRole info)), (''jwt'', JString jwt)] @
        (case ai_Azure info of None \<Rightarrow> []
         | Some p \<Rightarrow> optField ''subscription_id'' (azac_SubscriptionID p)
             @ optField ''resource_group_name'' (azac_ResourceGroupName p)
             @ optField ''vm_name'' (azac_VmName p) @ optField ''vmss_name'' (azac_VmssName p))))))))"

definition NewAuth :: "AuthInfo \<Rightarrow> AuthInterface go" where
  "NewAuth info =
     (if ai_ServiceAccountRef info \<noteq> None then saauth_New info
      else case ai_Secret info of
        None \<Rightarrow> fail (Plain ''secret is not provided'')
      | Some s \<Rightarrow>
          if sec_Type s = ''kubernetes.io/basic-auth'' then basicauth_New info
          else if sec_Type s = ''kubernetes.io/tls'' then certauth_New info
          else if sec_Type s = ''kubernetes.io/service-account-token'' then k8sauth_New info
          else if sec_Type s = ''kubevault.com/token'' then tokenauth_New info
          else if sec_Type s = ''kubevault.com/aws'' then awsauth_New info
          else if sec_Type s = ''kubevault.com/gcp'' then gcpauth_New info
          else if sec_Type s = ''kubevault.com/azure'' then azureauth_New info
          else fail (Plain ''Invalid/Unsupported secret type''))"

definition NewClientWithAppBinding :: "AuthInfo \<Rightarrow> VaultClient go" where
  "NewClientWithAppBinding info =
     andThen (wrapErr ''failed to create auth method'' (NewAuth info)) (\<lambda>login.
     andThen (wrapErr ''failed to login'' login) (\<lambda>token.
     andThen (wrapErr ''unable to create vault client config'' (VaultConfigFromAppBinding (ai_VaultApp info))) (\<lambda>cfg.
     attempt (NewVaultClient cfg) (\<lambda>e. fail (WithStack e))
       (\<lambda>vc. ret (vc\<lparr>vc_Token := token\<rparr>)))))"

definition NewClient :: "string \<Rightarrow> string \<Rightarrow> VaultClient go" where
  "NewClient ns n =
     andThen (apiGet AppBindings ns n) (\<lambda>vApp.
     andThen (wrapErr ''failed to get authentication information'' (GetAuthInfoFromAppBinding vApp))
       NewClientWithAppBinding)"


section \<open>The authentication interface\<close>

text \<open>
  The calls authentication may make: reading AppBindings, service accounts and
  secrets, cloud SDK calls, and posting to an \<open>auth\<close> path of Vault.
\<close>

fun authEvent :: "event \<Rightarrow> bool" where
  "authEvent (Kube (KGet k ns n) a) \<longleftrightarrow> k \<in> {''AppBinding'', ''Secret'', ''ServiceAccount''}"
| "authEvent (Kube _ a) \<longleftrightarrow> False"
| "authEvent (Vault r a) \<longleftrightarrow> vr_Method r = ''POST'' \<and> prefix ''/v1/auth/'' (vr_Path r)"
| "authEvent (Ext f args a) \<longleftrightarrow> True"

locale auth_method =
  fixes New :: "AuthInfo \<Rightarrow> AuthInterface go"
  assumes New_emits: "emits authEvent (New info) env"
    and Login_emits: "yields (\<lambda>login. emits authEvent login env) (New info) env"
begin

lemma login_emits: "emits authEvent (andThen (wrapErr m (New info)) (wrapErr m')) env"
  by (rule emits_andThen_yields[where R = "\<lambda>login. emits authEvent login env"])
    (auto intro!: emits_intros New_emits yields_intros Login_emits)

end

lemma kinds [simp]:
  "cl_Kind Secrets = ''Secret''" "cl_Kind AppBindings = ''AppBinding''"
  "cl_Kind ServiceAccounts = ''ServiceAccount''" "cl_Kind RbacRoles = ''Role''"
  "cl_Kind RoleBindings = ''RoleBinding''" "cl_Kind ConfigMaps = ''ConfigMap''"
  "cl_Kind ClusterRoleBindings = ''ClusterRoleBinding''"
  by (simp_all add: client_defs)

lemma emits_VaultConfig [emits_intros]: "emits P (VaultConfigFromAppBinding app) env"
  unfolding VaultConfigFromAppBinding_def Let_def by (intro emits_intros)

lemma emits_NewVaultClient [emits_intros]: "emits P (NewVaultClient cfg) env"
  unfolding NewVaultClient_def by (intro emits_intros)

lemma emits_clientFor [emits_intros]: "emits P (clientFor app msg) env"
  unfolding clientFor_def by (intro emits_intros)

lemma emits_postLogin [emits_intros]:
  "prefix ''/v1/auth/'' path \<Longrightarrow> emits authEvent (postLogin vc path payload) env"
proof -
  have "emits P (loginToken r) env" for P r
    unfolding loginToken_def by (rule emits_andThen) (auto intro!: emits_intros split: json.split)
  then show "prefix ''/v1/auth/'' path \<Longrightarrow> ?thesis"
    unfolding postLogin_def by (auto intro!: emits_intros simp: NewRequest_def)
qed

lemma prefix_loginPath [simp]: "prefix ''/v1/auth/'' (loginPath p)" "prefix ''/v1/auth/'' (loginPath p @ s)"
  by (simp_all add: loginPath_def)

lemma emits_jwtLogin [emits_intros]: "emits authEvent (jwtLogin vc jwt role path) env"
  unfolding jwtLogin_def by (simp add: emits_postLogin)

lemma emits_firstSecret [emits_intros]: "emits authEvent (firstSecret ns ss) env"
  by (induction ns ss rule: firstSecret.induct) (auto intro!: emits_intros)

lemma emits_TryGetJwt [emits_intros]:
  "emits authEvent (TryGetJwtTokenSecretNameFromServiceAccount n ns) env"
  unfolding TryGetJwtTokenSecretNameFromServiceAccount_def tryGetJwtOnce_def
    GetJwtTokenSecretFromServiceAccount_def
  by (intro emits_intros) auto

lemma emits_returnWrapped [emits_intros]: "emits P (returnWrapped err msg) env"
  and yields_returnWrapped [yields_intros]:
    "yields (\<lambda>login. emits P login env) (returnWrapped err msg) env"
  unfolding returnWrapped_def nilAuth_def
  by (cases err; auto intro!: emits_intros yields_intros)+

lemma emits_generateLoginData [emits_intros]: "emits authEvent (generateLoginData creds h) env"
  unfolding generateLoginData_def by (intro emits_intros) auto

lemma emits_awsauth_Login [emits_intros]: "emits authEvent (awsauth_Login vc creds h role path) env"
  unfolding awsauth_Login_def by (intro emits_intros) auto

lemmas auth_New_defs = tokenauth_New_def basicauth_New_def certauth_New_def k8sauth_New_def
  saauth_New_def awsauth_New_def gcpauth_New_def azureauth_New_def

interpretation tokenauth: auth_method tokenauth_New
  by unfold_locales (auto simp: tokenauth_New_def intro!: emits_intros yields_intros)

interpretation basicauth: auth_method basicauth_New
  by unfold_locales (auto simp: basicauth_New_def intro!: emits_intros yields_intros)

interpretation certauth: auth_method certauth_New
  by unfold_locales (auto simp: certauth_New_def intro!: emits_intros yields_intros)

interpretation k8sauth: auth_method k8sauth_New
  by unfold_locales (auto simp: k8sauth_New_def intro!: emits_intros yields_intros)

interpretation saauth: auth_method saauth_New
  by unfold_locales (auto simp: saauth_New_def intro!: emits_intros yields_intros)

interpretation awsauth: auth_method awsauth_New
  by unfold_locales (auto simp: awsauth_New_def intro!: emits_intros yields_intros)

interpretation gcpauth: auth_method gcpauth_New
  by unfold_locales (auto simp: gcpauth_New_def intro!: emits_intros yields_intros)

interpretation azureauth: auth_method azureauth_New
  by unfold_locales (auto simp: azureauth_New_def intro!: emits_intros yields_intros)

text \<open>The method chosen by \<open>NewAuth\<close> keeps the contract of the interface.\<close>

lemmas all_auth_methods = tokenauth.auth_method_axioms basicauth.auth_method_axioms
  certauth.auth_method_axioms k8sauth.auth_method_axioms saauth.auth_method_axioms
  awsauth.auth_method_axioms gcpauth.auth_method_axioms azureauth.auth_method_axioms

interpretation newauth: auth_method NewAuth
  by unfold_locales
    (auto simp: NewAuth_def intro!: emits_intros yields_intros
      all_auth_methods[THEN auth_method.New_emits] all_auth_methods[THEN auth_method.Login_emits])

lemma emits_GetAuthInfo [emits_intros]: "emits authEvent (GetAuthInfoFromAppBinding vApp) env"
  unfolding GetAuthInfoFromAppBinding_def
  by (intro emits_intros) (auto intro!: emits_intros split: option.split sum.split)

lemma emits_NewClientWithAppBinding [emits_intros]: "emits authEvent (NewClientWithAppBinding info) env"
proof -
  let ?rest = "\<lambda>token. andThen (wrapErr ''unable to create vault client config''
      (VaultConfigFromAppBinding (ai_VaultApp info))) (\<lambda>cfg. attempt (NewVaultClient cfg)
        (\<lambda>e. fail (WithStack e)) (\<lambda>vc. ret (vc\<lparr>vc_Token := token\<rparr>)))"
  have "emits authEvent (?rest token) env" for token by (intro emits_intros)
  then show ?thesis
    unfolding NewClientWithAppBinding_def
    by (intro emits_andThen_yields[where R = "\<lambda>login. emits authEvent login env"])
      (auto intro!: emits_intros yields_intros newauth.New_emits newauth.Login_emits)
qed

lemma emits_NewClient [emits_intros]: "emits authEvent (NewClient ns n) env"
  unfolding NewClient_def by (intro emits_intros) auto

text \<open>
  The client talks to the address of the AppBinding, and was built from the
  AppBinding the API server returned.
\<close>

lemma NewClientWithAppBinding_address:
  "yields (\<lambda>vc. AppBinding_URL (ai_VaultApp info) = Inr (vc_Address vc)) (NewClientWithAppBinding info) env"
proof -
  have cfg: "yields (\<lambda>cfg. AppBinding_URL app = Inr (cfg_Address cfg)) (VaultConfigFromAppBinding app) env" for app
    by (auto simp: VaultConfigFromAppBinding_def yields_def go_defs Let_def
        split: sum.splits prod.splits res.splits if_splits)
  have vc: "yields (\<lambda>vc. vc_Address vc = cfg_Address cfg) (NewVaultClient cfg) env" for cfg
    by (auto simp: NewVaultClient_def yields_def go_defs split: option.splits)
  have "yields (\<lambda>vc. AppBinding_URL app = Inr (vc_Address vc))
      (attempt (NewVaultClient cfg) (\<lambda>e. fail (WithStack e)) (\<lambda>vc. ret (vc\<lparr>vc_Token := token\<rparr>))) env"
    if "AppBinding_URL app = Inr (cfg_Address cfg)" for app cfg token
    using vc[of cfg] that by (fastforce simp: yields_def attempt_def go_defs split: prod.splits res.splits)
  then show ?thesis
    unfolding NewClientWithAppBinding_def
    by (intro yields_andThen yields_andThenI[OF yields_wrapErr[OF cfg]])
qed

end
