(* ===== verification/Secret_Getters.thy ===== *)
theory Secret_Getters
  imports Vault_Auth
begin

text \<open>
  The secret engines that read a credential from Vault
  (\<open>pkg/vault/secret/engines\<close>): the struct \<open>SecretInfo\<close> of each of the six
  engines with its constructor, \<open>SetOptions\<close> and \<open>GetSecret\<close>, the interface
  \<open>SecretManager\<close> they implement and the factory that picks one by name.
\<close>

section \<open>Reading a secret\<close>

text \<open>The end of every \<open>GetSecret\<close>: the request is sent and its answer parsed; an empty body is a nil
  secret.\<close>

definition readSecret :: "VaultRequest \<Rightarrow> string \<Rightarrow> VaultSecret option go" where
  "readSecret req msg =
     andThen (wrapErr msg (rawRequest_ok req)) (\<lambda>resp.
       wrapErr ''failed to parse secret from response body'' (liftE (ParseSecret (Body resp))))"

text \<open>The last check of every \<open>GetSecret\<close>: the client may be nil until the options are set.\<close>

definition withClient :: "VaultClient option \<Rightarrow> (VaultClient \<Rightarrow> 'a go) \<Rightarrow> 'a go" where
  "withClient c f = (case c of None \<Rightarrow> fail (Plain ''vault api client is nil'') | Some vc \<Rightarrow> f vc)"

text \<open>\<open>if val, ok := opts[key]; ok { field = val }\<close>\<close>

definition optVal :: "smap \<Rightarrow> string \<Rightarrow> string \<Rightarrow> string" where
  "optVal opts k cur = (case map_of opts k of Some v \<Rightarrow> v | None \<Rightarrow> cur)"

definition RoleKey :: string where "RoleKey = ''role''"
definition PathKey :: string where "PathKey = ''path''"
definition SecretKey :: string where "SecretKey = ''secret''"
definition KeyAlgorithm :: string where "KeyAlgorithm = ''key_algorithm''"
definition KeyType :: string where "KeyType = ''key_type''"
definition GCPSecretType :: string where "GCPSecretType = ''secret_type''"
definition UseSTSKey :: string where "UseSTSKey = ''useSTS''"

lemmas option_keys = RoleKey_def PathKey_def SecretKey_def KeyAlgorithm_def KeyType_def GCPSecretType_def UseSTSKey_def


section \<open>Azure and databases\<close>

record SecretInfo =
  si_Client :: "VaultClient option"
  si_Path :: string
  si_Role :: string

type_synonym DatabaseSecretInfo = SecretInfo

definition azure_NewSecretManager :: SecretInfo where
  "azure_NewSecretManager = \<lparr>si_Client = None, si_Path = '''', si_Role = ''''\<rparr>"

definition azure_NewSecretGetter :: "VaultClient \<Rightarrow> string \<Rightarrow> string \<Rightarrow> SecretInfo" where
  "azure_NewSecretGetter vc path roleName = \<lparr>si_Client = Some vc, si_Path = path, si_Role = roleName\<rparr>"

definition azure_SetOptions :: "VaultClient option \<Rightarrow> smap \<Rightarrow> SecretInfo \<Rightarrow> SecretInfo" where
  "azure_SetOptions c opts s =
     s\<lparr>si_Client := c, si_Role := optVal opts RoleKey (si_Role s), si_Path := optVal opts PathKey (si_Path s)\<rparr>"

definition azure_NewSecretManagerWithOptions :: "VaultClient option \<Rightarrow> smap \<Rightarrow> SecretInfo" where
  "azure_NewSecretManagerWithOptions c opts = azure_SetOptions c opts azure_NewSecretManager"

definition azure_GetSecret :: "SecretInfo \<Rightarrow> VaultSecret option go" where
  "azure_GetSecret s =
     andThen (guard (si_Path s = '''') (Plain ''azure secret engine path is empty'')) (\<lambda>_.
     andThen (guard (si_Role s = '''') (Plain ''azure role is empty'')) (\<lambda>_.
     withClient (si_Client s) (\<lambda>vc.
     readSecret (NewRequest vc ''GET'' (''/v1/'' @ si_Path s @ ''/creds/'' @ si_Role s) None)
       ''failed to get azure access secret'')))"

definition database_NewSecretManager :: DatabaseSecretInfo where
  "database_NewSecretManager = \<lparr>si_Client = None, si_Path = '''', si_Role = ''''\<rparr>"

definition database_NewSecretGetter :: "VaultClient \<Rightarrow> string \<Rightarrow> string \<Rightarrow> DatabaseSecretInfo" where
  "database_NewSecretGetter c path role = \<lparr>si_Client = Some c, si_Path = path, si_Role = role\<rparr>"

definition database_SetOptions :: "VaultClient option \<Rightarrow> smap \<Rightarrow> DatabaseSecretInfo \<Rightarrow> DatabaseSecretInfo" where
  "database_SetOptions c opts s =
     s\<lparr>si_Client := c, si_Role := optVal opts RoleKey (si_Role s), si_Path := optVal opts PathKey (si_Path s)\<rparr>"

definition database_NewSecretManagerWithOptions :: "VaultClient option \<Rightarrow> smap \<Rightarrow> DatabaseSecretInfo" where
  "database_NewSecretManagerWithOptions c opts = database_SetOptions c opts database_NewSecretManager"

definition database_GetSecret :: "DatabaseSecretInfo \<Rightarrow> VaultSecret option go" where
  "database_GetSecret s =
     andThen (guard (si_Path s = '''') (Plain ''database secret engine path is empty'')) (\<lambda>_.
     andThen (guard (si_Role s = '''') (Plain ''database role is empty'')) (\<lambda>_.
     withClient (si_Client s) (\<lambda>vc.
     readSecret (NewRequest vc ''GET'' (''/v1/'' @ si_Path s @ ''/creds/'' @ si_Role s) None)
       ''failed to get database credential'')))"


section \<open>AWS\<close>

record AWSSecretInfo = SecretInfo +
  si_UseSTS :: bool

definition aws_NewSecretManager :: AWSSecretInfo where
  "aws_NewSecretManager = \<lparr>si_Client = None, si_Path = '''', si_Role = '''', si_UseSTS = False\<rparr>"

text \<open>The constructor takes \<open>useSTS\<close> and does not store it.\<close>

definition aws_NewSecretGetter :: "VaultClient \<Rightarrow> string \<Rightarrow> string \<Rightarrow> bool \<Rightarrow> AWSSecretInfo" where
  "aws_NewSecretGetter vc path role useSTS =
     \<lparr>si_Client = Some vc, si_Path = path, si_Role = role, si_UseSTS = False\<rparr>"

text \<open>\<open>strconv.ParseBool\<close>\<close>

definition ParseBool :: "string \<Rightarrow> bool option" where
  "ParseBool s =
     (if s \<in> set [''1'', ''t'', ''T'', ''TRUE'', ''true'', ''True''] then Some True
      else if s \<in> set [''0'', ''f'', ''F'', ''FALSE'', ''false'', ''False''] then Some False
      else None)"

definition aws_SetOptions :: "VaultClient option \<Rightarrow> smap \<Rightarrow> AWSSecretInfo \<Rightarrow> AWSSecretInfo" where
  "aws_SetOptions c opts s =
     s\<lparr>si_Client := c, si_Role := optVal opts RoleKey (si_Role s), si_Path := optVal opts PathKey (si_Path s),
       si_UseSTS := (case map_of opts UseSTSKey of
                       None \<Rightarrow> si_UseSTS s
                     | Some val \<Rightarrow> (case ParseBool val of Some v \<Rightarrow> v | None \<Rightarrow> si_UseSTS s))\<rparr>"

definition aws_NewSecretManagerWithOptions :: "VaultClient option \<Rightarrow> smap \<Rightarrow> AWSSecretInfo" where
  "aws_NewSecretManagerWithOptions c opts = aws_SetOptions c opts aws_NewSecretManager"

definition aws_GetSecret :: "AWSSecretInfo \<Rightarrow> VaultSecret option go" where
  "aws_GetSecret s =
     andThen (guard (si_Path s = '''') (Plain ''aws secret engine path is empty'')) (\<lambda>_.
     andThen (guard (si_Role s = '''') (Plain ''aws role is empty'')) (\<lambda>_.
     withClient (si_Client s) (\<lambda>vc.
     let path = (if si_UseSTS s then ''/v1/'' @ si_Path s @ ''/sts/'' @ si_Role s
                 else ''/v1/'' @ si_Path s @ ''/creds/'' @ si_Role s) in
     readSecret (NewRequest vc ''GET'' path None) ''failed to get aws secret'')))"


section \<open>GCP\<close>

record GCPSecretInfo = SecretInfo +
  si_SecretType :: string
  si_KeyAlgorithm :: string
  si_KeyType :: string

definition gcp_NewSecretManager :: GCPSecretInfo where
  "gcp_NewSecretManager = \<lparr>si_Client = None, si_Path = '''', si_Role = '''', si_SecretType = '''', si_KeyAlgorithm = '''',
     si_KeyType = ''''\<rparr>"

definition gcp_NewSecretGetter ::
    "VaultClient \<Rightarrow> string \<Rightarrow> string \<Rightarrow> string \<Rightarrow> GCPAccessKeyRequestSpec \<Rightarrow> GCPSecretInfo" where
  "gcp_NewSecretGetter vc path roleName secretType reqSpec =
     \<lparr>si_Client = Some vc, si_Path = path, si_Role = roleName, si_SecretType = secretType,
      si_KeyAlgorithm = gcpreq_KeyAlgorithm reqSpec, si_KeyType = gcpreq_KeyType reqSpec\<rparr>"

definition gcp_SetOptions :: "VaultClient option \<Rightarrow> smap \<Rightarrow> GCPSecretInfo \<Rightarrow> GCPSecretInfo" where
  "gcp_SetOptions c opts s =
     s\<lparr>si_Client := c, si_Role := optVal opts RoleKey (si_Role s), si_Path := optVal opts PathKey (si_Path s),
       si_SecretType := optVal opts GCPSecretType (si_SecretType s),
       si_KeyAlgorithm := optVal opts KeyAlgorithm (si_KeyAlgorithm s),
       si_KeyType := optVal opts KeyType (si_KeyType s)\<rparr>"

definition gcp_NewSecretManagerWithOptions :: "VaultClient option \<Rightarrow> smap \<Rightarrow> GCPSecretInfo" where
  "gcp_NewSecretManagerWithOptions c opts = gcp_SetOptions c opts gcp_NewSecretManager"

definition gcp_GetSecret :: "GCPSecretInfo \<Rightarrow> VaultSecret option go" where
  "gcp_GetSecret s =
     andThen (guard (si_Path s = '''') (Plain ''gcp secret engine path is empty'')) (\<lambda>_.
     andThen (guard (si_Role s = '''') (Plain ''gcp role is empty'')) (\<lambda>_.
     withClient (si_Client s) (\<lambda>vc.
     if si_SecretType s = ''access_token'' then
       readSecret (NewRequest vc ''GET'' (''/v1/'' @ si_Path s @ ''/token/'' @ si_Role s) None)
         ''failed to get gcp access secret''
     else if si_SecretType s = ''service_account_key'' then
       readSecret (NewRequest vc ''GET'' (''/v1/'' @ si_Path s @ ''/key/'' @ si_Role s)
           (Some (JObject (optField KeyAlgorithm (si_KeyAlgorithm s) @ optField KeyType (si_KeyType s)))))
         ''failed to get gcp access secret''
     else fail (Plain ''secret_type is not specified''))))"


section \<open>Key/value secrets\<close>

record KVSecretInfo =
  kv_Client :: "VaultClient option"
  kv_Path :: string
  kv_SecretName :: string

definition kv_NewSecretManager :: KVSecretInfo where
  "kv_NewSecretManager = \<lparr>kv_Client = None, kv_Path = '''', kv_SecretName = ''''\<rparr>"

definition kv_NewSecretGetter :: "VaultClient \<Rightarrow> string \<Rightarrow> string \<Rightarrow> KVSecretInfo" where
  "kv_NewSecretGetter c path secretName = \<lparr>kv_Client = Some c, kv_Path = path, kv_SecretName = secretName\<rparr>"

definition kv_SetOptions :: "VaultClient option \<Rightarrow> smap \<Rightarrow> KVSecretInfo \<Rightarrow> KVSecretInfo" where
  "kv_SetOptions c opts s =
     s\<lparr>kv_Client := c, kv_SecretName := optVal opts SecretKey (kv_SecretName s),
       kv_Path := optVal opts PathKey (kv_Path s)\<rparr>"

definition kv_NewSecretManagerWithOptions :: "VaultClient option \<Rightarrow> smap \<Rightarrow> KVSecretInfo" where
  "kv_NewSecretManagerWithOptions c opts = kv_SetOptions c opts kv_NewSecretManager"

definition kv_GetSecret :: "KVSecretInfo \<Rightarrow> VaultSecret option go" where
  "kv_GetSecret s =
     andThen (guard (kv_Path s = '''') (Plain ''kv secret engine path is empty'')) (\<lambda>_.
     andThen (guard (kv_SecretName s = '''') (Plain ''secret name is empty'')) (\<lambda>_.
     withClient (kv_Client s) (\<lambda>vc.
     readSecret (NewRequest vc ''GET'' (''/v1/'' @ kv_Path s @ ''/'' @ kv_SecretName s) None)
       ''failed to get secret'')))"


section \<open>Certificates\<close>

record CertOptions =
  CommonName :: string
  AltName :: string
  IpSans :: string
  UriSans :: string
  OtherSans :: string
  Ttl :: string
  Format :: string
  PrivateKeyFormat :: string
  ExcludeCnFromSans :: bool

definition CertOptions0 :: CertOptions where
  "CertOptions0 = \<lparr>CommonName = '''', AltName = '''', IpSans = '''', UriSans = '''', OtherSans = '''', Ttl = '''',
     Format = '''', PrivateKeyFormat = '''', ExcludeCnFromSans = False\<rparr>"

text \<open>\<open>json.Marshal\<close> of the struct: its fields in order, without the empty ones.\<close>

definition marshalCertOptions :: "CertOptions \<Rightarrow> json" where
  "marshalCertOptions o' = JObject
     (optField ''common_name'' (CommonName o') @ optField ''alt_name'' (AltName o')
      @ optField ''ip_sans'' (IpSans o') @ optField ''uri_sans'' (UriSans o')
      @ optField ''other_sans'' (OtherSans o') @ optField ''ttl'' (Ttl o') @ optField ''format'' (Format o')
      @ optField ''private_key_format'' (PrivateKeyFormat o')
      @ (if ExcludeCnFromSans o' then [(''exclude_cn_from_sans'', JBool True)] else []))"

text \<open>
  \<open>json.Unmarshal\<close> matches the keys of an object with the names of the fields
  up to case: letters are folded, and so are the long s (the bytes C5 BF) and
  the Kelvin sign (E2 84 AA).
\<close>

definition lowerChar :: "char \<Rightarrow> char" where
  "lowerChar c = (if 65 \<le> (of_char c :: nat) \<and> (of_char c :: nat) \<le> 90 then char_of ((of_char c :: nat) + 32) else c)"

fun foldKey :: "string \<Rightarrow> string" where
  "foldKey [] = []"
| "foldKey (a # s) =
     (if a = CHR 0xC5 \<and> take 1 s = [CHR 0xBF] then CHR ''s'' # foldKey (drop 1 s)
      else if a = CHR 0xE2 \<and> take 2 s = [CHR 0x84, CHR 0xAA] then CHR ''k'' # foldKey (drop 2 s)
      else lowerChar a # foldKey s)"

definition certSetters :: "(string \<times> (string \<Rightarrow> CertOptions \<Rightarrow> CertOptions)) list" where
  "certSetters =
     [(''common_name'', \<lambda>v o'. o'\<lparr>CommonName := v\<rparr>), (''alt_name'', \<lambda>v o'. o'\<lparr>AltName := v\<rparr>),
      (''ip_sans'', \<lambda>v o'. o'\<lparr>IpSans := v\<rparr>), (''uri_sans'', \<lambda>v o'. o'\<lparr>UriSans := v\<rparr>),
      (''other_sans'', \<lambda>v o'. o'\<lparr>OtherSans := v\<rparr>), (''ttl'', \<lambda>v o'. o'\<lparr>Ttl := v\<rparr>),
      (''format'', \<lambda>v o'. o'\<lparr>Format := v\<rparr>), (''private_key_format'', \<lambda>v o'. o'\<lparr>PrivateKeyFormat := v\<rparr>)]"

definition excludeCnTypeError :: error where
  "excludeCnTypeError = Plain
     ''json: cannot unmarshal string into Go struct field CertOptions.exclude_cn_from_sans of type bool''"

text \<open>
  One entry of the marshalled options, all of which are strings.  A string for
  the boolean field is an error; decoding goes on and the first error is
  reported at the end.
\<close>

definition unmarshalEntry ::
    "string \<times> string \<Rightarrow> CertOptions \<times> error option \<Rightarrow> CertOptions \<times> error option" where
  "unmarshalEntry kv st =
     (case map_of certSetters (foldKey (fst kv)) of
        Some f \<Rightarrow> (f (snd kv) (fst st), snd st)
      | None \<Rightarrow>
          if foldKey (fst kv) = ''exclude_cn_from_sans''
          then (fst st, Some (case snd st of Some e \<Rightarrow> e | None \<Rightarrow> excludeCnTypeError))
          else st)"

text \<open>\<open>json.Marshal\<close> of a map writes its keys in byte order, and \<open>json.Unmarshal\<close> reads them so.\<close>

fun byteLess :: "string \<Rightarrow> string \<Rightarrow> bool" where
  "byteLess s [] = False"
| "byteLess [] (b # t) = True"
| "byteLess (a # s) (b # t) =
     ((of_char a :: nat) < of_char b \<or> a = b \<and> byteLess s t)"

fun insertByKey :: "string \<times> string \<Rightarrow> smap \<Rightarrow> smap" where
  "insertByKey kv [] = [kv]"
| "insertByKey kv (x # xs) = (if byteLess (fst x) (fst kv) then x # insertByKey kv xs else kv # x # xs)"

definition sortByKey :: "smap \<Rightarrow> smap" where
  "sortByKey opts = foldr insertByKey opts []"

definition unmarshalCertOptions :: "smap \<Rightarrow> CertOptions \<Rightarrow> CertOptions \<times> error option" where
  "unmarshalCertOptions opts o' = fold unmarshalEntry (sortByKey opts) (o', None)"

record PKISecretInfo = SecretInfo +
  si_CertOpts :: "CertOptions option"

definition pki_NewSecretManager :: PKISecretInfo where
  "pki_NewSecretManager = \<lparr>si_Client = None, si_Path = '''', si_Role = '''', si_CertOpts = Some CertOptions0\<rparr>"

definition pki_NewSecretGetter ::
    "VaultClient \<Rightarrow> string \<Rightarrow> string \<Rightarrow> CertOptions option \<Rightarrow> PKISecretInfo" where
  "pki_NewSecretGetter vc path role certOpts =
     \<lparr>si_Client = Some vc, si_Path = path, si_Role = role, si_CertOpts = certOpts\<rparr>"

definition certOptsOf :: "PKISecretInfo \<Rightarrow> CertOptions" where
  "certOptsOf s = (case si_CertOpts s of Some o' \<Rightarrow> o' | None \<Rightarrow> CertOptions0)"

definition pki_SetOptions ::
    "VaultClient option \<Rightarrow> smap \<Rightarrow> PKISecretInfo \<Rightarrow> PKISecretInfo \<times> error option" where
  "pki_SetOptions c opts s =
     (let (o', err) = unmarshalCertOptions opts (certOptsOf s) in
      (s\<lparr>si_Client := c, si_Role := optVal opts RoleKey (si_Role s), si_Path := optVal opts PathKey (si_Path s),
         si_CertOpts := Some o'\<rparr>,
       map_option (Wrapped ''failed to unmarshal cert options'') err))"

text \<open>Unlike the others, this constructor gives up on an error.\<close>

definition pki_NewSecretManagerWithOptions :: "VaultClient option \<Rightarrow> smap \<Rightarrow> error + PKISecretInfo" where
  "pki_NewSecretManagerWithOptions c opts =
     (let (o', err) = unmarshalCertOptions opts CertOptions0 in
      case err of
        Some e \<Rightarrow> Inl (Wrapped ''failed to unmarshal cert options'' e)
      | None \<Rightarrow> Inr \<lparr>si_Client = c, si_Path = optVal opts PathKey '''', si_Role = optVal opts RoleKey '''',
                    si_CertOpts = Some o'\<rparr>)"

definition pki_GetSecret :: "PKISecretInfo \<Rightarrow> VaultSecret option go" where
  "pki_GetSecret s =
     andThen (guard (si_Path s = '''') (Plain ''pki secret engine path is empty'')) (\<lambda>_.
     andThen (guard (si_Role s = '''') (Plain ''role is empty'')) (\<lambda>_.
     withClient (si_Client s) (\<lambda>vc.
     readSecret (NewRequest vc ''POST'' (''/v1/'' @ si_Path s @ ''/issue/'' @ si_Role s)
         (Some (marshalCertOptions (certOptsOf s))))
       ''failed to get secret'')))"


section \<open>The interface and its factory\<close>

text \<open>The interface \<open>SecretManager\<close> as the sum of the structs that implement it.\<close>

datatype SecretManager =
    AWSManager AWSSecretInfo | PKIManager PKISecretInfo | KVManager KVSecretInfo
  | DatabaseManager DatabaseSecretInfo | GCPManager GCPSecretInfo | AzureManager SecretInfo

definition NewSecretManager :: "string \<Rightarrow> error + SecretManager" where
  "NewSecretManager engineName =
     (if engineName = ''AWS'' then Inr (AWSManager aws_NewSecretManager)
      else if engineName = ''PKI'' then Inr (PKIManager pki_NewSecretManager)
      else if engineName = ''KV'' then Inr (KVManager kv_NewSecretManager)
      else if engineName = ''DATABASE'' then Inr (DatabaseManager database_NewSecretManager)
      else if engineName = ''GCP'' then Inr (GCPManager gcp_NewSecretManager)
      else if engineName = ''Azure'' then Inr (AzureManager azure_NewSecretManager)
      else Inl (Plain (''unsupported/invalid secret engine '' @ [CHR 0x27] @ engineName @ [CHR 0x27])))"

fun SetOptions :: "VaultClient option \<Rightarrow> smap \<Rightarrow> SecretManager \<Rightarrow> SecretManager \<times> error option" where
  "SetOptions c opts (AWSManager s) = (AWSManager (aws_SetOptions c opts s), None)"
| "SetOptions c opts (PKIManager s) = map_prod PKIManager id (pki_SetOptions c opts s)"
| "SetOptions c opts (KVManager s) = (KVManager (kv_SetOptions c opts s), None)"
| "SetOptions c opts (DatabaseManager s) = (DatabaseManager (database_SetOptions c opts s), None)"
| "SetOptions c opts (GCPManager s) = (GCPManager (gcp_SetOptions c opts s), None)"
| "SetOptions c opts (AzureManager s) = (AzureManager (azure_SetOptions c opts s), None)"

fun GetSecret :: "SecretManager \<Rightarrow> VaultSecret option go" where
  "GetSecret (AWSManager s) = aws_GetSecret s"
| "GetSecret (PKIManager s) = pki_GetSecret s"
| "GetSecret (KVManager s) = kv_GetSecret s"
| "GetSecret (DatabaseManager s) = database_GetSecret s"
| "GetSecret (GCPManager s) = gcp_GetSecret s"
| "GetSecret (AzureManager s) = azure_GetSecret s"


section \<open>What a secret manager promises\<close>

lemma rawResult_no_response: "rawResult a = (None, e) \<Longrightarrow> e \<noteq> None"
  by (rule rawResult_cases[of a]) auto

lemma rawRequest_ok_run:
  "rawRequest_ok req env t =
     (let a = vault_answer env t req in
      (case rawResult a of (_, Some e) \<Rightarrow> Err e | (Some r, None) \<Rightarrow> Ok r | (None, None) \<Rightarrow> Panic ''nil response'',
       t @ [Vault req a]))"
  by (simp add: rawRequest_ok_def go_defs Let_def split: prod.splits option.splits)

lemma method_NewRequest [simp]: "vr_Method (NewRequest vc m p b) = m" "vr_Path (NewRequest vc m p b) = p"
  by (simp_all add: NewRequest_def)

lemma client_NewRequest [simp]: "vr_Client (NewRequest vc m p b) = vc"
  by (simp add: NewRequest_def)

text \<open>A run of \<open>GetSecret\<close> refuses without a call, or makes one call with the client below the mount.\<close>

definition refusesOrReads :: "VaultClient option \<Rightarrow> string \<Rightarrow> VaultSecret option go \<Rightarrow> bool" where
  "refusesOrReads c path m \<longleftrightarrow> (\<forall>env t.
     (\<exists>e. m env t = (Err e, t)) \<or>
     (\<exists>vc req r. c = Some vc \<and> path \<noteq> '''' \<and> vr_Client req = vc \<and> prefix (''/v1/'' @ path @ ''/'') (vr_Path req)
        \<and> m env t = (r, t @ [Vault req (vault_answer env t req)]) \<and> (\<forall>s. r \<noteq> Panic s)))"

lemma readSecret_one_call:
  "\<exists>r. readSecret req msg env t = (r, t @ [Vault req (vault_answer env t req)]) \<and> (\<forall>s. r \<noteq> Panic s)"
  by (cases "vault_answer env t req" rule: rawResult_cases)
    (auto simp: readSecret_def rawRequest_ok_run Let_def andThen_def wrapErr_def attempt_def liftE_def ret_def fail_def
      split: sum.splits)

lemma refusesOrReads_checked:
  assumes "\<And>vc. c = Some vc \<Longrightarrow> path \<noteq> '''' \<Longrightarrow> refusesOrReads c path (f vc)"
  shows "refusesOrReads c path
    (andThen (guard (path = '''') e1) (\<lambda>_. andThen (guard (name = '''') e2) (\<lambda>_. withClient c f)))"
  using assms by (cases c) (auto simp: refusesOrReads_def guard_run withClient_def fail_def)

lemma refusesOrReads_readSecret:
  assumes "vr_Client req = vc" "path \<noteq> ''''" "prefix (''/v1/'' @ path @ ''/'') (vr_Path req)"
  shows "refusesOrReads (Some vc) path (readSecret req msg)"
  unfolding refusesOrReads_def using readSecret_one_call[of req msg] assms by blast

lemma refusesOrReads_fail: "refusesOrReads c path (fail e)"
  by (simp add: refusesOrReads_def fail_def)

lemma GetSecret_refusesOrReads:
  "refusesOrReads (si_Client aws) (si_Path aws) (aws_GetSecret aws)"
  "refusesOrReads (si_Client az) (si_Path az) (azure_GetSecret az)"
  "refusesOrReads (si_Client db) (si_Path db) (database_GetSecret db)"
  "refusesOrReads (si_Client g) (si_Path g) (gcp_GetSecret g)"
  "refusesOrReads (kv_Client k) (kv_Path k) (kv_GetSecret k)"
  "refusesOrReads (si_Client p) (si_Path p) (pki_GetSecret p)"
  unfolding aws_GetSecret_def azure_GetSecret_def database_GetSecret_def gcp_GetSecret_def kv_GetSecret_def
    pki_GetSecret_def Let_def
  by (rule refusesOrReads_checked; simp add: refusesOrReads_readSecret refusesOrReads_fail)+

text \<open>
  The contract of the interface: the options replace the client and, when they
  name one, the path; reading a secret is confined to both.
\<close>

locale secret_manager =
  fixes client :: "'s \<Rightarrow> VaultClient option" and path :: "'s \<Rightarrow> string"
    and set_options :: "VaultClient option \<Rightarrow> smap \<Rightarrow> 's \<Rightarrow> 's \<times> error option"
    and get_secret :: "'s \<Rightarrow> VaultSecret option go"
  assumes set_client: "client (fst (set_options c opts s)) = c"
    and set_path: "path (fst (set_options c opts s)) = optVal opts PathKey (path s)"
    and get_confined: "refusesOrReads (client s) (path s) (get_secret s)"
    and set_again: "fst (set_options c opts (fst (set_options c opts s))) = fst (set_options c opts s)"
    and error_again: "snd (set_options c opts s) = snd (set_options c opts s')"
begin

lemma configured_confined:
  "set_options c opts s = (s', err) \<Longrightarrow> refusesOrReads c (optVal opts PathKey (path s)) (get_secret s')"
  by (metis fst_conv get_confined set_client set_path)

lemma unconfigured_refuses:
  assumes "client s = None \<or> path s = ''''"
  shows "\<exists>e. get_secret s env t = (Err e, t)"
  using get_confined[of s] assms unfolding refusesOrReads_def by force

lemma set_idempotent: "set_options c opts (fst (set_options c opts s)) = set_options c opts s"
  by (rule prod_eqI, rule set_again, rule error_again)

end

subsection \<open>Decoding the certificate options\<close>

text \<open>Assignments to fields: of two to the same field the later one counts, others commute.\<close>

lemma fold_assign_absorb:
  assumes same: "\<And>x y o'. field x = field y \<Longrightarrow> A x (A y o') = A x o'"
    and other: "\<And>x y o'. field x \<noteq> field y \<Longrightarrow> A x (A y o') = A y (A x o')"
  shows "field y \<in> field ` set xs \<Longrightarrow> fold A xs (A y o') = fold A xs o'"
proof (induction xs arbitrary: o')
  case (Cons x xs)
  then show ?case by (cases "field x = field y") (auto simp: same other[of x y])
qed simp

lemma fold_assign_again:
  assumes same: "\<And>x y o'. field x = field y \<Longrightarrow> A x (A y o') = A x o'"
    and other: "\<And>x y o'. field x \<noteq> field y \<Longrightarrow> A x (A y o') = A y (A x o')"
  shows "field ` set ys \<subseteq> field ` set xs \<Longrightarrow> fold A xs (fold A ys o') = fold A xs o'"
  by (induction ys arbitrary: o') (simp_all add: fold_assign_absorb[of field A, OF same other])

definition assignCert :: "string \<times> string \<Rightarrow> CertOptions \<Rightarrow> CertOptions" where
  "assignCert kv = (case map_of certSetters (foldKey (fst kv)) of Some f \<Rightarrow> f (snd kv) | None \<Rightarrow> id)"

lemma fold_unmarshalEntry:
  "fst (fold unmarshalEntry xs st) = fold assignCert xs (fst st)"
  "snd (fold unmarshalEntry xs st) =
     (case snd st of Some e \<Rightarrow> Some e
      | None \<Rightarrow> if \<exists>kv\<in>set xs. foldKey (fst kv) = ''exclude_cn_from_sans'' then Some excludeCnTypeError else None)"
proof -
  have x: "map_of certSetters ''exclude_cn_from_sans'' = None" by (simp add: certSetters_def)
  show "fst (fold unmarshalEntry xs st) = fold assignCert xs (fst st)"
    by (induction xs arbitrary: st) (auto simp: unmarshalEntry_def assignCert_def split: option.splits)
  show "snd (fold unmarshalEntry xs st) =
     (case snd st of Some e \<Rightarrow> Some e
      | None \<Rightarrow> if \<exists>kv\<in>set xs. foldKey (fst kv) = ''exclude_cn_from_sans'' then Some excludeCnTypeError else None)"
    by (induction xs arbitrary: st) (auto simp: unmarshalEntry_def x split: option.splits)
qed

lemma setters_commute:
  "map_of certSetters j = Some f \<Longrightarrow> map_of certSetters k = Some g \<Longrightarrow> j \<noteq> k \<Longrightarrow> f v (g w o') = g w (f v o')"
  by (drule map_of_SomeD, drule map_of_SomeD) (simp add: certSetters_def, elim disjE conjE; simp)

lemma setters_absorb: "map_of certSetters k = Some f \<Longrightarrow> f v (f w o') = f v o'"
  by (auto simp: certSetters_def split: if_splits)

lemma assignCert_laws:
  "foldKey (fst x) = foldKey (fst y) \<Longrightarrow> assignCert x (assignCert y o') = assignCert x o'"
  "foldKey (fst x) \<noteq> foldKey (fst y) \<Longrightarrow> assignCert x (assignCert y o') = assignCert y (assignCert x o')"
  by (auto simp: assignCert_def setters_absorb setters_commute split: option.splits)

lemma set_sortByKey [simp]: "set (sortByKey opts) = set opts"
proof -
  have "set (insertByKey kv xs) = insert kv (set xs)" for kv xs by (induction xs) auto
  then show ?thesis unfolding sortByKey_def by (induction opts) simp_all
qed

lemma unmarshal_again:
  "fst (unmarshalCertOptions opts (fst (unmarshalCertOptions opts o'))) = fst (unmarshalCertOptions opts o')"
  unfolding unmarshalCertOptions_def fold_unmarshalEntry fst_conv
  by (rule fold_assign_again[of "\<lambda>kv. foldKey (fst kv)"]) (simp_all add: assignCert_laws)

lemma unmarshal_error:
  "snd (unmarshalCertOptions opts o') =
     (if \<exists>kv\<in>set opts. foldKey (fst kv) = ''exclude_cn_from_sans'' then Some excludeCnTypeError else None)"
  unfolding unmarshalCertOptions_def fold_unmarshalEntry by simp

subsection \<open>The six engines and the interface keep the contract\<close>

lemma optVal_again [simp]: "optVal opts k (optVal opts k cur) = optVal opts k cur"
  by (simp add: optVal_def split: option.splits)

lemmas SetOptions_defs = aws_SetOptions_def azure_SetOptions_def database_SetOptions_def gcp_SetOptions_def
  kv_SetOptions_def

interpretation aws_secrets: secret_manager si_Client si_Path "\<lambda>c opts s. (aws_SetOptions c opts s, None)" aws_GetSecret
  by unfold_locales (simp_all add: SetOptions_defs GetSecret_refusesOrReads split: option.splits)

interpretation azure_secrets: secret_manager si_Client si_Path "\<lambda>c opts s. (azure_SetOptions c opts s, None)" azure_GetSecret
  by unfold_locales (simp_all add: SetOptions_defs GetSecret_refusesOrReads)

interpretation database_secrets: secret_manager si_Client si_Path "\<lambda>c opts s. (database_SetOptions c opts s, None)"
    database_GetSecret
  by unfold_locales (simp_all add: SetOptions_defs GetSecret_refusesOrReads)

interpretation gcp_secrets: secret_manager si_Client si_Path "\<lambda>c opts s. (gcp_SetOptions c opts s, None)" gcp_GetSecret
  by unfold_locales (simp_all add: SetOptions_defs GetSecret_refusesOrReads)

interpretation kv_secrets: secret_manager kv_Client kv_Path "\<lambda>c opts s. (kv_SetOptions c opts s, None)" kv_GetSecret
  by unfold_locales (simp_all add: SetOptions_defs GetSecret_refusesOrReads)

interpretation pki_secrets: secret_manager si_Client si_Path pki_SetOptions pki_GetSecret
  by unfold_locales (simp_all add: pki_SetOptions_def Let_def split_beta certOptsOf_def GetSecret_refusesOrReads
    unmarshal_again unmarshal_error)

fun managerClient :: "SecretManager \<Rightarrow> VaultClient option" where
  "managerClient (AWSManager s) = si_Client s"
| "managerClient (PKIManager s) = si_Client s"
| "managerClient (KVManager s) = kv_Client s"
| "managerClient (DatabaseManager s) = si_Client s"
| "managerClient (GCPManager s) = si_Client s"
| "managerClient (AzureManager s) = si_Client s"

fun managerPath :: "SecretManager \<Rightarrow> string" where
  "managerPath (AWSManager s) = si_Path s"
| "managerPath (PKIManager s) = si_Path s"
| "managerPath (KVManager s) = kv_Path s"
| "managerPath (DatabaseManager s) = si_Path s"
| "managerPath (GCPManager s) = si_Path s"
| "managerPath (AzureManager s) = si_Path s"

text \<open>The interface forgets which engine it is; the errors of the options are those of its engine.\<close>

lemma SetOptions_error:
  "snd (SetOptions c opts s) = (case s of
     PKIManager p \<Rightarrow> if \<exists>kv\<in>set opts. foldKey (fst kv) = ''exclude_cn_from_sans''
       then Some (Wrapped ''failed to unmarshal cert options'' excludeCnTypeError) else None
   | _ \<Rightarrow> None)"
  by (cases s) (simp_all add: pki_SetOptions_def Let_def split_beta unmarshal_error)

lemma SetOptions_laws:
  "managerClient (fst (SetOptions c opts s)) = c"
  "managerPath (fst (SetOptions c opts s)) = optVal opts PathKey (managerPath s)"
  "refusesOrReads (managerClient s) (managerPath s) (GetSecret s)"
  "SetOptions c opts (fst (SetOptions c opts s)) = SetOptions c opts s"
  by (cases s; simp add: aws_secrets.set_client[simplified] azure_secrets.set_client[simplified]
      database_secrets.set_client[simplified] gcp_secrets.set_client[simplified] kv_secrets.set_client[simplified]
      pki_secrets.set_client aws_secrets.set_path[simplified] azure_secrets.set_path[simplified]
      database_secrets.set_path[simplified] gcp_secrets.set_path[simplified] kv_secrets.set_path[simplified]
      pki_secrets.set_path aws_secrets.set_idempotent[simplified] azure_secrets.set_idempotent[simplified]
      database_secrets.set_idempotent[simplified] gcp_secrets.set_idempotent[simplified]
      kv_secrets.set_idempotent[simplified] pki_secrets.set_idempotent GetSecret_refusesOrReads)+


end
