(* ===== verification/Credential.thy ===== *)
theory Credential
  imports Secret_Getters
begin

text \<open>
  Issuing credentials (\<open>pkg/vault/credential\<close>): the credential manager that
  reads a credential with a secret engine, turns it into a Kubernetes secret
  with a reader role and revokes leases, and the factories of the four request
  kinds.
\<close>

section \<open>Credential managers\<close>

text \<open>The interface \<open>CredentialManager\<close> as the record of its methods.\<close>

record CredentialManager =
  GetCredential :: "VaultSecret option go"
  CreateSecret :: "string \<Rightarrow> string \<Rightarrow> VaultSecret option \<Rightarrow> unit go"
  CreateRole :: "string \<Rightarrow> string \<Rightarrow> string \<Rightarrow> unit go"
  CreateRoleBinding :: "string \<Rightarrow> string \<Rightarrow> string \<Rightarrow> Subject list \<Rightarrow> unit go"
  IsLeaseExpired :: "string \<Rightarrow> bool go"
  RevokeLease :: "string \<Rightarrow> unit go"

text \<open>
  \<open>CredManager\<close>: the Vault client and the three methods of the embedded
  \<open>SecretEngine\<close> interface.
\<close>

record CredManager =
  crm_vaultClient :: VaultClient
  crm_GetSecret :: "VaultSecret option go"
  crm_ParseCredential :: "VaultSecret \<Rightarrow> error + smap"
  crm_GetOwnerReference :: OwnerReference

definition newSecret :: "ObjectMeta \<Rightarrow> Secret" where
  "newSecret m = \<lparr>sec_Meta = m, sec_Type = '''', sec_Data = []\<rparr>"

definition CredManager_CreateSecret ::
    "CredManager \<Rightarrow> string \<Rightarrow> string \<Rightarrow> VaultSecret option \<Rightarrow> unit go" where
  "CredManager_CreateSecret c name ns credSecret =
     andThen (case credSecret of
                None \<Rightarrow> ret []
              | Some s \<Rightarrow> wrapErr ''failed to parse credential secret'' (liftE (crm_ParseCredential c s)))
       (\<lambda>data.
     andThen (wrapErr (''failed to create/update secret '' @ slash ns name)
       (CreateOrPatch Secrets (ObjectMeta0 name ns) newSecret (\<lambda>s.
          s\<lparr>sec_Data := data,
            sec_Meta := EnsureOwnerReference (sec_Meta s) (Some (crm_GetOwnerReference c))\<rparr>)))
       (\<lambda>_. ret ()))"

definition newRbacRole :: "ObjectMeta \<Rightarrow> RbacRole" where
  "newRbacRole m = \<lparr>rbac_Meta = m, rbac_Rules = []\<rparr>"

definition CredManager_CreateRole :: "CredManager \<Rightarrow> string \<Rightarrow> string \<Rightarrow> string \<Rightarrow> unit go" where
  "CredManager_CreateRole c name ns secretName =
     andThen (wrapErr (''failed to create rbac role '' @ slash ns name)
       (CreateOrPatch RbacRoles (ObjectMeta0 name ns) newRbacRole (\<lambda>r.
          r\<lparr>rbac_Rules := [\<lparr>rule_APIGroups = [''''], rule_Resources = [''secrets''],
                            rule_ResourceNames = [secretName], rule_Verbs = [''get'']\<rparr>],
            rbac_Meta := EnsureOwnerReference (rbac_Meta r) (Some (crm_GetOwnerReference c))\<rparr>)))
       (\<lambda>_. ret ())"

definition newRoleBinding :: "ObjectMeta \<Rightarrow> RoleBinding" where
  "newRoleBinding m =
     \<lparr>rb_Meta = m, rb_RoleRef = \<lparr>rr_APIGroup = '''', rr_Kind = '''', rr_Name = ''''\<rparr>, rb_Subjects = []\<rparr>"

definition CredManager_CreateRoleBinding ::
    "CredManager \<Rightarrow> string \<Rightarrow> string \<Rightarrow> string \<Rightarrow> Subject list \<Rightarrow> unit go" where
  "CredManager_CreateRoleBinding c name ns roleName subjects =
     andThen (wrapErr (''failed to create/update rbac role binding '' @ slash ns name)
       (CreateOrPatch RoleBindings (ObjectMeta0 name ns) newRoleBinding (\<lambda>b.
          b\<lparr>rb_RoleRef := \<lparr>rr_APIGroup = rbac_GroupName, rr_Kind = ''Role'', rr_Name = roleName\<rparr>,
            rb_Subjects := subjects,
            rb_Meta := EnsureOwnerReference (rb_Meta b) (Some (crm_GetOwnerReference c))\<rparr>)))
       (\<lambda>_. ret ())"

text \<open>
  A lease is expired when the lookup answers with errors.  The response of an
  answered lookup is decoded whatever its status.
\<close>

definition jerrors :: "json \<Rightarrow> error + json list" where
  "jerrors j = (case jfield ''errors'' j of JNull \<Rightarrow> Inr [] | JList es \<Rightarrow> Inr es
     | _ \<Rightarrow> Inl (Plain ''json: cannot unmarshal into Go value of type []string''))"

definition CredManager_IsLeaseExpired :: "CredManager \<Rightarrow> string \<Rightarrow> bool go" where
  "CredManager_IsLeaseExpired c leaseID =
     (if leaseID = '''' then ret True
      else andThen (RawRequest (NewRequest (crm_vaultClient c) ''PUT'' ''/v1/sys/leases/lookup''
               (Some (JObject [(''lease_id'', JString leaseID)])))) (\<lambda>(resp, err).
        case resp of
          None \<Rightarrow> (case err of Some e \<Rightarrow> fail (WithStack e) | None \<Rightarrow> panic ''nil response'')
        | Some r \<Rightarrow>
            (case decodeBody (Body r) of Inl e \<Rightarrow> fail (WithStack e)
             | Inr j \<Rightarrow> (case jerrors j of Inl e \<Rightarrow> fail (WithStack e)
                        | Inr es \<Rightarrow> ret (es \<noteq> [])))))"

definition revokeRequest :: "VaultClient \<Rightarrow> string \<Rightarrow> VaultRequest" where
  "revokeRequest vc leaseID =
     NewRequest vc ''PUT'' ''/v1/sys/leases/revoke'' (Some (JObject [(''lease_id'', JString leaseID)]))"

definition CredManager_RevokeLease :: "CredManager \<Rightarrow> string \<Rightarrow> unit go" where
  "CredManager_RevokeLease c leaseID =
     andThen (wrapErr ''failed to revoke lease''
        (rawRequest_ok (revokeRequest (crm_vaultClient c) leaseID))) (\<lambda>_. ret ())"

definition CredManager_methods :: "CredManager \<Rightarrow> CredentialManager" where
  "CredManager_methods c =
     \<lparr>GetCredential = crm_GetSecret c,
      CreateSecret = CredManager_CreateSecret c,
      CreateRole = CredManager_CreateRole c,
      CreateRoleBinding = CredManager_CreateRoleBinding c,
      IsLeaseExpired = CredManager_IsLeaseExpired c,
      RevokeLease = CredManager_RevokeLease c\<rparr>"


section \<open>The managers of the four request kinds\<close>

definition NewControllerRef :: "string \<Rightarrow> string \<Rightarrow> ObjectMeta \<Rightarrow> OwnerReference" where
  "NewControllerRef apiVersion kind m =
     \<lparr>owner_APIVersion = apiVersion, owner_Kind = kind, owner_Name = Name m, owner_UID = UID m,
      owner_Controller = Some True, owner_BlockOwnerDeletion = Some True\<rparr>"

definition engineGroupVersion :: string where
  "engineGroupVersion = ''engine.kubevault.com/v1alpha1''"

definition pathOr :: "string \<Rightarrow> string \<Rightarrow> string" where
  "pathOr path dflt = (if path \<noteq> '''' then path else dflt)"

definition GetAWSPath :: "AWSRole \<Rightarrow> string" where
  "GetAWSPath role = pathOr (awsrole_Path (Spec role)) ''aws''"

definition GetAzurePath :: "AzureRole \<Rightarrow> string" where
  "GetAzurePath role = pathOr (azurerole_Path (Spec role)) ''azure''"

definition GetGCPPath :: "GCPRole \<Rightarrow> string" where
  "GetGCPPath role = pathOr (gcprole_Path (Spec role)) ''gcp''"

definition GetMongoDBDatabasePath :: "MongoDBRole \<Rightarrow> string" where
  "GetMongoDBDatabasePath role = pathOr (mongorole_Path (Spec role)) ''database''"

definition GetMySQLDatabasePath :: "MySQLRole \<Rightarrow> string" where
  "GetMySQLDatabasePath role = pathOr (mysqlrole_Path (Spec role)) ''database''"

definition GetPostgresDatabasePath :: "PostgresRole \<Rightarrow> string" where
  "GetPostgresDatabasePath role = pathOr (pgrole_Path (Spec role)) ''database''"

text \<open>
  The entries of the Vault secret as byte values: null is empty, strings and,
  for Azure and GCP, numbers are kept as text, anything else is an error.
\<close>

fun parseEntries :: "bool \<Rightarrow> string \<Rightarrow> (string \<times> json) list \<Rightarrow> error + smap" where
  "parseEntries nums msg [] = Inr []"
| "parseEntries nums msg ((k, v) # es) =
     (case (case v of JNull \<Rightarrow> Some '''' | JString s \<Rightarrow> Some s
            | JInt i \<Rightarrow> (if nums then Some (string_of_int i) else None) | _ \<Rightarrow> None) of
        None \<Rightarrow> Inl (Plain (msg @ k))
      | Some s \<Rightarrow> map_sum id (\<lambda>rest. (k, s) # rest) (parseEntries nums msg es))"

definition aws_ParseCredential :: "VaultSecret \<Rightarrow> error + smap" where
  "aws_ParseCredential s =
     parseEntries False ''failed to convert interface{} to string for key '' (Data s)"

definition azure_ParseCredential :: "VaultSecret \<Rightarrow> error + smap" where
  "azure_ParseCredential s =
     parseEntries True ''Failed to convert interface{} to string for key '' (Data s)"

definition gcp_ParseCredential :: "VaultSecret \<Rightarrow> error + smap" where
  "gcp_ParseCredential s =
     parseEntries True ''Failed to convert interface{} to string for key '' (Data s)"

definition decodeText :: "json \<Rightarrow> error + string" where
  "decodeText j = (case j of JNull \<Rightarrow> Inr '''' | JString s \<Rightarrow> Inr s | JInt i \<Rightarrow> Inr (string_of_int i)
     | _ \<Rightarrow> Inl (Plain ''expected type string''))"

definition db_ParseCredential :: "VaultSecret \<Rightarrow> error + smap" where
  "db_ParseCredential s =
     (let j = JObject (Data s) in
      case decodeText (jfield ''username'' j) of
        Inl e \<Rightarrow> Inl (Wrapped ''failed to parse credential from vault secret'' e)
      | Inr user \<Rightarrow> (case decodeText (jfield ''password'' j) of
          Inl e \<Rightarrow> Inl (Wrapped ''failed to parse credential from vault secret'' e)
        | Inr pass \<Rightarrow> Inr [(''username'', user), (''password'', pass)]))"

definition aws_GetVaultRefAndRole :: "RoleRef \<Rightarrow> AWSRole go" where
  "aws_GetVaultRefAndRole ref =
     wrapErr (''failed to get AWSRole '' @ slash (ref_Namespace ref) (ref_Name ref))
       (apiGet AWSRoles (ref_Namespace ref) (ref_Name ref))"

definition awsCredManager :: "string \<Rightarrow> VaultClient \<Rightarrow> AWSRole \<Rightarrow> AWSAccessKeyRequest \<Rightarrow> CredManager" where
  "awsCredManager cluster v role req =
     \<lparr>crm_vaultClient = v,
      crm_GetSecret = aws_GetSecret (aws_NewSecretGetter v (GetAWSPath role)
         (AWSRole_RoleName cluster role) (awsreq_UseSTS (Spec req))),
      crm_ParseCredential = aws_ParseCredential,
      crm_GetOwnerReference = NewControllerRef engineGroupVersion ''AWSAccessKeyRequest'' (Meta req)\<rparr>"

definition NewAWSCredentialManager :: "AWSAccessKeyRequest \<Rightarrow> CredManager go" where
  "NewAWSCredentialManager req =
     andThen (wrapErr ''failed to get vault app reference and vault role''
                (aws_GetVaultRefAndRole (awsreq_RoleRef (Spec req)))) (\<lambda>role.
     andThen (wrapErr ''failed to create vault client''
                (NewClient (Namespace (Meta role)) (awsrole_VaultRef (Spec role)))) (\<lambda>v.
     andThen clusterid_ClusterName (\<lambda>cluster.
     ret (awsCredManager cluster v role req))))"

definition azure_GetVaultRefAndRole :: "RoleRef \<Rightarrow> AzureRole go" where
  "azure_GetVaultRefAndRole ref =
     wrapErr (''failed to get AzureRole '' @ slash (ref_Namespace ref) (ref_Name ref))
       (apiGet AzureRoles (ref_Namespace ref) (ref_Name ref))"

definition azureCredManager :: "string \<Rightarrow> VaultClient \<Rightarrow> AzureRole \<Rightarrow> AzureAccessKeyRequest \<Rightarrow> CredManager" where
  "azureCredManager cluster v role req =
     \<lparr>crm_vaultClient = v,
      crm_GetSecret = azure_GetSecret (azure_NewSecretGetter v (GetAzurePath role)
         (AzureRole_RoleName cluster role)),
      crm_ParseCredential = azure_ParseCredential,
      crm_GetOwnerReference = NewControllerRef engineGroupVersion ''AzureAccessKeyRequest'' (Meta req)\<rparr>"

definition NewAzureCredentialManager :: "AzureAccessKeyRequest \<Rightarrow> CredManager go" where
  "NewAzureCredentialManager req =
     andThen (wrapErr ''failed to get vault app reference and AzureRole name''
                (azure_GetVaultRefAndRole (azurereq_RoleRef (Spec req)))) (\<lambda>role.
     andThen (wrapErr ''failed to create vault client''
                (NewClient (Namespace (Meta role)) (azurerole_VaultRef (Spec role)))) (\<lambda>v.
     andThen clusterid_ClusterName (\<lambda>cluster.
     ret (azureCredManager cluster v role req))))"

definition gcp_GetVaultRefAndRole :: "RoleRef \<Rightarrow> GCPRole go" where
  "gcp_GetVaultRefAndRole ref =
     wrapErr (''GCPRole '' @ slash (ref_Namespace ref) (ref_Name ref))
       (apiGet GCPRoles (ref_Namespace ref) (ref_Name ref))"

definition gcpCredManager :: "string \<Rightarrow> VaultClient \<Rightarrow> GCPRole \<Rightarrow> GCPAccessKeyRequest \<Rightarrow> CredManager" where
  "gcpCredManager cluster v role req =
     \<lparr>crm_vaultClient = v,
      crm_GetSecret = gcp_GetSecret (gcp_NewSecretGetter v (GetGCPPath role)
         (GCPRole_RoleName cluster role) (gcprole_SecretType (Spec role)) (Spec req)),
      crm_ParseCredential = gcp_ParseCredential,
      crm_GetOwnerReference = NewControllerRef engineGroupVersion ''GCPAccessKeyRequest'' (Meta req)\<rparr>"

definition NewGCPCredentialManager :: "GCPAccessKeyRequest \<Rightarrow> CredManager go" where
  "NewGCPCredentialManager req =
     andThen (wrapErr ''failed to get gcpRole''
                (gcp_GetVaultRefAndRole (gcpreq_RoleRef (Spec req)))) (\<lambda>role.
     andThen (wrapErr ''failed to create vault client''
                (NewClient (Namespace (Meta role)) (gcprole_VaultRef (Spec role)))) (\<lambda>v.
     andThen clusterid_ClusterName (\<lambda>cluster.
     ret (gcpCredManager cluster v role req))))"

text \<open>The kind of the role decides where the database role is read from.\<close>

definition db_GetVaultRefAndRole :: "RoleRef \<Rightarrow> ((string \<times> string) \<times> string \<times> string) go" where
  "db_GetVaultRefAndRole ref =
     (let ns = ref_Namespace ref; n = ref_Name ref in
      if ref_Kind ref = ''MongoDBRole'' then
        andThen (wrapErr (''MongoDBRole '' @ slash ns n) (apiGet MongoDBRoles ns n)) (\<lambda>r.
          ret ((Namespace (Meta r), mongorole_VaultRef (Spec r)), MongoDBRole_RoleName r, GetMongoDBDatabasePath r))
      else if ref_Kind ref = ''MySQLRole'' then
        andThen (wrapErr (''MySQLRole '' @ slash ns n) (apiGet MySQLRoles ns n)) (\<lambda>r.
          ret ((Namespace (Meta r), mysqlrole_VaultRef (Spec r)), MySQLRole_RoleName r, GetMySQLDatabasePath r))
      else if ref_Kind ref = ''PostgresRole'' then
        andThen (wrapErr (''PostgresRole '' @ slash ns n) (apiGet PostgresRoles ns n)) (\<lambda>r.
          ret ((Namespace (Meta r), pgrole_VaultRef (Spec r)), PostgresRole_RoleName r, GetPostgresDatabasePath r))
      else fail (Plain (''unknown or unsupported role kind '' @ [CHR 0x27] @ ref_Kind ref @ [CHR 0x27])))"

definition dbCredManager :: "VaultClient \<Rightarrow> string \<Rightarrow> string \<Rightarrow> DatabaseAccessRequest \<Rightarrow> CredManager" where
  "dbCredManager v dbPath roleName req =
     \<lparr>crm_vaultClient = v,
      crm_GetSecret = database_GetSecret (database_NewSecretGetter v dbPath roleName),
      crm_ParseCredential = db_ParseCredential,
      crm_GetOwnerReference = NewControllerRef engineGroupVersion ''DatabaseAccessRequest'' (Meta req)\<rparr>"

definition NewDatabaseCredentialManager :: "DatabaseAccessRequest \<Rightarrow> CredManager go" where
  "NewDatabaseCredentialManager req =
     andThen (wrapErr ''failed to get vault app reference and vault role''
                (db_GetVaultRefAndRole (dbreq_RoleRef (Spec req)))) (\<lambda>((ns, n), roleName, dbPath).
     andThen (wrapErr ''failed to create vault client'' (NewClient ns n)) (\<lambda>v.
     ret (dbCredManager v dbPath roleName req)))"

definition NewCredentialManagerForAWS :: "AWSAccessKeyRequest \<Rightarrow> CredentialManager go" where
  "NewCredentialManagerForAWS req =
     andThen (wrapErr ''failed to get aws credential manager'' (NewAWSCredentialManager req))
       (\<lambda>c. ret (CredManager_methods c))"

definition NewCredentialManagerForAzure :: "AzureAccessKeyRequest \<Rightarrow> CredentialManager go" where
  "NewCredentialManagerForAzure req =
     andThen (wrapErr ''failed to get azure credential manager'' (NewAzureCredentialManager req))
       (\<lambda>c. ret (CredManager_methods c))"

definition NewCredentialManagerForGCP :: "GCPAccessKeyRequest \<Rightarrow> CredentialManager go" where
  "NewCredentialManagerForGCP req =
     andThen (wrapErr ''failed to get gcp credential manager'' (NewGCPCredentialManager req))
       (\<lambda>c. ret (CredManager_methods c))"

definition NewCredentialManagerForDatabase :: "DatabaseAccessRequest \<Rightarrow> CredentialManager go" where
  "NewCredentialManagerForDatabase req =
     andThen (wrapErr ''failed to get database credential manager'' (NewDatabaseCredentialManager req))
       (\<lambda>c. ret (CredManager_methods c))"


section \<open>What a credential manager promises\<close>

definition kubeOn :: "string \<Rightarrow> event \<Rightarrow> bool" where
  "kubeOn kind e \<longleftrightarrow> (case e of Kube req a \<Rightarrow> requestKind req = kind | _ \<Rightarrow> False)"

text \<open>The calls of create-or-patch: a read, a create or a patch.\<close>

definition upsertOn :: "string \<Rightarrow> event \<Rightarrow> bool" where
  "upsertOn kind e \<longleftrightarrow> (case e of
       Kube (KGet k ns n) a \<Rightarrow> k = kind
     | Kube (KCreate ob) a \<Rightarrow> objKind ob = kind
     | Kube (KPatch cur new) a \<Rightarrow> objKind new = kind
     | _ \<Rightarrow> False)"

text \<open>A credential is issued by a GET on Vault.\<close>

definition credentialRead :: "event \<Rightarrow> bool" where
  "credentialRead e \<longleftrightarrow> (case e of Vault r a \<Rightarrow> vr_Method r = ''GET'' | _ \<Rightarrow> False)"

definition revokeOf :: "string \<Rightarrow> event \<Rightarrow> bool" where
  "revokeOf leaseID e \<longleftrightarrow> (case e of Vault r a \<Rightarrow> r = revokeRequest (vr_Client r) leaseID | _ \<Rightarrow> False)"

text \<open>The answer to a request that the Vault client reports as success.\<close>

definition answeredOk :: "vaultAnswer \<Rightarrow> bool" where
  "answeredOk a \<longleftrightarrow> snd (rawResult a) = None"

lemma kubeOn_simps [simp]:
  "kubeOn kind (Kube req a) \<longleftrightarrow> requestKind req = kind"
  "\<not> kubeOn kind (Vault r va)" "\<not> kubeOn kind (Ext f args s)"
  by (auto simp: kubeOn_def)

lemma upsertOn_simps [simp]:
  "upsertOn kind (Kube (KGet k ns n) a) \<longleftrightarrow> k = kind"
  "upsertOn kind (Kube (KCreate ob) a) \<longleftrightarrow> objKind ob = kind"
  "upsertOn kind (Kube (KPatch cur new) a) \<longleftrightarrow> objKind new = kind"
  "\<not> upsertOn kind (Kube (KUpdateStatus ob) a)" "\<not> upsertOn kind (Kube (KDelete k ns n) a)"
  "\<not> upsertOn kind (Vault r va)" "\<not> upsertOn kind (Ext f args s)"
  by (simp_all add: upsertOn_def)

lemma upsertOn_kubeOn: "upsertOn kind e \<Longrightarrow> kubeOn kind e"
  by (auto simp: upsertOn_def kubeOn_def split: event.splits kubeRequest.splits)

lemma credentialRead_simps [simp]:
  "\<not> credentialRead (Kube req a)" "credentialRead (Vault r va) \<longleftrightarrow> vr_Method r = ''GET''"
  "\<not> credentialRead (Ext f args s)"
  by (auto simp: credentialRead_def)

lemma revokeRequest_simps [simp]:
  "vr_Method (revokeRequest vc l) = ''PUT''" "vr_Path (revokeRequest vc l) = ''/v1/sys/leases/revoke''"
  "vr_Client (revokeRequest vc l) = vc"
  "revokeRequest vc l = revokeRequest vc' l' \<longleftrightarrow> vc = vc' \<and> l = l'"
  by (auto simp: revokeRequest_def NewRequest_def)

lemma revokeOf_simps [simp]:
  "\<not> revokeOf l (Kube req a)" "\<not> revokeOf l (Ext f args s)"
  "revokeOf l (Vault (revokeRequest vc l') va) \<longleftrightarrow> l' = l"
  by (auto simp: revokeOf_def)

locale credential_manager =
  fixes cm :: CredentialManager and vc :: VaultClient
  assumes get_emits: "emits credentialRead (GetCredential cm) env"
    and secret_emits: "emits (upsertOn ''Secret'') (CreateSecret cm n ns cred) env"
    and role_emits: "emits (upsertOn ''Role'') (CreateRole cm n ns sn) env"
    and binding_emits: "emits (upsertOn ''RoleBinding'') (CreateRoleBinding cm n ns rn subjects) env"
    and revoke_call: "RevokeLease cm lease env t =
      (let a = vault_answer env t (revokeRequest vc lease) in
       ((case snd (rawResult a) of None \<Rightarrow> Ok ()
         | Some e \<Rightarrow> Err (Wrapped ''failed to revoke lease'' e)),
        t @ [Vault (revokeRequest vc lease) a]))"
begin

lemma revoke_emits: "emits (revokeOf lease) (RevokeLease cm lease) env"
  by (simp add: emits_def revoke_call Let_def)

lemma revoke_ok:
  "fst (RevokeLease cm lease env t) = Ok () \<longleftrightarrow> answeredOk (vault_answer env t (revokeRequest vc lease))"
  by (simp add: revoke_call Let_def answeredOk_def split: option.splits)

lemma revoke_no_panic: "fst (RevokeLease cm lease env t) \<noteq> Panic s"
  by (simp add: revoke_call Let_def split: option.splits)

end

lemma CredManager_RevokeLease_run:
  "CredManager_RevokeLease c lease env t =
     (let a = vault_answer env t (revokeRequest (crm_vaultClient c) lease) in
      ((case snd (rawResult a) of None \<Rightarrow> Ok ()
        | Some e \<Rightarrow> Err (Wrapped ''failed to revoke lease'' e)),
       t @ [Vault (revokeRequest (crm_vaultClient c) lease) a]))"
proof -
  let ?a = "vault_answer env t (revokeRequest (crm_vaultClient c) lease)"
  show ?thesis
    by (rule rawResult_cases[of ?a])
      (simp_all add: CredManager_RevokeLease_def rawRequest_ok_run wrapErr_def andThen_def
        attempt_def ret_def fail_def Let_def)
qed

text \<open>A manager whose engine only reads credentials keeps the contract.\<close>

lemma CredManager_is_credential_manager:
  assumes "\<And>env. emits credentialRead (crm_GetSecret c) env"
  shows "credential_manager (CredManager_methods c) (crm_vaultClient c)"
proof
  show "emits credentialRead (GetCredential (CredManager_methods c)) env" for env
    using assms by (simp add: CredManager_methods_def)
  show "emits (upsertOn ''Secret'') (CreateSecret (CredManager_methods c) n ns cred) env" for n ns cred env
    by (simp add: CredManager_methods_def CredManager_CreateSecret_def)
      (intro emits_intros; simp add: Secrets.kind_inj)
  show "emits (upsertOn ''Role'') (CreateRole (CredManager_methods c) n ns sn) env" for n ns sn env
    by (simp add: CredManager_methods_def CredManager_CreateRole_def)
      (intro emits_intros; simp add: RbacRoles.kind_inj)
  show "emits (upsertOn ''RoleBinding'') (CreateRoleBinding (CredManager_methods c) n ns rn subjects) env"
    for n ns rn subjects env
    by (simp add: CredManager_methods_def CredManager_CreateRoleBinding_def)
      (intro emits_intros; simp add: RoleBindings.kind_inj)
qed (simp add: CredManager_methods_def CredManager_RevokeLease_run)

lemma emits_readSecret [emits_intros]:
  "vr_Method req = ''GET'' \<Longrightarrow> emits credentialRead (readSecret req msg) env"
  unfolding readSecret_def by (intro emits_intros) simp

lemma emits_GetSecret [emits_intros]:
  "emits credentialRead (aws_GetSecret s) env"
  "emits credentialRead (azure_GetSecret az) env"
  "emits credentialRead (gcp_GetSecret g) env"
  "emits credentialRead (database_GetSecret db) env"
  unfolding aws_GetSecret_def azure_GetSecret_def gcp_GetSecret_def database_GetSecret_def
    withClient_def
  by (intro emits_intros; simp)+

interpretation aws_cm: credential_manager "CredManager_methods (awsCredManager cluster v role req)" v
  for cluster v role req
  using CredManager_is_credential_manager[of "awsCredManager cluster v role req"]
  by (simp add: awsCredManager_def emits_intros)

interpretation azure_cm: credential_manager "CredManager_methods (azureCredManager cluster v role req)" v
  for cluster v role req
  using CredManager_is_credential_manager[of "azureCredManager cluster v role req"]
  by (simp add: azureCredManager_def emits_intros)

interpretation gcp_cm: credential_manager "CredManager_methods (gcpCredManager cluster v role req)" v
  for cluster v role req
  using CredManager_is_credential_manager[of "gcpCredManager cluster v role req"]
  by (simp add: gcpCredManager_def emits_intros)

interpretation db_cm: credential_manager "CredManager_methods (dbCredManager v dbPath roleName req)" v
  for v dbPath roleName req
  using CredManager_is_credential_manager[of "dbCredManager v dbPath roleName req"]
  by (simp add: dbCredManager_def emits_intros)


subsection \<open>The factories\<close>

text \<open>Making a manager reads a role and authenticates; it issues nothing.\<close>

definition factoryEvent :: "event \<Rightarrow> bool" where
  "factoryEvent e \<longleftrightarrow> authEvent e \<or> (\<exists>k ns n a. e = Kube (KGet k ns n) a)"

lemma factoryEvent_get [simp]: "factoryEvent (Kube (KGet k ns n) a)"
  by (simp add: factoryEvent_def)

lemma emits_NewClient_factory [emits_intros]: "emits factoryEvent (NewClient ns n) env"
  by (rule emits_mono[OF emits_NewClient]) (simp add: factoryEvent_def)

lemma factories_emit [emits_intros]:
  "emits factoryEvent (NewCredentialManagerForAWS awsReq) env"
  "emits factoryEvent (NewCredentialManagerForAzure azureReq) env"
  "emits factoryEvent (NewCredentialManagerForGCP gcpReq) env"
  "emits factoryEvent (NewCredentialManagerForDatabase dbReq) env"
  unfolding NewCredentialManagerForAWS_def NewCredentialManagerForAzure_def
    NewCredentialManagerForGCP_def NewCredentialManagerForDatabase_def
    NewAWSCredentialManager_def NewAzureCredentialManager_def NewGCPCredentialManager_def
    NewDatabaseCredentialManager_def aws_GetVaultRefAndRole_def azure_GetVaultRefAndRole_def
    gcp_GetVaultRefAndRole_def db_GetVaultRefAndRole_def
  by (intro emits_intros; simp)+

definition isManager :: "CredentialManager \<Rightarrow> bool" where
  "isManager cm \<longleftrightarrow> (\<exists>vc. credential_manager cm vc)"

lemma isManagers:
  "isManager (CredManager_methods (awsCredManager cluster v role awsReq))"
  "isManager (CredManager_methods (azureCredManager cluster v arole azureReq))"
  "isManager (CredManager_methods (gcpCredManager cluster v grole gcpReq))"
  "isManager (CredManager_methods (dbCredManager v dbPath roleName dbReq))"
  using aws_cm.credential_manager_axioms azure_cm.credential_manager_axioms
    gcp_cm.credential_manager_axioms db_cm.credential_manager_axioms
  unfolding isManager_def by blast+

lemma factories_yield:
  "yields isManager (NewCredentialManagerForAWS awsReq) env"
  "yields isManager (NewCredentialManagerForAzure azureReq) env"
  "yields isManager (NewCredentialManagerForGCP gcpReq) env"
  "yields isManager (NewCredentialManagerForDatabase dbReq) env"
proof -
  note I = yields_andThenI[where R = "\<lambda>c. isManager (CredManager_methods c)"]
  note U = NewCredentialManagerForAWS_def NewCredentialManagerForAzure_def
    NewCredentialManagerForGCP_def NewCredentialManagerForDatabase_def
    NewAWSCredentialManager_def NewAzureCredentialManager_def NewGCPCredentialManager_def
    NewDatabaseCredentialManager_def
  show "yields isManager (NewCredentialManagerForAWS awsReq) env"
    unfolding U by (rule I) (auto intro!: yields_intros isManagers)
  show "yields isManager (NewCredentialManagerForAzure azureReq) env"
    unfolding U by (rule I) (auto intro!: yields_intros isManagers)
  show "yields isManager (NewCredentialManagerForGCP gcpReq) env"
    unfolding U by (rule I) (auto intro!: yields_intros isManagers)
  show "yields isManager (NewCredentialManagerForDatabase dbReq) env"
    unfolding U by (rule I) (auto intro!: yields_intros isManagers)
qed

end
