(* ===== verification/Finalizers.thy ===== *)
theory Finalizers
  imports Clients
begin

text \<open>
  What every controller does with the finalizer of its object: add it before
  anything else, remove it last.
\<close>

definition removeFinalizer :: "('s, 'st) resource \<Rightarrow> ('s, 'st) resource" where
  "removeFinalizer r = r\<lparr>Meta := RemoveFinalizer (Meta r) Finalizer\<rparr>"

definition addFinalizer :: "('s, 'st) resource \<Rightarrow> ('s, 'st) resource" where
  "addFinalizer r = r\<lparr>Meta := AddFinalizer (Meta r) Finalizer\<rparr>"

definition ensureFinalizer :: "('s, 'st) resource client \<Rightarrow> string \<Rightarrow> ('s, 'st) resource \<Rightarrow> unit go" where
  "ensureFinalizer c msg r =
     (if HasFinalizer (Meta r) Finalizer then ret ()
      else andThen (wrapErr msg (Patch c r addFinalizer)) (\<lambda>_. ret ()))"

text \<open>Whatever follows \<open>ensureFinalizer\<close> runs after an accepted patch.\<close>

lemma addFinalizer_neq: "\<not> HasFinalizer (Meta r) Finalizer \<Longrightarrow> addFinalizer r \<noteq> r"
  by (metis HasFinalizer_AddFinalizer addFinalizer_def resource.select_convs(1) resource.surjective
      resource.update_convs(1))

lemma ensureFinalizer_first:
  assumes no: "\<not> HasFinalizer (Meta x) Finalizer" and rest: "emits (\<lambda>_. True) rest env"
    and run: "andThen (ensureFinalizer c msg x) (\<lambda>_. rest) env t = (r, t @ es)"
  obtains a es' where "es = Kube (KPatch (cl_inj c x) (cl_inj c (addFinalizer x))) a # es'"
    "(\<exists>ob. a = Inr ob) \<or> es' = []"
proof -
  let ?req = "KPatch (cl_inj c x) (cl_inj c (addFinalizer x))"
  let ?t = "t @ [Kube ?req (kube_answer env t ?req)]"
  obtain es' where es': "snd (rest env ?t) = ?t @ es'" using rest by (rule emitsE)
  have "andThen (ensureFinalizer c msg x) (\<lambda>_. rest) env t = (case kube_answer env t ?req of
      Inl e \<Rightarrow> (Err (Wrapped msg e), ?t)
    | Inr ob \<Rightarrow> (case cl_prj c ob of
        None \<Rightarrow> (Err (Wrapped msg (Plain ''unexpected object kind'')), ?t)
      | Some v \<Rightarrow> rest env ?t))"
    using no addFinalizer_neq[OF no]
    by (simp add: ensureFinalizer_def Patch_def PatchObject_def apiPatch_def kubeCall_def
        andThen_def wrapErr_def attempt_def fail_def ret_def Let_def split: sum.splits option.splits)
  with run es' show thesis
    by (intro that[of "kube_answer env t ?req" "if snd (rest env ?t) = t @ es then es' else []"])
      (auto split: sum.splits option.splits)
qed


end
