(* ===== verification/Access_Request.thy ===== *)
theory Access_Request
  imports Credential Finalizers
begin

text \<open>
  The controllers of credential requests (AWSAccessKeyRequest,
  AzureAccessKeyRequest, GCPAccessKeyRequest, DatabaseAccessRequest).  The four
  Go files have the same text up to the kind, so each function is written once
  over a record of what depends on the kind; the per-kind functions instantiate
  it.
\<close>

section \<open>The controller\<close>

record 'spec accessKind =
  ak_Kind :: string
  ak_lowerKind :: string
  ak_finalizerMsg :: "string \<Rightarrow> string"
  ak_client :: "('spec, AccessRequestStatus) resource client"
  ak_NewCredentialManager :: "('spec, AccessRequestStatus) resource \<Rightarrow> CredentialManager go"
  ak_Subjects :: "'spec \<Rightarrow> Subject list"

type_synonym 'spec accessRequest = "('spec, AccessRequestStatus) resource"

text \<open>A nil manager is not modelled: the factories return one whenever they return no error.\<close>

definition revokeLease :: "CredentialManager \<Rightarrow> Lease option \<Rightarrow> unit go" where
  "revokeLease credM lease = (case lease of
       None \<Rightarrow> ret ()
     | Some l \<Rightarrow> if lease_ID l = '''' then ret () else RevokeLease credM (lease_ID l))"

definition getSecretAccessRoleName :: "string \<Rightarrow> string \<Rightarrow> string \<Rightarrow> string" where
  "getSecretAccessRoleName kind ns n = NameWithSuffix (kind @ ''-'' @ ns @ ''-'' @ n) ''cred-reader''"

definition failedCondition :: "string \<Rightarrow> error \<Rightarrow> int \<Rightarrow> Condition" where
  "failedCondition rsn err now =
     \<lparr>cond_Type = ConditionFailed, cond_Status = ConditionTrue, cond_ObservedGeneration = 0,
      cond_LastTransitionTime = now, cond_Reason = rsn, cond_Message = Error err\<rparr>"

definition setFailed :: "string \<Rightarrow> error \<Rightarrow> int \<Rightarrow> AccessRequestStatus \<Rightarrow> AccessRequestStatus" where
  "setFailed rsn err now st =
     st\<lparr>req_Conditions := SetCondition now (req_Conditions st) (failedCondition rsn err now)\<rparr>"

text \<open>\<open>_, err2 := UpdateStatus(...); return NewAggregate([err2, err])\<close>\<close>

definition failWith :: "'spec accessKind \<Rightarrow> 'spec accessRequest
    \<Rightarrow> (int \<Rightarrow> AccessRequestStatus \<Rightarrow> AccessRequestStatus) \<Rightarrow> error \<Rightarrow> unit go" where
  "failWith k req f err =
     errOf (UpdateStatus (ak_client k) (Meta req) f) (\<lambda>err2. returnErr (NewAggregate [err2, Some err]))"

definition leaseOf :: "VaultSecret \<Rightarrow> Lease" where
  "leaseOf s = \<lparr>lease_ID = LeaseID s, lease_Duration = int64 (1000000000 * LeaseDuration s),
                lease_Renewable = Renewable s\<rparr>"

definition setIssued :: "VaultSecret \<Rightarrow> string \<Rightarrow> int \<Rightarrow> AccessRequestStatus \<Rightarrow> AccessRequestStatus" where
  "setIssued s secretName now st = st\<lparr>req_Lease := Some (leaseOf s), req_Secret := Some secretName\<rparr>"

definition availableCondition :: "int \<Rightarrow> Condition" where
  "availableCondition now =
     \<lparr>cond_Type = ConditionAvailable, cond_Status = ConditionTrue, cond_ObservedGeneration = 0,
      cond_LastTransitionTime = now, cond_Reason = ''SuccessfullyIssuedCredential'',
      cond_Message = ''The requested credentials successfully issued.''\<rparr>"

definition setAvailable :: "int \<Rightarrow> int \<Rightarrow> AccessRequestStatus \<Rightarrow> AccessRequestStatus" where
  "setAvailable generation now st =
     st\<lparr>req_Conditions := SetCondition now (RemoveCondition (req_Conditions st) ConditionFailed)
          (availableCondition now),
        req_ObservedGeneration := generation\<rparr>"

definition WithUniqSuffix :: "string \<Rightarrow> string \<Rightarrow> string" where
  "WithUniqSuffix seed chars = seed @ ''-'' @ chars"

definition reconcileAccessRequest ::
    "'spec accessKind \<Rightarrow> CredentialManager \<Rightarrow> 'spec accessRequest \<Rightarrow> unit go" where
  "reconcileAccessRequest k cm req =
    (if req_Lease (Status req) \<noteq> None \<or> req_Secret (Status req) \<noteq> None
     then fail (Plain ''lease or secret ref is not empty'')
     else
     let ns = Namespace (Meta req) in
     attempt (GetCredential cm)
      (\<lambda>err. failWith k req (setFailed ''FailedToGetCredential'' err) err)
      (\<lambda>credSecret.
     andThen randCharacters (\<lambda>chars.
     let secretName = WithUniqSuffix (Name (Meta req)) chars in
     attempt (CreateSecret cm secretName ns credSecret)
      (\<lambda>err. case credSecret of
          None \<Rightarrow> panic ''invalid memory address or nil pointer dereference''
        | Some s \<Rightarrow>
          errOf (if LeaseID s \<noteq> '''' then RevokeLease cm (LeaseID s) else ret ())
            (\<lambda>err2. case err2 of
                Some e2 \<Rightarrow> fail (Wrapped (''failed to revoke lease with '' @ Error e2) err)
              | None \<Rightarrow> failWith k req (setFailed ''FailedToCreateSecret'' err) err))
      (\<lambda>_.
     case credSecret of
       None \<Rightarrow> andThen (apiGet (ak_client k) ns (Name (Meta req)))
                 (\<lambda>_. panic ''invalid memory address or nil pointer dereference'')
     | Some s \<Rightarrow>
     andThen (UpdateStatus (ak_client k) (Meta req) (setIssued s secretName)) (\<lambda>_.
     let roleName = getSecretAccessRoleName (ak_Kind k) ns (Name (Meta req)) in
     attempt (CreateRole cm roleName ns secretName)
      (\<lambda>err. failWith k req (setFailed ''FailedToCreateRole'' err) err)
      (\<lambda>_.
     attempt (CreateRoleBinding cm roleName ns roleName (ak_Subjects k (Spec req)))
      (\<lambda>err. failWith k req (setFailed ''FailedToCreateRoleBinding'' err) err)
      (\<lambda>_.
     andThen (UpdateStatus (ak_client k) (Meta req) (setAvailable (Generation (Meta req))))
      (\<lambda>_. ret ()))))))))"

definition deleteCredSecret :: "'spec accessRequest \<Rightarrow> unit go" where
  "deleteCredSecret req = (case req_Secret (Status req) of
       None \<Rightarrow> ret ()
     | Some n \<Rightarrow> apiDelete ''Secret'' (Namespace (Meta req)) n)"

definition successfullyProcessed :: "'spec accessRequest \<Rightarrow> bool" where
  "successfullyProcessed req \<longleftrightarrow>
     req_Conditions (Status req) \<noteq> [] \<and> req_Secret (Status req) \<noteq> None
     \<and> (\<forall>c \<in> set (req_Conditions (Status req)). cond_Type c \<noteq> ConditionFailed)"

definition runAccessRequestFinalizer :: "'spec accessKind \<Rightarrow> 'spec accessRequest \<Rightarrow> unit go" where
  "runAccessRequestFinalizer k req =
     (let finalizerError = (\<lambda>err. Plain (ak_Kind k @ '' '' @ key req @ '' finalizer: '' @ Error err)) in
      andThen (attempt (ak_NewCredentialManager k req)
                 (\<lambda>_. ret ())
                 (\<lambda>cm. attempt (revokeLease cm (req_Lease (Status req)))
                         (\<lambda>err. fail (finalizerError err)) ret)) (\<lambda>_.
      attempt (Patch (ak_client k) req removeFinalizer)
        (\<lambda>err. fail (finalizerError err)) (\<lambda>_. ret ())))"

text \<open>The type of the last approved or denied condition that is true.\<close>

definition approvalType :: "Condition list \<Rightarrow> string" where
  "approvalType conds = fold (\<lambda>c condType.
     if (cond_Type c = ConditionRequestApproved \<and> cond_Status c = ConditionTrue)
        \<or> (cond_Type c = ConditionRequestDenied \<and> cond_Status c = ConditionTrue)
     then cond_Type c else condType) conds ''''"

definition setWaiting :: "int \<Rightarrow> AccessRequestStatus \<Rightarrow> AccessRequestStatus" where
  "setWaiting now st =
     (if req_Phase st = '''' then st\<lparr>req_Phase := RequestStatusPhaseWaitingForApproval\<rparr> else st)"

definition clearIssued :: "int \<Rightarrow> int \<Rightarrow> AccessRequestStatus \<Rightarrow> AccessRequestStatus" where
  "clearIssued generation now st =
     st\<lparr>req_Secret := None, req_Lease := None, req_ObservedGeneration := generation\<rparr>"

text \<open>What an approved request goes through.\<close>

definition processApproved :: "'spec accessKind \<Rightarrow> 'spec accessRequest \<Rightarrow> unit go" where
  "processApproved k req =
    (if successfullyProcessed req then ret ()
     else attempt (ak_NewCredentialManager k req)
      (\<lambda>err. failWith k req (\<lambda>now st.
         (setFailed ''FailedToCreateCredentialManager'' err now st)
           \<lparr>req_ObservedGeneration := Generation (Meta req)\<rparr>) err)
      (\<lambda>cm. attempt (reconcileAccessRequest k cm req)
        (\<lambda>err.
           errOf (revokeLease cm (req_Lease (Status req))) (\<lambda>err1.
           errOf (deleteCredSecret req) (\<lambda>err2.
           if err1 \<noteq> None \<or> err2 \<noteq> None then returnErr (NewAggregate [err2, err1])
           else errOf (UpdateStatus (ak_client k) (Meta req) (clearIssued (Generation (Meta req))))
             (\<lambda>err3. returnErr (errors_Wrap (NewAggregate [err3, Some err])
                        (''For '' @ ak_Kind k @ '' '' @ key req))))))
        ret))"

definition dispatchAccessRequest :: "'spec accessKind \<Rightarrow> 'spec accessRequest \<Rightarrow> unit go" where
  "dispatchAccessRequest k req =
    (let condType = approvalType (req_Conditions (Status req)) in
     if condType = '''' then
       andThen (wrapErr (''failed to update the status of '' @ ak_lowerKind k @ '': '' @ key req)
                  (UpdateStatus (ak_client k) (Meta req) setWaiting)) (\<lambda>_. ret ())
     else if condType = ConditionRequestApproved then processApproved k req
     else ret ())"

definition syncAccessRequest :: "'spec accessKind \<Rightarrow> 'spec accessRequest \<Rightarrow> unit go" where
  "syncAccessRequest k req =
    (if DeletionTimestamp (Meta req) \<noteq> None then
       (if HasFinalizer (Meta req) Finalizer then runAccessRequestFinalizer k req else ret ())
     else andThen (ensureFinalizer (ak_client k) (ak_finalizerMsg k (key req)) req)
            (\<lambda>_. dispatchAccessRequest k req))"

definition runAccessRequestInjector :: "'spec accessKind \<Rightarrow> string \<Rightarrow> unit go" where
  "runAccessRequestInjector k ky =
     andThen (GetByKey (ak_Kind k) ky) (\<lambda>obj. case obj of
       None \<Rightarrow> ret ()
     | Some ob \<Rightarrow> (case cl_prj (ak_client k) ob of
         None \<Rightarrow> panic ''interface conversion''
       | Some req \<Rightarrow> syncAccessRequest k req))"


section \<open>The four kinds\<close>

definition awsAccessKind :: "AWSAccessKeyRequestSpec accessKind" where
  "awsAccessKind = \<lparr>ak_Kind = ''AWSAccessKeyRequest'', ak_lowerKind = ''awsAccessKeyRequest'',
     ak_finalizerMsg = (\<lambda>ky. ''failed to add finalizer for AWSAccessKeyRequest: '' @ ky),
     ak_client = AWSAccessKeyRequests, ak_NewCredentialManager = NewCredentialManagerForAWS, ak_Subjects = awsreq_Subjects\<rparr>"

definition runAWSAccessKeyRequestInjector :: "string \<Rightarrow> unit go" where
  "runAWSAccessKeyRequestInjector = runAccessRequestInjector awsAccessKind"

definition reconcileAWSAccessKeyRequest :: "CredentialManager \<Rightarrow> AWSAccessKeyRequest \<Rightarrow> unit go" where
  "reconcileAWSAccessKeyRequest = reconcileAccessRequest awsAccessKind"

definition runAWSAccessKeyRequestFinalizer :: "AWSAccessKeyRequest \<Rightarrow> unit go" where
  "runAWSAccessKeyRequestFinalizer = runAccessRequestFinalizer awsAccessKind"

definition deleteCredSecretForAWSAccessKeyRequest :: "AWSAccessKeyRequest \<Rightarrow> unit go" where
  "deleteCredSecretForAWSAccessKeyRequest = deleteCredSecret"

definition awsAccessKeyRequestSuccessfullyProcessed :: "AWSAccessKeyRequest \<Rightarrow> bool" where
  "awsAccessKeyRequestSuccessfullyProcessed = successfullyProcessed"

definition azureAccessKind :: "AzureAccessKeyRequestSpec accessKind" where
  "azureAccessKind = \<lparr>ak_Kind = ''AzureAccessKeyRequest'', ak_lowerKind = ''azureAccessKeyRequest'',
     ak_finalizerMsg = (\<lambda>ky. ''failed to set AzureAccessKeyRequest finalizer for '' @ ky),
     ak_client = AzureAccessKeyRequests, ak_NewCredentialManager = NewCredentialManagerForAzure, ak_Subjects = azurereq_Subjects\<rparr>"

definition runAzureAccessKeyRequestInjector :: "string \<Rightarrow> unit go" where
  "runAzureAccessKeyRequestInjector = runAccessRequestInjector azureAccessKind"

definition reconcileAzureAccessKeyRequest :: "CredentialManager \<Rightarrow> AzureAccessKeyRequest \<Rightarrow> unit go" where
  "reconcileAzureAccessKeyRequest = reconcileAccessRequest azureAccessKind"

definition runAzureAccessKeyRequestFinalizer :: "AzureAccessKeyRequest \<Rightarrow> unit go" where
  "runAzureAccessKeyRequestFinalizer = runAccessRequestFinalizer azureAccessKind"

definition deleteCredSecretForAzureAccessKeyRequest :: "AzureAccessKeyRequest \<Rightarrow> unit go" where
  "deleteCredSecretForAzureAccessKeyRequest = deleteCredSecret"

definition azureAccessKeyRequestSuccessfullyProcessed :: "AzureAccessKeyRequest \<Rightarrow> bool" where
  "azureAccessKeyRequestSuccessfullyProcessed = successfullyProcessed"

definition gcpAccessKind :: "GCPAccessKeyRequestSpec accessKind" where
  "gcpAccessKind = \<lparr>ak_Kind = ''GCPAccessKeyRequest'', ak_lowerKind = ''gcpAccessKeyRequest'',
     ak_finalizerMsg = (\<lambda>ky. ''failed to add GCPAccessKeyRequest finalizer for '' @ ky),
     ak_client = GCPAccessKeyRequests, ak_NewCredentialManager = NewCredentialManagerForGCP, ak_Subjects = gcpreq_Subjects\<rparr>"

definition runGCPAccessKeyRequestInjector :: "string \<Rightarrow> unit go" where
  "runGCPAccessKeyRequestInjector = runAccessRequestInjector gcpAccessKind"

definition reconcileGCPAccessKeyRequest :: "CredentialManager \<Rightarrow> GCPAccessKeyRequest \<Rightarrow> unit go" where
  "reconcileGCPAccessKeyRequest = reconcileAccessRequest gcpAccessKind"

definition runGCPAccessKeyRequestFinalizer :: "GCPAccessKeyRequest \<Rightarrow> unit go" where
  "runGCPAccessKeyRequestFinalizer = runAccessRequestFinalizer gcpAccessKind"

definition deleteCredSecretForGCPAccessKeyRequest :: "GCPAccessKeyRequest \<Rightarrow> unit go" where
  "deleteCredSecretForGCPAccessKeyRequest = deleteCredSecret"

definition gcpAccessKeyRequestSuccessfullyProcessed :: "GCPAccessKeyRequest \<Rightarrow> bool" where
  "gcpAccessKeyRequestSuccessfullyProcessed = successfullyProcessed"

definition dbAccessKind :: "DatabaseAccessRequestSpec accessKind" where
  "dbAccessKind = \<lparr>ak_Kind = ''DatabaseAccessRequest'', ak_lowerKind = ''databaseAccessRequest'',
     ak_finalizerMsg = (\<lambda>ky. ''failed to set DatabaseAccessRequest finalizer for '' @ ky),
     ak_client = DatabaseAccessRequests, ak_NewCredentialManager = NewCredentialManagerForDatabase, ak_Subjects = dbreq_Subjects\<rparr>"

definition runDatabaseAccessRequestInjector :: "string \<Rightarrow> unit go" where
  "runDatabaseAccessRequestInjector = runAccessRequestInjector dbAccessKind"

definition reconcileDatabaseAccessRequest :: "CredentialManager \<Rightarrow> DatabaseAccessRequest \<Rightarrow> unit go" where
  "reconcileDatabaseAccessRequest = reconcileAccessRequest dbAccessKind"

definition runDatabaseAccessRequestFinalizer :: "DatabaseAccessRequest \<Rightarrow> unit go" where
  "runDatabaseAccessRequestFinalizer = runAccessRequestFinalizer dbAccessKind"

definition deleteCredSecretForDatabaseAccessRequest :: "DatabaseAccessRequest \<Rightarrow> unit go" where
  "deleteCredSecretForDatabaseAccessRequest = deleteCredSecret"

definition databaseAccessRequestSuccessfullyProcessed :: "DatabaseAccessRequest \<Rightarrow> bool" where
  "databaseAccessRequestSuccessfullyProcessed = successfullyProcessed"


section \<open>Correctness of the controllers\<close>

text \<open>What the theorems below need of a kind.\<close>

locale access_controller =
  fixes k :: "'spec accessKind"
  assumes client: "typed_client (ak_client k)"
    and kind_client: "cl_Kind (ak_client k) = ak_Kind k"
    and own_kind: "ak_Kind k \<notin> {''Secret'', ''Role'', ''RoleBinding''}"
    and mgr_emits: "emits factoryEvent (ak_NewCredentialManager k req) env"
    and mgr_yields: "yields isManager (ak_NewCredentialManager k req) env"

interpretation aws_access: access_controller awsAccessKind
  by unfold_locales
    (simp_all add: awsAccessKind_def AWSAccessKeyRequests_def factories_emit factories_yield
      split: obj.splits)

interpretation azure_access: access_controller azureAccessKind
  by unfold_locales
    (simp_all add: azureAccessKind_def AzureAccessKeyRequests_def factories_emit factories_yield
      split: obj.splits)

interpretation gcp_access: access_controller gcpAccessKind
  by unfold_locales
    (simp_all add: gcpAccessKind_def GCPAccessKeyRequests_def factories_emit factories_yield
      split: obj.splits)

interpretation db_access: access_controller dbAccessKind
  by unfold_locales
    (simp_all add: dbAccessKind_def DatabaseAccessRequests_def factories_emit factories_yield
      split: obj.splits)


subsection \<open>No credential without approval\<close>

text \<open>The requests a credential may be issued for.\<close>

definition mayIssue :: "'spec accessRequest \<Rightarrow> bool" where
  "mayIssue req \<longleftrightarrow>
     DeletionTimestamp (Meta req) = None
     \<and> approvalType (req_Conditions (Status req)) = ConditionRequestApproved
     \<and> \<not> successfullyProcessed req
     \<and> req_Lease (Status req) = None \<and> req_Secret (Status req) = None"

definition quiet :: "event \<Rightarrow> bool" where
  "quiet e \<longleftrightarrow> \<not> credentialRead e"

lemma quiet_simps [simp]: "quiet (Kube r a)" "quiet (Ext f args s)"
  by (simp_all add: quiet_def)

lemma quiet_factory: "factoryEvent e \<Longrightarrow> quiet e"
  by (cases e rule: authEvent.cases) (auto simp: factoryEvent_def quiet_def)

lemma quiet_revoke: "revokeOf l e \<Longrightarrow> quiet e"
  by (cases e) (auto simp: revokeOf_def quiet_def revokeRequest_def dest: arg_cong[where f = vr_Method])

lemma emits_failWith_quiet [emits_intros]: "emits quiet (failWith k req f err) env"
  unfolding failWith_def by (intro emits_intros) simp_all

lemma emits_deleteCredSecret_quiet [emits_intros]: "emits quiet (deleteCredSecret req) env"
  unfolding deleteCredSecret_def by (intro emits_intros) simp

context credential_manager
begin

lemma emits_revokeLease:
  "emits (\<lambda>e. \<exists>l. lease = Some l \<and> lease_ID l \<noteq> '''' \<and> revokeOf (lease_ID l) e) (revokeLease cm lease) env"
  unfolding revokeLease_def
  by (intro emits_intros) (auto intro: emits_mono[OF revoke_emits])

lemma reconcile_quiet:
  assumes "req_Lease (Status req) \<noteq> None \<or> req_Secret (Status req) \<noteq> None"
  shows "emits quiet (reconcileAccessRequest k cm req) env"
  using assms by (simp add: reconcileAccessRequest_def emits_fail)

end

lemma isManager_revokeLease_quiet: "isManager cm \<Longrightarrow> emits quiet (revokeLease cm lease) env"
  unfolding isManager_def
  by (auto intro: emits_mono[OF credential_manager.emits_revokeLease] quiet_revoke)

context access_controller
begin

lemma finalizer_quiet: "emits quiet (runAccessRequestFinalizer k req) env"
proof -
  have mgr: "emits quiet (ak_NewCredentialManager k req) env"
    by (rule emits_mono[OF mgr_emits quiet_factory])
  show ?thesis
    unfolding runAccessRequestFinalizer_def Let_def
    by (intro emits_intros emits_attempt_yields[OF mgr mgr_yields])
      (simp_all add: emits_intros isManager_revokeLease_quiet)
qed

lemma processApproved_quiet:
  assumes "successfullyProcessed req \<or> req_Lease (Status req) \<noteq> None \<or> req_Secret (Status req) \<noteq> None"
  shows "emits quiet (processApproved k req) env"
proof -
  have mgr: "emits quiet (ak_NewCredentialManager k req) env"
    by (rule emits_mono[OF mgr_emits quiet_factory])
  have rec: "emits quiet (reconcileAccessRequest k cm req) env"
    if "isManager cm" "\<not> successfullyProcessed req" for cm
    using assms that credential_manager.reconcile_quiet unfolding isManager_def by blast
  show ?thesis
    unfolding processApproved_def
    by (intro emits_intros emits_attempt_yields[OF mgr mgr_yields])
      (simp_all add: emits_intros isManager_revokeLease_quiet rec)
qed

text \<open>Only an approved, live request without an issued credential reaches Vault's credential path.\<close>

lemma sync_quiet:
  assumes "\<not> mayIssue req"
  shows "emits quiet (syncAccessRequest k req) env"
proof -
  have "emits quiet (processApproved k req) env"
    if "approvalType (req_Conditions (Status req)) = ConditionRequestApproved"
      "DeletionTimestamp (Meta req) = None"
    using assms that by (intro processApproved_quiet) (auto simp: mayIssue_def)
  then show ?thesis
    unfolding syncAccessRequest_def ensureFinalizer_def dispatchAccessRequest_def
    by (auto intro!: emits_intros finalizer_quiet simp: Let_def)
qed

end

subsection \<open>What the controller touches\<close>

text \<open>
  The footprint of a request: its own object, the credential secret, the reader
  role and binding, Vault reads and lease revocations, and what making a
  manager needs.
\<close>

definition footprint :: "string \<Rightarrow> event \<Rightarrow> bool" where
  "footprint kind e \<longleftrightarrow>
     (\<exists>kd \<in> {kind, ''Secret'', ''Role'', ''RoleBinding''}. kubeOn kd e)
     \<or> credentialRead e \<or> (\<exists>l. revokeOf l e) \<or> factoryEvent e"

lemma footprintI:
  "kubeOn kind e \<Longrightarrow> footprint kind e" "kubeOn ''Secret'' e \<Longrightarrow> footprint kind e"
  "kubeOn ''Role'' e \<Longrightarrow> footprint kind e" "kubeOn ''RoleBinding'' e \<Longrightarrow> footprint kind e"
  "credentialRead e \<Longrightarrow> footprint kind e" "revokeOf l e \<Longrightarrow> footprint kind e"
  "factoryEvent e \<Longrightarrow> footprint kind e"
  by (auto simp: footprint_def)

context access_controller
begin

lemma kind_inj: "objKind (cl_inj (ak_client k) x) = ak_Kind k"
  using typed_client.kind_inj[OF client] by (simp add: kind_client)

lemma status_footprint [emits_intros]:
  "emits (footprint (ak_Kind k)) (UpdateStatus (ak_client k) meta f) env"
  by (intro emits_intros) (simp_all add: footprint_def kind_client kind_inj)

lemma get_footprint [emits_intros]:
  "emits (footprint (ak_Kind k)) (apiGet (ak_client k) ns n) env"
  by (intro emits_intros) (simp_all add: footprint_def kind_client)

lemma patch_footprint [emits_intros]:
  "emits (footprint (ak_Kind k)) (Patch (ak_client k) req f) env"
  by (intro emits_intros) (simp_all add: footprint_def kind_client kind_inj)

lemma failWith_footprint [emits_intros]:
  "emits (footprint (ak_Kind k)) (failWith k req f err) env"
  unfolding failWith_def by (intro emits_intros)

lemma reconcile_footprint:
  assumes "isManager cm"
  shows "emits (footprint (ak_Kind k)) (reconcileAccessRequest k cm req) env"
proof -
  from assms obtain vc where cm: "credential_manager cm vc" by (auto simp: isManager_def)
  note ops = credential_manager.get_emits[OF cm, THEN emits_mono]
    credential_manager.secret_emits[OF cm, THEN emits_mono]
    credential_manager.role_emits[OF cm, THEN emits_mono]
    credential_manager.binding_emits[OF cm, THEN emits_mono]
    credential_manager.revoke_emits[OF cm, THEN emits_mono]
  show ?thesis
    unfolding reconcileAccessRequest_def
    by (intro emits_intros ops) (auto intro: footprintI upsertOn_kubeOn)
qed

lemma revokeLease_footprint:
  "isManager cm \<Longrightarrow> emits (footprint kd) (revokeLease cm lease) env"
  unfolding isManager_def
  by (auto intro: emits_mono[OF credential_manager.emits_revokeLease] footprintI)

lemma mgr_footprint: "emits (footprint kd) (ak_NewCredentialManager k req) env"
  by (rule emits_mono[OF mgr_emits]) (rule footprintI)

lemma processApproved_footprint: "emits (footprint (ak_Kind k)) (processApproved k req) env"
  unfolding processApproved_def deleteCredSecret_def
  by (intro emits_intros emits_attempt_yields[OF mgr_footprint mgr_yields])
    (simp_all add: reconcile_footprint revokeLease_footprint footprint_def)

lemma finalizer_footprint: "emits (footprint (ak_Kind k)) (runAccessRequestFinalizer k req) env"
  unfolding runAccessRequestFinalizer_def Let_def
  by (intro emits_intros emits_attempt_yields[OF mgr_footprint mgr_yields])
    (simp_all add: revokeLease_footprint)

lemma dispatch_footprint: "emits (footprint (ak_Kind k)) (dispatchAccessRequest k req) env"
  unfolding dispatchAccessRequest_def by (intro emits_intros processApproved_footprint)

lemma sync_footprint: "emits (footprint (ak_Kind k)) (syncAccessRequest k req) env"
  unfolding syncAccessRequest_def ensureFinalizer_def
  by (intro emits_intros dispatch_footprint finalizer_footprint)

text \<open>The finalizer is on the object before anything else happens.\<close>

lemma sync_finalizer_first:
  assumes live: "DeletionTimestamp (Meta req) = None" and no: "\<not> HasFinalizer (Meta req) Finalizer"
    and run: "syncAccessRequest k req env t = (r, t @ es)"
  obtains a es' where
    "es = Kube (KPatch (cl_inj (ak_client k) req) (cl_inj (ak_client k) (addFinalizer req))) a # es'"
    "(\<exists>ob. a = Inr ob) \<or> es' = []"
proof -
  have "andThen (ensureFinalizer (ak_client k) (ak_finalizerMsg k (key req)) req)
      (\<lambda>_. dispatchAccessRequest k req) env t = (r, t @ es)"
    using run live by (simp add: syncAccessRequest_def)
  moreover have "emits (\<lambda>_. True) (dispatchAccessRequest k req) env"
    by (rule emits_mono[OF dispatch_footprint]) simp
  ultimately show thesis using ensureFinalizer_first[OF no] that by blast
qed

end

end
