(* ===== verification/Example_World.thy ===== *)
theory Example_World
  imports Access_Request
begin

text \<open>
  A concrete outside world for the witnesses: an API server that answers reads
  from a given table and accepts every write, and a Vault server given by its
  answers.
\<close>

definition echoEnv :: "(string \<Rightarrow> string \<Rightarrow> string \<Rightarrow> error + obj) \<Rightarrow> (VaultRequest \<Rightarrow> vaultAnswer)
    \<Rightarrow> (string \<Rightarrow> string \<Rightarrow> error + obj option) \<Rightarrow> env" where
  "echoEnv get vlt cch =
     \<lparr>kube_answer = (\<lambda>t req. case req of
          KGet k ns n \<Rightarrow> get k ns n
        | KCreate ob \<Rightarrow> Inr ob | KPatch cur mod' \<Rightarrow> Inr mod' | KUpdate ob \<Rightarrow> Inr ob
        | KUpdateStatus ob \<Rightarrow> Inr ob | KDelete k ns n \<Rightarrow> Inr NoObj | KList k ns sel \<Rightarrow> Inr NoObj),
      vault_answer = (\<lambda>t. vlt),
      sdk_answer = (\<lambda>t f args. Inr ''sdk''),
      cache_answer = (\<lambda>t. cch),
      rand_chars = (\<lambda>t. ''abc123''),
      clock = (\<lambda>t. 1000),
      poll_ticks = (\<lambda>t. 3),
      cluster_name = '''',
      pem_ok = (\<lambda>_. True),
      url_hostname = (\<lambda>u. Inr ''vault''),
      new_client_error = (\<lambda>_. None), rest_host = '''', rest_ca_data = Inr '''', kube_client_error = None,
      private_key_of = id, aks_fqdn = False, analytics_client_id = '''', in_cluster = True\<rparr>"

definition demoCondition :: "string \<Rightarrow> Condition" where
  "demoCondition ty = \<lparr>cond_Type = ty, cond_Status = ConditionTrue, cond_ObservedGeneration = 0,
     cond_LastTransitionTime = 1, cond_Reason = '''', cond_Message = ''''\<rparr>"

definition demoRequest :: AWSAccessKeyRequest where
  "demoRequest = \<lparr>Meta = (ObjectMeta0 ''req'' ''demo'')\<lparr>Generation := 2, UID := ''u1''\<rparr>,
     Spec = \<lparr>awsreq_RoleRef = \<lparr>ref_APIGroup = '''', ref_Kind = ''AWSRole'', ref_Name = ''role'', ref_Namespace = ''demo''\<rparr>,
             awsreq_Subjects = [], awsreq_RoleARN = '''', awsreq_TTL = '''', awsreq_UseSTS = True\<rparr>,
     Status = AccessRequestStatus0\<lparr>req_Conditions := [demoCondition ConditionRequestApproved]\<rparr>\<rparr>"

definition demoAWSRole :: AWSRole where
  "demoAWSRole = \<lparr>Meta = ObjectMeta0 ''role'' ''demo'',
     Spec = \<lparr>awsrole_VaultRef = ''vault'', awsrole_Path = '''', awsrole_CredentialType = ''assumed_role'',
             awsrole_RoleARNs = [], awsrole_PolicyARNs = [], awsrole_PolicyDocument = '''',
             awsrole_Policy = None, awsrole_DefaultSTSTTL = '''', awsrole_MaxSTSTTL = ''''\<rparr>,
     Status = RoleStatus0\<rparr>"

definition demoApp :: AppBinding where
  "demoApp = \<lparr>ab_Meta = ObjectMeta0 ''vault'' ''demo'', ab_Type = '''', ab_Version = '''',
     ab_ClientConfig = \<lparr>cc_URL = Some ''https://vault:8200'', cc_Service = None,
        cc_InsecureSkipTLSVerify = True, cc_CABundle = ''''\<rparr>,
     ab_Secret = Some ''token'', ab_SecretTransforms = [], ab_Parameters = None\<rparr>"

definition demoToken :: Secret where
  "demoToken = \<lparr>sec_Meta = ObjectMeta0 ''token'' ''demo'', sec_Type = ''kubevault.com/token'',
     sec_Data = [(''token'', ''s.root'')]\<rparr>"

definition demoGet :: "string \<Rightarrow> string \<Rightarrow> string \<Rightarrow> error + obj" where
  "demoGet k ns n =
     (if k = ''AWSAccessKeyRequest'' then Inr (AWSAccessKeyRequestObj demoRequest)
      else if k = ''AWSRole'' then Inr (AWSRoleObj demoAWSRole)
      else if k = ''AppBinding'' then Inr (AppBindingObj demoApp)
      else if k = ''Secret'' \<and> n = ''token'' then Inr (SecretObj demoToken)
      else Inl (StatusError NotFound ''not found''))"

text \<open>Vault issues the lease \<open>aws/creds/1\<close> and accepts every other request.\<close>

definition demoVault :: "VaultRequest \<Rightarrow> vaultAnswer" where
  "demoVault r =
     (if vr_Method r = ''GET''
      then Response \<lparr>StatusCode = 200, Body = JsonBody (JObject
             [(''lease_id'', JString ''aws/creds/1''), (''lease_duration'', JInt 3600),
              (''renewable'', JBool True), (''data'', JObject [(''access_key'', JString ''AK'')])])\<rparr> None
      else Response \<lparr>StatusCode = 204, Body = NoBody\<rparr> None)"

definition demoCache :: "AWSAccessKeyRequest \<Rightarrow> string \<Rightarrow> string \<Rightarrow> error + obj option" where
  "demoCache req k ky = Inr (Some (AWSAccessKeyRequestObj req))"

definition demoEnv :: env where
  "demoEnv = echoEnv demoGet demoVault (demoCache demoRequest)"

end
