(* ===== verification/Status_Theorems.thy ===== *)
theory Status_Theorems
  imports Clients Example_World
begin

text \<open>
  Properties of the status update loop shared by the typed clients
  (\<open>Update<Kind>Status\<close>): it writes what the transformation makes of the object
  it read last, a conflict makes it read again, and an error that is neither a
  conflict nor retryable does not stop it.
\<close>

section \<open>Updates apply to the latest read\<close>

text \<open>
  \<open>fresh c f seen es\<close>: every status update in \<open>es\<close> writes \<open>f\<close> of the status of
  the object that the last answered read returned, \<open>seen\<close> before any.
\<close>

fun fresh :: "('s, 'st) resource client \<Rightarrow> (int \<Rightarrow> 'st \<Rightarrow> 'st) \<Rightarrow> ('s, 'st) resource option \<Rightarrow> trace \<Rightarrow> bool" where
  "fresh c f seen [] \<longleftrightarrow> True"
| "fresh c f seen (Kube (KGet kd ns n) (Inr ob) # es) \<longleftrightarrow> fresh c f (cl_prj c ob) es"
| "fresh c f seen (Kube (KUpdateStatus ob) a # es) \<longleftrightarrow>
     (\<exists>cur now. seen = Some cur \<and> ob = cl_inj c (cur\<lparr>Status := f now (Status cur)\<rparr>)) \<and> fresh c f seen es"
| "fresh c f seen (e # es) \<longleftrightarrow> fresh c f seen es"

lemma updateStatusOnce_run:
  "\<exists>cur' p es. updateStatusOnce c meta f None (cur, k) env t = (Ok ((cur', Suc k), p), t @ es)
    \<and> fresh c f (Some cur) es
    \<and> (p = Again \<longrightarrow> (\<forall>fs. fresh c f (Some cur') fs \<longrightarrow> fresh c f (Some cur) (es @ fs)))"
proof -
  let ?upd = "KUpdateStatus (cl_inj c (cur\<lparr>Status := f (clock env t) (Status cur)\<rparr>))"
  let ?t1 = "t @ [Kube ?upd (kube_answer env t ?upd)]"
  let ?get = "KGet (cl_Kind c) (Namespace meta) (Name meta)"
  consider (ok) ob x where "kube_answer env t ?upd = Inr ob" "cl_prj c ob = Some x"
    | (bad) ob where "kube_answer env t ?upd = Inr ob" "cl_prj c ob = None"
    | (err) e where "kube_answer env t ?upd = Inl e" "\<not> IsConflict e"
    | (conflict) e where "kube_answer env t ?upd = Inl e" "IsConflict e"
    by (cases "kube_answer env t ?upd") (blast, metis option.exhaust)
  then show ?thesis
  proof cases
    case conflict
    show ?thesis
    proof (cases "kube_answer env ?t1 ?get")
      case (Inl e3)
      with conflict show ?thesis
        by (auto simp: updateStatusOnce_def go_defs api_defs Let_def)
    next
      case (Inr ob)
      with conflict show ?thesis
        by (cases "cl_prj c ob") (auto simp: updateStatusOnce_def go_defs api_defs Let_def IsRequestRetryable_def)
    qed
  qed (auto simp: updateStatusOnce_def go_defs api_defs Let_def)
qed

lemma WaitFor_fresh:
  "\<exists>es. snd (WaitFor n (updateStatusOnce c meta f None) (cur, k) env t) = t @ es \<and> fresh c f (Some cur) es"
proof (induction n arbitrary: cur k t)
  case 0
  obtain cur' p es where "updateStatusOnce c meta f None (cur, k) env t = (Ok ((cur', Suc k), p), t @ es)"
    "fresh c f (Some cur) es" using updateStatusOnce_run by metis
  then show ?case by (cases p) (auto simp: andThen_def attempt_def run_simps)
next
  case (Suc n)
  obtain cur' p es where run: "updateStatusOnce c meta f None (cur, k) env t = (Ok ((cur', Suc k), p), t @ es)"
    "fresh c f (Some cur) es"
    "p = Again \<longrightarrow> (\<forall>fs. fresh c f (Some cur') fs \<longrightarrow> fresh c f (Some cur) (es @ fs))"
    using updateStatusOnce_run[of c meta f cur k env t] by blast
  show ?case
  proof (cases p)
    case Again
    from Suc[of cur' "Suc k" "t @ es"] obtain fs where
      "snd (WaitFor n (updateStatusOnce c meta f None) (cur', Suc k) env (t @ es)) = (t @ es) @ fs"
      "fresh c f (Some cur') fs" by blast
    with run Again show ?thesis by (auto simp: andThen_def attempt_def run_simps)
  qed (use run in \<open>auto simp: andThen_def attempt_def run_simps\<close>)
qed

lemma UpdateStatus_fresh: "\<exists>es. snd (UpdateStatus c meta f env t) = t @ es \<and> fresh c f None es"
proof -
  let ?get = "KGet (cl_Kind c) (Namespace meta) (Name meta)"
  let ?a = "kube_answer env t ?get"
  let ?t1 = "t @ [Kube ?get ?a]"
  show ?thesis
  proof (cases ?a)
    case (Inl e)
    then show ?thesis by (auto simp: UpdateStatus_def andThen_def attempt_def run_simps api_defs kubeCall_def Let_def)
  next
    case (Inr ob)
    show ?thesis
    proof (cases "cl_prj c ob")
      case None
      with Inr show ?thesis
        by (auto simp: UpdateStatus_def andThen_def attempt_def run_simps api_defs kubeCall_def Let_def)
    next
      case (Some cur)
      let ?w = "WaitFor (Suc (poll_ticks env ?t1)) (updateStatusOnce c meta f None) (cur, 0) env ?t1"
      obtain es where es: "snd ?w = ?t1 @ es" "fresh c f (Some cur) es" using WaitFor_fresh by blast
      have "snd (UpdateStatus c meta f env t) = snd ?w"
        using Inr Some
        by (auto simp del: WaitFor.simps simp: UpdateStatus_def andThen_def attempt_def run_simps api_defs
            kubeCall_def Let_def pollTicks_def PollImmediate_def split: prod.splits res.splits option.splits)
      with es Inr Some show ?thesis by auto
    qed
  qed
qed

text \<open>C13: every write of the status update loop applies the transformation to the status of the
  object returned by the most recent answered read, so that a conflicting change by another client
  is never overwritten with a status computed before it.\<close>

theorem status_update_applies_to_latest_read:
  "\<exists>es. snd (UpdateStatus c meta f env t) = t @ es \<and> fresh c f None es"
  by (rule UpdateStatus_fresh)


section \<open>The objects an update reads, writes and returns\<close>

text \<open>
  \<open>readBefore\<close>: the API server answered a read of the object \<open>meta\<close> names with
  \<open>cur\<close>.  \<open>savedIn\<close>: it answered a status write, of \<open>f\<close> applied to an object read
  before, with \<open>x\<close>.
\<close>

definition readBefore :: "'o client \<Rightarrow> ObjectMeta \<Rightarrow> 'o \<Rightarrow> trace \<Rightarrow> bool" where
  "readBefore c meta cur es \<longleftrightarrow>
     Kube (KGet (cl_Kind c) (Namespace meta) (Name meta)) (Inr (cl_inj c cur)) \<in> set es"

definition savedIn :: "('s, 'st) resource client \<Rightarrow> ObjectMeta \<Rightarrow> (int \<Rightarrow> 'st \<Rightarrow> 'st)
    \<Rightarrow> ('s, 'st) resource \<Rightarrow> trace \<Rightarrow> bool" where
  "savedIn c meta f x es \<longleftrightarrow> (\<exists>pre cur now post. readBefore c meta cur pre
     \<and> es = pre @ Kube (KUpdateStatus (cl_inj c (cur\<lparr>Status := f now (Status cur)\<rparr>))) (Inr (cl_inj c x)) # post)"

lemma savedIn_within: "savedIn c meta f x es \<Longrightarrow> savedIn c meta f x (as @ es @ bs)"
  unfolding savedIn_def readBefore_def by (metis Un_iff append.assoc append_Cons set_append)

lemma fresh_read:
  "fresh c f seen (pre @ Kube (KUpdateStatus ob) a # post) \<Longrightarrow>
     \<exists>cur now. ob = cl_inj c (cur\<lparr>Status := f now (Status cur)\<rparr>)
       \<and> (seen = Some cur \<or> (\<exists>kd ns n x. Kube (KGet kd ns n) (Inr x) \<in> set pre \<and> cl_prj c x = Some cur))"
  by (induction c f seen pre rule: fresh.induct) (auto, blast+)

lemma UpdateStatus_reads:
  assumes "typed_client c" and "UpdateStatus c meta f env t = (r, t')"
  obtains us where "t' = t @ us"
    "\<And>pre ob a post. us = pre @ Kube (KUpdateStatus ob) a # post \<Longrightarrow>
       \<exists>cur now. readBefore c meta cur pre \<and> ob = cl_inj c (cur\<lparr>Status := f now (Status cur)\<rparr>)"
proof -
  let ?own = "\<lambda>e. \<forall>kd ns n a. e = Kube (KGet kd ns n) a \<longrightarrow> kd = cl_Kind c \<and> ns = Namespace meta \<and> n = Name meta"
  obtain us where us: "t' = t @ us" "fresh c f None us" using UpdateStatus_fresh[of c meta f env t] assms(2) by auto
  have "emits ?own (UpdateStatus c meta f) env" by (intro emits_intros) simp_all
  from emitsD[OF this assms(2)] us(1) have own: "\<forall>e \<in> set us. ?own e" by auto
  show thesis
  proof (rule that[OF us(1)])
    fix pre ob a post
    assume split: "us = pre @ Kube (KUpdateStatus ob) a # post"
    from fresh_read[OF us(2)[unfolded split]] obtain cur now kd ns n x where
      "ob = cl_inj c (cur\<lparr>Status := f now (Status cur)\<rparr>)" "Kube (KGet kd ns n) (Inr x) \<in> set pre" "cl_prj c x = Some cur"
      by auto
    moreover from this(3) have "x = cl_inj c cur" by (rule typed_client.inj_prj[OF assms(1)])
    moreover have "kd = cl_Kind c \<and> ns = Namespace meta \<and> n = Name meta" using own[rule_format, OF _ refl, of kd ns n "Inr x"] split calculation(2) by simp
    ultimately have "readBefore c meta cur pre" by (simp add: readBefore_def)
    with \<open>ob = _\<close> show "\<exists>cur now. readBefore c meta cur pre \<and> ob = cl_inj c (cur\<lparr>Status := f now (Status cur)\<rparr>)" by blast
  qed
qed

lemma updateStatusOnce_Done:
  "updateStatusOnce c meta f err s env t = (Ok ((x, k), Done), t') \<Longrightarrow>
     \<exists>us ob y. t' = t @ us @ [Kube (KUpdateStatus ob) (Inr y)] \<and> cl_prj c y = Some x"
  by (cases s) (auto simp: updateStatusOnce_def go_defs api_defs Let_def split: sum.splits option.splits if_splits)

lemma WaitFor_Done:
  "WaitFor n (updateStatusOnce c meta f err) s env t = (Ok ((x, k), None), t') \<Longrightarrow>
     \<exists>us ob y. t' = t @ us @ [Kube (KUpdateStatus ob) (Inr y)] \<and> cl_prj c y = Some x"
proof (induction n arbitrary: s t)
  case 0
  then show ?case
    by (auto simp: run_simps split: poll.splits elim!: andThen_Ok dest!: updateStatusOnce_Done)
next
  case (Suc n)
  from Suc.prems obtain s1 p t1 where once: "updateStatusOnce c meta f err s env t = (Ok (s1, p), t1)"
    and rest: "(case p of Done \<Rightarrow> ret (s1, None) | Stop e \<Rightarrow> ret (s1, Some e)
      | Again \<Rightarrow> WaitFor n (updateStatusOnce c meta f err) s1) env t1 = (Ok ((x, k), None), t')"
    by (auto elim!: andThen_Ok)
  have "emits (\<lambda>_. True) (updateStatusOnce c meta f err s) env"
    by (cases s) (auto simp: updateStatusOnce_def intro!: emits_intros)
  from emitsD[OF this once] obtain vs where "t1 = t @ vs" by blast
  with once rest Suc.IH[of s1 t1] show ?case
    by (cases p) (auto simp: run_simps dest!: updateStatusOnce_Done)
qed

lemma UpdateStatus_saved:
  assumes "typed_client c" and run: "UpdateStatus c meta f env t = (Ok x, t')"
  obtains us where "t' = t @ us" "savedIn c meta f x us"
proof -
  from run obtain cur t1 n k where get: "apiGet c (Namespace meta) (Name meta) env t = (Ok cur, t1)"
    and poll: "WaitFor n (updateStatusOnce c meta f None) (cur, 0) env t1 = (Ok ((x, k), None), t')"
    unfolding UpdateStatus_def PollImmediate_def Let_def
    by (auto simp: run_simps pollTicks_def simp del: WaitFor.simps split: option.splits elim!: andThen_Ok)
  have "emits (\<lambda>_. True) (apiGet c (Namespace meta) (Name meta)) env" by (intro emits_intros) simp
  from emitsD[OF this get] obtain gs where gs: "t1 = t @ gs" by blast
  from WaitFor_Done[OF poll] obtain ws ob y where w: "t' = t1 @ ws @ [Kube (KUpdateStatus ob) (Inr y)]"
    and "cl_prj c y = Some x" by blast
  from this(2) have y: "y = cl_inj c x" by (rule typed_client.inj_prj[OF assms(1)])
  from UpdateStatus_reads[OF assms] obtain us where us: "t' = t @ us"
    "\<And>pre ob a post. us = pre @ Kube (KUpdateStatus ob) a # post \<Longrightarrow>
       \<exists>cur now. readBefore c meta cur pre \<and> ob = cl_inj c (cur\<lparr>Status := f now (Status cur)\<rparr>)" by blast
  have "us = (gs @ ws) @ Kube (KUpdateStatus ob) (Inr y) # []" using us(1) w gs by simp
  with us(2)[OF this] y have "savedIn c meta f x us" unfolding savedIn_def by blast
  with us(1) show thesis by (rule that)
qed


section \<open>Permanent errors are retried\<close>

definition isStatusUpdate :: "event \<Rightarrow> bool" where
  "isStatusUpdate e \<longleftrightarrow> (case e of Kube (KUpdateStatus ob) a \<Rightarrow> True | _ \<Rightarrow> False)"

lemma isStatusUpdate_simp [simp]: "isStatusUpdate (Kube (KUpdateStatus ob) a)"
  by (simp add: isStatusUpdate_def)

lemma WaitFor_refused:
  assumes "\<And>t ob. kube_answer env t (KUpdateStatus ob) = Inl e" "\<not> IsConflict e"
  shows "\<exists>s es. WaitFor n (updateStatusOnce c meta f None) (cur, k) env t = (Ok (s, Some ErrWaitTimeout), t @ es)
    \<and> length es = Suc n \<and> list_all isStatusUpdate es \<and> snd s = k + Suc n"
proof (induction n arbitrary: k t)
  case 0
  show ?case using assms
    by (simp add: updateStatusOnce_def go_defs api_defs Let_def)
next
  case (Suc n)
  let ?ob = "KUpdateStatus (cl_inj c (cur\<lparr>Status := f (clock env t) (Status cur)\<rparr>))"
  have once: "updateStatusOnce c meta f None (cur, k) env t = (Ok ((cur, Suc k), Again), t @ [Kube ?ob (Inl e)])"
    using assms by (simp add: updateStatusOnce_def go_defs api_defs Let_def)
  from Suc[of "Suc k" "t @ [Kube ?ob (Inl e)]"] obtain s es where
    "WaitFor n (updateStatusOnce c meta f None) (cur, Suc k) env (t @ [Kube ?ob (Inl e)])
       = (Ok (s, Some ErrWaitTimeout), t @ [Kube ?ob (Inl e)] @ es)"
    "length es = Suc n" "list_all isStatusUpdate es" "snd s = Suc k + Suc n" by auto
  with once show ?case
    by (intro exI[of _ s] exI[of _ "Kube ?ob (Inl e) # es"])
      (simp add: andThen_def attempt_def)
qed

text \<open>C14: when the API server refuses every status update with an error that is neither a conflict
  nor retryable, the loop still sends one update at once, one per tick and one when the ticks end,
  and then reports a timeout instead of that error.\<close>

theorem permanent_error_retried_until_timeout:
  assumes "\<And>t ob. kube_answer env t (KUpdateStatus ob) = Inl e"
    and "\<not> IsConflict e" and "\<not> IsRequestRetryable e"
    and "apiGet c (Namespace meta) (Name meta) env t = (Ok cur, t1)"
  shows "\<exists>es. UpdateStatus c meta f env t =
      (Err (Plain (''failed to update status of '' @ cl_Kind c @ '' '' @ slash (Namespace meta) (Name meta)
         @ '' after '' @ string_of_nat (poll_ticks env t1 + 2)
         @ '' attempts due to timed out waiting for the condition'')), t1 @ es)
    \<and> length es = poll_ticks env t1 + 2 \<and> list_all isStatusUpdate es"
proof -
  from WaitFor_refused[OF assms(1,2), of "Suc (poll_ticks env t1)" c meta f cur 0 t1] obtain x es where
    w: "WaitFor (Suc (poll_ticks env t1)) (updateStatusOnce c meta f None) (cur, 0) env t1
       = (Ok ((x, poll_ticks env t1 + 2), Some ErrWaitTimeout), t1 @ es)"
    "length es = poll_ticks env t1 + 2" "list_all isStatusUpdate es"
    by (auto simp del: WaitFor.simps)
  have "Error ErrWaitTimeout = ''timed out waiting for the condition''" by (simp add: ErrWaitTimeout_def)
  with w assms(4) show ?thesis
    by (simp del: WaitFor.simps add: UpdateStatus_def andThen_def attempt_def run_simps Let_def pollTicks_def
        PollImmediate_def)
qed

definition refuseEnv :: env where
  "refuseEnv = demoEnv\<lparr>kube_answer := (\<lambda>t req. case req of
       KUpdateStatus ob \<Rightarrow> Inl (StatusError Forbidden ''forbidden'') | _ \<Rightarrow> kube_answer demoEnv t req)\<rparr>"

theorem permanent_error_retried_until_timeout_witness:
  "\<exists>t1 es. apiGet AWSAccessKeyRequests ''demo'' ''req'' refuseEnv [] = (Ok demoRequest, t1)
     \<and> snd (UpdateStatus AWSAccessKeyRequests (Meta demoRequest) (\<lambda>now st. st) refuseEnv []) = t1 @ es
     \<and> length es = 5"
proof -
  have ns: "Namespace (Meta demoRequest) = ''demo''" "Name (Meta demoRequest) = ''req''"
    by (simp_all add: demoRequest_def ObjectMeta0_def)
  let ?g = "KGet ''AWSAccessKeyRequest'' ''demo'' ''req''"
  have get: "apiGet AWSAccessKeyRequests ''demo'' ''req'' refuseEnv []
      = (Ok demoRequest, [Kube ?g (Inr (AWSAccessKeyRequestObj demoRequest))])"
    by (simp add: apiGet_def kubeCall_def refuseEnv_def demoEnv_def echoEnv_def demoGet_def AWSAccessKeyRequests_def)
  have "kube_answer refuseEnv t (KUpdateStatus ob) = Inl (StatusError Forbidden ''forbidden'')" for t ob
    by (simp add: refuseEnv_def)
  from permanent_error_retried_until_timeout[OF this, where c = AWSAccessKeyRequests and meta = "Meta demoRequest"
      and t = "[]" and f = "\<lambda>now st. st", unfolded ns, OF _ _ get]
  obtain es where "snd (UpdateStatus AWSAccessKeyRequests (Meta demoRequest) (\<lambda>now st. st) refuseEnv [])
      = [Kube ?g (Inr (AWSAccessKeyRequestObj demoRequest))] @ es"
    "length es = poll_ticks refuseEnv [Kube ?g (Inr (AWSAccessKeyRequestObj demoRequest))] + 2"
    by (auto simp: IsRequestRetryable_def)
  moreover have "poll_ticks refuseEnv t = 3" for t by (simp add: refuseEnv_def demoEnv_def echoEnv_def)
  ultimately show ?thesis using get by force
qed


end
