(* ===== verification/Access_Theorems.thy ===== *)
theory Access_Theorems
  imports Access_Request Status_Theorems
begin

text \<open>
  The properties of the credential request controllers, for all four kinds,
  with concrete runs that show their hypotheses can hold.
\<close>

section \<open>No credential without approval\<close>

text \<open>
  \<open>inject\<close> reads a credential from Vault only for a request of the cache that
  may be issued, and only when the finalizer is on the object or the API
  server has just accepted the patch that adds it.
\<close>

definition issuesOnlyWhenApproved ::
    "(string \<Rightarrow> unit go) \<Rightarrow> 'spec accessRequest client \<Rightarrow> bool" where
  "issuesOnlyWhenApproved inject c \<longleftrightarrow>
     (\<forall>env t r es ky e. inject ky env t = (r, t @ es) \<and> e \<in> set es \<and> credentialRead e \<longrightarrow>
        (\<exists>req. cache_answer env t (cl_Kind c) ky = Inr (Some (cl_inj c req)) \<and> mayIssue req
           \<and> (HasFinalizer (Meta req) Finalizer
              \<or> (\<exists>ob es'. es = Kube (KPatch (cl_inj c req) (cl_inj c (addFinalizer req))) (Inr ob) # es'))))"

lemma injector_run:
  assumes "runAccessRequestInjector k ky env t = (r, t')"
  shows "t' = t \<or> (\<exists>ob req. cache_answer env t (ak_Kind k) ky = Inr (Some ob)
           \<and> cl_prj (ak_client k) ob = Some req \<and> syncAccessRequest k req env t = (r, t'))"
  using assms
  by (auto simp: runAccessRequestInjector_def GetByKey_def andThen_def attempt_def fail_def ret_def panic_def
      split: sum.splits option.splits)

lemma controller_issuesOnlyWhenApproved:
  assumes k: "access_controller k"
  shows "issuesOnlyWhenApproved (runAccessRequestInjector k) (ak_client k)"
  unfolding issuesOnlyWhenApproved_def
proof (intro allI impI, elim conjE)
  fix env t r es ky e
  assume run: "runAccessRequestInjector k ky env t = (r, t @ es)" and e: "e \<in> set es" "credentialRead e"
  from injector_run[OF run] e(1) obtain ob req where
    cache: "cache_answer env t (ak_Kind k) ky = Inr (Some ob)" "cl_prj (ak_client k) ob = Some req"
    and sync: "syncAccessRequest k req env t = (r, t @ es)" by fastforce
  have ob: "ob = cl_inj (ak_client k) req"
    using typed_client.inj_prj[OF access_controller.client[OF k]] cache(2) by simp
  have may: "mayIssue req"
  proof (rule ccontr)
    assume "\<not> mayIssue req"
    from emitsD[OF access_controller.sync_quiet[OF k this] sync] e show False
      by (auto simp: quiet_def)
  qed
  have "HasFinalizer (Meta req) Finalizer
      \<or> (\<exists>ob es'. es = Kube (KPatch (cl_inj (ak_client k) req) (cl_inj (ak_client k) (addFinalizer req))) (Inr ob) # es')"
  proof (rule disjCI)
    assume no: "\<not> (\<exists>ob es'. es = Kube (KPatch (cl_inj (ak_client k) req) (cl_inj (ak_client k) (addFinalizer req))) (Inr ob) # es')"
    show "HasFinalizer (Meta req) Finalizer"
    proof (rule ccontr)
      assume "\<not> HasFinalizer (Meta req) Finalizer"
      with may sync access_controller.sync_finalizer_first[OF k] obtain a es' where
        "es = Kube (KPatch (cl_inj (ak_client k) req) (cl_inj (ak_client k) (addFinalizer req))) a # es'"
        "(\<exists>ob. a = Inr ob) \<or> es' = []"
        unfolding mayIssue_def by metis
      with no e show False by auto
    qed
  qed
  with cache(1) ob may access_controller.kind_client[OF k]
  show "\<exists>req. cache_answer env t (cl_Kind (ak_client k)) ky = Inr (Some (cl_inj (ak_client k) req)) \<and> mayIssue req
      \<and> (HasFinalizer (Meta req) Finalizer
         \<or> (\<exists>ob es'. es = Kube (KPatch (cl_inj (ak_client k) req) (cl_inj (ak_client k) (addFinalizer req))) (Inr ob) # es'))"
    by auto
qed

lemma kind_clients [simp]:
  "ak_client awsAccessKind = AWSAccessKeyRequests" "ak_client azureAccessKind = AzureAccessKeyRequests"
  "ak_client gcpAccessKind = GCPAccessKeyRequests" "ak_client dbAccessKind = DatabaseAccessRequests"
  by (simp_all add: awsAccessKind_def azureAccessKind_def gcpAccessKind_def dbAccessKind_def)

lemmas injector_defs = runAWSAccessKeyRequestInjector_def runAzureAccessKeyRequestInjector_def
  runGCPAccessKeyRequestInjector_def runDatabaseAccessRequestInjector_def

text \<open>C1: none of the four injectors reads a credential from Vault for a request that is not
  approved, is being deleted, is already processed or already has a lease or a secret; and the
  finalizer is on the object first.\<close>

theorem credential_only_when_approved:
  "issuesOnlyWhenApproved runAWSAccessKeyRequestInjector AWSAccessKeyRequests
   \<and> issuesOnlyWhenApproved runAzureAccessKeyRequestInjector AzureAccessKeyRequests
   \<and> issuesOnlyWhenApproved runGCPAccessKeyRequestInjector GCPAccessKeyRequests
   \<and> issuesOnlyWhenApproved runDatabaseAccessRequestInjector DatabaseAccessRequests"
  using controller_issuesOnlyWhenApproved[OF aws_access.access_controller_axioms]
    controller_issuesOnlyWhenApproved[OF azure_access.access_controller_axioms]
    controller_issuesOnlyWhenApproved[OF gcp_access.access_controller_axioms]
    controller_issuesOnlyWhenApproved[OF db_access.access_controller_axioms]
  by (simp add: injector_defs)

theorem credential_only_when_approved_witness:
  "\<exists>e \<in> set (snd (runAWSAccessKeyRequestInjector ''demo/req'' demoEnv [])). credentialRead e
   \<and> (\<exists>req. demoCache demoRequest ''AWSAccessKeyRequest'' ''demo/req'' = Inr (Some (AWSAccessKeyRequestObj req))
        \<and> mayIssue req)"
proof -
  obtain r es where run: "runAWSAccessKeyRequestInjector ''demo/req'' demoEnv [] = (r, [] @ es)"
    by (metis append_Nil prod.collapse)
  have "list_ex credentialRead (snd (runAWSAccessKeyRequestInjector ''demo/req'' demoEnv []))" by code_simp
  then obtain e where e: "e \<in> set es" "credentialRead e"
    using run by (auto simp: list_ex_iff)
  have "issuesOnlyWhenApproved runAWSAccessKeyRequestInjector AWSAccessKeyRequests"
    by (rule credential_only_when_approved[THEN conjunct1])
  note this[unfolded issuesOnlyWhenApproved_def, rule_format, OF conjI[OF run conjI[OF e]]]
  then obtain req where
    "cache_answer demoEnv [] ''AWSAccessKeyRequest'' ''demo/req'' = Inr (Some (AWSAccessKeyRequestObj req))"
    "mayIssue req" unfolding AWSAccessKeyRequests_def by auto
  then have "\<exists>req. demoCache demoRequest ''AWSAccessKeyRequest'' ''demo/req'' = Inr (Some (AWSAccessKeyRequestObj req))
      \<and> mayIssue req"
    unfolding demoEnv_def echoEnv_def by auto
  moreover have "e \<in> set (snd (runAWSAccessKeyRequestInjector ''demo/req'' demoEnv []))"
    using run e(1) by simp
  ultimately show ?thesis using e(2) by blast
qed


section \<open>Refinement of the decision table\<close>

text \<open>What a request asks for, as a table over its metadata and status.\<close>

datatype action = Ignore | Finalize | AwaitApproval | Refuse | Skip | Cleanup | Issue

definition decide :: "'spec accessRequest \<Rightarrow> action" where
  "decide req =
     (let condType = approvalType (req_Conditions (Status req)) in
      if DeletionTimestamp (Meta req) \<noteq> None
        then (if HasFinalizer (Meta req) Finalizer then Finalize else Ignore)
      else if condType = '''' then AwaitApproval
      else if condType \<noteq> ConditionRequestApproved then Refuse
      else if successfullyProcessed req then Skip
      else if req_Lease (Status req) \<noteq> None \<or> req_Secret (Status req) \<noteq> None then Cleanup
      else Issue)"

text \<open>The calls each decision allows, for a request of the given kind.\<close>

definition ownPatch :: "string \<Rightarrow> event \<Rightarrow> bool" where
  "ownPatch kind e \<longleftrightarrow> (\<exists>cur new a. e = Kube (KPatch cur new) a \<and> objKind new = kind)"

definition revokesLeaseOf :: "'spec accessRequest \<Rightarrow> event \<Rightarrow> bool" where
  "revokesLeaseOf req e \<longleftrightarrow> (\<exists>l. req_Lease (Status req) = Some l \<and> lease_ID l \<noteq> '''' \<and> revokeOf (lease_ID l) e)"

definition deletesSecretOf :: "'spec accessRequest \<Rightarrow> event \<Rightarrow> bool" where
  "deletesSecretOf req e \<longleftrightarrow> (\<exists>n a. req_Secret (Status req) = Some n
     \<and> e = Kube (KDelete ''Secret'' (Namespace (Meta req)) n) a)"

fun allows :: "action \<Rightarrow> string \<Rightarrow> 'spec accessRequest \<Rightarrow> event \<Rightarrow> bool" where
  "allows Ignore kind req e \<longleftrightarrow> False"
| "allows Finalize kind req e \<longleftrightarrow> factoryEvent e \<or> revokesLeaseOf req e \<or> ownPatch kind e"
| "allows AwaitApproval kind req e \<longleftrightarrow> kubeOn kind e"
| "allows Refuse kind req e \<longleftrightarrow> ownPatch kind e"
| "allows Skip kind req e \<longleftrightarrow> ownPatch kind e"
| "allows Cleanup kind req e \<longleftrightarrow> factoryEvent e \<or> revokesLeaseOf req e \<or> deletesSecretOf req e \<or> kubeOn kind e"
| "allows Issue kind req e \<longleftrightarrow> footprint kind e"

definition followsTable :: "'spec accessKind \<Rightarrow> bool" where
  "followsTable k \<longleftrightarrow> (\<forall>req env. emits (allows (decide req) (ak_Kind k) req) (syncAccessRequest k req) env)"

context access_controller
begin

lemma patch_own [emits_intros]: "emits (ownPatch (ak_Kind k)) (Patch (ak_client k) req f) env"
  by (intro emits_intros) (simp add: ownPatch_def kind_inj)

lemma own_kubeOn: "ownPatch kd e \<Longrightarrow> kubeOn kd e"
  by (auto simp: ownPatch_def)

lemma status_own [emits_intros]: "emits (kubeOn (ak_Kind k)) (UpdateStatus (ak_client k) meta f) env"
  by (intro emits_intros) (simp_all add: kind_client kind_inj)

lemma revokeLease_of: "isManager cm \<Longrightarrow> emits (revokesLeaseOf req) (revokeLease cm (req_Lease (Status req))) env"
  unfolding isManager_def
  by (auto intro: emits_mono[OF credential_manager.emits_revokeLease] simp: revokesLeaseOf_def)

lemma finalize_allowed:
  "emits (allows Finalize (ak_Kind k) req) (runAccessRequestFinalizer k req) env"
proof -
  have mgr: "emits (allows Finalize (ak_Kind k) req) (ak_NewCredentialManager k req) env"
    by (rule emits_mono[OF mgr_emits]) simp
  show ?thesis
    unfolding runAccessRequestFinalizer_def Let_def
    by (intro emits_andThen emits_attempt_yields[OF mgr mgr_yields] emits_attempt emits_ret emits_fail
        emits_mono[OF patch_own] emits_mono[OF revokeLease_of]) simp_all
qed

lemma cleanup_allowed:
  assumes "\<not> successfullyProcessed req" "req_Lease (Status req) \<noteq> None \<or> req_Secret (Status req) \<noteq> None"
  shows "emits (allows Cleanup (ak_Kind k) req) (processApproved k req) env"
proof -
  let ?P = "allows Cleanup (ak_Kind k) req"
  have mgr: "emits ?P (ak_NewCredentialManager k req) env"
    by (rule emits_mono[OF mgr_emits]) simp
  have st: "emits ?P (UpdateStatus (ak_client k) (Meta req) f) env" for f
    by (rule emits_mono[OF status_own]) simp
  have del: "emits ?P (deleteCredSecret req) env"
    unfolding deleteCredSecret_def by (intro emits_intros) (simp add: deletesSecretOf_def)
  have rev: "emits ?P (revokeLease cm (req_Lease (Status req))) env" if "isManager cm" for cm
    by (rule emits_mono[OF revokeLease_of[OF that]]) simp
  have rec: "reconcileAccessRequest k cm req = fail (Plain ''lease or secret ref is not empty'')" for cm
    using assms(2) by (simp add: reconcileAccessRequest_def)
  show ?thesis
    unfolding processApproved_def failWith_def rec
    by (intro emits_intros st del rev emits_attempt_yields[OF mgr mgr_yields]) simp_all
qed

lemma sync_follows_table: "followsTable k"
proof -
  let ?K = "ak_Kind k"
  have fin: "emits P (ensureFinalizer (ak_client k) msg req) env"
    if "\<And>e. ownPatch ?K e \<Longrightarrow> P e" for P msg req env
    unfolding ensureFinalizer_def by (intro emits_intros emits_mono[OF patch_own] that)
  have "emits (allows (decide req) ?K req) (syncAccessRequest k req) env" for req env
  proof (cases "decide req")
    case Ignore
    then show ?thesis
      by (simp add: decide_def syncAccessRequest_def Let_def emits_ret split: if_splits)
  next
    case Finalize
    then show ?thesis using finalize_allowed
      by (simp add: decide_def syncAccessRequest_def Let_def split: if_splits)
  next
    case AwaitApproval
    then have "DeletionTimestamp (Meta req) = None" "approvalType (req_Conditions (Status req)) = ''''"
      by (auto simp: decide_def Let_def split: if_splits)
    then have "emits (kubeOn ?K) (syncAccessRequest k req) env"
      unfolding syncAccessRequest_def dispatchAccessRequest_def
      by (intro emits_intros fin) (simp_all add: own_kubeOn)
    then show ?thesis by (simp add: AwaitApproval emits_def)
  next
    case Refuse
    then have "DeletionTimestamp (Meta req) = None" "approvalType (req_Conditions (Status req)) \<noteq> ''''"
      "approvalType (req_Conditions (Status req)) \<noteq> ConditionRequestApproved"
      by (auto simp: decide_def Let_def split: if_splits)
    then have "emits (ownPatch ?K) (syncAccessRequest k req) env"
      unfolding syncAccessRequest_def dispatchAccessRequest_def
      by (intro emits_intros fin) simp_all
    then show ?thesis by (simp add: Refuse emits_def)
  next
    case Skip
    then have "DeletionTimestamp (Meta req) = None" "successfullyProcessed req"
      "approvalType (req_Conditions (Status req)) = ConditionRequestApproved"
      by (auto simp: decide_def Let_def split: if_splits)
    then have "emits (ownPatch ?K) (syncAccessRequest k req) env"
      unfolding syncAccessRequest_def dispatchAccessRequest_def processApproved_def
      by (intro emits_intros fin) simp_all
    then show ?thesis by (simp add: Skip emits_def)
  next
    case Cleanup
    then have c: "DeletionTimestamp (Meta req) = None" "\<not> successfullyProcessed req"
      "req_Lease (Status req) \<noteq> None \<or> req_Secret (Status req) \<noteq> None"
      "approvalType (req_Conditions (Status req)) = ConditionRequestApproved"
      by (auto simp: decide_def Let_def split: if_splits)
    have "emits (allows Cleanup ?K req) (ensureFinalizer (ak_client k) msg req) env" for msg
      by (rule fin) (simp add: own_kubeOn)
    with c(1,4) cleanup_allowed[OF c(2,3)] show ?thesis
      unfolding Cleanup syncAccessRequest_def dispatchAccessRequest_def
      by (simp add: emits_andThen del: allows.simps)
  next
    case Issue
    then show ?thesis using sync_footprint[of req env] by (simp add: emits_def)
  qed
  then show ?thesis by (simp add: followsTable_def)
qed

end

text \<open>C2: on every request, each of the four controllers makes only the calls that the
  decision table allows for it: nothing for a deleted request without finalizer, no Vault call at
  all for a request that waits, is refused or is already served, and only the revocation of its own
  lease and the deletion of its own secret when it cleans up.\<close>

theorem controllers_follow_table:
  "followsTable awsAccessKind \<and> followsTable azureAccessKind \<and> followsTable gcpAccessKind
   \<and> followsTable dbAccessKind"
  using aws_access.sync_follows_table azure_access.sync_follows_table gcp_access.sync_follows_table
    db_access.sync_follows_table by blast


section \<open>Revocation before release\<close>

text \<open>
  When a request with a lease is deleted and a manager can be made, the
  finalizer is removed only after Vault has confirmed the revocation.
\<close>

definition releasesAfterRevoke :: "'spec accessKind \<Rightarrow> bool" where
  "releasesAfterRevoke k \<longleftrightarrow>
     (\<forall>req env t r es l cm t1 a.
        runAccessRequestFinalizer k req env t = (r, t @ es)
        \<and> req_Lease (Status req) = Some l \<and> lease_ID l \<noteq> ''''
        \<and> ak_NewCredentialManager k req env t = (Ok cm, t1)
        \<and> Kube (KPatch (cl_inj (ak_client k) req) (cl_inj (ak_client k) (removeFinalizer req))) a \<in> set es
        \<longrightarrow> (\<exists>vc va. Vault (revokeRequest vc (lease_ID l)) va \<in> set es \<and> answeredOk va))"

lemma not_factoryEvent [simp]:
  "\<not> factoryEvent (Kube (KPatch x y) a)" "\<not> factoryEvent (Kube (KUpdateStatus x) a)"
  "\<not> factoryEvent (Kube (KDelete kd ns n) a)"
  by (simp_all add: factoryEvent_def)

context access_controller
begin

lemma manager_run:
  assumes "ak_NewCredentialManager k req env t = (Ok cm, t1)"
  obtains vc fs where "credential_manager cm vc" "t1 = t @ fs" "\<forall>e \<in> set fs. factoryEvent e"
  using emitsD[OF mgr_emits assms] yieldsD[OF mgr_yields assms] unfolding isManager_def by blast

lemma finalizer_releases_after_revoke: "releasesAfterRevoke k"
  unfolding releasesAfterRevoke_def
proof (intro allI impI, elim conjE)
  fix req env t r es l cm t1 a
  assume run: "runAccessRequestFinalizer k req env t = (r, t @ es)"
    and l: "req_Lease (Status req) = Some l" "lease_ID l \<noteq> ''''"
    and mgr: "ak_NewCredentialManager k req env t = (Ok cm, t1)"
    and patch: "Kube (KPatch (cl_inj (ak_client k) req) (cl_inj (ak_client k) (removeFinalizer req))) a \<in> set es"
  from manager_run[OF mgr] obtain vc fs where cm: "credential_manager cm vc"
    and fs: "t1 = t @ fs" "\<forall>e \<in> set fs. factoryEvent e" .
  let ?rev = "revokeRequest vc (lease_ID l)"
  let ?va = "vault_answer env t1 ?rev"
  have "answeredOk ?va"
  proof (rule ccontr)
    assume "\<not> answeredOk ?va"
    then have "es = fs @ [Vault ?rev ?va]"
      using run l mgr fs(1)
      by (auto simp: runAccessRequestFinalizer_def revokeLease_def andThen_def attempt_def fail_def ret_def
          credential_manager.revoke_call[OF cm] answeredOk_def Let_def)
    with patch fs(2) show False by auto
  qed
  moreover obtain es' where "snd (Patch (ak_client k) req removeFinalizer env (t1 @ [Vault ?rev ?va])) = (t1 @ [Vault ?rev ?va]) @ es'"
    using patch_footprint by (rule emitsE)
  ultimately have "es = fs @ Vault ?rev ?va # es'"
    using run l mgr fs(1)
    by (auto simp: runAccessRequestFinalizer_def revokeLease_def andThen_def attempt_def fail_def ret_def
        credential_manager.revoke_call[OF cm] answeredOk_def Let_def split: prod.splits res.splits)
  with \<open>answeredOk ?va\<close> show "\<exists>vc va. Vault (revokeRequest vc (lease_ID l)) va \<in> set es \<and> answeredOk va"
    by auto
qed

end

text \<open>C3: for all four kinds, a request whose status holds a lease loses its finalizer only
  after Vault has confirmed the revocation of that lease, whenever a Vault client for it can be made.\<close>

theorem finalizer_released_after_revocation:
  "releasesAfterRevoke awsAccessKind \<and> releasesAfterRevoke azureAccessKind
   \<and> releasesAfterRevoke gcpAccessKind \<and> releasesAfterRevoke dbAccessKind"
  using aws_access.finalizer_releases_after_revoke azure_access.finalizer_releases_after_revoke
    gcp_access.finalizer_releases_after_revoke db_access.finalizer_releases_after_revoke by blast


section \<open>Cleaning up after a failed attempt\<close>

text \<open>
  What has been called before a status write on a request that still holds a
  lease or a secret: when the credential manager could not be made, the write
  keeps both references of the object read for it; otherwise the lease has been
  revoked, unless its id is empty, and the secret deleted.
\<close>

definition cleanedUp :: "'spec accessRequest \<Rightarrow> trace \<Rightarrow> bool" where
  "cleanedUp req es \<longleftrightarrow>
     (\<forall>l. req_Lease (Status req) = Some l \<and> lease_ID l \<noteq> '''' \<longrightarrow>
        (\<exists>vc va. Vault (revokeRequest vc (lease_ID l)) va \<in> set es \<and> answeredOk va))
     \<and> (\<forall>n. req_Secret (Status req) = Some n \<longrightarrow>
        (\<exists>x. Kube (KDelete ''Secret'' (Namespace (Meta req)) n) (Inr x) \<in> set es))"

definition keepsReferences :: "'spec accessKind \<Rightarrow> 'spec accessRequest \<Rightarrow> obj \<Rightarrow> trace \<Rightarrow> bool" where
  "keepsReferences k req ob es \<longleftrightarrow> (\<exists>cur st. readBefore (ak_client k) (Meta req) cur es
     \<and> ob = cl_inj (ak_client k) (cur\<lparr>Status := st\<rparr>)
     \<and> req_Lease st = req_Lease (Status cur) \<and> req_Secret st = req_Secret (Status cur))"

definition clearsAfterCleanup :: "'spec accessKind \<Rightarrow> bool" where
  "clearsAfterCleanup k \<longleftrightarrow>
     (\<forall>req env t r pre ob a post.
        processApproved k req env t = (r, t @ pre @ Kube (KUpdateStatus ob) a # post) \<and> \<not> successfullyProcessed req
        \<and> (req_Lease (Status req) \<noteq> None \<or> req_Secret (Status req) \<noteq> None)
        \<longrightarrow> (case fst (ak_NewCredentialManager k req env t) of
              Err err \<Rightarrow> keepsReferences k req ob pre
            | _ \<Rightarrow> cleanedUp req pre))"

lemma cleanedUp_mono: "cleanedUp req es \<Longrightarrow> set es \<subseteq> set es' \<Longrightarrow> cleanedUp req es'"
  unfolding cleanedUp_def by (meson subsetD)

text \<open>An event that is not among the first calls comes after them.\<close>

lemma after_prefix: "xs @ ys = pre @ e # post \<Longrightarrow> e \<notin> set xs \<Longrightarrow> \<exists>us. pre = xs @ us \<and> ys = us @ e # post"
  by (induction xs arbitrary: pre) (auto simp: Cons_eq_append_conv append_eq_Cons_conv)

context credential_manager
begin

lemma revokeLease_run:
  obtains rs where "snd (revokeLease cm lease env t) = t @ rs"
    "\<And>ob a. Kube (KUpdateStatus ob) a \<notin> set rs"
    "\<And>u l. fst (revokeLease cm lease env t) = Ok u \<Longrightarrow> lease = Some l \<Longrightarrow> lease_ID l \<noteq> '''' \<Longrightarrow>
       \<exists>va. Vault (revokeRequest vc (lease_ID l)) va \<in> set rs \<and> answeredOk va"
proof (cases "lease = None \<or> (\<exists>l. lease = Some l \<and> lease_ID l = '''')")
  case True
  then show thesis by (intro that[of "[]"]) (auto simp: revokeLease_def ret_def)
next
  case False
  then obtain l' where l': "lease = Some l'" "lease_ID l' \<noteq> ''''" by (cases lease) auto
  let ?rev = "revokeRequest vc (lease_ID l')"
  show thesis
    using l' by (intro that[of "[Vault ?rev (vault_answer env t ?rev)]"])
      (auto simp: revokeLease_def revoke_call Let_def answeredOk_def split: option.splits)
qed

end

lemma deleteCredSecret_run:
  obtains ds where "snd (deleteCredSecret req env t) = t @ ds"
    "\<And>ob a. Kube (KUpdateStatus ob) a \<notin> set ds"
    "\<And>u n. fst (deleteCredSecret req env t) = Ok u \<Longrightarrow> req_Secret (Status req) = Some n \<Longrightarrow>
       \<exists>x. Kube (KDelete ''Secret'' (Namespace (Meta req)) n) (Inr x) \<in> set ds"
proof (cases "req_Secret (Status req)")
  case None
  then show thesis by (intro that[of "[]"]) (auto simp: deleteCredSecret_def ret_def)
next
  case (Some n)
  let ?del = "KDelete ''Secret'' (Namespace (Meta req)) n"
  show thesis
    using Some by (intro that[of "[Kube ?del (kube_answer env t ?del)]"])
      (auto simp: deleteCredSecret_def apiDelete_def kubeCall_def Let_def split: sum.splits)
qed

context access_controller
begin

lemma factory_keeps_status: "factoryEvent e \<Longrightarrow> e \<noteq> Kube (KUpdateStatus ob) a"
  by (auto simp: factoryEvent_def)

lemma failed_manager_keeps:
  assumes run: "processApproved k req env t = (r, t @ pre @ Kube (KUpdateStatus ob) a # post)"
    and np: "\<not> successfullyProcessed req" and mgr: "ak_NewCredentialManager k req env t = (Err err, t1)"
  shows "keepsReferences k req ob pre"
proof -
  let ?f = "\<lambda>now st. (setFailed ''FailedToCreateCredentialManager'' err now st)
    \<lparr>req_ObservedGeneration := Generation (Meta req)\<rparr>"
  from emitsD[OF mgr_emits mgr] obtain fs where fs: "t1 = t @ fs" "\<forall>e \<in> set fs. factoryEvent e" by blast
  obtain v t2 where upd: "UpdateStatus (ak_client k) (Meta req) ?f env t1 = (v, t2)" by fastforce
  from UpdateStatus_reads[OF client upd] obtain us where us: "t2 = t1 @ us"
    "\<And>pre ob a post. us = pre @ Kube (KUpdateStatus ob) a # post \<Longrightarrow>
       \<exists>cur now. readBefore (ak_client k) (Meta req) cur pre
         \<and> ob = cl_inj (ak_client k) (cur\<lparr>Status := ?f now (Status cur)\<rparr>)" by blast
  have "t @ pre @ Kube (KUpdateStatus ob) a # post = t2"
    using run np mgr upd
    by (auto simp: processApproved_def failWith_def go_defs split: prod.splits res.splits option.splits)
  then have "fs @ us = pre @ Kube (KUpdateStatus ob) a # post" using fs(1) us(1) by simp
  from after_prefix[OF this] fs(2) factory_keeps_status obtain ws where
    w: "pre = fs @ ws" "us = ws @ Kube (KUpdateStatus ob) a # post" by blast
  from us(2)[OF w(2)] obtain cur now where
    c: "readBefore (ak_client k) (Meta req) cur ws" "ob = cl_inj (ak_client k) (cur\<lparr>Status := ?f now (Status cur)\<rparr>)" by blast
  have "req_Lease (?f now (Status cur)) = req_Lease (Status cur)" "req_Secret (?f now (Status cur)) = req_Secret (Status cur)"
    by (simp_all add: setFailed_def)
  moreover have "readBefore (ak_client k) (Meta req) cur pre" using c(1) w(1) by (simp add: readBefore_def)
  ultimately show ?thesis unfolding keepsReferences_def using c(2) by blast
qed

lemma cleanup_before_write:
  assumes run: "processApproved k req env t = (r, t @ pre @ Kube (KUpdateStatus ob) a # post)"
    and np: "\<not> successfullyProcessed req"
    and held: "req_Lease (Status req) \<noteq> None \<or> req_Secret (Status req) \<noteq> None"
    and mgr: "ak_NewCredentialManager k req env t = (Ok cm, t1)"
  shows "cleanedUp req pre"
proof -
  let ?e = "Kube (KUpdateStatus ob) a"
  let ?lease = "req_Lease (Status req)"
  from manager_run[OF mgr] obtain vc fs where cm: "credential_manager cm vc"
    and fs: "t1 = t @ fs" "\<forall>e \<in> set fs. factoryEvent e" .
  have rec: "reconcileAccessRequest k cm req = fail (Plain ''lease or secret ref is not empty'')"
    using held by (simp add: reconcileAccessRequest_def)
  define r1 where "r1 = fst (revokeLease cm ?lease env t1)"
  obtain rs where rs: "revokeLease cm ?lease env t1 = (r1, t1 @ rs)"
    "\<And>ob a. Kube (KUpdateStatus ob) a \<notin> set rs"
    "\<And>u l. r1 = Ok u \<Longrightarrow> ?lease = Some l \<Longrightarrow> lease_ID l \<noteq> '''' \<Longrightarrow>
       \<exists>va. Vault (revokeRequest vc (lease_ID l)) va \<in> set rs \<and> answeredOk va"
    by (rule credential_manager.revokeLease_run[OF cm, of ?lease env t1])
      (metis prod.collapse r1_def)
  define r2 where "r2 = fst (deleteCredSecret req env (t1 @ rs))"
  obtain ds where ds: "deleteCredSecret req env (t1 @ rs) = (r2, (t1 @ rs) @ ds)"
    "\<And>ob a. Kube (KUpdateStatus ob) a \<notin> set ds"
    "\<And>u n. r2 = Ok u \<Longrightarrow> req_Secret (Status req) = Some n \<Longrightarrow>
       \<exists>x. Kube (KDelete ''Secret'' (Namespace (Meta req)) n) (Inr x) \<in> set ds"
    by (rule deleteCredSecret_run[of req env "t1 @ rs"]) (metis prod.collapse r2_def)
  have no: "?e \<notin> set (fs @ rs @ ds)" using fs(2) factory_keeps_status rs(2) ds(2) by auto
  show ?thesis
  proof (cases "\<exists>u v. r1 = Ok u \<and> r2 = Ok v")
    case True
    let ?upd = "UpdateStatus (ak_client k) (Meta req) (clearIssued (Generation (Meta req)))"
    obtain us where us: "snd (?upd env (t1 @ rs @ ds)) = (t1 @ rs @ ds) @ us"
      using status_footprint by (rule emitsE)
    have "t @ pre @ ?e # post = t1 @ rs @ ds @ us"
      using run np mgr rec rs(1) ds(1) True us
      by (auto simp: processApproved_def go_defs split: prod.splits res.splits option.splits)
    then have "(fs @ rs @ ds) @ us = pre @ ?e # post" using fs(1) by simp
    from after_prefix[OF this no] have "set (rs @ ds) \<subseteq> set pre" by auto
    moreover have "cleanedUp req (rs @ ds)" unfolding cleanedUp_def using True rs(3) ds(3) by fastforce
    ultimately show ?thesis using cleanedUp_mono by blast
  next
    case False
    then have "pre @ ?e # post = fs @ rs \<or> pre @ ?e # post = fs @ rs @ ds"
      using run np mgr rec rs(1) ds(1) fs(1)
      by (cases r1; cases r2) (auto simp: processApproved_def go_defs split: option.splits)
    then have "?e \<in> set (fs @ rs @ ds)" by (metis Un_iff in_set_conv_decomp set_append)
    with no show ?thesis ..
  qed
qed

lemma cleanup_clears_after: "clearsAfterCleanup k"
  unfolding clearsAfterCleanup_def
proof (intro allI impI, elim conjE)
  fix req env t r pre ob a post
  assume run: "processApproved k req env t = (r, t @ pre @ Kube (KUpdateStatus ob) a # post)"
    and np: "\<not> successfullyProcessed req"
    and held: "req_Lease (Status req) \<noteq> None \<or> req_Secret (Status req) \<noteq> None"
  obtain m t1 where mgr: "ak_NewCredentialManager k req env t = (m, t1)" by fastforce
  from emitsD[OF mgr_emits mgr] obtain fs where fs: "t1 = t @ fs" "\<forall>e \<in> set fs. factoryEvent e" by blast
  show "case fst (ak_NewCredentialManager k req env t) of
      Err err \<Rightarrow> keepsReferences k req ob pre | _ \<Rightarrow> cleanedUp req pre"
  proof (cases m)
    case (Ok cm)
    with cleanup_before_write[OF run np held] mgr show ?thesis by simp
  next
    case (Err err)
    with failed_manager_keeps[OF run np] mgr show ?thesis by simp
  next
    case (Panic v)
    then have "fs = pre @ Kube (KUpdateStatus ob) a # post"
      using run np mgr fs(1) by (simp add: processApproved_def attempt_def)
    then have "Kube (KUpdateStatus ob) a \<in> set fs" by simp
    with fs(2) factory_keeps_status have False by blast
    then show ?thesis ..
  qed
qed

end

text \<open>C4: for all four kinds, let an approved request that is not processed yet hold a lease or a
  secret from an earlier attempt.  When its credential manager can be made, its status is written
  only after Vault has confirmed the revocation of that lease, unless the id of the lease is empty,
  and the API server the deletion of that secret.  When the manager cannot be made, every status written
  keeps the lease and the secret of the object read for it: nothing is cleared.\<close>

theorem status_cleared_after_cleanup:
  "clearsAfterCleanup awsAccessKind \<and> clearsAfterCleanup azureAccessKind
   \<and> clearsAfterCleanup gcpAccessKind \<and> clearsAfterCleanup dbAccessKind"
  using aws_access.cleanup_clears_after azure_access.cleanup_clears_after
    gcp_access.cleanup_clears_after db_access.cleanup_clears_after by blast


section \<open>A late failure leaves the credential behind\<close>

text \<open>
  Once the secret of a fresh credential has been created, no path of the same
  run revokes the lease or deletes a secret: the cleanup of \<open>processApproved\<close>
  looks at the status of the cached request, which does not have them yet.
\<close>

definition keeps :: "event \<Rightarrow> bool" where
  "keeps e \<longleftrightarrow> (\<forall>l. \<not> revokeOf l e) \<and> (\<forall>kd ns n a. e \<noteq> Kube (KDelete kd ns n) a)"

definition lateFailureKeepsCredential :: "'spec accessKind \<Rightarrow> bool" where
  "lateFailureKeepsCredential k \<longleftrightarrow>
     (\<forall>req env t cm t1 s t2 t3 r es.
        mayIssue req \<and> ak_NewCredentialManager k req env t = (Ok cm, t1)
        \<and> GetCredential cm env t1 = (Ok (Some s), t2)
        \<and> CreateSecret cm (WithUniqSuffix (Name (Meta req)) (rand_chars env t2))
            (Namespace (Meta req)) (Some s) env t2 = (Ok (), t3)
        \<and> processApproved k req env t = (r, t @ es)
        \<longrightarrow> (\<forall>e \<in> set es. keeps e))"

lemma keeps_Kube [simp]:
  "keeps (Kube (KGet kd ns n) a)" "keeps (Kube (KPatch x y) a)" "keeps (Kube (KUpdateStatus x) a)"
  "keeps (Kube (KCreate x) a)" "\<not> keeps (Kube (KDelete kd ns n) a)" "keeps (Ext f args s)"
  by (auto simp: keeps_def)

lemma keeps_Vault: "vr_Path r \<noteq> ''/v1/sys/leases/revoke'' \<or> vr_Method r = ''GET'' \<Longrightarrow> keeps (Vault r a)"
  by (auto simp: keeps_def revokeOf_def revokeRequest_def NewRequest_def
      dest: arg_cong[where f = vr_Method] arg_cong[where f = vr_Path])

lemma keeps_upsert: "upsertOn kd e \<Longrightarrow> keeps e"
  by (auto simp: upsertOn_def split: event.splits kubeRequest.splits)

lemma keeps_credentialRead: "credentialRead e \<Longrightarrow> keeps e"
  by (cases e) (auto intro: keeps_Vault)

lemma keeps_factory: "factoryEvent e \<Longrightarrow> keeps e"
  by (cases e rule: authEvent.cases) (auto simp: factoryEvent_def intro!: keeps_Vault)

lemma failWith_keeps [emits_intros]: "emits keeps (failWith k req f err) env"
  unfolding failWith_def by (intro emits_intros) simp_all

context credential_manager
begin

lemma keeps_ops:
  "emits keeps (GetCredential cm) env" "emits keeps (CreateSecret cm n ns cred) env"
  "emits keeps (CreateRole cm n ns sn) env" "emits keeps (CreateRoleBinding cm n ns rn subjects) env"
proof -
  show "emits keeps (GetCredential cm) env"
    by (rule emits_mono[OF get_emits]) (rule keeps_credentialRead)
  show "emits keeps (CreateSecret cm n ns cred) env"
    by (rule emits_mono[OF secret_emits]) (rule keeps_upsert)
  show "emits keeps (CreateRole cm n ns sn) env"
    by (rule emits_mono[OF role_emits]) (rule keeps_upsert)
  show "emits keeps (CreateRoleBinding cm n ns rn subjects) env"
    by (rule emits_mono[OF binding_emits]) (rule keeps_upsert)
qed

text \<open>The part of \<open>reconcile\<close> that follows a created secret.\<close>

lemma reconcile_after_secret:
  assumes "mayIssue req" "GetCredential cm env t = (Ok (Some s), t2)"
    "CreateSecret cm (WithUniqSuffix (Name (Meta req)) (rand_chars env t2))
       (Namespace (Meta req)) (Some s) env t2 = (Ok (), t3)"
  obtains rest where "emits keeps rest env" "reconcileAccessRequest k cm req env t = rest env t3"
proof -
  let ?n = "WithUniqSuffix (Name (Meta req)) (rand_chars env t2)"
  let ?ns = "Namespace (Meta req)"
  let ?role = "getSecretAccessRoleName (ak_Kind k) ?ns (Name (Meta req))"
  define rest where "rest =
     andThen (UpdateStatus (ak_client k) (Meta req) (setIssued s ?n)) (\<lambda>_.
     attempt (CreateRole cm ?role ?ns ?n)
      (\<lambda>err. failWith k req (setFailed ''FailedToCreateRole'' err) err) (\<lambda>_.
     attempt (CreateRoleBinding cm ?role ?ns ?role (ak_Subjects k (Spec req)))
      (\<lambda>err. failWith k req (setFailed ''FailedToCreateRoleBinding'' err) err) (\<lambda>_.
     andThen (UpdateStatus (ak_client k) (Meta req) (setAvailable (Generation (Meta req)))) (\<lambda>_. ret ()))))"
  have "emits keeps rest env"
    unfolding rest_def by (intro emits_intros keeps_ops) simp_all
  moreover have "reconcileAccessRequest k cm req env t = rest env t3"
    using assms by (simp add: reconcileAccessRequest_def mayIssue_def rest_def attempt_def andThen_def
        randCharacters_def Let_def)
  ultimately show thesis by (rule that)
qed

end

context access_controller
begin

lemma late_failure_keeps: "lateFailureKeepsCredential k"
  unfolding lateFailureKeepsCredential_def
proof (intro allI impI, elim conjE)
  fix req env t cm t1 s t2 t3 r es
  assume may: "mayIssue req" and mgr: "ak_NewCredentialManager k req env t = (Ok cm, t1)"
    and get: "GetCredential cm env t1 = (Ok (Some s), t2)"
    and sec: "CreateSecret cm (WithUniqSuffix (Name (Meta req)) (rand_chars env t2))
            (Namespace (Meta req)) (Some s) env t2 = (Ok (), t3)"
    and run: "processApproved k req env t = (r, t @ es)"
  from manager_run[OF mgr] obtain vc fs where cm: "credential_manager cm vc"
    and fs: "t1 = t @ fs" "\<forall>e \<in> set fs. factoryEvent e" .
  from credential_manager.reconcile_after_secret[OF cm may get sec] obtain rest where
    rest: "emits keeps rest env" "reconcileAccessRequest k cm req env t1 = rest env t3" by blast
  obtain gs where gs: "t2 = t1 @ gs" "\<forall>e \<in> set gs. keeps e"
    using emitsD[OF credential_manager.keeps_ops(1)[OF cm] get] by blast
  obtain ss where ss: "t3 = t2 @ ss" "\<forall>e \<in> set ss. keeps e"
    using emitsD[OF credential_manager.keeps_ops(2)[OF cm] sec] by blast
  define after where "after = attempt rest (\<lambda>err. errOf (UpdateStatus (ak_client k) (Meta req)
      (clearIssued (Generation (Meta req)))) (\<lambda>err3. returnErr (errors_Wrap (NewAggregate [err3, Some err])
                        (''For '' @ ak_Kind k @ '' '' @ key req)))) ret"
  have after: "emits keeps after env" unfolding after_def by (intro emits_intros rest(1)) simp_all
  have "processApproved k req env t = after env t3"
    using may mgr rest(2)
    by (simp add: after_def processApproved_def mayIssue_def revokeLease_def deleteCredSecret_def attempt_def
        errOf_def ret_def split: res.splits prod.splits)
  with run have "after env t3 = (r, t @ es)" by simp
  from emitsD[OF after this] obtain as' where "t @ es = t3 @ as'" "\<forall>e \<in> set as'. keeps e" by blast
  then show "\<forall>e \<in> set es. keeps e"
    using fs gs(2) ss(2) gs(1) ss(1) by (auto intro: keeps_factory)
qed

end

text \<open>C6: for all four kinds, after the credential secret of a fresh request has been created, no
  later failure in the same run makes the controller revoke the lease or delete the secret, although
  it then clears both references from the status.\<close>

theorem late_failure_leaks_credential:
  "lateFailureKeepsCredential awsAccessKind \<and> lateFailureKeepsCredential azureAccessKind
   \<and> lateFailureKeepsCredential gcpAccessKind \<and> lateFailureKeepsCredential dbAccessKind"
  using aws_access.late_failure_keeps azure_access.late_failure_keeps
    gcp_access.late_failure_keeps db_access.late_failure_keeps by blast

text \<open>
  A run in which the API server refuses the reader role: the lease was issued,
  the status ends without lease and secret, and the lease is still alive.
\<close>

definition forbidRoles :: env where
  "forbidRoles = echoEnv (\<lambda>k ns n. if k = ''Role'' then Inl (StatusError Forbidden ''forbidden'')
     else demoGet k ns n) demoVault (demoCache demoRequest)"

definition lastStatus :: "event list \<Rightarrow> AccessRequestStatus option" where
  "lastStatus es = (case rev es of
       Kube (KUpdateStatus (AWSAccessKeyRequestObj r)) (Inr x) # _ \<Rightarrow> Some (Status r) | _ \<Rightarrow> None)"

theorem late_failure_leaks_credential_witness:
  "(\<exists>err es. processApproved awsAccessKind demoRequest forbidRoles [] = (Err err, [] @ es)
     \<and> list_ex credentialRead es
     \<and> lastStatus es = Some (AccessRequestStatus0\<lparr>req_Conditions := [demoCondition ConditionRequestApproved],
          req_ObservedGeneration := 2\<rparr>)
     \<and> (\<forall>e \<in> set es. keeps e))"
proof -
  let ?run = "processApproved awsAccessKind demoRequest forbidRoles []"
  let ?es = "snd ?run"
  let ?r = "NewCredentialManagerForAWS demoRequest forbidRoles []"
  have lf: "lateFailureKeepsCredential awsAccessKind" using late_failure_leaks_credential by simp
  have e: "(case fst ?run of Err _ \<Rightarrow> True | _ \<Rightarrow> False)" "list_ex credentialRead ?es"
    "lastStatus ?es = Some (AccessRequestStatus0\<lparr>req_Conditions := [demoCondition ConditionRequestApproved],
          req_ObservedGeneration := 2\<rparr>)"
    by code_simp+
  have may: "mayIssue demoRequest" by code_simp
  obtain cm t1 where mgr: "?r = (Ok cm, t1)"
    and rest: "(case GetCredential cm forbidRoles t1 of (Ok (Some s), t2) \<Rightarrow>
        fst (CreateSecret cm (WithUniqSuffix (Name (Meta demoRequest)) (rand_chars forbidRoles t2))
            (Namespace (Meta demoRequest)) (Some s) forbidRoles t2) = Ok () | _ \<Rightarrow> False)"
  proof -
    have "(case ?r of (Ok cm, t1) \<Rightarrow> (case GetCredential cm forbidRoles t1 of (Ok (Some s), t2) \<Rightarrow>
        fst (CreateSecret cm (WithUniqSuffix (Name (Meta demoRequest)) (rand_chars forbidRoles t2))
            (Namespace (Meta demoRequest)) (Some s) forbidRoles t2) = Ok () | _ \<Rightarrow> False) | _ \<Rightarrow> False)"
      by code_simp
    moreover obtain x t1 where "?r = (x, t1)" by fastforce
    ultimately show thesis using that by (cases x) auto
  qed
  obtain y t2 where y: "GetCredential cm forbidRoles t1 = (y, t2)" by fastforce
  with rest obtain s where s: "y = Ok (Some s)"
    by (cases y) (auto split: option.splits)
  note get = y[unfolded s]
  from rest get obtain t3 where
    sec: "CreateSecret cm (WithUniqSuffix (Name (Meta demoRequest)) (rand_chars forbidRoles t2))
            (Namespace (Meta demoRequest)) (Some s) forbidRoles t2 = (Ok (), t3)"
    by (auto simp: prod_eq_iff)
  from e(1) obtain err where run: "?run = (Err err, [] @ ?es)"
    by (cases "fst ?run") (auto simp: prod_eq_iff)
  have "ak_NewCredentialManager awsAccessKind = NewCredentialManagerForAWS" by (simp add: awsAccessKind_def)
  with lf may mgr get sec run have "\<forall>e \<in> set ?es. keeps e"
    unfolding lateFailureKeepsCredential_def by metis
  with run e(2,3) show ?thesis by blast
qed

end
