(* ===== verification/Issue_Theorems.thy ===== *)
theory Issue_Theorems
  imports Access_Request Example_World
begin

text \<open>
  What a successful run of a request controller has done: the credential read
  from Vault, its secret, the lease recorded in the status, the reader role and
  binding, and the final status, in this order.
\<close>

section \<open>What the operations of a manager leave behind\<close>

definition fillSecret :: "smap \<Rightarrow> OwnerReference \<Rightarrow> Secret \<Rightarrow> Secret" where
  "fillSecret data owner s =
     s\<lparr>sec_Data := data, sec_Meta := EnsureOwnerReference (sec_Meta s) (Some owner)\<rparr>"

definition grantRead :: "string \<Rightarrow> OwnerReference \<Rightarrow> RbacRole \<Rightarrow> RbacRole" where
  "grantRead secretName owner r =
     r\<lparr>rbac_Rules := [\<lparr>rule_APIGroups = [''''], rule_Resources = [''secrets''],
          rule_ResourceNames = [secretName], rule_Verbs = [''get'']\<rparr>],
       rbac_Meta := EnsureOwnerReference (rbac_Meta r) (Some owner)\<rparr>"

definition bindReaders :: "string \<Rightarrow> Subject list \<Rightarrow> OwnerReference \<Rightarrow> RoleBinding \<Rightarrow> RoleBinding" where
  "bindReaders roleName subjects owner b =
     b\<lparr>rb_RoleRef := \<lparr>rr_APIGroup = rbac_GroupName, rr_Kind = ''Role'', rr_Name = roleName\<rparr>,
       rb_Subjects := subjects, rb_Meta := EnsureOwnerReference (rb_Meta b) (Some owner)\<rparr>"

text \<open>A GET on Vault that returned the secret \<open>s\<close>.\<close>

definition readsCredential :: "VaultSecret \<Rightarrow> event \<Rightarrow> bool" where
  "readsCredential s e \<longleftrightarrow> (\<exists>req resp. e = Vault req (Response resp None) \<and> vr_Method req = ''GET''
     \<and> okStatus (StatusCode resp) \<and> ParseSecret (Body resp) = Inr (Some s))"

locale issuing_manager = credential_manager cm vc
  for cm :: CredentialManager and vc :: VaultClient +
  fixes parse :: "VaultSecret \<Rightarrow> error + smap" and owner :: OwnerReference
  assumes get_ok: "GetCredential cm env t = (Ok (Some s), t')
      \<Longrightarrow> \<exists>e. t' = t @ [e] \<and> readsCredential s e"
    and secret_ok: "CreateSecret cm n ns (Some s) env t = (Ok (), t')
      \<Longrightarrow> \<exists>data es e. parse s = Inr data \<and> t' = t @ es @ [e]
            \<and> ensuredBy Secrets (ObjectMeta0 n ns) newSecret (fillSecret data owner) e"
    and role_ok: "CreateRole cm n ns sn env t = (Ok (), t')
      \<Longrightarrow> \<exists>es e. t' = t @ es @ [e] \<and> ensuredBy RbacRoles (ObjectMeta0 n ns) newRbacRole (grantRead sn owner) e"
    and binding_ok: "CreateRoleBinding cm n ns rn subjects env t = (Ok (), t')
      \<Longrightarrow> \<exists>es e. t' = t @ es @ [e]
            \<and> ensuredBy RoleBindings (ObjectMeta0 n ns) newRoleBinding (bindReaders rn subjects owner) e"

lemma readSecret_run:
  assumes "readSecret req msg env t = (Ok (Some s), t')" "vr_Method req = ''GET''"
  shows "\<exists>e. t' = t @ [e] \<and> readsCredential s e"
proof -
  let ?a = "vault_answer env t req"
  from assms(1) obtain r where r: "rawResult ?a = (Some r, None)" "t' = t @ [Vault req ?a]"
    "ParseSecret (Body r) = Inr (Some s)"
    by (auto simp: readSecret_def rawRequest_ok_run Let_def andThen_def wrapErr_def attempt_def
        ret_def fail_def liftE_def split: prod.splits option.splits sum.splits res.splits if_splits)
  then have "?a = Response r None" "okStatus (StatusCode r)"
    by (auto simp: rawResult_def Response_Error_def split: vaultAnswer.splits option.splits if_splits)
  with r assms(2) show ?thesis by (auto simp: readsCredential_def)
qed

lemmas GetSecret_defs = aws_GetSecret_def azure_GetSecret_def gcp_GetSecret_def database_GetSecret_def

lemma GetSecret_run:
  "aws_GetSecret si env t = (Ok (Some s), t') \<Longrightarrow> \<exists>e. t' = t @ [e] \<and> readsCredential s e"
  "azure_GetSecret az env t = (Ok (Some s), t') \<Longrightarrow> \<exists>e. t' = t @ [e] \<and> readsCredential s e"
  "gcp_GetSecret g env t = (Ok (Some s), t') \<Longrightarrow> \<exists>e. t' = t @ [e] \<and> readsCredential s e"
  "database_GetSecret db env t = (Ok (Some s), t') \<Longrightarrow> \<exists>e. t' = t @ [e] \<and> readsCredential s e"
  unfolding GetSecret_defs guard_run Let_def withClient_def
  by (auto simp: fail_def split: if_splits option.splits dest: readSecret_run)

lemma ensured_upsert:
  assumes "andThen (wrapErr msg (CreateOrPatch c meta new f)) (\<lambda>_. ret ()) env t = (Ok (), t')"
  shows "\<exists>es e. t' = t @ es @ [e] \<and> ensuredBy c meta new f e"
proof -
  from assms obtain v where "CreateOrPatch c meta new f env t = (Ok v, t')"
    unfolding andThen_ret_unit wrapErr_Ok by blast
  then show ?thesis by (rule CreateOrPatch_run) blast
qed

lemma CredManager_secret_ok:
  assumes "CredManager_CreateSecret c n ns (Some s) env t = (Ok (), t')"
  shows "\<exists>data es e. crm_ParseCredential c s = Inr data \<and> t' = t @ es @ [e]
     \<and> ensuredBy Secrets (ObjectMeta0 n ns) newSecret (fillSecret data (crm_GetOwnerReference c)) e"
proof -
  from assms obtain data where data: "crm_ParseCredential c s = Inr data"
    by (cases "crm_ParseCredential c s") (simp_all add: CredManager_CreateSecret_def monad_laws run_simps)
  with assms have "andThen (wrapErr (''failed to create/update secret '' @ slash ns n)
       (CreateOrPatch Secrets (ObjectMeta0 n ns) newSecret (fillSecret data (crm_GetOwnerReference c))))
     (\<lambda>_. ret ()) env t = (Ok (), t')"
    by (simp add: CredManager_CreateSecret_def monad_laws fillSecret_def[abs_def])
  from ensured_upsert[OF this] data show ?thesis by blast
qed

lemma CredManager_is_issuing_manager:
  assumes "credential_manager (CredManager_methods c) vc"
    and "\<And>env t s t'. crm_GetSecret c env t = (Ok (Some s), t') \<Longrightarrow> \<exists>e. t' = t @ [e] \<and> readsCredential s e"
  shows "issuing_manager (CredManager_methods c) vc (crm_ParseCredential c) (crm_GetOwnerReference c)"
proof (intro issuing_manager.intro assms(1) issuing_manager_axioms.intro, goal_cases)
  case (1 env t s t')
  then show ?case using assms(2) by (simp add: CredManager_methods_def)
next
  case (2 n ns s env t t')
  then show ?case by (intro CredManager_secret_ok) (simp add: CredManager_methods_def)
next
  case (3 n ns sn env t t')
  then show ?case
    unfolding grantRead_def[abs_def]
    by (intro ensured_upsert) (simp only: CredManager_methods_def CredManager_CreateRole_def CredentialManager.simps)
next
  case (4 n ns rn subjects env t t')
  then show ?case
    unfolding bindReaders_def[abs_def]
    by (intro ensured_upsert) (simp only: CredManager_methods_def CredManager_CreateRoleBinding_def CredentialManager.simps)
qed

interpretation aws_im: issuing_manager "CredManager_methods (awsCredManager cluster v role req)" v
    aws_ParseCredential "NewControllerRef engineGroupVersion ''AWSAccessKeyRequest'' (Meta req)"
  for cluster v role req
  by (rule CredManager_is_issuing_manager[OF aws_cm.credential_manager_axioms, of cluster v role req,
        unfolded awsCredManager_def CredManager.simps, folded awsCredManager_def, OF GetSecret_run(1)])

interpretation azure_im: issuing_manager "CredManager_methods (azureCredManager cluster v role req)" v
    azure_ParseCredential "NewControllerRef engineGroupVersion ''AzureAccessKeyRequest'' (Meta req)"
  for cluster v role req
  by (rule CredManager_is_issuing_manager[OF azure_cm.credential_manager_axioms, of cluster v role req,
        unfolded azureCredManager_def CredManager.simps, folded azureCredManager_def, OF GetSecret_run(2)])

interpretation gcp_im: issuing_manager "CredManager_methods (gcpCredManager cluster v role req)" v
    gcp_ParseCredential "NewControllerRef engineGroupVersion ''GCPAccessKeyRequest'' (Meta req)"
  for cluster v role req
  by (rule CredManager_is_issuing_manager[OF gcp_cm.credential_manager_axioms, of cluster v role req,
        unfolded gcpCredManager_def CredManager.simps, folded gcpCredManager_def, OF GetSecret_run(3)])

interpretation db_im: issuing_manager "CredManager_methods (dbCredManager v dbPath roleName req)" v
    db_ParseCredential "NewControllerRef engineGroupVersion ''DatabaseAccessRequest'' (Meta req)"
  for v dbPath roleName req
  by (rule CredManager_is_issuing_manager[OF db_cm.credential_manager_axioms, of v dbPath roleName req,
        unfolded dbCredManager_def CredManager.simps, folded dbCredManager_def, OF GetSecret_run(4)])

text \<open>The manager the factory of a kind makes for a request owns what it creates in the name of that request.\<close>

definition manages :: "string \<Rightarrow> ObjectMeta \<Rightarrow> CredentialManager \<Rightarrow> bool" where
  "manages kind meta cm \<longleftrightarrow>
     (\<exists>vc parse. issuing_manager cm vc parse (NewControllerRef engineGroupVersion kind meta))"

lemma managers_manage:
  "manages ''AWSAccessKeyRequest'' (Meta awsReq) (CredManager_methods (awsCredManager cluster v role awsReq))"
  "manages ''AzureAccessKeyRequest'' (Meta azureReq) (CredManager_methods (azureCredManager cluster v arole azureReq))"
  "manages ''GCPAccessKeyRequest'' (Meta gcpReq) (CredManager_methods (gcpCredManager cluster v grole gcpReq))"
  "manages ''DatabaseAccessRequest'' (Meta dbReq) (CredManager_methods (dbCredManager v dbPath roleName dbReq))"
  using aws_im.issuing_manager_axioms azure_im.issuing_manager_axioms
    gcp_im.issuing_manager_axioms db_im.issuing_manager_axioms
  unfolding manages_def by blast+

locale issuing_controller = access_controller k
  for k :: "'spec accessKind" +
  assumes mgr_manages: "yields (manages (ak_Kind k) (Meta req)) (ak_NewCredentialManager k req) env"

lemma yields_methods:
  "yields (\<lambda>c. P (CredManager_methods c)) m env
    \<Longrightarrow> yields P (andThen (wrapErr msg m) (\<lambda>c. ret (CredManager_methods c))) env"
  by (rule yields_andThenI[where R = "\<lambda>c. P (CredManager_methods c)"]) (auto intro!: yields_intros)

interpretation aws_issuing: issuing_controller awsAccessKind
  by unfold_locales (simp add: awsAccessKind_def NewCredentialManagerForAWS_def NewAWSCredentialManager_def
      yields_methods yields_intros managers_manage)

interpretation azure_issuing: issuing_controller azureAccessKind
  by unfold_locales (simp add: azureAccessKind_def NewCredentialManagerForAzure_def NewAzureCredentialManager_def
      yields_methods yields_intros managers_manage)

interpretation gcp_issuing: issuing_controller gcpAccessKind
  by unfold_locales (simp add: gcpAccessKind_def NewCredentialManagerForGCP_def NewGCPCredentialManager_def
      yields_methods yields_intros managers_manage)

interpretation db_issuing: issuing_controller dbAccessKind
  by unfold_locales (simp add: dbAccessKind_def NewCredentialManagerForDatabase_def NewDatabaseCredentialManager_def,
      rule yields_methods, auto intro!: yields_intros simp: managers_manage)


section \<open>A successful run has issued the credential\<close>

lemma subseq_pick: "subseq xs ys \<Longrightarrow> subseq (x # xs) (zs @ x # ys)"
  by (intro subseq_drop_many) simp

text \<open>
  The calls of a successful run, in order: the read that returned \<open>s\<close>, the
  secret with the parsed credential, the status with its lease, the reader role
  and its binding, and the final status; nothing follows the last.
\<close>

definition issuedInOrder :: "'spec accessKind \<Rightarrow> 'spec accessRequest \<Rightarrow> trace \<Rightarrow> bool" where
  "issuedInOrder k req es \<longleftrightarrow>
     (\<exists>s data secretName owner roleName e1 e2 e3 e4 e5 e6.
        owner = NewControllerRef engineGroupVersion (ak_Kind k) (Meta req)
        \<and> roleName = getSecretAccessRoleName (ak_Kind k) (Namespace (Meta req)) (Name (Meta req))
        \<and> subseq [e1, e2, e3, e4, e5, e6] es \<and> last es = e6
        \<and> readsCredential s e1
        \<and> ensuredBy Secrets (ObjectMeta0 secretName (Namespace (Meta req))) newSecret (fillSecret data owner) e2
        \<and> writesStatus (ak_client k) (setIssued s secretName) e3
        \<and> ensuredBy RbacRoles (ObjectMeta0 roleName (Namespace (Meta req))) newRbacRole (grantRead secretName owner) e4
        \<and> ensuredBy RoleBindings (ObjectMeta0 roleName (Namespace (Meta req))) newRoleBinding
            (bindReaders roleName (ak_Subjects k (Spec req)) owner) e5
        \<and> writesStatus (ak_client k) (setAvailable (Generation (Meta req))) e6)"

definition successMeansIssued :: "'spec accessKind \<Rightarrow> bool" where
  "successMeansIssued k \<longleftrightarrow>
     (\<forall>req env t es. mayIssue req \<and> syncAccessRequest k req env t = (Ok (), t @ es)
        \<longrightarrow> issuedInOrder k req es)"

lemma failWith_not_Ok: "failWith k req f err env t \<noteq> (Ok (), t')"
  by (auto simp: failWith_def errOf_def attempt_def returnErr_def NewAggregate_def run_simps
      split: prod.splits res.splits option.splits)

context issuing_manager
begin

lemma reconcile_Ok:
  assumes run: "reconcileAccessRequest k cm req env t = (Ok (), t')"
    and own: "owner = NewControllerRef engineGroupVersion (ak_Kind k) (Meta req)"
  shows "\<exists>es. t' = t @ es \<and> issuedInOrder k req es"
proof -
  let ?ns = "Namespace (Meta req)"
  let ?role = "getSecretAccessRoleName (ak_Kind k) ?ns (Name (Meta req))"
  from run obtain cred t1 where get: "GetCredential cm env t = (Ok cred, t1)"
    by (auto simp: reconcileAccessRequest_def run_simps failWith_not_Ok Let_def split: if_splits elim!: attempt_Ok)
  let ?n = "WithUniqSuffix (Name (Meta req)) (rand_chars env t1)"
  from run get obtain s t2 where s: "cred = Some s"
    and sec: "CreateSecret cm ?n ?ns cred env t1 = (Ok (), t2)"
    and rest: "andThen (UpdateStatus (ak_client k) (Meta req) (setIssued s ?n)) (\<lambda>_.
     attempt (CreateRole cm ?role ?ns ?n)
      (\<lambda>err. failWith k req (setFailed ''FailedToCreateRole'' err) err) (\<lambda>_.
     attempt (CreateRoleBinding cm ?role ?ns ?role (ak_Subjects k (Spec req)))
      (\<lambda>err. failWith k req (setFailed ''FailedToCreateRoleBinding'' err) err) (\<lambda>_.
     andThen (UpdateStatus (ak_client k) (Meta req) (setAvailable (Generation (Meta req)))) (\<lambda>_. ret ()))))
      env t2 = (Ok (), t')"
    by (auto simp: reconcileAccessRequest_def run_simps failWith_not_Ok errOf_def randCharacters_def Let_def
        split: if_splits option.splits elim!: attempt_Ok andThen_Ok)
  from rest obtain x t3 t4 t5 y where
    "UpdateStatus (ak_client k) (Meta req) (setIssued s ?n) env t2 = (Ok x, t3)"
    "CreateRole cm ?role ?ns ?n env t3 = (Ok (), t4)"
    "CreateRoleBinding cm ?role ?ns ?role (ak_Subjects k (Spec req)) env t4 = (Ok (), t5)"
    "UpdateStatus (ak_client k) (Meta req) (setAvailable (Generation (Meta req))) env t5 = (Ok y, t')"
    by (auto simp: run_simps failWith_not_Ok elim!: attempt_Ok andThen_Ok)
  note runs = UpdateStatus_run[OF this(1)] role_ok[OF this(2)] binding_ok[OF this(3)] UpdateStatus_run[OF this(4)]
    get_ok[OF get[unfolded s]] secret_ok[OF sec[unfolded s]]
  from runs obtain data e1 e2 e3 e4 e5 e6 a2 a3 a4 a5 a6 where
    "t' = t @ [e1] @ a2 @ [e2] @ a3 @ [e3] @ a4 @ [e4] @ a5 @ [e5] @ a6 @ [e6]"
    "readsCredential s e1"
    "ensuredBy Secrets (ObjectMeta0 ?n ?ns) newSecret (fillSecret data owner) e2"
    "writesStatus (ak_client k) (setIssued s ?n) e3"
    "ensuredBy RbacRoles (ObjectMeta0 ?role ?ns) newRbacRole (grantRead ?n owner) e4"
    "ensuredBy RoleBindings (ObjectMeta0 ?role ?ns) newRoleBinding
            (bindReaders ?role (ak_Subjects k (Spec req)) owner) e5"
    "writesStatus (ak_client k) (setAvailable (Generation (Meta req))) e6"
    by (elim exE conjE) (simp add: append_assoc)
  moreover have "subseq [e1, e2, e3, e4, e5, e6] ([e1] @ a2 @ [e2] @ a3 @ [e3] @ a4 @ [e4] @ a5 @ [e5] @ a6 @ [e6])"
    by simp (intro subseq_pick list_emb_Nil)
  ultimately show ?thesis unfolding issuedInOrder_def own[symmetric]
    by (intro exI[of _ "[e1] @ a2 @ [e2] @ a3 @ [e3] @ a4 @ [e4] @ a5 @ [e5] @ a6 @ [e6]"] conjI exI) auto
qed

end

lemma issuedInOrder_append: "issuedInOrder k req es \<Longrightarrow> issuedInOrder k req (fs @ es)"
proof -
  have "subseq (x # xs) es \<Longrightarrow> es \<noteq> []" for x xs and es :: trace by auto
  then show "issuedInOrder k req es \<Longrightarrow> issuedInOrder k req (fs @ es)"
    unfolding issuedInOrder_def by (metis last_appendR subseq_drop_many)
qed

context issuing_controller
begin

lemma processApproved_Ok:
  assumes may: "mayIssue req" and run: "processApproved k req env t = (Ok (), t')"
  shows "\<exists>es. t' = t @ es \<and> issuedInOrder k req es"
proof -
  from may run obtain cm t1 where mgr: "ak_NewCredentialManager k req env t = (Ok cm, t1)"
    and rec: "reconcileAccessRequest k cm req env t1 = (Ok (), t')"
    by (auto simp: mayIssue_def processApproved_def run_simps failWith_not_Ok errOf_def returnErr_def
        errors_Wrap_def split: if_splits option.splits elim!: attempt_Ok)
  from yieldsD[OF mgr_manages mgr] obtain vc parse where
    "issuing_manager cm vc parse (NewControllerRef engineGroupVersion (ak_Kind k) (Meta req))"
    by (auto simp: manages_def)
  from issuing_manager.reconcile_Ok[OF this rec refl] obtain es where
    es: "t' = t1 @ es" "issuedInOrder k req es" by blast
  moreover obtain fs where "t1 = t @ fs" using emitsD[OF mgr_emits mgr] by blast
  ultimately show ?thesis using issuedInOrder_append by (metis append.assoc)
qed

lemma success_means_issued: "successMeansIssued k"
  unfolding successMeansIssued_def
proof (intro allI impI, elim conjE)
  fix req env t es
  assume may: "mayIssue req" and run: "syncAccessRequest k req env t = (Ok (), t @ es)"
  have live: "DeletionTimestamp (Meta req) = None"
    "approvalType (req_Conditions (Status req)) = ConditionRequestApproved" using may by (auto simp: mayIssue_def)
  have nonempty: "ConditionRequestApproved \<noteq> ''''" by (simp add: ConditionRequestApproved_def)
  let ?m = "ensureFinalizer (ak_client k) (ak_finalizerMsg k (key req)) req"
  from run live obtain x t1 where fin: "?m env t = (Ok x, t1)"
    and pr: "processApproved k req env t1 = (Ok (), t @ es)"
    by (auto simp: syncAccessRequest_def dispatchAccessRequest_def nonempty Let_def elim!: andThen_Ok)
  have "emits (\<lambda>_. True) ?m env" unfolding ensureFinalizer_def by (intro emits_intros) simp
  from emitsD[OF this fin] obtain fs where "t1 = t @ fs" by blast
  with processApproved_Ok[OF may pr] show "issuedInOrder k req es"
    by (auto intro: issuedInOrder_append)
qed

end

text \<open>C5: for all four kinds, a run on a request that may be issued returns no error only when, in
  this order, Vault returned a credential, the secret holds its parsed form and is owned by the
  request, the lease and secret name are in the status, the reader role is limited to that secret
  and bound to the subjects, and the last call wrote the available status.\<close>

theorem success_means_issued_in_order:
  "successMeansIssued awsAccessKind \<and> successMeansIssued azureAccessKind
   \<and> successMeansIssued gcpAccessKind \<and> successMeansIssued dbAccessKind"
  using aws_issuing.success_means_issued azure_issuing.success_means_issued
    gcp_issuing.success_means_issued db_issuing.success_means_issued by blast

theorem success_means_issued_in_order_witness:
  "fst (syncAccessRequest awsAccessKind demoRequest demoEnv []) = Ok ()
   \<and> issuedInOrder awsAccessKind demoRequest (snd (syncAccessRequest awsAccessKind demoRequest demoEnv []))"
proof -
  have ok: "fst (syncAccessRequest awsAccessKind demoRequest demoEnv []) = Ok ()" by code_simp
  have "mayIssue demoRequest" by code_simp
  moreover have "syncAccessRequest awsAccessKind demoRequest demoEnv [] =
      (Ok (), [] @ snd (syncAccessRequest awsAccessKind demoRequest demoEnv []))"
    using ok by (simp add: prod_eq_iff)
  ultimately show ?thesis
    using ok success_means_issued_in_order unfolding successMeansIssued_def by blast
qed


section \<open>An issued request is not issued again\<close>

lemma condTypes_neq: "ConditionFailed \<noteq> ConditionAvailable"
  by (simp add: ConditionFailed_def ConditionAvailable_def)

lemma no_condition: "wfConditions cs \<Longrightarrow> condOf cs ty = None \<Longrightarrow> c \<in> set cs \<Longrightarrow> cond_Type c \<noteq> ty"
  by (metis condOf_mem option.distinct(1))

text \<open>Once the two status updates of a successful run have been applied to a status whose
  conditions have distinct types, the request has the condition Available with status true and no
  condition Failed, counts as successfully processed and may not be issued again.\<close>

theorem issued_request_not_issued_again:
  assumes "wfConditions (req_Conditions st)"
    and "Status req = setAvailable generation now' (setIssued s secretName now st)"
  shows "successfullyProcessed req
    \<and> (\<exists>c. condOf (req_Conditions (Status req)) ConditionAvailable = Some c \<and> cond_Status c = ConditionTrue)
    \<and> condOf (req_Conditions (Status req)) ConditionFailed = None
    \<and> wfConditions (req_Conditions (Status req))
    \<and> \<not> mayIssue req"
proof -
  let ?c = "availableCondition now'"
  let ?cs = "req_Conditions (Status req)"
  have ty: "cond_Type ?c = ConditionAvailable" by (simp add: availableCondition_def)
  have cs: "?cs = SetCondition now' (RemoveCondition (req_Conditions st) ConditionFailed) ?c"
    using assms(2) by (simp add: setAvailable_def setIssued_def)
  note upd = conds.replace_condition[where cs = "req_Conditions st" and ty = ConditionFailed and c = ?c and now = now', unfolded ty,
      OF assms(1) condTypes_neq, folded cs]
  obtain c where c: "condOf ?cs ConditionAvailable = Some c" "sameState c ?c" using upd(3) by blast
  have "c \<in> set ?cs" using condOf_mem[OF upd(1)] c(1) by blast
  then have "?cs \<noteq> []" by auto
  moreover have "req_Secret (Status req) \<noteq> None" using assms(2) by (simp add: setAvailable_def setIssued_def)
  moreover have "\<forall>d \<in> set ?cs. cond_Type d \<noteq> ConditionFailed" using no_condition[OF upd(1,2)] by blast
  ultimately have ok: "successfullyProcessed req" by (simp add: successfullyProcessed_def)
  then have "\<not> mayIssue req" by (simp add: mayIssue_def)
  moreover have "cond_Status c = ConditionTrue" using c(2) by (simp add: sameState_def availableCondition_def)
  ultimately show ?thesis using ok c(1) upd(1,2) by blast
qed

definition issuedDemo :: AWSAccessKeyRequest where
  "issuedDemo = demoRequest\<lparr>Status := setAvailable 2 7 (setIssued
     \<lparr>LeaseID = ''aws/creds/1'', LeaseDuration = 3600, Renewable = True, Data = []\<rparr> ''req-abc123'' 6
     (Status demoRequest))\<rparr>"

theorem issued_request_not_issued_again_witness:
  "successfullyProcessed issuedDemo \<and> condOf (req_Conditions (Status issuedDemo)) ConditionFailed = None
   \<and> \<not> mayIssue issuedDemo"
proof -
  have "wfConditions (req_Conditions (Status demoRequest))" by code_simp
  moreover have "Status issuedDemo = setAvailable 2 7 (setIssued
     \<lparr>LeaseID = ''aws/creds/1'', LeaseDuration = 3600, Renewable = True, Data = []\<rparr> ''req-abc123'' 6
     (Status demoRequest))" by (simp add: issuedDemo_def)
  ultimately show ?thesis using issued_request_not_issued_again by blast
qed


end
