(* ===== verification/Auth_Theorems.thy ===== *)
theory Auth_Theorems
  imports Credential Example_World
begin

text \<open>
  Properties of Vault authentication and of the AWS secret getter: where a
  client's address comes from, that waiting for a service account token never
  ends with a nil secret, and two paths on which the code does not do what its
  error messages and comments say.
\<close>

section \<open>Where a client comes from\<close>

text \<open>C15: a Vault client made for an AppBinding reference is built from the AppBinding the API
  server returned for that reference, has the address of that AppBinding, and making it has only
  read AppBindings, secrets and service accounts, called the cloud SDKs and posted to auth paths of
  Vault.\<close>

theorem client_from_app_binding:
  assumes "NewClient ns n env t = (Ok vc, t')"
  shows "\<exists>app es. t' = t @ Kube (KGet ''AppBinding'' ns n) (Inr (AppBindingObj app)) # es
    \<and> AppBinding_URL app = Inr (vc_Address vc) \<and> (\<forall>e \<in> set es. authEvent e)"
proof -
  from assms obtain app t1 info t2 where get: "apiGet AppBindings ns n env t = (Ok app, t1)"
    and info: "GetAuthInfoFromAppBinding app env t1 = (Ok info, t2)"
    and run: "NewClientWithAppBinding info env t2 = (Ok vc, t')"
    unfolding NewClient_def by (elim andThen_Ok) (auto simp: wrapErr_Ok)
  have t1: "t1 = t @ [Kube (KGet ''AppBinding'' ns n) (Inr (AppBindingObj app))]"
    using get by (auto simp: apiGet_def kubeCall_def AppBindings_def Let_def split: sum.splits option.splits obj.splits)
  have "ai_VaultApp info = app"
    using info unfolding GetAuthInfoFromAppBinding_def Let_def by (auto elim!: andThen_Ok simp: run_simps)
  with yieldsD[OF NewClientWithAppBinding_address run] have "AppBinding_URL app = Inr (vc_Address vc)" by simp
  moreover from emitsD[OF emits_GetAuthInfo info] emitsD[OF emits_NewClientWithAppBinding run]
  obtain es where "t' = t1 @ es" "\<forall>e \<in> set es. authEvent e"
    by (metis Un_iff append.assoc set_append)
  ultimately show ?thesis using t1 by (metis append.assoc append_Cons append_Nil)
qed

theorem client_from_app_binding_witness:
  "\<exists>vc t' app es. NewClient ''demo'' ''vault'' demoEnv [] = (Ok vc, t')
    \<and> t' = [] @ Kube (KGet ''AppBinding'' ''demo'' ''vault'') (Inr (AppBindingObj app)) # es
    \<and> AppBinding_URL app = Inr (vc_Address vc) \<and> vc_Token vc = ''s.root''"
proof -
  let ?r = "NewClient ''demo'' ''vault'' demoEnv []"
  have "(case fst ?r of Ok vc \<Rightarrow> vc_Token vc = ''s.root'' | _ \<Rightarrow> False)" by code_simp
  then obtain vc where "?r = (Ok vc, snd ?r)" "vc_Token vc = ''s.root''"
    by (cases "fst ?r") (auto simp: prod_eq_iff)
  with client_from_app_binding[OF this(1)] show ?thesis by blast
qed


section \<open>Waiting for a service account token\<close>

lemma WaitFor_token:
  "WaitFor k (tryGetJwtOnce n ns) s env t = (Ok ((secret, err), err2), t')
    \<Longrightarrow> (err2 = None \<longrightarrow> secret \<noteq> None) \<and> (err2 \<noteq> None \<longrightarrow> err \<noteq> None)"
  by (induction k arbitrary: s t)
    (auto simp: tryGetJwtOnce_def run_simps split: prod.splits poll.splits elim!: andThen_Ok attempt_Ok)

text \<open>Waiting for the token secret of a service account never returns without an error and
  without a secret, so the data of the secret can be read without a nil check.\<close>

theorem token_secret_never_nil:
  "yields (\<lambda>secret. secret \<noteq> None) (TryGetJwtTokenSecretNameFromServiceAccount n ns) env"
  unfolding yields_def TryGetJwtTokenSecretNameFromServiceAccount_def PollImmediate_def
  by (auto simp: run_simps errors_Wrap_def split: option.splits elim!: andThen_Ok dest!: WaitFor_token
      simp del: WaitFor.simps)


section \<open>An empty Vault role\<close>

lemma empty_role_nil:
  assumes "ai_VaultRole info = ''''"
  shows "yields (\<lambda>login. login = nilAuth) (saauth_New info) env"
    and "yields (\<lambda>login. login = nilAuth) (awsauth_New info) env"
  using assms by (auto simp: saauth_New_def awsauth_New_def returnWrapped_def intro!: yields_intros)

text \<open>With an empty Vault role, the service account and the AWS authentication never report the
  missing role: when everything before the check succeeds they return a nil method and no error, and
  logging in with it dereferences nil.\<close>

theorem empty_role_login_panics:
  assumes "ai_VaultRole info = ''''"
    and "ai_ServiceAccountRef info \<noteq> None
      \<or> (\<exists>s. ai_Secret info = Some s \<and> sec_Type s = ''kubevault.com/aws'')"
    and "NewAuth info env t = (Ok login, t1)"
  shows "NewClientWithAppBinding info env t =
    (Panic ''invalid memory address or nil pointer dereference'', t1)"
proof -
  have "login = nilAuth"
    using assms(2,3) yieldsD[OF empty_role_nil(1)[OF assms(1)], of env t login t1]
      yieldsD[OF empty_role_nil(2)[OF assms(1)], of env t login t1]
    by (auto simp: NewAuth_def split: if_splits)
  then show ?thesis
    using assms(3) by (simp add: NewClientWithAppBinding_def nilAuth_def andThen_def wrapErr_def attempt_def run_simps)
qed

definition roleless :: AuthInfo where
  "roleless = \<lparr>ai_VaultApp = demoApp, ai_ServiceAccountRef = None,
     ai_Secret = Some \<lparr>sec_Meta = ObjectMeta0 ''aws'' ''demo'', sec_Type = ''kubevault.com/aws'',
       sec_Data = [(''access_key_id'', ''AK''), (''secret_access_key'', ''SK'')]\<rparr>,
     ai_Azure = None, ai_AWS = None, ai_VaultRole = '''', ai_Path = ''''\<rparr>"

theorem empty_role_login_panics_witness:
  "\<exists>t1. NewClientWithAppBinding roleless demoEnv [] =
    (Panic ''invalid memory address or nil pointer dereference'', t1)"
proof -
  let ?r = "NewAuth roleless demoEnv []"
  have "(case fst ?r of Ok x \<Rightarrow> True | _ \<Rightarrow> False)" by code_simp
  then obtain login where "?r = (Ok login, snd ?r)" by (cases "fst ?r") (auto simp: prod_eq_iff)
  from empty_role_login_panics[OF _ _ this] show ?thesis by (auto simp: roleless_def)
qed


section \<open>The STS endpoint of AWS\<close>

text \<open>The option to read AWS credentials from the STS endpoint has no effect: every call the
  getter of the credential manager makes is a GET on the creds path of the role.\<close>

theorem aws_useSTS_ignored:
  "emits (\<lambda>e. \<exists>r a. e = Vault r a \<and> vr_Method r = ''GET'' \<and> vr_Path r = ''/v1/'' @ path @ ''/creds/'' @ role)
     (aws_GetSecret (aws_NewSecretGetter vc path role useSTS)) env
   \<and> aws_GetSecret (aws_NewSecretGetter vc path role useSTS) = aws_GetSecret (aws_NewSecretGetter vc path role False)"
proof
  show "emits (\<lambda>e. \<exists>r a. e = Vault r a \<and> vr_Method r = ''GET'' \<and> vr_Path r = ''/v1/'' @ path @ ''/creds/'' @ role)
     (aws_GetSecret (aws_NewSecretGetter vc path role useSTS)) env"
    unfolding aws_GetSecret_def aws_NewSecretGetter_def readSecret_def Let_def withClient_def
    by (intro emits_intros) auto
qed (simp add: aws_NewSecretGetter_def)

end
