(* ===== verification/Vault_Sys.thy ===== *)
theory Vault_Sys
  imports Credential
begin

text \<open>
  The calls of the Vault API's \<open>Sys()\<close> that the operator makes: listing,
  mounting and unmounting secret engines, listing and enabling authentication
  methods, writing and deleting policies.
\<close>

section \<open>Listing\<close>

text \<open>
  The mount paths in a response.  A member that is no object does not decode
  into a mount; a member with an ill-typed field is a body that does not decode.
\<close>

definition nilData :: "body \<Rightarrow> bool" where
  "nilData b \<longleftrightarrow> (case b of JsonBody j \<Rightarrow> jfield ''data'' j = JNull | _ \<Rightarrow> True)"

definition decodesToMount :: "json \<Rightarrow> bool" where
  "decodesToMount j \<longleftrightarrow> (case j of JNull \<Rightarrow> True | JObject m \<Rightarrow> True | _ \<Rightarrow> False)"

definition mountPaths :: "body \<Rightarrow> error + string list" where
  "mountPaths b = (case ParseSecret b of
       Inl e \<Rightarrow> Inl e
     | Inr None \<Rightarrow> Inl (Plain ''data from server response is empty'')
     | Inr (Some s) \<Rightarrow>
         if nilData b then Inl (Plain ''data from server response is empty'')
         else if list_all (\<lambda>(k, v). decodesToMount v) (Data s) then Inr (map fst (Data s))
         else Inl (Plain ''expected a map''))"

definition listRequest :: "VaultClient \<Rightarrow> string \<Rightarrow> string list go" where
  "listRequest vc path =
     andThen (rawRequest_ok (NewRequest vc ''GET'' path None)) (\<lambda>resp. liftE (mountPaths (Body resp)))"

definition ListMounts :: "VaultClient \<Rightarrow> string list go" where
  "ListMounts vc = listRequest vc ''/v1/sys/mounts''"

definition ListAuth :: "VaultClient \<Rightarrow> string list go" where
  "ListAuth vc = listRequest vc ''/v1/sys/auth''"


section \<open>Changing\<close>

text \<open>A request of which only the success matters.\<close>

definition sendRequest :: "VaultRequest \<Rightarrow> unit go" where
  "sendRequest req = andThen (rawRequest_ok req) (\<lambda>_. ret ())"

text \<open>\<open>MountInput\<close> with only the type and the description set.\<close>

definition mountInput :: "string \<Rightarrow> string \<Rightarrow> json" where
  "mountInput ty desc = JObject
     [(''type'', JString ty), (''description'', JString desc),
      (''config'', JObject [(''options'', JNull), (''default_lease_ttl'', JString ''''),
         (''max_lease_ttl'', JString ''''), (''force_no_cache'', JBool False)]),
      (''local'', JBool False), (''seal_wrap'', JBool False),
      (''external_entropy_access'', JBool False), (''options'', JNull)]"

definition Mount :: "VaultClient \<Rightarrow> string \<Rightarrow> string \<Rightarrow> unit go" where
  "Mount vc path ty =
     sendRequest (NewRequest vc ''POST'' (''/v1/sys/mounts/'' @ path) (Some (mountInput ty '''')))"

definition Unmount :: "VaultClient \<Rightarrow> string \<Rightarrow> unit go" where
  "Unmount vc path = sendRequest (NewRequest vc ''DELETE'' (''/v1/sys/mounts/'' @ path) None)"

definition EnableAuth :: "VaultClient \<Rightarrow> string \<Rightarrow> string \<Rightarrow> string \<Rightarrow> unit go" where
  "EnableAuth vc path ty desc =
     sendRequest (NewRequest vc ''POST'' (''/v1/sys/auth/'' @ path) (Some (mountInput ty desc)))"

definition DisableAuth :: "VaultClient \<Rightarrow> string \<Rightarrow> unit go" where
  "DisableAuth vc path = sendRequest (NewRequest vc ''DELETE'' (''/v1/sys/auth/'' @ path) None)"

definition PutPolicy :: "VaultClient \<Rightarrow> string \<Rightarrow> string \<Rightarrow> unit go" where
  "PutPolicy vc name rules =
     sendRequest (NewRequest vc ''PUT'' (''/v1/sys/policies/acl/'' @ name)
       (Some (JObject [(''policy'', JString rules)])))"

definition DeletePolicy :: "VaultClient \<Rightarrow> string \<Rightarrow> unit go" where
  "DeletePolicy vc name = sendRequest (NewRequest vc ''DELETE'' (''/v1/sys/policies/acl/'' @ name) None)"


section \<open>Which calls they make\<close>

lemma sendRequest_run:
  "sendRequest req env t =
     (let a = vault_answer env t req in
      (case snd (rawResult a) of None \<Rightarrow> Ok () | Some e \<Rightarrow> Err e, t @ [Vault req a]))"
proof -
  let ?a = "vault_answer env t req"
  show ?thesis
    by (rule rawResult_cases[of ?a])
      (simp_all add: sendRequest_def rawRequest_ok_run andThen_def attempt_def ret_def fail_def Let_def)
qed

lemma sendRequest_Ok:
  assumes "sendRequest req env t = (Ok (), t')"
  shows "\<exists>a. t' = t @ [Vault req a] \<and> answeredOk a"
  using assms by (auto simp: sendRequest_run answeredOk_def Let_def split: option.splits)

lemma emits_sendRequest [emits_intros]: "(\<And>a. P (Vault req a)) \<Longrightarrow> emits P (sendRequest req) env"
  unfolding sendRequest_def by (intro emits_intros)

lemma emits_listRequest [emits_intros]:
  "(\<And>a. P (Vault (NewRequest vc ''GET'' path None) a)) \<Longrightarrow> emits P (listRequest vc path) env"
  unfolding listRequest_def by (intro emits_intros)

lemmas sys_defs = ListMounts_def ListAuth_def Mount_def Unmount_def EnableAuth_def DisableAuth_def
  PutPolicy_def DeletePolicy_def

end
