(* ===== verification/Roles.thy ===== *)
theory Roles
  imports Vault_Sys Finalizers
begin

text \<open>
  Vault roles: the role clients of \<open>pkg/vault/role\<close> (AWS, Azure, GCP and the
  three databases) and the controllers of the six role kinds.  The controllers
  have the same text up to the kind, so each function is written once over a
  record of what depends on the kind.
\<close>

section \<open>Role clients\<close>

text \<open>The role interfaces: \<open>CreateRole\<close>, and \<open>DeleteRole\<close> with the status code it returns.\<close>

record RoleClient =
  rc_CreateRole :: "unit go"
  rc_DeleteRole :: "string \<Rightarrow> (nat \<times> error option) go"

definition jstrings :: "string list \<Rightarrow> json" where
  "jstrings xs = JList (map JString xs)"

definition listField :: "string \<Rightarrow> string list \<Rightarrow> (string \<times> json) list" where
  "listField k xs = (if xs \<noteq> [] then [(k, jstrings xs)] else [])"

text \<open>
  \<open>DeleteRole\<close> of every client: when the request fails without a response, the
  status code is read from a nil response.
\<close>

definition deleteRoleAt :: "VaultClient \<Rightarrow> string \<Rightarrow> string \<Rightarrow> (nat \<times> error option) go" where
  "deleteRoleAt vc path msg =
     andThen (RawRequest (NewRequest vc ''DELETE'' path None)) (\<lambda>(resp, err).
       case resp of
         None \<Rightarrow> panic ''invalid memory address or nil pointer dereference''
       | Some r \<Rightarrow> ret (StatusCode r, map_option (Wrapped msg) err))"

definition AWSRole_CreateRole :: "string \<Rightarrow> VaultClient \<Rightarrow> string \<Rightarrow> AWSRole \<Rightarrow> unit go" where
  "AWSRole_CreateRole cluster vc awsPath role =
     andThen (guard (awsPath = '''') (Plain ''aws engine path is empty'')) (\<lambda>_.
     let sp = Spec role;
         payload = [(''credential_type'', JString (awsrole_CredentialType sp))]
           @ listField ''role_arns'' (awsrole_RoleARNs sp)
           @ listField ''policy_arns'' (awsrole_PolicyARNs sp)
           @ (if awsrole_PolicyDocument sp \<noteq> '''' then [(''policy_document'', JString (awsrole_PolicyDocument sp))]
              else case awsrole_Policy sp of Some doc \<Rightarrow> [(''policy_document'', JString doc)] | None \<Rightarrow> [])
           @ optField ''default_sts_ttl'' (awsrole_DefaultSTSTTL sp)
           @ optField ''max_sts_ttl'' (awsrole_MaxSTSTTL sp) in
     wrapErr ''failed to create aws role''
       (sendRequest (NewRequest vc ''POST'' (''/v1/'' @ awsPath @ ''/roles/'' @ AWSRole_RoleName cluster role)
          (Some (JObject payload)))))"

definition AWSRole_DeleteRole :: "VaultClient \<Rightarrow> string \<Rightarrow> string \<Rightarrow> (nat \<times> error option) go" where
  "AWSRole_DeleteRole vc awsPath name =
     deleteRoleAt vc (''/v1/'' @ awsPath @ ''/roles/'' @ name) (''failed to delete aws role '' @ name)"

definition NewAWSRole :: "AWSRole \<Rightarrow> RoleClient go" where
  "NewAWSRole role =
     andThen (wrapErr ''failed to create vault api client''
                (NewClient (Namespace (Meta role)) (awsrole_VaultRef (Spec role)))) (\<lambda>vc.
     andThen clusterid_ClusterName (\<lambda>cluster.
     ret \<lparr>rc_CreateRole = AWSRole_CreateRole cluster vc (GetAWSPath role) role,
          rc_DeleteRole = AWSRole_DeleteRole vc (GetAWSPath role)\<rparr>))"

definition AzureRole_CreateRole :: "string \<Rightarrow> VaultClient \<Rightarrow> string \<Rightarrow> AzureRole \<Rightarrow> unit go" where
  "AzureRole_CreateRole cluster vc azurePath role =
     andThen (guard (azurePath = '''') (Plain ''azure engine path is empty'')) (\<lambda>_.
     let sp = Spec role;
         payload = optField ''azure_roles'' (azurerole_AzureRoles sp)
           @ optField ''application_object_id'' (azurerole_ApplicationObjectID sp)
           @ optField ''ttl'' (azurerole_TTL sp)
           @ optField ''max_ttl'' (azurerole_MaxTTL sp) in
     wrapErr ''failed to create azure role''
       (sendRequest (NewRequest vc ''POST'' (''/v1/'' @ azurePath @ ''/roles/'' @ AzureRole_RoleName cluster role)
          (Some (JObject payload)))))"

definition AzureRole_DeleteRole :: "VaultClient \<Rightarrow> string \<Rightarrow> string \<Rightarrow> (nat \<times> error option) go" where
  "AzureRole_DeleteRole vc azurePath name =
     deleteRoleAt vc (''/v1/'' @ azurePath @ ''/roles/'' @ name) (''failed to delete azure role '' @ name)"

definition NewAzureRole :: "AzureRole \<Rightarrow> RoleClient go" where
  "NewAzureRole role =
     andThen (wrapErr ''failed to create vault api client''
                (NewClient (Namespace (Meta role)) (azurerole_VaultRef (Spec role)))) (\<lambda>vc.
     andThen clusterid_ClusterName (\<lambda>cluster.
     ret \<lparr>rc_CreateRole = AzureRole_CreateRole cluster vc (GetAzurePath role) role,
          rc_DeleteRole = AzureRole_DeleteRole vc (GetAzurePath role)\<rparr>))"

definition GCPRole_CreateRole :: "string \<Rightarrow> VaultClient \<Rightarrow> string \<Rightarrow> GCPRole \<Rightarrow> unit go" where
  "GCPRole_CreateRole cluster vc gcpPath role =
     andThen (guard (gcpPath = '''') (Plain ''gcp engine path is empty'')) (\<lambda>_.
     let sp = Spec role;
         payload = [(''project'', JString (gcprole_Project sp)), (''bindings'', JString (gcprole_Bindings sp))]
           @ optField ''secret_type'' (gcprole_SecretType sp)
           @ (case gcprole_TokenScopes sp of None \<Rightarrow> [] | Some xs \<Rightarrow> [(''token_scopes'', jstrings xs)]) in
     wrapErr ''failed to create gcp role''
       (sendRequest (NewRequest vc ''POST'' (''/v1/'' @ gcpPath @ ''/roleset/'' @ GCPRole_RoleName cluster role)
          (Some (JObject payload)))))"

definition GCPRole_DeleteRole :: "VaultClient \<Rightarrow> string \<Rightarrow> string \<Rightarrow> (nat \<times> error option) go" where
  "GCPRole_DeleteRole vc gcpPath name =
     deleteRoleAt vc (''/v1/'' @ gcpPath @ ''/roleset/'' @ name) (''failed to delete gcp role '' @ name)"

definition NewGCPRole :: "GCPRole \<Rightarrow> RoleClient go" where
  "NewGCPRole role =
     andThen (wrapErr ''failed to create vault api client''
                (NewClient (Namespace (Meta role)) (gcprole_VaultRef (Spec role)))) (\<lambda>vc.
     andThen clusterid_ClusterName (\<lambda>cluster.
     ret \<lparr>rc_CreateRole = GCPRole_CreateRole cluster vc (GetGCPPath role) role,
          rc_DeleteRole = GCPRole_DeleteRole vc (GetGCPPath role)\<rparr>))"


subsection \<open>Database roles\<close>

text \<open>
  The name of the database configuration: the reference, which must be complete,
  or else the name given in the spec.
\<close>

definition roleDBName :: "string \<Rightarrow> AppReference option \<Rightarrow> string \<Rightarrow> error + string" where
  "roleDBName cluster dbRef dbName = (case dbRef of
       Some ref \<Rightarrow>
         if app_Name ref = '''' then Inl (Plain ''DatabaseRef.Name is empty'')
         else if app_Namespace ref = '''' then Inl (Plain ''DatabaseRef.Namespace is empty'')
         else Inr (GetDBNameFromAppBindingRef cluster ref)
     | None \<Rightarrow> if dbName \<noteq> '''' then Inr dbName
               else Inl (Plain ''both DatabaseRef and DatabaseName are empty''))"

text \<open>The request of the three database clients; the error message reads the name of the reference.\<close>

definition postDatabaseRole :: "VaultClient \<Rightarrow> string \<Rightarrow> string \<Rightarrow> AppReference option
    \<Rightarrow> (string \<times> json) list \<Rightarrow> unit go" where
  "postDatabaseRole vc databasePath name dbRef payload =
     attempt (sendRequest (NewRequest vc ''POST'' (''/v1/'' @ databasePath @ ''/roles/'' @ name)
                (Some (JObject payload))))
       (\<lambda>err. case dbRef of
          None \<Rightarrow> panic ''invalid memory address or nil pointer dereference''
        | Some ref \<Rightarrow> fail (Wrapped (''failed to create database role '' @ name @ '' for config '' @ app_Name ref) err))
       ret"

definition PostgresRole_CreateRole :: "string \<Rightarrow> VaultClient \<Rightarrow> string \<Rightarrow> PostgresRole \<Rightarrow> unit go" where
  "PostgresRole_CreateRole cluster vc databasePath role =
     (let pg = Spec role in
      andThen (liftE (roleDBName cluster (pgrole_DatabaseRef pg) (pgrole_DatabaseName pg))) (\<lambda>dbName.
      postDatabaseRole vc databasePath (PostgresRole_RoleName role) (pgrole_DatabaseRef pg)
        ([(''db_name'', JString dbName), (''creation_statements'', jstrings (pgrole_CreationStatements pg))]
         @ listField ''revocation_statements'' (pgrole_RevocationStatements pg)
         @ listField ''rollback_statements'' (pgrole_RollbackStatements pg)
         @ listField ''renew_statements'' (pgrole_RenewStatements pg)
         @ optField ''default_ttl'' (pgrole_DefaultTTL pg)
         @ optField ''max_ttl'' (pgrole_MaxTTL pg))))"

definition MySQLRole_CreateRole :: "string \<Rightarrow> VaultClient \<Rightarrow> string \<Rightarrow> MySQLRole \<Rightarrow> unit go" where
  "MySQLRole_CreateRole cluster vc databasePath role =
     (let my = Spec role in
      andThen (liftE (roleDBName cluster (mysqlrole_DatabaseRef my) (mysqlrole_DatabaseName my))) (\<lambda>dbName.
      postDatabaseRole vc databasePath (MySQLRole_RoleName role) (mysqlrole_DatabaseRef my)
        ([(''db_name'', JString dbName), (''creation_statements'', jstrings (mysqlrole_CreationStatements my))]
         @ listField ''revocation_statements'' (mysqlrole_RevocationStatements my)
         @ optField ''default_ttl'' (mysqlrole_DefaultTTL my)
         @ optField ''max_ttl'' (mysqlrole_MaxTTL my))))"

definition MongoDBRole_CreateRole :: "string \<Rightarrow> VaultClient \<Rightarrow> string \<Rightarrow> MongoDBRole \<Rightarrow> unit go" where
  "MongoDBRole_CreateRole cluster vc databasePath role =
     (let mdb = Spec role in
      andThen (liftE (roleDBName cluster (mongorole_DatabaseRef mdb) (mongorole_DatabaseName mdb))) (\<lambda>dbName.
      postDatabaseRole vc databasePath (MongoDBRole_RoleName role) (mongorole_DatabaseRef mdb)
        ([(''db_name'', JString dbName), (''creation_statements'', jstrings (mongorole_CreationStatements mdb))]
         @ listField ''revocation_statements'' (mongorole_RevocationStatements mdb)
         @ optField ''default_ttl'' (mongorole_DefaultTTL mdb)
         @ optField ''max_ttl'' (mongorole_MaxTTL mdb))))"

definition DatabaseRole_DeleteRole :: "VaultClient \<Rightarrow> string \<Rightarrow> string \<Rightarrow> (nat \<times> error option) go" where
  "DatabaseRole_DeleteRole vc path name =
     deleteRoleAt vc (''/v1/'' @ path @ ''/roles/'' @ name) (''failed to delete database role '' @ name)"

definition IsDatabaseEnabled :: "VaultClient \<Rightarrow> string \<Rightarrow> bool go" where
  "IsDatabaseEnabled vc path =
     andThen (wrapErr ''failed to list mounted secrets engines'' (ListMounts vc)) (\<lambda>mnt.
       ret (path @ ''/'' \<in> set mnt))"

definition EnableDatabase :: "VaultClient \<Rightarrow> string \<Rightarrow> unit go" where
  "EnableDatabase vc path =
     andThen (IsDatabaseEnabled vc path) (\<lambda>enabled.
       if enabled then ret () else Mount vc path ''database'')"

text \<open>
  \<open>NewPostgresRole\<close>, \<open>NewMySQLRole\<close> and \<open>NewMongoDBRole\<close> read the AppBinding of
  the database through a reference that may be nil; nothing uses the result.
\<close>

definition getDBBinding :: "AppReference option \<Rightarrow> AppBinding go" where
  "getDBBinding dbRef = (case dbRef of
       None \<Rightarrow> panic ''invalid memory address or nil pointer dereference''
     | Some ref \<Rightarrow> apiGet AppBindings (app_Namespace ref) (app_Name ref))"

definition newDatabaseRole :: "string \<Rightarrow> string \<Rightarrow> string \<Rightarrow> AppReference option \<Rightarrow> string
    \<Rightarrow> (string \<Rightarrow> VaultClient \<Rightarrow> unit go) \<Rightarrow> RoleClient go" where
  "newDatabaseRole ns vaultRef path dbRef msg create =
     attempt (NewClient ns vaultRef) (\<lambda>err. fail (WithStack err)) (\<lambda>vc.
     andThen (wrapErr msg (getDBBinding dbRef)) (\<lambda>_.
     andThen clusterid_ClusterName (\<lambda>cluster.
     ret \<lparr>rc_CreateRole = create cluster vc, rc_DeleteRole = DatabaseRole_DeleteRole vc path\<rparr>)))"

definition NewDatabaseRoleForPostgres :: "PostgresRole \<Rightarrow> RoleClient go" where
  "NewDatabaseRoleForPostgres role =
     newDatabaseRole (Namespace (Meta role)) (pgrole_VaultRef (Spec role)) (GetPostgresDatabasePath role)
       (pgrole_DatabaseRef (Spec role)) ''failed to create postgres role client''
       (\<lambda>cluster vc. PostgresRole_CreateRole cluster vc (GetPostgresDatabasePath role) role)"

definition NewDatabaseRoleForMysql :: "MySQLRole \<Rightarrow> RoleClient go" where
  "NewDatabaseRoleForMysql role =
     newDatabaseRole (Namespace (Meta role)) (mysqlrole_VaultRef (Spec role)) (GetMySQLDatabasePath role)
       (mysqlrole_DatabaseRef (Spec role)) ''failed to create mysql role client''
       (\<lambda>cluster vc. MySQLRole_CreateRole cluster vc (GetMySQLDatabasePath role) role)"

definition NewDatabaseRoleForMongodb :: "MongoDBRole \<Rightarrow> RoleClient go" where
  "NewDatabaseRoleForMongodb role =
     newDatabaseRole (Namespace (Meta role)) (mongorole_VaultRef (Spec role)) (GetMongoDBDatabasePath role)
       (mongorole_DatabaseRef (Spec role)) ''failed to create mongodb role client''
       (\<lambda>cluster vc. MongoDBRole_CreateRole cluster vc (GetMongoDBDatabasePath role) role)"


section \<open>The controllers\<close>

type_synonym 'spec roleResource = "('spec, RoleStatus) resource"

record 'spec roleKind =
  rk_Kind :: string
  rk_client :: "'spec roleResource client"
  rk_NewRole :: "'spec roleResource \<Rightarrow> RoleClient go"
  rk_RoleName :: "string \<Rightarrow> 'spec roleResource \<Rightarrow> string"
  rk_finalizerMsg :: "string \<Rightarrow> string"
  rk_failReason :: string
  rk_createMsg :: "string \<Rightarrow> string"
  rk_deleteMsg :: string
  rk_removesFailed :: bool

text \<open>A condition literal without a transition time.\<close>

definition conditionTrue :: "string \<Rightarrow> string \<Rightarrow> string \<Rightarrow> Condition" where
  "conditionTrue ty rsn msg =
     \<lparr>cond_Type = ty, cond_Status = ConditionTrue, cond_ObservedGeneration = 0,
      cond_LastTransitionTime = 0, cond_Reason = rsn, cond_Message = msg\<rparr>"

definition setRoleProcessing :: "int \<Rightarrow> RoleStatus \<Rightarrow> RoleStatus" where
  "setRoleProcessing now st = st\<lparr>role_Phase := ''Processing''\<rparr>"

definition setRoleFailed :: "string \<Rightarrow> error \<Rightarrow> int \<Rightarrow> RoleStatus \<Rightarrow> RoleStatus" where
  "setRoleFailed rsn err now st =
     st\<lparr>role_Conditions := SetCondition now (role_Conditions st) (conditionTrue ConditionFailed rsn (Error err))\<rparr>"

text \<open>The MongoDB controller does not remove the failed condition.\<close>

definition setRoleReady :: "bool \<Rightarrow> int \<Rightarrow> int \<Rightarrow> RoleStatus \<Rightarrow> RoleStatus" where
  "setRoleReady removesFailed generation now st =
     st\<lparr>role_Phase := ''Success'', role_ObservedGeneration := generation,
        role_Conditions := SetCondition now
          (if removesFailed then RemoveCondition (role_Conditions st) ConditionFailed else role_Conditions st)
          (conditionTrue ConditionAvailable ''Provisioned'' ''role is ready to use'')\<rparr>"

definition reconcileRole :: "'spec roleKind \<Rightarrow> RoleClient \<Rightarrow> 'spec roleResource \<Rightarrow> unit go" where
  "reconcileRole k rClient role =
     attempt (rc_CreateRole rClient)
       (\<lambda>err. errOf (UpdateStatus (rk_client k) (Meta role) (setRoleFailed (rk_failReason k) err)) (\<lambda>err2.
          returnErr (NewAggregate [err2, Some (Wrapped (rk_createMsg k (key role)) err)])))
       (\<lambda>_. andThen (UpdateStatus (rk_client k) (Meta role)
               (setRoleReady (rk_removesFailed k) (Generation (Meta role)))) (\<lambda>_. ret ()))"

definition deleteFromVault :: "'spec roleKind \<Rightarrow> 'spec roleResource \<Rightarrow> RoleClient \<Rightarrow> unit go" where
  "deleteFromVault k role rClient =
     andThen clusterid_ClusterName (\<lambda>cluster.
     andThen (rc_DeleteRole rClient (rk_RoleName k cluster role)) (\<lambda>(statusCode, err).
       case err of
         Some e \<Rightarrow> if statusCode div 100 \<noteq> 4 then fail (Wrapped (rk_deleteMsg k) e) else ret ()
       | None \<Rightarrow> ret ()))"

definition releaseRole :: "'spec roleKind \<Rightarrow> 'spec roleResource \<Rightarrow> unit go" where
  "releaseRole k role =
     andThen (wrapErr (''failed to remove finalizer for '' @ rk_Kind k @ '': '' @ key role)
        (Patch (rk_client k) role removeFinalizer)) (\<lambda>_. ret ())"

definition runRoleFinalizer :: "'spec roleKind \<Rightarrow> 'spec roleResource \<Rightarrow> unit go" where
  "runRoleFinalizer k role =
     andThen (attempt (rk_NewRole k role) (\<lambda>_. ret ()) (deleteFromVault k role))
       (\<lambda>_. releaseRole k role)"

text \<open>Absent and empty condition lists are the same after decoding.\<close>

definition syncRole :: "'spec roleKind \<Rightarrow> 'spec roleResource \<Rightarrow> unit go" where
  "syncRole k role =
    (if DeletionTimestamp (Meta role) \<noteq> None then
       (if HasFinalizer (Meta role) Finalizer then runRoleFinalizer k role else ret ())
     else
       andThen (ensureFinalizer (rk_client k) (rk_finalizerMsg k (key role)) role) (\<lambda>_.
       andThen (if role_Conditions (Status role) = []
                then wrapErr (''failed to update status for '' @ rk_Kind k @ '': '' @ key role)
                       (UpdateStatus (rk_client k) (Meta role) setRoleProcessing)
                else ret role) (\<lambda>role'.
       andThen (rk_NewRole k role') (\<lambda>rClient.
       wrapErr (''failed to reconcile '' @ rk_Kind k @ '': '' @ key role')
         (reconcileRole k rClient role')))))"

definition runRoleInjector :: "'spec roleKind \<Rightarrow> string \<Rightarrow> unit go" where
  "runRoleInjector k ky =
     andThen (GetByKey (rk_Kind k) ky) (\<lambda>obj. case obj of
       None \<Rightarrow> ret ()
     | Some ob \<Rightarrow> (case cl_prj (rk_client k) ob of
         None \<Rightarrow> panic ''interface conversion''
       | Some role \<Rightarrow> syncRole k role))"


subsection \<open>The six kinds\<close>

definition awsRoleKind :: "AWSRoleSpec roleKind" where
  "awsRoleKind = \<lparr>rk_Kind = ''AWSRole'', rk_client = AWSRoles, rk_NewRole = NewAWSRole,
     rk_RoleName = AWSRole_RoleName,
     rk_finalizerMsg = (\<lambda>ky. ''failed to add finalizer for AWSRole: '' @ ky),
     rk_failReason = ''FailedToCreateRole'', rk_createMsg = (\<lambda>ky. ''failed to create role''),
     rk_deleteMsg = ''failed to delete aws role'', rk_removesFailed = True\<rparr>"

definition azureRoleKind :: "AzureRoleSpec roleKind" where
  "azureRoleKind = \<lparr>rk_Kind = ''AzureRole'', rk_client = AzureRoles, rk_NewRole = NewAzureRole,
     rk_RoleName = AzureRole_RoleName,
     rk_finalizerMsg = (\<lambda>ky. ''failed to add finalizer for AzureRole: '' @ ky),
     rk_failReason = ''FailedToCreateRole'', rk_createMsg = (\<lambda>ky. ''failed to create role''),
     rk_deleteMsg = ''failed to delete azure role'', rk_removesFailed = True\<rparr>"

definition gcpRoleKind :: "GCPRoleSpec roleKind" where
  "gcpRoleKind = \<lparr>rk_Kind = ''GCPRole'', rk_client = GCPRoles, rk_NewRole = NewGCPRole,
     rk_RoleName = GCPRole_RoleName,
     rk_finalizerMsg = (\<lambda>ky. ''failed to add finalizer for GCPRole: '' @ ky),
     rk_failReason = ''FailedToCreateRole'', rk_createMsg = (\<lambda>ky. ''failed to create role''),
     rk_deleteMsg = ''failed to delete gcp role'', rk_removesFailed = True\<rparr>"

definition mongoRoleKind :: "MongoDBRoleSpec roleKind" where
  "mongoRoleKind = \<lparr>rk_Kind = ''MongoDBRole'', rk_client = MongoDBRoles, rk_NewRole = NewDatabaseRoleForMongodb,
     rk_RoleName = (\<lambda>cluster. MongoDBRole_RoleName),
     rk_finalizerMsg = (\<lambda>ky. ''failed to set MongoDBRole finalizer for '' @ ky),
     rk_failReason = ''FailedToCreateRole'', rk_createMsg = (\<lambda>ky. ''failed to create role''),
     rk_deleteMsg = ''failed to delete database role'', rk_removesFailed = False\<rparr>"

definition mysqlRoleKind :: "MySQLRoleSpec roleKind" where
  "mysqlRoleKind = \<lparr>rk_Kind = ''MySQLRole'', rk_client = MySQLRoles, rk_NewRole = NewDatabaseRoleForMysql,
     rk_RoleName = (\<lambda>cluster. MySQLRole_RoleName),
     rk_finalizerMsg = (\<lambda>ky. ''failed to add finalizer for MySQLRole: '' @ ky),
     rk_failReason = ''FailedToCreateRole'', rk_createMsg = (\<lambda>ky. ''failed to create role''),
     rk_deleteMsg = ''failed to delete database role'', rk_removesFailed = True\<rparr>"

definition postgresRoleKind :: "PostgresRoleSpec roleKind" where
  "postgresRoleKind = \<lparr>rk_Kind = ''PostgresRole'', rk_client = PostgresRoles, rk_NewRole = NewDatabaseRoleForPostgres,
     rk_RoleName = (\<lambda>cluster. PostgresRole_RoleName),
     rk_finalizerMsg = (\<lambda>ky. ''failed to add finalizer for postgresRole: '' @ ky),
     rk_failReason = ''FailedToCreateDatabaseRole'',
     rk_createMsg = (\<lambda>ky. ''failed to create role for postgresRole '' @ ky),
     rk_deleteMsg = ''failed to delete database role'', rk_removesFailed = True\<rparr>"

lemmas roleKind_defs = awsRoleKind_def azureRoleKind_def gcpRoleKind_def mongoRoleKind_def
  mysqlRoleKind_def postgresRoleKind_def

definition runAWSRoleInjector :: "string \<Rightarrow> unit go" where
  "runAWSRoleInjector = runRoleInjector awsRoleKind"
definition reconcileAWSRole :: "RoleClient \<Rightarrow> AWSRole \<Rightarrow> unit go" where
  "reconcileAWSRole = reconcileRole awsRoleKind"
definition runAWSRoleFinalizer :: "AWSRole \<Rightarrow> unit go" where
  "runAWSRoleFinalizer = runRoleFinalizer awsRoleKind"

definition runAzureRoleInjector :: "string \<Rightarrow> unit go" where
  "runAzureRoleInjector = runRoleInjector azureRoleKind"
definition reconcileAzureRole :: "RoleClient \<Rightarrow> AzureRole \<Rightarrow> unit go" where
  "reconcileAzureRole = reconcileRole azureRoleKind"
definition runAzureRoleFinalizer :: "AzureRole \<Rightarrow> unit go" where
  "runAzureRoleFinalizer = runRoleFinalizer azureRoleKind"

definition runGCPRoleInjector :: "string \<Rightarrow> unit go" where
  "runGCPRoleInjector = runRoleInjector gcpRoleKind"
definition reconcileGCPRole :: "RoleClient \<Rightarrow> GCPRole \<Rightarrow> unit go" where
  "reconcileGCPRole = reconcileRole gcpRoleKind"
definition runGCPRoleFinalizer :: "GCPRole \<Rightarrow> unit go" where
  "runGCPRoleFinalizer = runRoleFinalizer gcpRoleKind"

definition runMongoDBRoleInjector :: "string \<Rightarrow> unit go" where
  "runMongoDBRoleInjector = runRoleInjector mongoRoleKind"
definition reconcileMongoDBRole :: "RoleClient \<Rightarrow> MongoDBRole \<Rightarrow> unit go" where
  "reconcileMongoDBRole = reconcileRole mongoRoleKind"
definition runMongoDBRoleFinalizer :: "MongoDBRole \<Rightarrow> unit go" where
  "runMongoDBRoleFinalizer = runRoleFinalizer mongoRoleKind"

definition runMySQLRoleInjector :: "string \<Rightarrow> unit go" where
  "runMySQLRoleInjector = runRoleInjector mysqlRoleKind"
definition reconcileMySQLRole :: "RoleClient \<Rightarrow> MySQLRole \<Rightarrow> unit go" where
  "reconcileMySQLRole = reconcileRole mysqlRoleKind"
definition runMySQLRoleFinalizer :: "MySQLRole \<Rightarrow> unit go" where
  "runMySQLRoleFinalizer = runRoleFinalizer mysqlRoleKind"

definition runPostgresRoleInjector :: "string \<Rightarrow> unit go" where
  "runPostgresRoleInjector = runRoleInjector postgresRoleKind"
definition reconcilePostgresRole :: "RoleClient \<Rightarrow> PostgresRole \<Rightarrow> unit go" where
  "reconcilePostgresRole = reconcileRole postgresRoleKind"
definition runPostgresRoleFinalizer :: "PostgresRole \<Rightarrow> unit go" where
  "runPostgresRoleFinalizer = runRoleFinalizer postgresRoleKind"


end
