(* ===== verification/Role_Theorems.thy ===== *)
theory Role_Theorems
  imports Roles Status_Theorems
begin

text \<open>
  The contract of the role clients, the controllers of the six role kinds on top
  of it, and their properties.
\<close>

section \<open>What a role client promises\<close>

definition postsTo :: "string \<Rightarrow> event \<Rightarrow> bool" where
  "postsTo path e \<longleftrightarrow> (\<exists>vc body a. e = Vault (NewRequest vc ''POST'' path (Some body)) a)"

text \<open>
  \<open>at\<close> gives the Vault path of a role name; \<open>name\<close> is the role the client was
  made for.
\<close>

locale role_client =
  fixes rc :: RoleClient and vc :: VaultClient and at :: "string \<Rightarrow> string" and name :: string
    and msg :: "string \<Rightarrow> string"
  assumes create_emits: "emits (postsTo (at name)) (rc_CreateRole rc) env"
    and create_ok: "rc_CreateRole rc env t = (Ok (), t')
      \<Longrightarrow> \<exists>body a. t' = t @ [Vault (NewRequest vc ''POST'' (at name) (Some body)) a] \<and> answeredOk a"
    and delete_call: "rc_DeleteRole rc n env t =
      (let req = NewRequest vc ''DELETE'' (at n) None; a = vault_answer env t req in
       ((case fst (rawResult a) of
           None \<Rightarrow> Panic ''invalid memory address or nil pointer dereference''
         | Some r \<Rightarrow> Ok (StatusCode r, map_option (Wrapped (msg n)) (snd (rawResult a)))),
        t @ [Vault req a]))"

lemma wrapErr_sendRequest_ok:
  assumes "wrapErr m (sendRequest req) env t = (Ok (), t')"
  shows "\<exists>a. t' = t @ [Vault req a] \<and> answeredOk a"
  using assms by (simp add: wrapErr_Ok sendRequest_Ok)

lemma deleteRoleAt_run:
  "deleteRoleAt vc path m env t =
     (let req = NewRequest vc ''DELETE'' path None; a = vault_answer env t req in
      ((case fst (rawResult a) of
          None \<Rightarrow> Panic ''invalid memory address or nil pointer dereference''
        | Some r \<Rightarrow> Ok (StatusCode r, map_option (Wrapped m) (snd (rawResult a)))),
       t @ [Vault req a]))"
  by (simp add: deleteRoleAt_def RawRequest_def andThen_def attempt_def run_simps Let_def split: prod.splits option.splits)

lemma postsTo_NewRequest [simp]: "postsTo path (Vault (NewRequest vc ''POST'' path (Some body)) a)"
  by (auto simp: postsTo_def)

lemma postDatabaseRole_ok:
  assumes "postDatabaseRole vc path name dbRef payload env t = (Ok (), t')"
  shows "\<exists>a. t' = t @ [Vault (NewRequest vc ''POST'' (''/v1/'' @ path @ ''/roles/'' @ name) (Some (JObject payload))) a]
    \<and> answeredOk a"
  using assms unfolding postDatabaseRole_def
  by (auto simp: run_simps split: option.splits elim!: attempt_Ok dest: sendRequest_Ok)

lemma emits_postDatabaseRole [emits_intros]:
  "emits (postsTo (''/v1/'' @ path @ ''/roles/'' @ name)) (postDatabaseRole vc path name dbRef payload) env"
  unfolding postDatabaseRole_def by (intro emits_intros) simp

lemma role_clientI:
  assumes "\<And>env. emits (postsTo (at name)) create env"
    and "\<And>env t t'. create env t = (Ok (), t')
      \<Longrightarrow> \<exists>body a. t' = t @ [Vault (NewRequest vc ''POST'' (at name) (Some body)) a] \<and> answeredOk a"
  shows "role_client \<lparr>rc_CreateRole = create, rc_DeleteRole = (\<lambda>n. deleteRoleAt vc (at n) (msg n))\<rparr> vc at name msg"
  using assms by unfold_locales (simp_all only: RoleClient.simps deleteRoleAt_run)

text \<open>The requests of the cloud roles and of the database roles.\<close>

lemma cloud_client:
  "role_client \<lparr>rc_CreateRole = andThen (guard bad e) (\<lambda>_. wrapErr m
       (sendRequest (NewRequest vc ''POST'' (at name) (Some body)))),
     rc_DeleteRole = (\<lambda>n. deleteRoleAt vc (at n) (msg n))\<rparr> vc at name msg"
proof (rule role_clientI)
  show "emits (postsTo (at name)) (andThen (guard bad e) (\<lambda>_. wrapErr m
       (sendRequest (NewRequest vc ''POST'' (at name) (Some body))))) env" for env
    by (intro emits_intros) simp
next
  fix env t t'
  assume "andThen (guard bad e) (\<lambda>_. wrapErr m (sendRequest (NewRequest vc ''POST'' (at name) (Some body)))) env t
    = (Ok (), t')"
  then have "wrapErr m (sendRequest (NewRequest vc ''POST'' (at name) (Some body))) env t = (Ok (), t')"
    by (simp add: guard_run split: if_splits)
  from wrapErr_sendRequest_ok[OF this]
  show "\<exists>body a. t' = t @ [Vault (NewRequest vc ''POST'' (at name) (Some body)) a] \<and> answeredOk a" by blast
qed

lemma database_client:
  "role_client \<lparr>rc_CreateRole = andThen (liftE dbName) (\<lambda>db. postDatabaseRole vc path name dbRef (payload db)),
     rc_DeleteRole = DatabaseRole_DeleteRole vc path\<rparr> vc (\<lambda>n. ''/v1/'' @ path @ ''/roles/'' @ n) name
     (\<lambda>n. ''failed to delete database role '' @ n)"
  unfolding DatabaseRole_DeleteRole_def[abs_def]
proof (rule role_clientI)
  show "emits (postsTo (''/v1/'' @ path @ ''/roles/'' @ name))
      (andThen (liftE dbName) (\<lambda>db. postDatabaseRole vc path name dbRef (payload db))) env" for env
    by (intro emits_intros)
next
  fix env t t'
  assume "andThen (liftE dbName) (\<lambda>db. postDatabaseRole vc path name dbRef (payload db)) env t = (Ok (), t')"
  then obtain db where "postDatabaseRole vc path name dbRef (payload db) env t = (Ok (), t')"
    by (cases dbName) (simp_all add: monad_laws run_simps)
  from postDatabaseRole_ok[OF this] show "\<exists>body a. t' = t @ [Vault (NewRequest vc ''POST''
      (''/v1/'' @ path @ ''/roles/'' @ name) (Some body)) a] \<and> answeredOk a" by blast
qed

interpretation awsrole: role_client
    "\<lparr>rc_CreateRole = AWSRole_CreateRole cluster vc path role, rc_DeleteRole = AWSRole_DeleteRole vc path\<rparr>" vc
    "\<lambda>n. ''/v1/'' @ path @ ''/roles/'' @ n" "AWSRole_RoleName cluster role" "\<lambda>n. ''failed to delete aws role '' @ n"
  for cluster vc path role
  unfolding AWSRole_CreateRole_def AWSRole_DeleteRole_def[abs_def] Let_def by (rule cloud_client)

interpretation azurerole: role_client
    "\<lparr>rc_CreateRole = AzureRole_CreateRole cluster vc path role, rc_DeleteRole = AzureRole_DeleteRole vc path\<rparr>" vc
    "\<lambda>n. ''/v1/'' @ path @ ''/roles/'' @ n" "AzureRole_RoleName cluster role" "\<lambda>n. ''failed to delete azure role '' @ n"
  for cluster vc path role
  unfolding AzureRole_CreateRole_def AzureRole_DeleteRole_def[abs_def] Let_def by (rule cloud_client)

interpretation gcprole: role_client
    "\<lparr>rc_CreateRole = GCPRole_CreateRole cluster vc path role, rc_DeleteRole = GCPRole_DeleteRole vc path\<rparr>" vc
    "\<lambda>n. ''/v1/'' @ path @ ''/roleset/'' @ n" "GCPRole_RoleName cluster role" "\<lambda>n. ''failed to delete gcp role '' @ n"
  for cluster vc path role
  unfolding GCPRole_CreateRole_def GCPRole_DeleteRole_def[abs_def] Let_def by (rule cloud_client)

interpretation pgrole: role_client
    "\<lparr>rc_CreateRole = PostgresRole_CreateRole cluster vc path role, rc_DeleteRole = DatabaseRole_DeleteRole vc path\<rparr>" vc
    "\<lambda>n. ''/v1/'' @ path @ ''/roles/'' @ n" "PostgresRole_RoleName role" "\<lambda>n. ''failed to delete database role '' @ n"
  for cluster vc path role
  unfolding PostgresRole_CreateRole_def Let_def by (rule database_client)

interpretation mysqlrole: role_client
    "\<lparr>rc_CreateRole = MySQLRole_CreateRole cluster vc path role, rc_DeleteRole = DatabaseRole_DeleteRole vc path\<rparr>" vc
    "\<lambda>n. ''/v1/'' @ path @ ''/roles/'' @ n" "MySQLRole_RoleName role" "\<lambda>n. ''failed to delete database role '' @ n"
  for cluster vc path role
  unfolding MySQLRole_CreateRole_def Let_def by (rule database_client)

interpretation mongorole: role_client
    "\<lparr>rc_CreateRole = MongoDBRole_CreateRole cluster vc path role, rc_DeleteRole = DatabaseRole_DeleteRole vc path\<rparr>" vc
    "\<lambda>n. ''/v1/'' @ path @ ''/roles/'' @ n" "MongoDBRole_RoleName role" "\<lambda>n. ''failed to delete database role '' @ n"
  for cluster vc path role
  unfolding MongoDBRole_CreateRole_def Let_def by (rule database_client)


section \<open>What a role controller relies on\<close>

definition clientOf :: "(string \<Rightarrow> string) \<Rightarrow> string \<Rightarrow> RoleClient \<Rightarrow> bool" where
  "clientOf at name rc \<longleftrightarrow> (\<exists>vc msg. role_client rc vc at name msg)"

text \<open>Two objects with the same name, namespace, cluster and spec: what a status update leaves alone.\<close>

definition sameRole :: "'spec roleResource \<Rightarrow> 'spec roleResource \<Rightarrow> bool" where
  "sameRole role role' \<longleftrightarrow> Name (Meta role') = Name (Meta role) \<and> Namespace (Meta role') = Namespace (Meta role)
     \<and> ClusterName (Meta role') = ClusterName (Meta role) \<and> Spec role' = Spec role"

locale role_controller =
  fixes k :: "'spec roleKind" and at :: "'spec roleResource \<Rightarrow> string \<Rightarrow> string"
  assumes client: "typed_client (rk_client k)"
    and kind_client: "cl_Kind (rk_client k) = rk_Kind k"
    and new_emits: "emits factoryEvent (rk_NewRole k role) env"
    and new_yields: "yields (clientOf (at role) (rk_RoleName k (cluster_name env) role)) (rk_NewRole k role) env"
    and at_same: "sameRole role role' \<Longrightarrow>
      at role' (rk_RoleName k cluster role') = at role (rk_RoleName k cluster role)"

lemma clients_of:
  "clientOf (\<lambda>n. ''/v1/'' @ path @ ''/roles/'' @ n) (AWSRole_RoleName cluster r1)
     \<lparr>rc_CreateRole = AWSRole_CreateRole cluster vc path r1, rc_DeleteRole = AWSRole_DeleteRole vc path\<rparr>"
  "clientOf (\<lambda>n. ''/v1/'' @ path @ ''/roles/'' @ n) (AzureRole_RoleName cluster r2)
     \<lparr>rc_CreateRole = AzureRole_CreateRole cluster vc path r2, rc_DeleteRole = AzureRole_DeleteRole vc path\<rparr>"
  "clientOf (\<lambda>n. ''/v1/'' @ path @ ''/roleset/'' @ n) (GCPRole_RoleName cluster r3)
     \<lparr>rc_CreateRole = GCPRole_CreateRole cluster vc path r3, rc_DeleteRole = GCPRole_DeleteRole vc path\<rparr>"
  "clientOf (\<lambda>n. ''/v1/'' @ path @ ''/roles/'' @ n) (PostgresRole_RoleName r4)
     \<lparr>rc_CreateRole = PostgresRole_CreateRole cluster vc path r4, rc_DeleteRole = DatabaseRole_DeleteRole vc path\<rparr>"
  "clientOf (\<lambda>n. ''/v1/'' @ path @ ''/roles/'' @ n) (MySQLRole_RoleName r5)
     \<lparr>rc_CreateRole = MySQLRole_CreateRole cluster vc path r5, rc_DeleteRole = DatabaseRole_DeleteRole vc path\<rparr>"
  "clientOf (\<lambda>n. ''/v1/'' @ path @ ''/roles/'' @ n) (MongoDBRole_RoleName r6)
     \<lparr>rc_CreateRole = MongoDBRole_CreateRole cluster vc path r6, rc_DeleteRole = DatabaseRole_DeleteRole vc path\<rparr>"
  unfolding clientOf_def
  by (rule exI, rule exI, rule awsrole.role_client_axioms azurerole.role_client_axioms gcprole.role_client_axioms
    pgrole.role_client_axioms mysqlrole.role_client_axioms mongorole.role_client_axioms)+

text \<open>Making a client reads AppBindings and authenticates.\<close>

lemma emits_newDatabaseRole [emits_intros]:
  "emits factoryEvent (newDatabaseRole ns ref path dbRef msg create) env"
  unfolding newDatabaseRole_def getDBBinding_def by (intro emits_intros; simp)

lemma emits_NewRole [emits_intros]:
  "emits factoryEvent (NewAWSRole r1) env" "emits factoryEvent (NewAzureRole r2) env"
  "emits factoryEvent (NewGCPRole r3) env" "emits factoryEvent (NewDatabaseRoleForPostgres r4) env"
  "emits factoryEvent (NewDatabaseRoleForMysql r5) env" "emits factoryEvent (NewDatabaseRoleForMongodb r6) env"
  unfolding NewAWSRole_def NewAzureRole_def NewGCPRole_def NewDatabaseRoleForPostgres_def
    NewDatabaseRoleForMysql_def NewDatabaseRoleForMongodb_def
  by (intro emits_intros)+

lemma yields_cluster:
  "yields Q (k (cluster_name env)) env \<Longrightarrow> yields Q (andThen clusterid_ClusterName k) env"
  by (simp add: yields_def andThen_def attempt_def clusterid_ClusterName_def ask_def)

lemma yields_newDatabaseRole:
  "(\<And>vc. Q \<lparr>rc_CreateRole = create (cluster_name env) vc, rc_DeleteRole = DatabaseRole_DeleteRole vc path\<rparr>)
    \<Longrightarrow> yields Q (newDatabaseRole ns ref path dbRef msg create) env"
  unfolding newDatabaseRole_def by (intro yields_attempt yields_fail yields_andThen yields_cluster yields_ret)

definition awsRoleAt :: "AWSRole \<Rightarrow> string \<Rightarrow> string" where
  "awsRoleAt role n = ''/v1/'' @ GetAWSPath role @ ''/roles/'' @ n"
definition azureRoleAt :: "AzureRole \<Rightarrow> string \<Rightarrow> string" where
  "azureRoleAt role n = ''/v1/'' @ GetAzurePath role @ ''/roles/'' @ n"
definition gcpRoleAt :: "GCPRole \<Rightarrow> string \<Rightarrow> string" where
  "gcpRoleAt role n = ''/v1/'' @ GetGCPPath role @ ''/roleset/'' @ n"
definition mongoRoleAt :: "MongoDBRole \<Rightarrow> string \<Rightarrow> string" where
  "mongoRoleAt role n = ''/v1/'' @ GetMongoDBDatabasePath role @ ''/roles/'' @ n"
definition mysqlRoleAt :: "MySQLRole \<Rightarrow> string \<Rightarrow> string" where
  "mysqlRoleAt role n = ''/v1/'' @ GetMySQLDatabasePath role @ ''/roles/'' @ n"
definition postgresRoleAt :: "PostgresRole \<Rightarrow> string \<Rightarrow> string" where
  "postgresRoleAt role n = ''/v1/'' @ GetPostgresDatabasePath role @ ''/roles/'' @ n"

lemmas roleAt_defs = awsRoleAt_def[abs_def] azureRoleAt_def[abs_def] gcpRoleAt_def[abs_def]
  mongoRoleAt_def[abs_def] mysqlRoleAt_def[abs_def] postgresRoleAt_def[abs_def]

text \<open>Path and name of a role depend on its name, namespace, cluster and spec only.\<close>

lemma sameRole_paths:
  "sameRole a1 a2 \<Longrightarrow> awsRoleAt a2 (AWSRole_RoleName cluster a2) = awsRoleAt a1 (AWSRole_RoleName cluster a1)"
  "sameRole z1 z2 \<Longrightarrow> azureRoleAt z2 (AzureRole_RoleName cluster z2) = azureRoleAt z1 (AzureRole_RoleName cluster z1)"
  "sameRole g1 g2 \<Longrightarrow> gcpRoleAt g2 (GCPRole_RoleName cluster g2) = gcpRoleAt g1 (GCPRole_RoleName cluster g1)"
  "sameRole m1 m2 \<Longrightarrow> mongoRoleAt m2 (MongoDBRole_RoleName m2) = mongoRoleAt m1 (MongoDBRole_RoleName m1)"
  "sameRole y1 y2 \<Longrightarrow> mysqlRoleAt y2 (MySQLRole_RoleName y2) = mysqlRoleAt y1 (MySQLRole_RoleName y1)"
  "sameRole p1 p2 \<Longrightarrow> postgresRoleAt p2 (PostgresRole_RoleName p2) = postgresRoleAt p1 (PostgresRole_RoleName p1)"
  by (simp_all add: sameRole_def roleAt_defs role_name_defs GetAWSPath_def GetAzurePath_def GetGCPPath_def
    GetMongoDBDatabasePath_def GetMySQLDatabasePath_def GetPostgresDatabasePath_def)

interpretation aws_roles: role_controller awsRoleKind awsRoleAt
proof
  show "yields (clientOf (awsRoleAt role) (rk_RoleName awsRoleKind (cluster_name env) role)) (rk_NewRole awsRoleKind role) env"
    for role env
    unfolding awsRoleKind_def roleKind.simps NewAWSRole_def roleAt_defs
    by (intro yields_andThen yields_cluster yields_ret clients_of)
qed (simp_all add: awsRoleKind_def AWSRoles_def emits_NewRole sameRole_paths split: obj.splits)

interpretation azure_roles: role_controller azureRoleKind azureRoleAt
proof
  show "yields (clientOf (azureRoleAt role) (rk_RoleName azureRoleKind (cluster_name env) role)) (rk_NewRole azureRoleKind role) env"
    for role env
    unfolding azureRoleKind_def roleKind.simps NewAzureRole_def roleAt_defs
    by (intro yields_andThen yields_cluster yields_ret clients_of)
qed (simp_all add: azureRoleKind_def AzureRoles_def emits_NewRole sameRole_paths split: obj.splits)

interpretation gcp_roles: role_controller gcpRoleKind gcpRoleAt
proof
  show "yields (clientOf (gcpRoleAt role) (rk_RoleName gcpRoleKind (cluster_name env) role)) (rk_NewRole gcpRoleKind role) env"
    for role env
    unfolding gcpRoleKind_def roleKind.simps NewGCPRole_def roleAt_defs
    by (intro yields_andThen yields_cluster yields_ret clients_of)
qed (simp_all add: gcpRoleKind_def GCPRoles_def emits_NewRole sameRole_paths split: obj.splits)

interpretation mongo_roles: role_controller mongoRoleKind mongoRoleAt
proof
  show "yields (clientOf (mongoRoleAt role) (rk_RoleName mongoRoleKind (cluster_name env) role)) (rk_NewRole mongoRoleKind role) env"
    for role env
    unfolding mongoRoleKind_def roleKind.simps NewDatabaseRoleForMongodb_def roleAt_defs
    by (intro yields_newDatabaseRole clients_of)
qed (simp_all add: mongoRoleKind_def MongoDBRoles_def emits_NewRole sameRole_paths split: obj.splits)

interpretation mysql_roles: role_controller mysqlRoleKind mysqlRoleAt
proof
  show "yields (clientOf (mysqlRoleAt role) (rk_RoleName mysqlRoleKind (cluster_name env) role)) (rk_NewRole mysqlRoleKind role) env"
    for role env
    unfolding mysqlRoleKind_def roleKind.simps NewDatabaseRoleForMysql_def roleAt_defs
    by (intro yields_newDatabaseRole clients_of)
qed (simp_all add: mysqlRoleKind_def MySQLRoles_def emits_NewRole sameRole_paths split: obj.splits)

interpretation postgres_roles: role_controller postgresRoleKind postgresRoleAt
proof
  show "yields (clientOf (postgresRoleAt role) (rk_RoleName postgresRoleKind (cluster_name env) role)) (rk_NewRole postgresRoleKind role) env"
    for role env
    unfolding postgresRoleKind_def roleKind.simps NewDatabaseRoleForPostgres_def roleAt_defs
    by (intro yields_newDatabaseRole clients_of)
qed (simp_all add: postgresRoleKind_def PostgresRoles_def emits_NewRole sameRole_paths split: obj.splits)


section \<open>A ready role exists in Vault\<close>

text \<open>
  A run that returns no error on a live role ends with the ready status, and
  before it Vault has accepted the role under its path.  The role is the cached
  one when it already has conditions; otherwise it is the object with which the
  API server answered the first status update, which wrote the phase
  Processing into the object read under the name of the role.
\<close>

definition readyInVault :: "'spec roleKind \<Rightarrow> ('spec roleResource \<Rightarrow> string \<Rightarrow> string) \<Rightarrow> bool" where
  "readyInVault k at \<longleftrightarrow>
     (\<forall>role env t es. DeletionTimestamp (Meta role) = None \<and> syncRole k role env t = (Ok (), t @ es) \<longrightarrow>
        (\<exists>role' pre vc body a mid e.
           es = pre @ [Vault (NewRequest vc ''POST'' (at role' (rk_RoleName k (cluster_name env) role')) (Some body)) a]
                @ mid @ [e]
           \<and> answeredOk a
           \<and> writesStatus (rk_client k) (setRoleReady (rk_removesFailed k) (Generation (Meta role'))) e
           \<and> (if role_Conditions (Status role) \<noteq> [] then role' = role
              else savedIn (rk_client k) (Meta role) setRoleProcessing role' pre)
           \<and> (sameRole role role' \<longrightarrow>
                at role' (rk_RoleName k (cluster_name env) role') = at role (rk_RoleName k (cluster_name env) role))))"

definition gentleFinalizer :: "'spec roleKind \<Rightarrow> ('spec roleResource \<Rightarrow> string \<Rightarrow> string) \<Rightarrow> bool" where
  "gentleFinalizer k at \<longleftrightarrow>
     (\<forall>role env t r es rc t1 x. runRoleFinalizer k role env t = (r, t @ es)
        \<and> rk_NewRole k role env t = (Ok rc, t1)
        \<and> Kube (KPatch (cl_inj (rk_client k) role) (cl_inj (rk_client k) (removeFinalizer role))) x \<in> set es
        \<longrightarrow> (\<exists>vc a. Vault (NewRequest vc ''DELETE'' (at role (rk_RoleName k (cluster_name env) role)) None) a \<in> set es
              \<and> (answeredOk a \<or> (\<exists>resp err. a = Response resp err \<and> StatusCode resp div 100 = 4))))"

text \<open>
  What becomes of a deleted role when Vault does not answer: its deletion is sent
  once a client has been made; a client that cannot be made skips it.
\<close>

definition deletesIn :: "event \<Rightarrow> bool" where
  "deletesIn e \<longleftrightarrow> (\<exists>vc p b a. e = Vault (NewRequest vc ''DELETE'' p b) a)"

definition unreachableVault :: "'spec roleKind \<Rightarrow> ('spec roleResource \<Rightarrow> string \<Rightarrow> string) \<Rightarrow> bool" where
  "unreachableVault k at \<longleftrightarrow>
     (\<forall>role env t rc t1 e. rk_NewRole k role env t = (Ok rc, t1)
        \<and> (\<forall>vc. vault_answer env t1
              (NewRequest vc ''DELETE'' (at role (rk_RoleName k (cluster_name env) role)) None) = NoResponse e)
        \<longrightarrow> fst (runRoleFinalizer k role env t) = Panic ''invalid memory address or nil pointer dereference'')
     \<and> (\<forall>role env t err t1. rk_NewRole k role env t = (Err err, t1)
        \<longrightarrow> runRoleFinalizer k role env t = releaseRole k role env t1
          \<and> (\<exists>es. snd (runRoleFinalizer k role env t) = t @ es \<and> (\<forall>e \<in> set es. \<not> deletesIn e)))"

context role_controller
begin

lemma reconcile_Ok:
  assumes rc: "clientOf (at role) (rk_RoleName k (cluster_name env) role) rClient"
    and run: "reconcileRole k rClient role env t = (Ok (), t')"
  obtains vc body a mid e where
    "t' = t @ [Vault (NewRequest vc ''POST'' (at role (rk_RoleName k (cluster_name env) role)) (Some body)) a] @ mid @ [e]"
    "answeredOk a" "writesStatus (rk_client k) (setRoleReady (rk_removesFailed k) (Generation (Meta role))) e"
proof -
  from rc obtain vc msg where
    rc: "role_client rClient vc (at role) (rk_RoleName k (cluster_name env) role) msg" by (auto simp: clientOf_def)
  from run obtain t1 x where create: "rc_CreateRole rClient env t = (Ok (), t1)"
    and upd: "UpdateStatus (rk_client k) (Meta role) (setRoleReady (rk_removesFailed k) (Generation (Meta role))) env t1
      = (Ok x, t')"
    by (auto simp: reconcileRole_def run_simps errOf_def returnErr_def NewAggregate_def split: option.splits
        elim!: attempt_Ok andThen_Ok)
  from role_client.create_ok[OF rc create] UpdateStatus_run[OF upd] show thesis using that by auto
qed

lemma sync_ready: "readyInVault k at"
  unfolding readyInVault_def
proof (intro allI impI, elim conjE)
  fix role env t es
  assume live: "DeletionTimestamp (Meta role) = None" and run: "syncRole k role env t = (Ok (), t @ es)"
  let ?st = "if role_Conditions (Status role) = []
                then wrapErr (''failed to update status for '' @ rk_Kind k @ '': '' @ key role)
                       (UpdateStatus (rk_client k) (Meta role) setRoleProcessing)
                else ret role"
  let ?fin = "ensureFinalizer (rk_client k) (rk_finalizerMsg k (key role)) role"
  from run live obtain u t1 role' t2 rc t3 where fin: "?fin env t = (Ok u, t1)" and st: "?st env t1 = (Ok role', t2)"
    and new: "rk_NewRole k role' env t2 = (Ok rc, t3)" and rec: "reconcileRole k rc role' env t3 = (Ok (), t @ es)"
    unfolding syncRole_def by (auto simp: wrapErr_Ok simp del: split_paired_Ex elim!: andThen_Ok)
  have "emits (\<lambda>_. True) ?fin env" unfolding ensureFinalizer_def by (intro emits_intros; simp)+
  from emitsD[OF this fin] obtain xs where x: "t1 = t @ xs" by blast
  have "\<exists>ys. t2 = t1 @ ys \<and> (if role_Conditions (Status role) \<noteq> [] then role' = role
      else savedIn (rk_client k) (Meta role) setRoleProcessing role' ys)"
    using st by (auto simp: run_simps wrapErr_Ok split: if_splits elim: UpdateStatus_saved[OF client])
  then obtain ys where y: "t2 = t1 @ ys" and saved: "if role_Conditions (Status role) \<noteq> [] then role' = role
      else savedIn (rk_client k) (Meta role) setRoleProcessing role' ys" by blast
  obtain zs where z: "t3 = t2 @ zs" using emitsD[OF new_emits new] by blast
  from reconcile_Ok[OF yieldsD[OF new_yields new] rec] obtain vc body a mid e where
    rest: "t @ es = t3 @ [Vault (NewRequest vc ''POST'' (at role' (rk_RoleName k (cluster_name env) role')) (Some body)) a] @ mid @ [e]"
    "answeredOk a" "writesStatus (rk_client k) (setRoleReady (rk_removesFailed k) (Generation (Meta role'))) e" .
  have "es = (xs @ ys @ zs) @ [Vault (NewRequest vc ''POST'' (at role' (rk_RoleName k (cluster_name env) role')) (Some body)) a] @ mid @ [e]"
    using rest(1) x y z by simp
  moreover have "if role_Conditions (Status role) \<noteq> [] then role' = role
      else savedIn (rk_client k) (Meta role) setRoleProcessing role' (xs @ ys @ zs)"
    using saved by (auto intro: savedIn_within split: if_splits)
  ultimately show "\<exists>role' pre vc body a mid e.
           es = pre @ [Vault (NewRequest vc ''POST'' (at role' (rk_RoleName k (cluster_name env) role')) (Some body)) a] @ mid @ [e]
           \<and> answeredOk a
           \<and> writesStatus (rk_client k) (setRoleReady (rk_removesFailed k) (Generation (Meta role'))) e
           \<and> (if role_Conditions (Status role) \<noteq> [] then role' = role
              else savedIn (rk_client k) (Meta role) setRoleProcessing role' pre)
           \<and> (sameRole role role' \<longrightarrow>
                at role' (rk_RoleName k (cluster_name env) role') = at role (rk_RoleName k (cluster_name env) role))"
    using rest(2,3) at_same by blast
qed

end

lemma factory_not_delete [simp]:
  "\<not> factoryEvent (Kube (KPatch x y) a)" "\<not> factoryEvent (Vault (NewRequest vc ''DELETE'' p b) va)"
  by (auto simp: factoryEvent_def)

lemma deleteFromVault_run:
  assumes "role_client rc vc (at role) (rk_RoleName k (cluster_name env) role) msg"
  shows "deleteFromVault k role rc env t =
    (let req = NewRequest vc ''DELETE'' (at role (rk_RoleName k (cluster_name env) role)) None;
         a = vault_answer env t req in
     (case rawResult a of
        (None, err) \<Rightarrow> Panic ''invalid memory address or nil pointer dereference''
      | (Some r, Some e) \<Rightarrow>
          if StatusCode r div 100 \<noteq> 4
          then Err (Wrapped (rk_deleteMsg k) (Wrapped (msg (rk_RoleName k (cluster_name env) role)) e)) else Ok ()
      | (Some r, None) \<Rightarrow> Ok (),
      t @ [Vault req a]))"
  by (simp add: deleteFromVault_def clusterid_ClusterName_def ask_def andThen_def attempt_def
      role_client.delete_call[OF assms] run_simps Let_def split: prod.splits option.splits)

lemma deleteFromVault_ok:
  assumes "role_client rc vc (at role) (rk_RoleName k (cluster_name env) role) msg"
    and "deleteFromVault k role rc env t = (Ok (), t')"
  shows "\<exists>a. t' = t @ [Vault (NewRequest vc ''DELETE'' (at role (rk_RoleName k (cluster_name env) role)) None) a]
    \<and> (answeredOk a \<or> (\<exists>resp err. a = Response resp err \<and> StatusCode resp div 100 = 4))"
  using assms(2) unfolding deleteFromVault_run[where at = at, OF assms(1)]
  by (auto simp: Let_def rawResult_def answeredOk_def split: vaultAnswer.splits option.splits if_splits)

context role_controller
begin

lemma finalizer_gentle: "gentleFinalizer k at"
  unfolding gentleFinalizer_def
proof (intro allI impI, elim conjE)
  fix role :: "'spec roleResource" and env :: env and t r es rc t1 x
  let ?name = "rk_RoleName k (cluster_name env) role"
  assume run: "runRoleFinalizer k role env t = (r, t @ es)" and new: "rk_NewRole k role env t = (Ok rc, t1)"
    and patch: "Kube (KPatch (cl_inj (rk_client k) role) (cl_inj (rk_client k) (removeFinalizer role))) x \<in> set es"
  from emitsD[OF new_emits new] obtain fs where fs: "t1 = t @ fs" "\<forall>e \<in> set fs. factoryEvent e" by blast
  from yieldsD[OF new_yields new] obtain vc msg where
    rc: "role_client rc vc (at role) ?name msg" by (auto simp: clientOf_def)
  obtain d t2 where del: "deleteFromVault k role rc env t1 = (d, t2)" by fastforce
  show "\<exists>vc a. Vault (NewRequest vc ''DELETE'' (at role ?name) None) a \<in> set es
      \<and> (answeredOk a \<or> (\<exists>resp err. a = Response resp err \<and> StatusCode resp div 100 = 4))"
  proof (cases "d = Ok ()")
    case True
    from deleteFromVault_ok[where at = at, OF rc del[unfolded True]] obtain a where
      a: "t2 = t1 @ [Vault (NewRequest vc ''DELETE'' (at role ?name) None) a]"
      "answeredOk a \<or> (\<exists>resp err. a = Response resp err \<and> StatusCode resp div 100 = 4)" by blast
    have rel: "releaseRole k role env t2 = (r, t @ es)"
      using run new del True by (simp add: runRoleFinalizer_def andThen_def attempt_def)
    have "emits (\<lambda>_. True) (releaseRole k role) env"
      unfolding releaseRole_def by (intro emits_intros) simp
    from emitsD[OF this rel] obtain gs where "t @ es = t2 @ gs" by blast
    with a fs(1) show ?thesis by auto
  next
    case False
    then have "t @ es = t2"
      using run new del by (cases d) (auto simp: runRoleFinalizer_def andThen_def attempt_def run_simps)
    moreover have "\<exists>a. t2 = t1 @ [Vault (NewRequest vc ''DELETE'' (at role ?name) None) a]"
      using del unfolding deleteFromVault_run[where at = at, OF rc] by (auto simp: Let_def)
    moreover have "Kube (KPatch (cl_inj (rk_client k) role) (cl_inj (rk_client k) (removeFinalizer role))) x \<notin> set fs"
      using fs(2) factory_not_delete(1) by blast
    ultimately have False using patch fs(1) by auto
    then show ?thesis ..
  qed
qed

lemma finalizer_network_error:
  assumes new: "rk_NewRole k role env t = (Ok rc, t1)"
    and "\<And>vc. vault_answer env t1 (NewRequest vc ''DELETE'' (at role (rk_RoleName k (cluster_name env) role)) None) = NoResponse e"
  shows "fst (runRoleFinalizer k role env t) = Panic ''invalid memory address or nil pointer dereference''"
proof -
  from yieldsD[OF new_yields new] obtain vc msg where
    rc: "role_client rc vc (at role) (rk_RoleName k (cluster_name env) role) msg" by (auto simp: clientOf_def)
  have "fst (deleteFromVault k role rc env t1) = Panic ''invalid memory address or nil pointer dereference''"
    by (simp add: deleteFromVault_run[where at = at, OF rc] assms(2) rawResult_def Let_def)
  with new show ?thesis
    by (cases "deleteFromVault k role rc env t1") (simp add: runRoleFinalizer_def andThen_def attempt_def)
qed

lemma finalizer_without_client:
  assumes new: "rk_NewRole k role env t = (Err err, t1)"
  shows "runRoleFinalizer k role env t = releaseRole k role env t1
    \<and> (\<exists>es. snd (runRoleFinalizer k role env t) = t @ es \<and> (\<forall>e \<in> set es. \<not> deletesIn e))"
proof -
  have run: "runRoleFinalizer k role env t = releaseRole k role env t1"
    using new by (simp add: runRoleFinalizer_def andThen_def attempt_def run_simps)
  from emitsD[OF new_emits new] obtain fs where fs: "t1 = t @ fs" "\<forall>e \<in> set fs. factoryEvent e" by blast
  have "emits (\<lambda>e. \<not> deletesIn e) (releaseRole k role) env"
    unfolding releaseRole_def by (intro emits_intros) (simp add: deletesIn_def)
  then obtain gs where gs: "snd (releaseRole k role env t1) = t1 @ gs" "\<forall>e \<in> set gs. \<not> deletesIn e"
    by (rule emitsE)
  have "\<forall>e \<in> set fs. \<not> deletesIn e" using fs(2) by (auto simp: deletesIn_def)
  with run gs fs(1) show ?thesis by auto
qed

lemma finalizer_unreachable: "unreachableVault k at"
  unfolding unreachableVault_def using finalizer_network_error finalizer_without_client by blast

end

text \<open>C16: for all six role kinds, a run on a live role returns no error only when Vault has
  accepted the role under the path of its engine and its qualified name, and the last call wrote the
  ready status.  Path and name are those of the cached role when it has conditions; for a fresh role
  they are those of the object with which the API server answered the first status update, made from
  the object read under the name and namespace of the role, and the same as those of the cached role
  whenever that object has its name, namespace, cluster and spec.\<close>

theorem ready_role_exists_in_vault:
  "readyInVault awsRoleKind awsRoleAt \<and> readyInVault azureRoleKind azureRoleAt
   \<and> readyInVault gcpRoleKind gcpRoleAt \<and> readyInVault mongoRoleKind mongoRoleAt
   \<and> readyInVault mysqlRoleKind mysqlRoleAt \<and> readyInVault postgresRoleKind postgresRoleAt"
  using aws_roles.sync_ready azure_roles.sync_ready gcp_roles.sync_ready
    mongo_roles.sync_ready mysql_roles.sync_ready postgres_roles.sync_ready by blast


theorem ready_role_exists_in_vault_witness:
  "fst (syncRole awsRoleKind demoAWSRole demoEnv []) = Ok ()
   \<and> (\<exists>pre vc body a mid e. snd (syncRole awsRoleKind demoAWSRole demoEnv []) =
        pre @ [Vault (NewRequest vc ''POST'' ''/v1/aws/roles/k8s.-.demo.role'' (Some body)) a] @ mid @ [e]
        \<and> answeredOk a)"
proof -
  let ?r = "syncRole awsRoleKind demoAWSRole demoEnv []"
  let ?at = "''/v1/aws/roles/k8s.-.demo.role''"
  have ok: "fst ?r = Ok ()" by code_simp
  have run: "?r = (Ok (), [] @ snd ?r)" using ok by (simp add: prod_eq_iff)
  have live: "DeletionTimestamp (Meta demoAWSRole) = None" by code_simp
  from ready_role_exists_in_vault[THEN conjunct1, unfolded readyInVault_def, rule_format, OF conjI[OF live run]]
  obtain p pre vc body a mid e where
    es: "snd ?r = pre @ [Vault (NewRequest vc ''POST'' p (Some body)) a] @ mid @ [e]" "answeredOk a" by blast
  have "list_all (\<lambda>e. case e of Vault r a \<Rightarrow> vr_Method r = ''POST'' \<longrightarrow> vr_Path r = ?at | _ \<Rightarrow> True) (snd ?r)"
    by code_simp
  with es(1) have "p = ?at" by (simp add: NewRequest_def)
  with es ok show ?thesis by blast
qed


section \<open>Deleting a role\<close>

text \<open>C17: for all six role kinds, when a client for Vault can be made, the finalizer of a deleted
  role is removed only after Vault accepted the deletion of the role under its path, or answered it
  with a 4xx status.\<close>

theorem role_released_after_deletion:
  "gentleFinalizer awsRoleKind awsRoleAt \<and> gentleFinalizer azureRoleKind azureRoleAt
   \<and> gentleFinalizer gcpRoleKind gcpRoleAt \<and> gentleFinalizer mongoRoleKind mongoRoleAt
   \<and> gentleFinalizer mysqlRoleKind mysqlRoleAt \<and> gentleFinalizer postgresRoleKind postgresRoleAt"
  using aws_roles.finalizer_gentle azure_roles.finalizer_gentle gcp_roles.finalizer_gentle
    mongo_roles.finalizer_gentle mysql_roles.finalizer_gentle postgres_roles.finalizer_gentle by blast

definition deletedRole :: AWSRole where
  "deletedRole = demoAWSRole\<lparr>Meta := (Meta demoAWSRole)\<lparr>DeletionTimestamp := Some 5, Finalizers := [Finalizer]\<rparr>\<rparr>"

theorem role_released_after_deletion_witness:
  "\<exists>vc a. Vault (NewRequest vc ''DELETE'' (awsRoleAt deletedRole (AWSRole_RoleName '''' deletedRole)) None) a
     \<in> set (snd (runRoleFinalizer awsRoleKind deletedRole demoEnv []))"
proof -
  let ?f = "runRoleFinalizer awsRoleKind deletedRole demoEnv []"
  let ?n = "rk_NewRole awsRoleKind deletedRole demoEnv []"
  have "(case fst ?n of Ok x \<Rightarrow> True | _ \<Rightarrow> False)" by code_simp
  then obtain rc where new: "?n = (Ok rc, snd ?n)" by (cases "fst ?n") (auto simp: prod_eq_iff)
  have run: "?f = (fst ?f, [] @ snd ?f)" by simp
  have "Kube (KPatch (AWSRoleObj deletedRole) (AWSRoleObj (removeFinalizer deletedRole)))
      (Inr (AWSRoleObj (removeFinalizer deletedRole))) \<in> set (snd ?f)" by code_simp
  moreover have "cl_inj (rk_client awsRoleKind) = AWSRoleObj" by (simp add: awsRoleKind_def AWSRoles_def)
  ultimately have p: "Kube (KPatch (cl_inj (rk_client awsRoleKind) deletedRole)
      (cl_inj (rk_client awsRoleKind) (removeFinalizer deletedRole)))
      (Inr (AWSRoleObj (removeFinalizer deletedRole))) \<in> set (snd ?f)" by simp
  have name: "rk_RoleName awsRoleKind (cluster_name demoEnv) = AWSRole_RoleName ''''"
    by (simp add: awsRoleKind_def demoEnv_def echoEnv_def)
  from role_released_after_deletion[THEN conjunct1, unfolded gentleFinalizer_def, rule_format,
      OF conjI[OF run conjI[OF new p]]]
  show ?thesis unfolding name by blast
qed

text \<open>C18: for all six role kinds, two ways a Vault that cannot be reached upsets the deletion of
  a role.  When a client has been made and its request to delete the role gets no response, the
  finalizer does not return the network error: it reads the status code of a nil response.  When the
  client itself cannot be made, as with a login request that fails, the run goes on to remove the
  finalizer without any request to delete the role.\<close>

theorem unreachable_vault_panics_finalizer:
  "unreachableVault awsRoleKind awsRoleAt \<and> unreachableVault azureRoleKind azureRoleAt
   \<and> unreachableVault gcpRoleKind gcpRoleAt \<and> unreachableVault mongoRoleKind mongoRoleAt
   \<and> unreachableVault mysqlRoleKind mysqlRoleAt \<and> unreachableVault postgresRoleKind postgresRoleAt"
  using aws_roles.finalizer_unreachable azure_roles.finalizer_unreachable gcp_roles.finalizer_unreachable
    mongo_roles.finalizer_unreachable mysql_roles.finalizer_unreachable postgres_roles.finalizer_unreachable by blast

definition unreachableEnv :: env where
  "unreachableEnv = demoEnv\<lparr>vault_answer := (\<lambda>t req. NoResponse (Plain ''connection refused''))\<rparr>"

definition noBindingEnv :: env where
  "noBindingEnv = demoEnv\<lparr>kube_answer := (\<lambda>t req. Inl (StatusError NotFound ''not found''))\<rparr>"

theorem unreachable_vault_panics_finalizer_witness:
  "fst (runRoleFinalizer awsRoleKind deletedRole unreachableEnv []) = Panic ''invalid memory address or nil pointer dereference''
   \<and> (\<exists>err t1. runRoleFinalizer awsRoleKind deletedRole noBindingEnv [] = releaseRole awsRoleKind deletedRole noBindingEnv t1
        \<and> rk_NewRole awsRoleKind deletedRole noBindingEnv [] = (Err err, t1))"
proof
  note both = unreachable_vault_panics_finalizer[THEN conjunct1, unfolded unreachableVault_def]
  let ?n = "rk_NewRole awsRoleKind deletedRole unreachableEnv []"
  have "(case fst ?n of Ok x \<Rightarrow> True | _ \<Rightarrow> False)" by code_simp
  then obtain rc where new: "?n = (Ok rc, snd ?n)" by (cases "fst ?n") (auto simp: prod_eq_iff)
  show "fst (runRoleFinalizer awsRoleKind deletedRole unreachableEnv []) = Panic ''invalid memory address or nil pointer dereference''"
    by (rule both[THEN conjunct1, rule_format, OF conjI[OF new]]) (simp add: unreachableEnv_def)
  let ?m = "rk_NewRole awsRoleKind deletedRole noBindingEnv []"
  have "(case fst ?m of Err x \<Rightarrow> True | _ \<Rightarrow> False)" by code_simp
  then obtain err where "?m = (Err err, snd ?m)" by (cases "fst ?m") (auto simp: prod_eq_iff)
  with both[THEN conjunct2, rule_format, OF this]
  show "\<exists>err t1. runRoleFinalizer awsRoleKind deletedRole noBindingEnv [] = releaseRole awsRoleKind deletedRole noBindingEnv t1
        \<and> rk_NewRole awsRoleKind deletedRole noBindingEnv [] = (Err err, t1)" by blast
qed


section \<open>Conditions of a role\<close>

text \<open>After a successful run the condition Available of a role is true; the condition Failed is
  gone for every kind but MongoDBRole, whose controller keeps the one of an earlier failure.\<close>

theorem ready_status_conditions:
  assumes "wfConditions (role_Conditions st)"
  shows "(\<exists>c. condOf (role_Conditions (setRoleReady removesFailed g now st)) ConditionAvailable = Some c
            \<and> cond_Status c = ConditionTrue)
    \<and> condOf (role_Conditions (setRoleReady removesFailed g now st)) ConditionFailed
        = (if removesFailed then None else condOf (role_Conditions st) ConditionFailed)
    \<and> (rk_removesFailed awsRoleKind \<and> rk_removesFailed azureRoleKind \<and> rk_removesFailed gcpRoleKind
       \<and> rk_removesFailed mysqlRoleKind \<and> rk_removesFailed postgresRoleKind \<and> \<not> rk_removesFailed mongoRoleKind)"
proof -
  let ?c = "conditionTrue ConditionAvailable ''Provisioned'' ''role is ready to use''"
  let ?cs = "if removesFailed then RemoveCondition (role_Conditions st) ConditionFailed else role_Conditions st"
  have ty: "cond_Type ?c = ConditionAvailable" "cond_Status ?c = ConditionTrue" by (simp_all add: conditionTrue_def)
  have ne: "ConditionFailed \<noteq> ConditionAvailable" by (simp add: ConditionFailed_def ConditionAvailable_def)
  have cs: "role_Conditions (setRoleReady removesFailed g now st) = SetCondition now ?cs ?c"
    by (simp add: setRoleReady_def)
  obtain d where "condOf (SetCondition now ?cs ?c) ConditionAvailable = Some d" "sameState d ?c"
    using conds.look_set_same[of now ?cs ?c] unfolding ty by blast
  moreover have "condOf (SetCondition now ?cs ?c) ConditionFailed = condOf ?cs ConditionFailed"
    using conds.look_set_other[of ConditionFailed ?c now ?cs] ne unfolding ty by simp
  moreover have "condOf (RemoveCondition (role_Conditions st) ConditionFailed) ConditionFailed = None"
    using conds.look_remove[OF assms] by simp
  ultimately show ?thesis unfolding cs by (auto simp: sameState_def ty roleKind_defs)
qed

theorem ready_status_conditions_witness:
  "condOf (role_Conditions (setRoleReady (rk_removesFailed mongoRoleKind) 1 2
      (RoleStatus0\<lparr>role_Conditions := [demoCondition ConditionFailed]\<rparr>))) ConditionFailed
     = Some (demoCondition ConditionFailed)"
proof -
  let ?st = "RoleStatus0\<lparr>role_Conditions := [demoCondition ConditionFailed]\<rparr>"
  have "wfConditions (role_Conditions ?st)" by code_simp
  from ready_status_conditions[OF this, of "rk_removesFailed mongoRoleKind" 1 2]
  have "condOf (role_Conditions (setRoleReady (rk_removesFailed mongoRoleKind) 1 2 ?st)) ConditionFailed
      = condOf (role_Conditions ?st) ConditionFailed" by presburger
  then show ?thesis by (simp add: condOf_simps) (simp add: demoCondition_def)
qed


section \<open>A role without a database reference\<close>

text \<open>The create operation of the database roles accepts a database name in place of a
  reference, yet a role without a reference never gets that far: making its client dereferences nil
  once the Vault client has been made.\<close>

theorem missing_database_reference_panics:
  assumes "pgrole_DatabaseRef (Spec role) = None" and "pgrole_DatabaseName (Spec role) \<noteq> ''''"
    and "NewClient (Namespace (Meta role)) (pgrole_VaultRef (Spec role)) env t = (Ok vc, t1)"
  shows "NewDatabaseRoleForPostgres role env t = (Panic ''invalid memory address or nil pointer dereference'', t1)
    \<and> roleDBName cluster (pgrole_DatabaseRef (Spec role)) (pgrole_DatabaseName (Spec role))
        = Inr (pgrole_DatabaseName (Spec role))"
  using assms
  by (simp add: NewDatabaseRoleForPostgres_def newDatabaseRole_def getDBBinding_def roleDBName_def
      andThen_def wrapErr_def attempt_def run_simps)

definition namedRole :: PostgresRole where
  "namedRole = \<lparr>Meta = ObjectMeta0 ''pg'' ''demo'',
     Spec = \<lparr>pgrole_VaultRef = ''vault'', pgrole_DatabaseRef = None, pgrole_DatabaseName = ''db'', pgrole_Path = '''',
       pgrole_DefaultTTL = '''', pgrole_MaxTTL = '''', pgrole_CreationStatements = [],
       pgrole_RevocationStatements = [], pgrole_RollbackStatements = [], pgrole_RenewStatements = []\<rparr>,
     Status = RoleStatus0\<rparr>"

theorem missing_database_reference_panics_witness:
  "fst (NewDatabaseRoleForPostgres namedRole demoEnv []) = Panic ''invalid memory address or nil pointer dereference''"
proof -
  have m: "Namespace (Meta namedRole) = ''demo''" "pgrole_VaultRef (Spec namedRole) = ''vault''"
    "pgrole_DatabaseRef (Spec namedRole) = None" "pgrole_DatabaseName (Spec namedRole) \<noteq> ''''"
    by (simp_all add: namedRole_def ObjectMeta0_def)
  let ?n = "NewClient ''demo'' ''vault'' demoEnv []"
  have "(case fst ?n of Ok x \<Rightarrow> True | _ \<Rightarrow> False)" by code_simp
  then obtain vc where "?n = (Ok vc, snd ?n)" by (cases "fst ?n") (auto simp: prod_eq_iff)
  from missing_database_reference_panics[OF m(3,4), unfolded m(1,2), OF this] show ?thesis by simp
qed


end
