(* ===== verification/Secret_Engine.thy ===== *)
theory Secret_Engine
  imports Roles
begin

text \<open>
  Secret engines (\<open>pkg/vault/engine\<close>): mounting them, the Vault policy for the
  operator's own role, the role that carries it, the configuration of each
  engine type, and the controller of \<open>SecretEngine\<close>.
\<close>

section \<open>Database AppBindings\<close>

text \<open>\<open>strings.Index\<close>\<close>

fun Index :: "string \<Rightarrow> string \<Rightarrow> nat option" where
  "Index s sub = (if take (length sub) s = sub then Some 0
     else case s of [] \<Rightarrow> None | c # cs \<Rightarrow> map_option Suc (Index cs sub))"

declare Index.simps [simp del]

text \<open>
  \<open>fmt.Sprintf\<close> without arguments: a percent sign starts a directive of flags,
  width, precision and a verb, and every verb but the percent sign misses its
  argument.
\<close>

definition isDigit :: "char \<Rightarrow> bool" where
  "isDigit c \<longleftrightarrow> c \<in> set ''0123456789''"

definition afterDirective :: "string \<Rightarrow> string" where
  "afterDirective cs =
     (let r = dropWhile isDigit (dropWhile (\<lambda>c. c \<in> set ''#0+- '') cs) in
      case r of c # r' \<Rightarrow> if c = CHR ''.'' then dropWhile isDigit r' else r | [] \<Rightarrow> [])"

lemma length_afterDirective: "length (afterDirective cs) \<le> length cs"
proof -
  let ?r = "dropWhile isDigit (dropWhile (\<lambda>c. c \<in> set ''#0+- '') cs)"
  have r: "length ?r \<le> length cs" by (meson length_dropWhile_le order_trans)
  moreover have "length (dropWhile isDigit xs) \<le> length xs" for xs by (rule length_dropWhile_le)
  ultimately show ?thesis
    unfolding afterDirective_def Let_def
    by (cases ?r) (auto simp del: dropWhile_eq_Nil_conv intro: le_SucI order_trans)
qed

function sprintf0 :: "string \<Rightarrow> string" where
  "sprintf0 [] = []"
| "c \<noteq> CHR 0x25 \<Longrightarrow> sprintf0 (c # cs) = c # sprintf0 cs"
| "sprintf0 (CHR 0x25 # cs) = (case afterDirective cs of
     [] \<Rightarrow> [CHR 0x25] @ ''!(NOVERB)''
   | v # r \<Rightarrow> (if v = CHR 0x25 then [v] else [CHR 0x25] @ ''!'' @ [v] @ ''(MISSING)'') @ sprintf0 r)"
  by (metis list.exhaust) auto
termination
proof (relation "measure length", goal_cases)
  case (3 cs v r)
  then show ?case using length_afterDirective[of cs] by simp
qed auto

lemma sprintf0_code [code]:
  "sprintf0 [] = []"
  "sprintf0 (c # cs) = (if c = CHR 0x25 then (case afterDirective cs of
     [] \<Rightarrow> [CHR 0x25] @ ''!(NOVERB)''
   | v # r \<Rightarrow> (if v = CHR 0x25 then [v] else [CHR 0x25] @ ''!'' @ [v] @ ''(MISSING)'') @ sprintf0 r) else c # sprintf0 cs)"
  by simp_all

lemma sprintf0_plain: "CHR 0x25 \<notin> set s \<Longrightarrow> sprintf0 s = s"
  by (induction s) auto

definition AppBinding_URLTemplate :: "AppBinding \<Rightarrow> error + string" where
  "AppBinding_URLTemplate a = (case AppBinding_URL a of
       Inl e \<Rightarrow> Inl e
     | Inr rawurl \<Rightarrow>
         let auth = ''{{username}}:{{password}}@'' in
         (case Index rawurl ''://'' of
            None \<Rightarrow> Inr (auth @ rawurl)
          | Some i \<Rightarrow> Inr (sprintf0 (take (i + 3) rawurl @ auth @ drop (i + 3) rawurl))))"

text \<open>
  The secret transforms of an AppBinding, in order.  A secret without data has
  a nil map, to which nothing can be assigned.
\<close>

definition assignKeys :: "bool \<Rightarrow> smap \<Rightarrow> smap \<Rightarrow> smap go" where
  "assignKeys isNil creds new =
     (if isNil \<and> new \<noteq> [] then panic ''assignment to entry in nil map'' else ret (UpsertMap creds new))"

definition transformOnce :: "bool \<Rightarrow> SecretTransform \<Rightarrow> smap \<Rightarrow> smap go" where
  "transformOnce isNil t creds =
     (case tr_AddKey t of
        Some a \<Rightarrow> assignKeys isNil creds
          [(adk_Key a, case adk_StringValue a of Some s \<Rightarrow> s | None \<Rightarrow> adk_Value a)]
      | None \<Rightarrow> (case tr_RenameKey t of
          Some (from, to) \<Rightarrow> (case map_of creds from of
              Some v \<Rightarrow> andThen (assignKeys isNil creds [(to, v)]) (\<lambda>cs. ret (AList.delete from cs))
            | None \<Rightarrow> ret creds)
        | None \<Rightarrow> (case tr_AddKeysFrom t of
            Some (ns, n) \<Rightarrow> andThen (apiGet Secrets ns n) (\<lambda>s. assignKeys isNil creds (sec_Data s))
          | None \<Rightarrow> (case tr_RemoveKey t of
              Some k \<Rightarrow> ret (AList.delete k creds)
            | None \<Rightarrow> ret creds))))"

fun transformAll :: "bool \<Rightarrow> SecretTransform list \<Rightarrow> smap \<Rightarrow> smap go" where
  "transformAll isNil [] creds = ret creds"
| "transformAll isNil (t # ts) creds =
     andThen (transformOnce isNil t creds) (\<lambda>cs. transformAll isNil ts cs)"

definition TransformSecret :: "AppBinding \<Rightarrow> smap \<Rightarrow> smap go" where
  "TransformSecret a creds = transformAll (creds = []) (ab_SecretTransforms a) creds"


section \<open>The engine client\<close>

record EngineClient =
  en_engine :: SecretEngine
  en_vaultClient :: VaultClient
  en_path :: string

definition GetSecretEnginePath :: "SecretEngine \<Rightarrow> string" where
  "GetSecretEnginePath engine =
     (let sp = Spec engine in
      if se_Path sp \<noteq> '''' then se_Path sp
      else if se_GCP sp \<noteq> None then ''gcp''
      else if se_AWS sp \<noteq> None then ''aws''
      else if se_Azure sp \<noteq> None then ''azure''
      else ''database'')"

definition NewSecretEngine :: "SecretEngine \<Rightarrow> EngineClient go" where
  "NewSecretEngine engine =
     andThen (wrapErr ''failed to create vault api client''
                (NewClient (Namespace (Meta engine)) (se_VaultRef (Spec engine)))) (\<lambda>vc.
     ret \<lparr>en_engine = engine, en_vaultClient = vc, en_path = GetSecretEnginePath engine\<rparr>)"

definition IsSecretEngineEnabled :: "EngineClient \<Rightarrow> bool go" where
  "IsSecretEngineEnabled c =
     andThen (wrapErr ''failed to list mounted secrets engines'' (ListMounts (en_vaultClient c))) (\<lambda>mnt.
       ret (en_path c @ ''/'' \<in> set mnt))"

definition mountType :: "SecretEngineSpec \<Rightarrow> string option" where
  "mountType sp =
     (if se_AWS sp \<noteq> None then Some EngineTypeAWS
      else if se_GCP sp \<noteq> None then Some EngineTypeGCP
      else if se_Azure sp \<noteq> None then Some EngineTypeAzure
      else if se_MongoDB sp \<noteq> None \<or> se_Postgres sp \<noteq> None \<or> se_MySQL sp \<noteq> None then Some EngineTypeDatabase
      else None)"

definition EnableSecretEngine :: "EngineClient \<Rightarrow> unit go" where
  "EnableSecretEngine c =
     andThen (IsSecretEngineEnabled c) (\<lambda>enabled.
       if enabled then ret ()
       else andThen (orFail (Plain ''failed to enable secret engine: unknown secret engine type'')
                       (mountType (Spec (en_engine c))))
              (\<lambda>engineType. Mount (en_vaultClient c) (en_path c) engineType))"

definition DisableSecretEngine :: "EngineClient \<Rightarrow> unit go" where
  "DisableSecretEngine c =
     andThen (IsSecretEngineEnabled c) (\<lambda>enabled.
       if \<not> enabled then ret () else Unmount (en_vaultClient c) (en_path c))"


subsection \<open>The policy of an engine\<close>

text \<open>A policy template as its rules: the path after the mount path, and the capabilities.\<close>

type_synonym aclRule = "string \<times> string list"

definition manage :: "string list" where "manage = [''create'', ''update'', ''read'', ''delete'']"
definition generate :: "string list" where "generate = [''create'', ''update'', ''read'']"

definition SecretEnginePolicyGCP :: "aclRule list" where
  "SecretEnginePolicyGCP = [(''/config'', manage), (''/roleset/*'', manage), (''/token/*'', generate), (''/key/*'', generate)]"

definition SecretEnginePolicyAWS :: "aclRule list" where
  "SecretEnginePolicyAWS = [(''/config/*'', manage), (''/roles/*'', manage), (''/creds/*'', generate), (''/sts/*'', generate)]"

definition SecretEnginePolicyAzure :: "aclRule list" where
  "SecretEnginePolicyAzure = [(''/config'', manage), (''/roles/*'', manage), (''/creds/*'', generate)]"

definition SecretEnginePolicyDatabase :: "aclRule list" where
  "SecretEnginePolicyDatabase = [(''/config/*'', manage), (''/roles/*'', manage), (''/creds/*'', generate)]"

definition quoted :: "string \<Rightarrow> string" where
  "quoted s = [CHR 0x22] @ s @ [CHR 0x22]"

definition renderRule :: "string \<Rightarrow> aclRule \<Rightarrow> string" where
  "renderRule path = (\<lambda>(sfx, caps).
     ''path '' @ quoted (path @ sfx) @ '' {'' @ [CHR 0x0A, CHR 0x09]
     @ ''capabilities = ['' @ join '', '' (map quoted caps) @ '']'' @ [CHR 0x0A] @ ''}'' @ [CHR 0x0A])"

text \<open>The rendered template: the rules, then the rule for leases, each after an empty line.\<close>

definition renderPolicy :: "string \<Rightarrow> aclRule list \<Rightarrow> string" where
  "renderPolicy path rules =
     concat (map (\<lambda>r. CHR 0x0A # renderRule path r) rules)
     @ [CHR 0x0A] @ ''path '' @ quoted ''/sys/leases/*'' @ '' {'' @ [CHR 0x0A]
     @ ''  capabilities = ['' @ join '','' (map quoted [''create'', ''update'']) @ '']'' @ [CHR 0x0A] @ ''}'' @ [CHR 0x0A]"

definition policyTemplate :: "SecretEngineSpec \<Rightarrow> aclRule list option" where
  "policyTemplate sp =
     (if se_GCP sp \<noteq> None then Some SecretEnginePolicyGCP
      else if se_AWS sp \<noteq> None then Some SecretEnginePolicyAWS
      else if se_Azure sp \<noteq> None then Some SecretEnginePolicyAzure
      else if se_MySQL sp \<noteq> None \<or> se_MongoDB sp \<noteq> None \<or> se_Postgres sp \<noteq> None
        then Some SecretEnginePolicyDatabase
      else None)"

definition CreatePolicy :: "EngineClient \<Rightarrow> unit go" where
  "CreatePolicy c =
     andThen (orFail (Plain ''unknown secret engine type'') (policyTemplate (Spec (en_engine c)))) (\<lambda>rules.
     andThen clusterid_ClusterName (\<lambda>cluster.
     let policyName = GetPolicyName cluster (en_engine c) in
     wrapErr (''failed to create vault policy: '' @ policyName)
       (PutPolicy (en_vaultClient c) policyName (renderPolicy (en_path c) rules))))"


subsection \<open>The role that carries the policy\<close>

text \<open>
  \<open>RoleData\<close>: the fields of a Kubernetes auth role that survive a read and a
  write.  A slice that is null is nil; a \<open>json.Number\<close> that is null is written
  back as zero.
\<close>

record RoleData =
  rd_BoundServiceAccountNames :: "string list option"
  rd_BoundServiceAccountNamespaces :: "string list option"
  rd_TokenTtl :: int
  rd_TokenMaxTtl :: int
  rd_TokenPolicies :: "string list option"
  rd_TokenBoundCidrs :: "string list option"
  rd_TokenExplicitMaxTtl :: int
  rd_TokenNoDefaultPolicy :: bool
  rd_TokenNumUses :: int
  rd_TokenPeriod :: int
  rd_TokenType :: string

fun jstringsOf :: "json list \<Rightarrow> error + string list" where
  "jstringsOf [] = Inr []"
| "jstringsOf (j # js) = (case jstring j of Inl e \<Rightarrow> Inl e
     | Inr s \<Rightarrow> map_sum id ((#) s) (jstringsOf js))"

definition jslice :: "json \<Rightarrow> error + string list option" where
  "jslice j = (case j of JNull \<Rightarrow> Inr None | JList js \<Rightarrow> map_sum id Some (jstringsOf js)
     | _ \<Rightarrow> Inl (Plain ''json: cannot unmarshal into Go value of type []string''))"

definition decodeRoleData :: "json \<Rightarrow> error + RoleData" where
  "decodeRoleData j =
     (case jslice (jfield ''bound_service_account_names'' j) of Inl e \<Rightarrow> Inl e | Inr names \<Rightarrow>
     (case jslice (jfield ''bound_service_account_namespaces'' j) of Inl e \<Rightarrow> Inl e | Inr nss \<Rightarrow>
     (case jint (jfield ''token_ttl'' j) of Inl e \<Rightarrow> Inl e | Inr ttl \<Rightarrow>
     (case jint (jfield ''token_max_ttl'' j) of Inl e \<Rightarrow> Inl e | Inr maxTtl \<Rightarrow>
     (case jslice (jfield ''token_policies'' j) of Inl e \<Rightarrow> Inl e | Inr policies \<Rightarrow>
     (case jslice (jfield ''token_bound_cidrs'' j) of Inl e \<Rightarrow> Inl e | Inr cidrs \<Rightarrow>
     (case jint (jfield ''token_explicit_max_ttl'' j) of Inl e \<Rightarrow> Inl e | Inr explicit \<Rightarrow>
     (case jbool (jfield ''token_no_default_policy'' j) of Inl e \<Rightarrow> Inl e | Inr noDefault \<Rightarrow>
     (case jint (jfield ''token_num_uses'' j) of Inl e \<Rightarrow> Inl e | Inr uses \<Rightarrow>
     (case jint (jfield ''token_period'' j) of Inl e \<Rightarrow> Inl e | Inr period \<Rightarrow>
     (case jstring (jfield ''token_type'' j) of Inl e \<Rightarrow> Inl e | Inr ty \<Rightarrow>
       Inr \<lparr>rd_BoundServiceAccountNames = names, rd_BoundServiceAccountNamespaces = nss,
            rd_TokenTtl = ttl, rd_TokenMaxTtl = maxTtl, rd_TokenPolicies = policies,
            rd_TokenBoundCidrs = cidrs, rd_TokenExplicitMaxTtl = explicit,
            rd_TokenNoDefaultPolicy = noDefault, rd_TokenNumUses = uses, rd_TokenPeriod = period,
            rd_TokenType = ty\<rparr>)))))))))))"

definition encodeSlice :: "string list option \<Rightarrow> json" where
  "encodeSlice xs = (case xs of None \<Rightarrow> JNull | Some l \<Rightarrow> jstrings l)"

definition encodeRoleData :: "RoleData \<Rightarrow> json" where
  "encodeRoleData d = JObject
     [(''bound_service_account_names'', encodeSlice (rd_BoundServiceAccountNames d)),
      (''bound_service_account_namespaces'', encodeSlice (rd_BoundServiceAccountNamespaces d)),
      (''token_ttl'', JInt (rd_TokenTtl d)), (''token_max_ttl'', JInt (rd_TokenMaxTtl d)),
      (''token_policies'', encodeSlice (rd_TokenPolicies d)),
      (''token_bound_cidrs'', encodeSlice (rd_TokenBoundCidrs d)),
      (''token_explicit_max_ttl'', JInt (rd_TokenExplicitMaxTtl d)),
      (''token_no_default_policy'', JBool (rd_TokenNoDefaultPolicy d)),
      (''token_num_uses'', JInt (rd_TokenNumUses d)), (''token_period'', JInt (rd_TokenPeriod d)),
      (''token_type'', JString (rd_TokenType d))]"

text \<open>\<open>json.Unmarshal\<close> of the body into \<open>KubernetesAuthRole\<close>; no \<open>data\<close> gives the zero value.\<close>

definition decodeAuthRole :: "body \<Rightarrow> error + RoleData" where
  "decodeAuthRole b = (case b of
       NoBody \<Rightarrow> Inl (Plain ''unexpected end of JSON input'')
     | BadBody e \<Rightarrow> Inl e
     | JsonBody j \<Rightarrow> (case jobject j of Inl e \<Rightarrow> Inl e
         | Inr m \<Rightarrow> (case jobject (jfield ''data'' (JObject m)) of Inl e \<Rightarrow> Inl e
             | Inr d \<Rightarrow> decodeRoleData (JObject d))))"

definition authRolePath :: "string \<Rightarrow> string" where
  "authRolePath roleName = ''/v1/auth/kubernetes/role/'' @ roleName"

definition GetVaultRoleInfo :: "VaultClient \<Rightarrow> SecretEngine \<Rightarrow> (RoleData \<times> string) go" where
  "GetVaultRoleInfo vc engine =
     andThen (wrapErr ''failed to get appbinding for secret engine''
        (apiGet AppBindings (Namespace (Meta engine)) (se_VaultRef (Spec engine)))) (\<lambda>vApp.
     case ab_Parameters vApp of
       None \<Rightarrow> fail (Plain ''appbinding parameters is nil'')
     | Some (Inl e) \<Rightarrow> fail (Wrapped ''failed to unmarshal appbinding parameters'' e)
     | Some (Inr cf) \<Rightarrow>
         andThen (guard (vsc_VaultRole cf = '''') (Plain ''vaultRole is empty'')) (\<lambda>_.
         andThen (wrapErr ''failed making GET request to vault''
            (rawRequest_ok (NewRequest vc ''GET'' (authRolePath (vsc_VaultRole cf)) None))) (\<lambda>resp.
         andThen (liftE (decodeAuthRole (Body resp))) (\<lambda>role. ret (role, vsc_VaultRole cf)))))"

definition policiesOf :: "RoleData \<Rightarrow> string list" where
  "policiesOf d = (case rd_TokenPolicies d of None \<Rightarrow> [] | Some ps \<Rightarrow> ps)"

definition addPolicy :: "string \<Rightarrow> RoleData \<Rightarrow> RoleData" where
  "addPolicy p d = (if p \<in> set (policiesOf d) then d
     else d\<lparr>rd_TokenPolicies := Some (policiesOf d @ [p])\<rparr>)"

text \<open>The first occurrence is swapped with the last element, which is then cut off.\<close>

fun indexOf :: "'a \<Rightarrow> 'a list \<Rightarrow> nat option" where
  "indexOf x [] = None"
| "indexOf x (y # ys) = (if x = y then Some 0 else map_option Suc (indexOf x ys))"

definition swapRemove :: "nat \<Rightarrow> 'a list \<Rightarrow> 'a list" where
  "swapRemove i xs = (let n = length xs - 1 in take n (xs[n := xs ! i, i := xs ! n]))"

definition dropPolicy :: "string \<Rightarrow> RoleData \<Rightarrow> RoleData" where
  "dropPolicy p d = (case indexOf p (policiesOf d) of
       None \<Rightarrow> d
     | Some i \<Rightarrow> d\<lparr>rd_TokenPolicies := Some (swapRemove i (policiesOf d))\<rparr>)"

definition writeAuthRole :: "VaultClient \<Rightarrow> string \<Rightarrow> RoleData \<Rightarrow> unit go" where
  "writeAuthRole vc roleName d =
     sendRequest (NewRequest vc ''POST'' (authRolePath roleName) (Some (encodeRoleData d)))"

definition UpdateAuthRole :: "EngineClient \<Rightarrow> unit go" where
  "UpdateAuthRole c =
     andThen (wrapErr ''failed to get policy controller role information''
        (GetVaultRoleInfo (en_vaultClient c) (en_engine c))) (\<lambda>(role, roleName).
     andThen clusterid_ClusterName (\<lambda>cluster.
     writeAuthRole (en_vaultClient c) roleName (addPolicy (GetPolicyName cluster (en_engine c)) role)))"

definition DeletePolicyAndUpdateRole :: "EngineClient \<Rightarrow> unit go" where
  "DeletePolicyAndUpdateRole c =
     andThen clusterid_ClusterName (\<lambda>cluster.
     let policyName = GetPolicyName cluster (en_engine c) in
     andThen (wrapErr (''failed to delete vault policy: '' @ policyName)
        (DeletePolicy (en_vaultClient c) policyName)) (\<lambda>_.
     andThen (wrapErr ''failed to get policy controller role information''
        (GetVaultRoleInfo (en_vaultClient c) (en_engine c))) (\<lambda>(role, roleName).
     writeAuthRole (en_vaultClient c) roleName (dropPolicy policyName role))))"


subsection \<open>Configuration of an engine\<close>

definition getKey :: "string \<Rightarrow> smap \<Rightarrow> (string \<times> json) list" where
  "getKey k data = (case map_of data k of Some v \<Rightarrow> [(k, JString v)] | None \<Rightarrow> [])"

text \<open>The user name and password of a database, after the transforms of its AppBinding.\<close>

definition dbCredentials :: "AppReference \<Rightarrow> AppBinding \<Rightarrow> string \<Rightarrow> (string \<times> json) list go" where
  "dbCredentials ref dbApp msg = (case ab_Secret dbApp of
       None \<Rightarrow> ret []
     | Some n \<Rightarrow>
         andThen (wrapErr msg (apiGet Secrets (app_Namespace ref) n)) (\<lambda>secret.
         andThen (TransformSecret dbApp (sec_Data secret)) (\<lambda>data.
         ret (getKey ''username'' data @ getKey ''password'' data))))"

definition positiveField :: "string \<Rightarrow> int \<Rightarrow> (string \<times> json) list" where
  "positiveField k i = (if i > 0 then [(k, JInt i)] else [])"

text \<open>The steps the three database configurations share; \<open>wrap\<close> is what they do with the error of the request.\<close>

definition postDBConfig :: "(unit go \<Rightarrow> unit go) \<Rightarrow> EngineClient \<Rightarrow> VaultClient \<Rightarrow> string \<Rightarrow> string \<Rightarrow> AppReference \<Rightarrow> string
    \<Rightarrow> string list \<Rightarrow> (string \<times> json) list \<Rightarrow> unit go" where
  "postDBConfig wrap c vc db secretMsg ref plugin roles extra =
     andThen (wrapErr (''failed to get DatabaseAppBinding for '' @ db @ '' database config'')
        (apiGet AppBindings (app_Namespace ref) (app_Name ref))) (\<lambda>dbApp.
     andThen (wrapErr (''failed to get '' @ db @ '' database connection url'')
        (liftE (AppBinding_URLTemplate dbApp))) (\<lambda>connURL.
     andThen (dbCredentials ref dbApp secretMsg) (\<lambda>creds.
     andThen clusterid_ClusterName (\<lambda>cluster.
     wrap (sendRequest (NewRequest vc ''POST''
       (''/v1/'' @ en_path c @ ''/config/'' @ GetDBNameFromAppBindingRef cluster ref)
       (Some (JObject ([(''plugin_name'', JString plugin), (''allowed_roles'', jstrings roles),
          (''connection_url'', JString connURL)] @ creds @ extra)))))))))"

definition CreateMySQLConfig :: "EngineClient \<Rightarrow> VaultClient \<Rightarrow> MySQLConfiguration \<Rightarrow> unit go" where
  "CreateMySQLConfig c vc cfg =
     (let config = MySQLConfiguration_SetDefaults cfg in
      postDBConfig (\<lambda>m. m) c vc ''MySQL'' ''failed to get secret for MySQL database config''
        (mysqlcfg_DatabaseRef config) (mysqlcfg_PluginName config) (mysqlcfg_AllowedRoles config)
        (positiveField ''max_open_connections'' (mysqlcfg_MaxOpenConnections config)
         @ positiveField ''max_idle_connections'' (mysqlcfg_MaxIdleConnections config)
         @ optField ''max_connection_lifetime'' (mysqlcfg_MaxConnectionLifetime config)))"

definition CreateMongoDBConfig :: "EngineClient \<Rightarrow> VaultClient \<Rightarrow> MongoDBConfiguration \<Rightarrow> unit go" where
  "CreateMongoDBConfig c vc cfg =
     (let config = MongoDBConfiguration_SetDefaults cfg in
      postDBConfig (wrapErr ''failed to create database config'') c vc ''MongoDB''
        ''Failed to get secret for MongoDB database config''
        (mongocfg_DatabaseRef config) (mongocfg_PluginName config) (mongocfg_AllowedRoles config)
        (optField ''write_concern'' (mongocfg_WriteConcern config)))"

definition CreatePostgresConfig :: "EngineClient \<Rightarrow> VaultClient \<Rightarrow> PostgresConfiguration \<Rightarrow> unit go" where
  "CreatePostgresConfig c vc cfg =
     (let config = PostgresConfiguration_SetDefaults cfg in
      postDBConfig (wrapErr ''failed to create database config'') c vc ''Postgres''
        ''Failed to get secret for Postgres database config''
        (pgcfg_DatabaseRef config) (pgcfg_PluginName config) (pgcfg_AllowedRoles config)
        (positiveField ''max_open_connections'' (pgcfg_MaxOpenConnections config)
         @ positiveField ''max_idle_connections'' (pgcfg_MaxIdleConnections config)
         @ optField ''max_connection_lifetime'' (pgcfg_MaxConnectionLifetime config)))"

definition CreateAWSConfig :: "EngineClient \<Rightarrow> VaultClient \<Rightarrow> AWSConfiguration \<Rightarrow> unit go" where
  "CreateAWSConfig c vc config =
     andThen (guard (awscfg_CredentialSecret config = '''') (Plain ''empty aws credentialSecret'')) (\<lambda>_.
     andThen (wrapErr ''failed to get aws credential secret''
        (apiGet Secrets (Namespace (Meta (en_engine c))) (awscfg_CredentialSecret config))) (\<lambda>sr.
     andThen (orFail (Plain ''aws access_kay missing'') (map_of (sec_Data sr) ''access_key'')) (\<lambda>accessKey.
     andThen (orFail (Plain ''aws secret_key missing'') (map_of (sec_Data sr) ''secret_key'')) (\<lambda>secretKey.
     andThen (wrapErr ''failed to create aws config''
        (sendRequest (NewRequest vc ''POST'' (''/v1/'' @ en_path c @ ''/config/root'') (Some (JObject
           ((case awscfg_MaxRetries config of Some i \<Rightarrow> [(''max_retries'', JInt i)] | None \<Rightarrow> [])
            @ optField ''region'' (awscfg_Region config)
            @ optField ''iam_endpoint'' (awscfg_IAMEndpoint config)
            @ optField ''sts_endpoint'' (awscfg_STSEndpoint config)
            @ [(''access_key'', JString accessKey), (''secret_key'', JString secretKey)])))))) (\<lambda>_.
     case awscfg_LeaseConfig config of
       None \<Rightarrow> ret ()
     | Some lc \<Rightarrow> wrapErr ''failed to create aws lease config''
         (sendRequest (NewRequest vc ''POST'' (''/v1/'' @ en_path c @ ''/config/lease'') (Some (JObject
            [(''lease'', JString (lc_Lease lc)), (''lease_max'', JString (lc_LeaseMax lc))])))))))))"

definition nonEmptyKey :: "string \<Rightarrow> smap \<Rightarrow> string option" where
  "nonEmptyKey k data = (case map_of data k of Some v \<Rightarrow> if v \<noteq> '''' then Some v else None | None \<Rightarrow> None)"

definition azureCredentials :: "smap \<Rightarrow> error + (string \<times> json) list" where
  "azureCredentials data =
     (case nonEmptyKey ''subscription-id'' data of
        None \<Rightarrow> Inl (Plain ''azure secret engine configuration failed: subscription id missing'')
      | Some subscription \<Rightarrow> (case nonEmptyKey ''tenant-id'' data of
          None \<Rightarrow> Inl (Plain ''azure secret engine configuration failed: tenant id missing'')
        | Some tenant \<Rightarrow> Inr ([(''subscription_id'', JString subscription), (''tenant_id'', JString tenant)]
            @ (case nonEmptyKey ''client-id'' data of Some v \<Rightarrow> [(''client_id'', JString v)] | None \<Rightarrow> [])
            @ (case nonEmptyKey ''client-secret'' data of Some v \<Rightarrow> [(''client_secret'', JString v)] | None \<Rightarrow> []))))"

definition CreateAzureConfig :: "EngineClient \<Rightarrow> VaultClient \<Rightarrow> AzureConfiguration \<Rightarrow> unit go" where
  "CreateAzureConfig c vc config =
     andThen (if azurecfg_CredentialSecret config = '''' then ret []
              else andThen (wrapErr ''failed to get azure credential secret''
                 (apiGet Secrets (Namespace (Meta (en_engine c))) (azurecfg_CredentialSecret config)))
                 (\<lambda>sr. liftE (azureCredentials (sec_Data sr)))) (\<lambda>creds.
     wrapErr ''failed to create azure config''
       (sendRequest (NewRequest vc ''POST'' (''/v1/'' @ en_path c @ ''/config'')
          (Some (JObject (creds @ optField ''environment'' (azurecfg_Environment config)))))))"

definition CreateGCPConfig :: "EngineClient \<Rightarrow> VaultClient \<Rightarrow> GCPConfiguration \<Rightarrow> unit go" where
  "CreateGCPConfig c vc config =
     andThen (if gcpcfg_CredentialSecret config = '''' then ret []
              else andThen (wrapErr ''failed to get gcp credential secret''
                 (apiGet Secrets (Namespace (Meta (en_engine c))) (gcpcfg_CredentialSecret config)))
                 (\<lambda>sr. ret (case map_of (sec_Data sr) ''sa.json'' of
                    Some v \<Rightarrow> [(''credentials'', JString v)] | None \<Rightarrow> []))) (\<lambda>creds.
     wrapErr ''failed to create gcp config''
       (sendRequest (NewRequest vc ''POST'' (''/v1/'' @ en_path c @ ''/config'')
          (Some (JObject (optField ''ttl'' (gcpcfg_TTL config) @ optField ''max_ttl'' (gcpcfg_MaxTTL config) @ creds))))))"

text \<open>A fresh client first, so that its token has the policy just granted.\<close>

definition CreateConfig :: "EngineClient \<Rightarrow> unit go" where
  "CreateConfig c =
     (let engine = en_engine c; sp = Spec engine in
      andThen (wrapErr ''failed to create vault api client''
         (NewClient (Namespace (Meta engine)) (se_VaultRef sp))) (\<lambda>vc.
      case se_GCP sp of Some cfg \<Rightarrow> CreateGCPConfig c vc cfg | None \<Rightarrow>
      (case se_Azure sp of Some cfg \<Rightarrow> CreateAzureConfig c vc cfg | None \<Rightarrow>
      (case se_AWS sp of Some cfg \<Rightarrow> CreateAWSConfig c vc cfg | None \<Rightarrow>
      (case se_MySQL sp of Some cfg \<Rightarrow> CreateMySQLConfig c vc cfg | None \<Rightarrow>
      (case se_Postgres sp of Some cfg \<Rightarrow> CreatePostgresConfig c vc cfg | None \<Rightarrow>
      (case se_MongoDB sp of Some cfg \<Rightarrow> CreateMongoDBConfig c vc cfg | None \<Rightarrow>
        fail (Plain ''failed to create config: unknown secret engine type''))))))))"


section \<open>The controller\<close>

definition setEngineReady :: "int \<Rightarrow> int \<Rightarrow> RoleStatus \<Rightarrow> RoleStatus" where
  "setEngineReady generation now st =
     st\<lparr>role_ObservedGeneration := generation, role_Phase := ''Success'',
        role_Conditions := SetCondition now (RemoveCondition (role_Conditions st) ConditionFailed)
          (conditionTrue ConditionAvailable ''Provisioned'' ''secret engine is ready to use'')\<rparr>"

text \<open>One step of \<open>reconcileSecretEngine\<close>: a failure is put in the status and returned.\<close>

definition engineStep :: "SecretEngine \<Rightarrow> string \<Rightarrow> string \<Rightarrow> unit go \<Rightarrow> unit go \<Rightarrow> unit go" where
  "engineStep se rsn msg m rest =
     attempt m
       (\<lambda>err. errOf (UpdateStatus SecretEngines (Meta se) (setRoleFailed rsn err)) (\<lambda>err2.
          returnErr (NewAggregate [err2, Some (Wrapped msg err)])))
       (\<lambda>_. rest)"

definition reconcileSecretEngine :: "EngineClient \<Rightarrow> SecretEngine \<Rightarrow> unit go" where
  "reconcileSecretEngine c se =
     engineStep se ''FailedToCreateSecretEnginePolicy'' ''failed to create secret engine policy'' (CreatePolicy c)
    (engineStep se ''FailedToUpdateAuthRole'' ''failed to update auth role'' (UpdateAuthRole c)
    (engineStep se ''FailedToEnableSecretEngine'' ''failed to enable secret engine'' (EnableSecretEngine c)
    (engineStep se ''FailedToCreateSecretEngineConfig'' ''failed to create secret engine config'' (CreateConfig c)
    (andThen (UpdateStatus SecretEngines (Meta se) (setEngineReady (Generation (Meta se)))) (\<lambda>_. ret ())))))"

definition cleanupEngine :: "EngineClient \<Rightarrow> unit go" where
  "cleanupEngine c =
     andThen (wrapErr ''failed to delete policy or update policy controller role'' (DeletePolicyAndUpdateRole c)) (\<lambda>_.
     wrapErr ''failed to disable secret engine'' (DisableSecretEngine c))"

definition runSecretEngineFinalizer :: "SecretEngine \<Rightarrow> unit go" where
  "runSecretEngineFinalizer se =
     andThen (attempt (NewSecretEngine se) (\<lambda>_. ret ()) cleanupEngine) (\<lambda>_.
     andThen (wrapErr (''failed to remove finalizer for SecretEngine: '' @ key se)
        (Patch SecretEngines se removeFinalizer)) (\<lambda>_. ret ()))"

definition syncSecretEngine :: "SecretEngine \<Rightarrow> unit go" where
  "syncSecretEngine se =
    (if DeletionTimestamp (Meta se) \<noteq> None then
       (if HasFinalizer (Meta se) Finalizer then runSecretEngineFinalizer se else ret ())
     else
       andThen (ensureFinalizer SecretEngines (''failed to add finalizer for secretEngine: '' @ key se) se) (\<lambda>_.
       andThen (if role_Conditions (Status se) = []
                then wrapErr (''failed to update status for SecretEngine: '' @ key se)
                       (UpdateStatus SecretEngines (Meta se) setRoleProcessing)
                else ret se) (\<lambda>se'.
       andThen (NewSecretEngine se') (\<lambda>c.
       wrapErr (''for SecretEngine '' @ key se' @ '':'') (reconcileSecretEngine c se')))))"

definition runSecretEngineInjector :: "string \<Rightarrow> unit go" where
  "runSecretEngineInjector ky =
     andThen (GetByKey ''SecretEngine'' ky) (\<lambda>obj. case obj of
       None \<Rightarrow> ret ()
     | Some ob \<Rightarrow> (case cl_prj SecretEngines ob of
         None \<Rightarrow> panic ''interface conversion''
       | Some se \<Rightarrow> syncSecretEngine se))"


end
