(* ===== verification/Sequences.thy ===== *)
theory Sequences
  imports Vault_Sys
begin

text \<open>
  Calls in a given order: what a run that ends without an error has done, one
  rule per combinator.
\<close>

fun inOrder :: "(event \<Rightarrow> bool) list \<Rightarrow> trace \<Rightarrow> bool" where
  "inOrder [] es \<longleftrightarrow> True"
| "inOrder (P # Ps) [] \<longleftrightarrow> False"
| "inOrder (P # Ps) (e # es) \<longleftrightarrow> P e \<and> inOrder Ps es \<or> inOrder (P # Ps) es"

lemma inOrder_later: "inOrder Ps ys \<Longrightarrow> inOrder Ps (xs @ ys)"
proof (induction xs)
  case (Cons x xs)
  then show ?case by (cases Ps) auto
qed simp

lemma inOrder_append: "inOrder Ps xs \<Longrightarrow> inOrder Qs ys \<Longrightarrow> inOrder (Ps @ Qs) (xs @ ys)"
proof (induction Ps xs rule: inOrder.induct)
  case (1 es)
  then show ?case by (simp add: inOrder_later)
qed auto

lemma inOrder_mono:
  "inOrder Ps xs \<Longrightarrow> list_all2 (\<lambda>P Q. \<forall>e. P e \<longrightarrow> Q e) Ps Qs \<Longrightarrow> inOrder Qs xs"
proof (induction Ps xs arbitrary: Qs rule: inOrder.induct)
  case (3 P Ps e es)
  from "3.prems"(2) obtain Q Qs' where Q: "Qs = Q # Qs'" "P e \<Longrightarrow> Q e"
    "list_all2 (\<lambda>P Q. \<forall>e. P e \<longrightarrow> Q e) Ps Qs'" by (auto simp: list_all2_Cons1)
  from "3.prems"(1) show ?case
  proof (simp, elim disjE conjE)
    assume "P e" "inOrder Ps es"
    with Q "3.IH"(1) show ?thesis by simp
  next
    assume "inOrder (P # Ps) es"
    from "3.IH"(2)[OF this "3.prems"(2)] Q(1) show ?thesis by simp
  qed
qed (auto simp: list_all2_Cons1)

lemma inOrder_single: "inOrder [P] es \<longleftrightarrow> (\<exists>e \<in> set es. P e)"
  by (induction es) auto

text \<open>A Vault request that was answered without an error.\<close>

definition accepted :: "VaultRequest \<Rightarrow> event \<Rightarrow> bool" where
  "accepted req e \<longleftrightarrow> (\<exists>a. e = Vault req a \<and> answeredOk a)"

text \<open>\<open>ensures Ps m env\<close>: a run of \<open>m\<close> without an error makes calls that satisfy \<open>Ps\<close>, in this order.\<close>

named_theorems ensures_intros \<open>what a run without an error has called, one rule per operation\<close>

definition ensures :: "(event \<Rightarrow> bool) list \<Rightarrow> 'a go \<Rightarrow> env \<Rightarrow> bool" where
  "ensures Ps m env \<longleftrightarrow> (\<forall>t v t'. m env t = (Ok v, t') \<longrightarrow> (\<exists>es. t' = t @ es \<and> inOrder Ps es))"

lemma ensuresI:
  assumes "\<And>t v t'. m env t = (Ok v, t') \<Longrightarrow> \<exists>es. t' = t @ es \<and> inOrder Ps es"
  shows "ensures Ps m env"
  using assms by (auto simp: ensures_def)

lemma ensuresD: "ensures Ps m env \<Longrightarrow> m env t = (Ok v, t') \<Longrightarrow> \<exists>es. t' = t @ es \<and> inOrder Ps es"
  by (auto simp: ensures_def)

lemma ensures_Nil: "emits (\<lambda>_. True) m env \<Longrightarrow> ensures [] m env"
  by (auto simp: ensures_def dest: emitsD)

lemma ensures_stop [ensures_intros]: "ensures Ps (fail e) env" "ensures Ps (panic s) env"
  by (auto simp: ensures_def run_simps)

lemma ensures_ret: "ensures [] (ret v) env"
  by (auto simp: ensures_def run_simps)

lemma ensures_wrapErr [ensures_intros]: "ensures Ps m env \<Longrightarrow> ensures Ps (wrapErr msg m) env"
  by (auto simp: ensures_def wrapErr_Ok)

lemma ensures_andThen:
  assumes "ensures Ps m env" "\<And>v t t'. m env t = (Ok v, t') \<Longrightarrow> ensures Qs (k v) env"
  shows "ensures (Ps @ Qs) (andThen m k) env"
proof (rule ensuresI)
  fix t v t'
  assume "andThen m k env t = (Ok v, t')"
  then obtain x t1 where m: "m env t = (Ok x, t1)" and k: "k x env t1 = (Ok v, t')" by (rule andThen_Ok)
  from ensuresD[OF assms(1) m] ensuresD[OF assms(2)[OF m] k]
  show "\<exists>es. t' = t @ es \<and> inOrder (Ps @ Qs) es" using inOrder_append by fastforce
qed

text \<open>The calls of the first part do not matter, or there is nothing to do after it.\<close>

lemma ensures_after:
  "emits (\<lambda>_. True) m env \<Longrightarrow> (\<And>v. ensures Ps (k v) env) \<Longrightarrow> ensures Ps (andThen m k) env"
  using ensures_andThen[OF ensures_Nil] by fastforce

lemma ensures_done: "ensures Ps m env \<Longrightarrow> ensures Ps (andThen m (\<lambda>_. ret ())) env"
  using ensures_andThen[of Ps m env "[]" "\<lambda>_. ret ()"] by (simp add: ensures_ret)

lemma ensures_attempt:
  assumes "ensures Ps (andThen m k) env" "\<And>e. ensures Ps (h e) env" "emits (\<lambda>_. True) m env"
  shows "ensures Ps (attempt m h k) env"
proof (rule ensuresI)
  fix t v t'
  assume "attempt m h k env t = (Ok v, t')"
  then show "\<exists>es. t' = t @ es \<and> inOrder Ps es"
  proof (cases rule: attempt_Ok)
    case (1 x t1)
    then have "andThen m k env t = (Ok v, t')" by (simp add: andThen_def attempt_def)
    then show ?thesis by (rule ensuresD[OF assms(1)])
  next
    case (2 e t1)
    from emitsD[OF assms(3) 2(1)] ensuresD[OF assms(2) 2(2)] show ?thesis using inOrder_later by fastforce
  qed
qed

lemma ensures_cases [ensures_intros]:
  "(b \<Longrightarrow> ensures Ps m env) \<Longrightarrow> (\<not> b \<Longrightarrow> ensures Ps m' env) \<Longrightarrow> ensures Ps (if b then m else m') env"
  "(x = None \<Longrightarrow> ensures Ps n env) \<Longrightarrow> (\<And>v. x = Some v \<Longrightarrow> ensures Ps (f v) env)
    \<Longrightarrow> ensures Ps (case x of None \<Rightarrow> n | Some v \<Rightarrow> f v) env"
  "(\<And>a. z = Inl a \<Longrightarrow> ensures Ps (g a) env) \<Longrightarrow> (\<And>b. z = Inr b \<Longrightarrow> ensures Ps (g' b) env)
    \<Longrightarrow> ensures Ps (case z of Inl a \<Rightarrow> g a | Inr b \<Rightarrow> g' b) env"
  by (auto split: option.splits sum.splits)

lemma ensures_sendRequest [ensures_intros]: "ensures [accepted req] (sendRequest req) env"
  by (rule ensuresI) (auto simp: accepted_def dest!: sendRequest_Ok)

lemma ensures_UpdateStatus [ensures_intros]: "ensures [writesStatus c f] (UpdateStatus c meta f) env"
  by (rule ensuresI) (auto simp: inOrder_single dest!: UpdateStatus_run)

lemma ensures_CreateOrPatch [ensures_intros]: "ensures [ensuredBy c meta new f] (CreateOrPatch c meta new f) env"
  by (rule ensuresI) (auto simp: inOrder_single elim!: CreateOrPatch_run)

lemma ensures_rawRequest_ok [ensures_intros]: "ensures [accepted req] (rawRequest_ok req) env"
proof (rule ensuresI)
  fix t v t'
  assume "rawRequest_ok req env t = (Ok v, t')"
  then have "sendRequest req env t = (Ok (), t')" by (simp add: sendRequest_def andThen_def attempt_def ret_def)
  from sendRequest_Ok[OF this] show "\<exists>es. t' = t @ es \<and> inOrder [accepted req] es"
    by (auto simp: accepted_def)
qed

lemma ensures_weaken:
  "ensures Ps m env \<Longrightarrow> list_all2 (\<lambda>P Q. \<forall>e. P e \<longrightarrow> Q e) Ps Qs \<Longrightarrow> ensures Qs m env"
  unfolding ensures_def using inOrder_mono[of Ps _ Qs] by blast

lemma cluster_run: "andThen clusterid_ClusterName k env t = k (cluster_name env) env t"
  by (simp add: andThen_def attempt_def clusterid_ClusterName_def ask_def)

lemma rawRequest_ok_Ok:
  assumes "rawRequest_ok req env t = (Ok resp, t')"
  shows "t' = t @ [Vault req (Response resp None)]"
proof (cases "vault_answer env t req")
  case (NoResponse e)
  then show ?thesis using assms by (simp add: rawRequest_ok_def RawRequest_def rawResult_def andThen_def attempt_def run_simps)
next
  case (Response r e)
  then show ?thesis using assms
    by (cases e) (auto simp: rawRequest_ok_def RawRequest_def rawResult_def andThen_def attempt_def run_simps
        split: option.splits)
qed

section \<open>Cleaning up before the finalizer goes\<close>

definition noPatch :: "event \<Rightarrow> bool" where
  "noPatch e \<longleftrightarrow> (\<forall>x y a. e \<noteq> Kube (KPatch x y) a)"

lemma noPatch_simps [simp]: "noPatch (Vault req va)" "noPatch (Kube (KGet k ns n) a)" "noPatch (Ext f args r)" "\<not> noPatch (Kube (KPatch x y) a)"
  by (simp_all add: noPatch_def)

lemma emits_NewClient_noPatch: "emits noPatch (NewClient ns n) env"
proof -
  have "noPatch e" if "authEvent e" for e using that by (cases e rule: authEvent.cases) auto
  then show ?thesis by (rule emits_mono[OF emits_NewClient])
qed

text \<open>
  The finalizers have one shape: with a client, clean up, and stop when that
  fails; without one, skip the cleanup; then release the object by a patch.
\<close>

lemma released_after_cleanup:
  assumes run: "andThen (attempt new (\<lambda>_. ret ()) cleanup) (\<lambda>_. release) env t = (r, t @ es)"
    and new: "new env t = (Ok c, t1)" and ens: "ensures Ps (cleanup c) env"
    and quiet: "emits noPatch new env" "emits noPatch (cleanup c) env" "emits (\<lambda>_. True) release env"
    and Q: "\<And>e. Q e \<Longrightarrow> \<not> noPatch e" "\<exists>e \<in> set es. Q e"
  shows "inOrder (Ps @ [Q]) es"
proof -
  from emitsD[OF quiet(1), OF new] obtain as where as: "t1 = t @ as" "\<forall>e \<in> set as. noPatch e" by blast
  obtain d t2 where d: "cleanup c env t1 = (d, t2)" by fastforce
  from emitsD[OF quiet(2), OF d] obtain bs where bs: "t2 = t1 @ bs" "\<forall>e \<in> set bs. noPatch e" by blast
  show ?thesis
  proof (cases "\<exists>v. d = Ok v")
    case True
    then obtain v where v: "d = Ok v" ..
    then have rel: "release env t2 = (r, t @ es)" using run new d by (simp add: andThen_def attempt_def)
    from emitsD[OF quiet(3), OF rel] obtain gs where gs: "t @ es = t2 @ gs" by blast
    then have es: "es = as @ bs @ gs" using as(1) bs(1) by simp
    from ensuresD[OF ens, OF d[unfolded v]] bs(1) have "inOrder Ps bs" by auto
    moreover have "inOrder [Q] gs" using Q as(2) bs(2) by (fastforce simp: es inOrder_single)
    ultimately show ?thesis unfolding es by (intro inOrder_later inOrder_append)
  next
    case False
    then have "t @ es = t2" using run new d by (cases d) (auto simp: andThen_def attempt_def run_simps)
    then have "es = as @ bs" using as(1) bs(1) by simp
    then have False using Q as(2) bs(2) by auto
    then show ?thesis ..
  qed
qed

lemma ensures_cluster: "ensures Ps (k (cluster_name env)) env \<Longrightarrow> ensures Ps (andThen clusterid_ClusterName k) env"
  by (simp add: ensures_def cluster_run)

end
