(* ===== verification/Policies.thy ===== *)
theory Policies
  imports Sequences Finalizers Roles
begin

text \<open>
  Vault policies and their bindings to service accounts: the Vault clients of
  \<open>pkg/vault/policy\<close> and \<open>pkg/vault/policybinding\<close>, the controllers of
  \<open>VaultPolicy\<close> and \<open>VaultPolicyBinding\<close>, and the patch-with-retry helper their
  finalizers use.
\<close>

section \<open>Patching with retries\<close>

text \<open>
  \<open>TryPatchVaultPolicy\<close> and \<open>TryPatchVaultPolicyBinding\<close>.  Every attempt reads the
  object named by \<open>cur\<close> into \<open>cur\<close>, and a read that fails leaves the zero object
  there; a request without a name is refused by the client itself.  The state
  is the namespace and name of \<open>cur\<close>, the last result and the attempts.
\<close>

definition getNamed :: "'o client \<Rightarrow> string \<Rightarrow> string \<Rightarrow> 'o go" where
  "getNamed c ns n = (if n = '''' then fail (Plain ''resource name may not be empty'') else apiGet c ns n)"

definition tryPatchOnce :: "'o client \<Rightarrow> ('o \<Rightarrow> 'o) \<Rightarrow> (string \<times> string) \<times> 'o option \<times> nat
    \<Rightarrow> (((string \<times> string) \<times> 'o option \<times> nat) \<times> poll) go" where
  "tryPatchOnce c transform = (\<lambda>((ns, n), out, tries).
     attempt (getNamed c ns n)
       (\<lambda>e2. if IsNotFound e2 then ret (((('''', ''''), out, Suc tries)), Stop e2)
             else ret (((('''', ''''), out, Suc tries)), Again))
       (\<lambda>cur. let at = (Namespace (cl_Meta c cur), Name (cl_Meta c cur)) in
          attempt (PatchObject c cur (transform cur))
            (\<lambda>e2. ret ((at, None, Suc tries), Again))
            (\<lambda>x. ret ((at, Some x, Suc tries), Done))))"

definition TryPatch :: "'o client \<Rightarrow> 'o \<Rightarrow> ('o \<Rightarrow> 'o) \<Rightarrow> 'o option go" where
  "TryPatch c cur transform =
     andThen pollTicks (\<lambda>n.
     andThen (PollImmediate n (tryPatchOnce c transform) ((Namespace (cl_Meta c cur), Name (cl_Meta c cur)), None, 0))
       (\<lambda>((at, out, tries), err). case err of
          None \<Rightarrow> ret out
        | Some e \<Rightarrow> fail (Plain (''failed to patch '' @ cl_Kind c @ '' '' @ slash (fst at) (snd at)
             @ '' after '' @ string_of_nat tries @ '' attempts due to '' @ Error e))))"


section \<open>Vault policies\<close>

text \<open>\<open>vPolicy\<close> holds a Vault client.\<close>

definition NewPolicyClientForVault :: "VaultPolicy \<Rightarrow> VaultClient go" where
  "NewPolicyClientForVault p = NewClient (Namespace (Meta p)) (vp_VaultRef (Spec p))"

definition vPolicy_EnsurePolicy :: "VaultClient \<Rightarrow> string \<Rightarrow> string \<Rightarrow> unit go" where
  "vPolicy_EnsurePolicy v name policy = PutPolicy v name policy"

definition vPolicy_DeletePolicy :: "VaultClient \<Rightarrow> string \<Rightarrow> unit go" where
  "vPolicy_DeletePolicy v name = DeletePolicy v name"

text \<open>The document, or the policy object serialised when there is none.\<close>

definition policyDoc :: "VaultPolicySpec \<Rightarrow> string" where
  "policyDoc sp = (case vp_Policy sp of
       Some data \<Rightarrow> if vp_PolicyDocument sp = '''' then data else vp_PolicyDocument sp
     | None \<Rightarrow> vp_PolicyDocument sp)"

text \<open>The status updates of both controllers, which differ in the texts.\<close>

definition setPhaseFailed :: "string \<Rightarrow> string \<Rightarrow> error \<Rightarrow> int \<Rightarrow> RoleStatus \<Rightarrow> RoleStatus" where
  "setPhaseFailed phase rsn err now st =
     st\<lparr>role_Phase := phase,
        role_Conditions := SetCondition now (role_Conditions st) (conditionTrue ConditionFailed rsn (Error err))\<rparr>"

definition setPhaseReady :: "string \<Rightarrow> string \<Rightarrow> int \<Rightarrow> int \<Rightarrow> RoleStatus \<Rightarrow> RoleStatus" where
  "setPhaseReady phase msg generation now st =
     st\<lparr>role_ObservedGeneration := generation, role_Phase := phase,
        role_Conditions := SetCondition now (RemoveCondition (role_Conditions st) ConditionFailed)
          (conditionTrue ConditionAvailable ''Provisioned'' msg)\<rparr>"

definition reconcilePolicy :: "VaultPolicy \<Rightarrow> VaultClient \<Rightarrow> unit go" where
  "reconcilePolicy vPolicy pClient =
     andThen clusterid_ClusterName (\<lambda>cluster.
     attempt (vPolicy_EnsurePolicy pClient (PolicyName cluster vPolicy) (policyDoc (Spec vPolicy)))
       (\<lambda>err. errOf (UpdateStatus VaultPolicies (Meta vPolicy) (setPhaseFailed PolicyFailed ''FailedToPutPolicy'' err))
          (\<lambda>err2. returnErr (NewAggregate [err2, Some err])))
       (\<lambda>_. andThen (UpdateStatus VaultPolicies (Meta vPolicy)
               (setPhaseReady PolicySuccess ''policy is ready to use'' (Generation (Meta vPolicy)))) (\<lambda>_. ret ())))"

definition runPolicyFinalizer :: "VaultPolicy \<Rightarrow> unit go" where
  "runPolicyFinalizer vPolicy =
     andThen (attempt (NewPolicyClientForVault vPolicy) (\<lambda>_. ret ()) (\<lambda>pClient.
        andThen clusterid_ClusterName (\<lambda>cluster.
        wrapErr ''failed to delete vault policy'' (vPolicy_DeletePolicy pClient (PolicyName cluster vPolicy))))) (\<lambda>_.
     andThen (wrapErr (''failed to remove finalizer for VaultPolicy: '' @ key vPolicy)
        (TryPatch VaultPolicies vPolicy removeFinalizer)) (\<lambda>_. ret ()))"

definition syncVaultPolicy :: "VaultPolicy \<Rightarrow> unit go" where
  "syncVaultPolicy vPolicy =
     (if DeletionTimestamp (Meta vPolicy) \<noteq> None then
        (if HasFinalizer (Meta vPolicy) Finalizer then runPolicyFinalizer vPolicy else ret ())
      else
        andThen (ensureFinalizer VaultPolicies (''failed to add VaultPolicy finalizer for '' @ key vPolicy) vPolicy) (\<lambda>_.
        andThen (wrapErr (''for VaultPolicy '' @ key vPolicy) (NewPolicyClientForVault vPolicy)) (\<lambda>pClient.
        wrapErr (''for VaultPolicy '' @ key vPolicy) (reconcilePolicy vPolicy pClient))))"

definition runVaultPolicyInjector :: "string \<Rightarrow> unit go" where
  "runVaultPolicyInjector ky =
     andThen (GetByKey ''VaultPolicy'' ky) (\<lambda>obj. case obj of
       None \<Rightarrow> ret ()
     | Some ob \<Rightarrow> (case cl_prj VaultPolicies ob of
         None \<Rightarrow> panic ''interface conversion''
       | Some vPolicy \<Rightarrow> syncVaultPolicy vPolicy))"


section \<open>Policy bindings\<close>

text \<open>Service account lists are nil, and written as null, without a Kubernetes subject.\<close>

record pBinding =
  pb_vClient :: VaultClient
  pb_policies :: "string list"
  pb_saNames :: "string list option"
  pb_saNamespaces :: "string list option"
  pb_ttl :: string
  pb_maxTTL :: string
  pb_period :: string
  pb_path :: string

definition setKubernetesDefaults :: "pBinding \<Rightarrow> pBinding" where
  "setKubernetesDefaults p = (if pb_path p = '''' then p\<lparr>pb_path := ''kubernetes''\<rparr> else p)"

definition kubernetesSubject :: "KubernetesSubjectRef option \<Rightarrow> string list \<Rightarrow> VaultClient \<Rightarrow> pBinding" where
  "kubernetesSubject k policies vc = (case k of
       None \<Rightarrow> \<lparr>pb_vClient = vc, pb_policies = policies, pb_saNames = None, pb_saNamespaces = None,
                pb_ttl = '''', pb_maxTTL = '''', pb_period = '''', pb_path = ''''\<rparr>
     | Some k \<Rightarrow> setKubernetesDefaults
         \<lparr>pb_vClient = vc, pb_policies = policies, pb_saNames = Some (ks_ServiceAccountNames k),
          pb_saNamespaces = Some (ks_ServiceAccountNamespaces k), pb_ttl = ks_TTL k, pb_maxTTL = ks_MaxTTL k,
          pb_period = ks_Period k, pb_path = ks_Path k\<rparr>)"

fun resolvePolicies :: "string \<Rightarrow> string \<Rightarrow> PolicyIdentifier list \<Rightarrow> string list go" where
  "resolvePolicies cluster ns [] = ret []"
| "resolvePolicies cluster ns (p # ps) =
     andThen (if pid_Ref p \<noteq> ''''
              then andThen (wrapErr ''for .spec.policies'' (apiGet VaultPolicies ns (pid_Ref p)))
                     (\<lambda>policy. ret (PolicyName cluster policy))
              else ret (pid_Name p)) (\<lambda>policyName.
     andThen (resolvePolicies cluster ns ps) (\<lambda>names. ret (policyName # names)))"

definition NewPolicyBindingClient :: "VaultPolicyBinding \<Rightarrow> pBinding go" where
  "NewPolicyBindingClient pBind =
     andThen (guard (vpb_Policies (Spec pBind) = []) (Plain ''.spec.policies must be non empty'')) (\<lambda>_.
     andThen clusterid_ClusterName (\<lambda>cluster.
     andThen (resolvePolicies cluster (Namespace (Meta pBind)) (vpb_Policies (Spec pBind))) (\<lambda>policies.
     andThen (guard (vpb_VaultRef (Spec pBind) = '''') (Plain ''spec.vaultRef must not be empty'')) (\<lambda>_.
     andThen (NewClient (Namespace (Meta pBind)) (vpb_VaultRef (Spec pBind))) (\<lambda>vc.
     ret (kubernetesSubject (vpb_Kubernetes (Spec pBind)) policies vc))))))"

definition authRoleURL :: "pBinding \<Rightarrow> string \<Rightarrow> string" where
  "authRoleURL p name = ''/v1/auth/'' @ pb_path p @ ''/role/'' @ name"

definition optStrings :: "string list option \<Rightarrow> json" where
  "optStrings xs = (case xs of None \<Rightarrow> JNull | Some l \<Rightarrow> jstrings l)"

definition pBinding_payload :: "pBinding \<Rightarrow> json" where
  "pBinding_payload p = JObject
     [(''bound_service_account_names'', optStrings (pb_saNames p)),
      (''bound_service_account_namespaces'', optStrings (pb_saNamespaces p)),
      (''policies'', jstrings (pb_policies p)), (''ttl'', JString (pb_ttl p)),
      (''max_ttl'', JString (pb_maxTTL p)), (''period'', JString (pb_period p))]"

definition pBinding_Ensure :: "pBinding \<Rightarrow> string \<Rightarrow> unit go" where
  "pBinding_Ensure p name =
     sendRequest (NewRequest (pb_vClient p) ''POST'' (authRoleURL p name) (Some (pBinding_payload p)))"

definition pBinding_Delete :: "pBinding \<Rightarrow> string \<Rightarrow> unit go" where
  "pBinding_Delete p name = sendRequest (NewRequest (pb_vClient p) ''DELETE'' (authRoleURL p name) None)"

definition reconcilePolicyBinding :: "VaultPolicyBinding \<Rightarrow> pBinding \<Rightarrow> unit go" where
  "reconcilePolicyBinding pb pbClient =
     andThen clusterid_ClusterName (\<lambda>cluster.
     attempt (pBinding_Ensure pbClient (PolicyBindingName cluster pb))
       (\<lambda>err. errOf (UpdateStatus VaultPolicyBindings (Meta pb)
                 (setPhaseFailed PolicyBindingFailed ''FailedToEnsurePolicyBinding'' err))
          (\<lambda>err2. returnErr (NewAggregate [err2, Some err])))
       (\<lambda>_. andThen (UpdateStatus VaultPolicyBindings (Meta pb)
               (setPhaseReady PolicyBindingSuccess ''policy binding is ready to use'' (Generation (Meta pb)))) (\<lambda>_. ret ())))"

definition runPolicyBindingFinalizer :: "VaultPolicyBinding \<Rightarrow> unit go" where
  "runPolicyBindingFinalizer pb =
     andThen (attempt (NewPolicyBindingClient pb) (\<lambda>_. ret ()) (\<lambda>pbClient.
        andThen clusterid_ClusterName (\<lambda>cluster.
        wrapErr ''failed to delete the auth role created for policy binding''
          (pBinding_Delete pbClient (PolicyBindingName cluster pb))))) (\<lambda>_.
     andThen (wrapErr (''failed to remove finalizer for VaultPolicyBinding: '' @ key pb)
        (TryPatch VaultPolicyBindings pb removeFinalizer)) (\<lambda>_. ret ()))"

definition syncVaultPolicyBinding :: "VaultPolicyBinding \<Rightarrow> unit go" where
  "syncVaultPolicyBinding pb =
     (if DeletionTimestamp (Meta pb) \<noteq> None then
        (if HasFinalizer (Meta pb) Finalizer then runPolicyBindingFinalizer pb else ret ())
      else
        andThen (ensureFinalizer VaultPolicyBindings (''failed to add VaultPolicyBinding finalizer for '' @ key pb) pb) (\<lambda>_.
        andThen (wrapErr (''for VaultPolicyBinding '' @ key pb) (NewPolicyBindingClient pb)) (\<lambda>pbClient.
        wrapErr (''for VaultPolicyBinding '' @ key pb) (reconcilePolicyBinding pb pbClient))))"

definition runVaultPolicyBindingInjector :: "string \<Rightarrow> unit go" where
  "runVaultPolicyBindingInjector ky =
     andThen (GetByKey ''VaultPolicyBinding'' ky) (\<lambda>obj. case obj of
       None \<Rightarrow> ret ()
     | Some ob \<Rightarrow> (case cl_prj VaultPolicyBindings ob of
         None \<Rightarrow> panic ''interface conversion''
       | Some pb \<Rightarrow> syncVaultPolicyBinding pb))"

end
