(* ===== verification/Policy_Theorems.thy ===== *)
theory Policy_Theorems
  imports Policies Example_World
begin

text \<open>
  Properties of the policy and policy binding controllers: what a successful
  run has written, when the finalizers release their object, how many calls the
  retry loops make, and two error behaviours.
\<close>

section \<open>A successful run\<close>

definition policyPut :: "string \<Rightarrow> VaultPolicy \<Rightarrow> event \<Rightarrow> bool" where
  "policyPut cluster p e \<longleftrightarrow> (\<exists>vc. accepted (NewRequest vc ''PUT'' (''/v1/sys/policies/acl/'' @ PolicyName cluster p)
     (Some (JObject [(''policy'', JString (policyDoc (Spec p)))]))) e)"

text \<open>The role of a binding carries the names of its policies, in order.\<close>

definition bindingPosted :: "string \<Rightarrow> VaultPolicyBinding \<Rightarrow> string list \<Rightarrow> event \<Rightarrow> bool" where
  "bindingPosted cluster pb names e \<longleftrightarrow> (\<exists>vc.
     let p = kubernetesSubject (vpb_Kubernetes (Spec pb)) names vc in
     accepted (NewRequest vc ''POST'' (authRoleURL p (PolicyBindingName cluster pb)) (Some (pBinding_payload p))) e)"

text \<open>A reference was read and resolves to the name; a plain name stands for itself.\<close>

definition resolvesTo :: "string \<Rightarrow> string \<Rightarrow> trace \<Rightarrow> PolicyIdentifier \<Rightarrow> string \<Rightarrow> bool" where
  "resolvesTo cluster ns es p name \<longleftrightarrow>
     (if pid_Ref p = '''' then name = pid_Name p
      else \<exists>policy. Kube (KGet ''VaultPolicy'' ns (pid_Ref p)) (Inr (VaultPolicyObj policy)) \<in> set es
             \<and> name = PolicyName cluster policy)"

lemma kubeCall_Ok: "kubeCall req prj env t = (Ok v, t') \<Longrightarrow> \<exists>ob. prj ob = Some v \<and> t' = t @ [Kube req (Inr ob)]"
  by (auto simp: kubeCall_def Let_def split: sum.splits option.splits)

lemma getPolicy_Ok:
  "apiGet VaultPolicies ns n env t = (Ok p, t')
    \<Longrightarrow> t' = t @ [Kube (KGet ''VaultPolicy'' ns n) (Inr (VaultPolicyObj p))]"
  by (auto simp: apiGet_def VaultPolicies_def split: obj.splits dest!: kubeCall_Ok)

lemma resolvesTo_mono: "resolvesTo cluster ns es p name \<Longrightarrow> set es \<subseteq> set es' \<Longrightarrow> resolvesTo cluster ns es' p name"
  by (auto simp: resolvesTo_def split: if_splits)

lemma resolvePolicies_Ok:
  assumes "resolvePolicies cluster ns ps env t = (Ok names, t')"
  shows "\<exists>es. t' = t @ es \<and> list_all2 (resolvesTo cluster ns es) ps names"
  using assms
proof (induction ps arbitrary: t names)
  case Nil
  then show ?case by (simp add: run_simps)
next
  case (Cons p ps)
  let ?get = "if pid_Ref p \<noteq> ''''
              then andThen (wrapErr ''for .spec.policies'' (apiGet VaultPolicies ns (pid_Ref p)))
                     (\<lambda>policy. ret (PolicyName cluster policy))
              else ret (pid_Name p)"
  from Cons.prems obtain n t1 ns' where get: "?get env t = (Ok n, t1)"
    and rest: "resolvePolicies cluster ns ps env t1 = (Ok ns', t')" and names: "names = n # ns'"
    by (auto simp: run_simps elim!: andThen_Ok)
  have "\<exists>as. t1 = t @ as \<and> resolvesTo cluster ns as p n"
    using get by (auto simp: resolvesTo_def wrapErr_Ok run_simps split: if_splits elim!: andThen_Ok dest!: getPolicy_Ok)
  moreover from Cons.IH[OF rest] obtain bs where bs: "t' = t1 @ bs" "list_all2 (resolvesTo cluster ns bs) ps ns'" by blast
  ultimately obtain as where as: "t1 = t @ as" "resolvesTo cluster ns as p n" by blast
  have "list_all2 (resolvesTo cluster ns (as @ bs)) ps ns'"
    by (rule list_all2_mono[OF bs(2)]) (rule resolvesTo_mono, auto)
  moreover have "resolvesTo cluster ns (as @ bs) p n" by (rule resolvesTo_mono[OF as(2)]) auto
  ultimately show ?case using as(1) bs(1) names by auto
qed

lemma ensureFinalizer_emits: "emits (\<lambda>_. True) (ensureFinalizer c msg x) env"
  unfolding ensureFinalizer_def by (intro emits_intros TrueI)

text \<open>The tail of both reconcile functions: write to Vault, then the status.\<close>

lemma ensures_put_status:
  assumes "ensures Ps m env" "emits (\<lambda>_. True) m env"
  shows "ensures (Ps @ [writesStatus c ready]) (attempt m
      (\<lambda>err. errOf (UpdateStatus c meta (failed err)) (\<lambda>err2. returnErr (NewAggregate [err2, Some err])))
      (\<lambda>_. andThen (UpdateStatus c meta ready) (\<lambda>_. ret ()))) env"
proof (rule ensures_attempt[OF _ _ assms(2)])
  show "ensures (Ps @ [writesStatus c ready]) (andThen m (\<lambda>_. andThen (UpdateStatus c meta ready) (\<lambda>_. ret ()))) env"
    by (rule ensures_andThen[OF assms(1)]) (intro ensures_done ensures_UpdateStatus)
  show "ensures (Ps @ [writesStatus c ready])
      (errOf (UpdateStatus c meta (failed err)) (\<lambda>err2. returnErr (NewAggregate [err2, Some err]))) env" for err
    by (auto simp: ensures_def errOf_def returnErr_def NewAggregate_def run_simps split: option.splits elim!: attempt_Ok)
qed

lemma ensures_reconcilePolicy:
  "ensures [policyPut (cluster_name env) p, writesStatus VaultPolicies
     (setPhaseReady PolicySuccess ''policy is ready to use'' (Generation (Meta p)))] (reconcilePolicy p vc) env"
  unfolding reconcilePolicy_def vPolicy_EnsurePolicy_def PutPolicy_def
proof (rule ensures_cluster, rule ensures_put_status[where Ps = "[policyPut (cluster_name env) p]", unfolded append_Cons append_Nil])
  let ?m = "sendRequest (NewRequest vc ''PUT'' (''/v1/sys/policies/acl/'' @ PolicyName (cluster_name env) p)
     (Some (JObject [(''policy'', JString (policyDoc (Spec p)))])))"
  show "ensures [policyPut (cluster_name env) p] ?m env"
    by (rule ensures_weaken[OF ensures_sendRequest]) (auto simp: policyPut_def)
  show "emits (\<lambda>_. True) ?m env" by (intro emits_intros TrueI)
qed

lemma ensures_reconcilePolicyBinding:
  assumes "b = kubernetesSubject (vpb_Kubernetes (Spec pb)) names vc"
  shows "ensures [bindingPosted (cluster_name env) pb names, writesStatus VaultPolicyBindings
     (setPhaseReady PolicyBindingSuccess ''policy binding is ready to use'' (Generation (Meta pb)))]
     (reconcilePolicyBinding pb b) env"
  unfolding reconcilePolicyBinding_def pBinding_Ensure_def
proof (rule ensures_cluster, rule ensures_put_status[where Ps = "[bindingPosted (cluster_name env) pb names]", unfolded append_Cons append_Nil])
  let ?m = "sendRequest (NewRequest (pb_vClient b) ''POST'' (authRoleURL b (PolicyBindingName (cluster_name env) pb))
     (Some (pBinding_payload b)))"
  have "pb_vClient b = vc"
    by (simp add: assms kubernetesSubject_def setKubernetesDefaults_def split: option.splits)
  then show "ensures [bindingPosted (cluster_name env) pb names] ?m env"
    by (intro ensures_weaken[OF ensures_sendRequest]) (auto simp: bindingPosted_def assms Let_def)
  show "emits (\<lambda>_. True) ?m env" by (intro emits_intros TrueI)
qed

lemma NewPolicyBindingClient_Ok:
  assumes "NewPolicyBindingClient pb env t = (Ok b, t')"
  shows "\<exists>es names vc. t' = t @ es \<and> b = kubernetesSubject (vpb_Kubernetes (Spec pb)) names vc
    \<and> list_all2 (resolvesTo (cluster_name env) (Namespace (Meta pb)) es) (vpb_Policies (Spec pb)) names"
proof -
  from assms obtain names t1 vc where
    r: "resolvePolicies (cluster_name env) (Namespace (Meta pb)) (vpb_Policies (Spec pb)) env t = (Ok names, t1)"
    and vc: "NewClient (Namespace (Meta pb)) (vpb_VaultRef (Spec pb)) env t1 = (Ok vc, t')"
    and b: "b = kubernetesSubject (vpb_Kubernetes (Spec pb)) names vc"
    unfolding NewPolicyBindingClient_def guard_run cluster_run
    by (auto simp: guard_run run_simps split: if_splits elim!: andThen_Ok)
  from resolvePolicies_Ok[OF r] obtain as where as: "t1 = t @ as"
    "list_all2 (resolvesTo (cluster_name env) (Namespace (Meta pb)) as) (vpb_Policies (Spec pb)) names" by blast
  from emitsD[OF emits_NewClient vc] obtain bs where bs: "t' = t1 @ bs" by blast
  have "list_all2 (resolvesTo (cluster_name env) (Namespace (Meta pb)) (as @ bs)) (vpb_Policies (Spec pb)) names"
    by (rule list_all2_mono[OF as(2)]) (rule resolvesTo_mono, auto)
  with as(1) bs b show ?thesis by auto
qed

text \<open>C27: a run of the policy controller on a live policy that returns no error has put the
  policy's document, or its object serialised, under the policy's name and then written the ready
  status; a run of the binding controller has resolved every policy of the binding, posted the
  authentication role with exactly these names, and then written the ready status.\<close>

theorem policy_and_binding_ready:
  "(DeletionTimestamp (Meta p) = None \<and> syncVaultPolicy p env t = (Ok (), t @ es) \<longrightarrow>
      inOrder [policyPut (cluster_name env) p, writesStatus VaultPolicies
        (setPhaseReady PolicySuccess ''policy is ready to use'' (Generation (Meta p)))] es)
   \<and> (DeletionTimestamp (Meta pb) = None \<and> syncVaultPolicyBinding pb env t = (Ok (), t @ fs) \<longrightarrow>
      (\<exists>names. list_all2 (resolvesTo (cluster_name env) (Namespace (Meta pb)) fs) (vpb_Policies (Spec pb)) names
        \<and> inOrder [bindingPosted (cluster_name env) pb names, writesStatus VaultPolicyBindings
            (setPhaseReady PolicyBindingSuccess ''policy binding is ready to use'' (Generation (Meta pb)))] fs))"
proof (intro conjI impI; elim conjE)
  assume live: "DeletionTimestamp (Meta p) = None" and run: "syncVaultPolicy p env t = (Ok (), t @ es)"
  let ?ready = "writesStatus VaultPolicies (setPhaseReady PolicySuccess ''policy is ready to use'' (Generation (Meta p)))"
  have "ensures [policyPut (cluster_name env) p, ?ready] (syncVaultPolicy p) env"
    unfolding syncVaultPolicy_def NewPolicyClientForVault_def using live
    by (simp, intro ensures_after ensureFinalizer_emits emits_wrapErr emits_mono[OF emits_NewClient] TrueI
        ensures_wrapErr ensures_reconcilePolicy)
  from ensuresD[OF this, OF run] show "inOrder [policyPut (cluster_name env) p, ?ready] es" by simp
next
  assume live: "DeletionTimestamp (Meta pb) = None" and run: "syncVaultPolicyBinding pb env t = (Ok (), t @ fs)"
  let ?ready = "writesStatus VaultPolicyBindings
    (setPhaseReady PolicyBindingSuccess ''policy binding is ready to use'' (Generation (Meta pb)))"
  let ?fin = "ensureFinalizer VaultPolicyBindings (''failed to add VaultPolicyBinding finalizer for '' @ key pb) pb"
  from live run obtain t1 b t2 where fin: "?fin env t = (Ok (), t1)" and new: "NewPolicyBindingClient pb env t1 = (Ok b, t2)"
    and rec: "reconcilePolicyBinding pb b env t2 = (Ok (), t @ fs)"
    unfolding syncVaultPolicyBinding_def by (auto simp: wrapErr_Ok elim!: andThen_Ok)
  from emitsD[OF ensureFinalizer_emits, OF fin] obtain as where as: "t1 = t @ as" by (elim exE conjE)
  from NewPolicyBindingClient_Ok[OF new] obtain bs names vc where bs: "t2 = t1 @ bs"
    and b: "b = kubernetesSubject (vpb_Kubernetes (Spec pb)) names vc"
    and names: "list_all2 (resolvesTo (cluster_name env) (Namespace (Meta pb)) bs) (vpb_Policies (Spec pb)) names" by blast
  from ensuresD[OF ensures_reconcilePolicyBinding[OF b], OF rec] obtain cs where
    cs: "t @ fs = t2 @ cs" "inOrder [bindingPosted (cluster_name env) pb names, ?ready] cs" by blast
  have fs: "fs = as @ bs @ cs" using cs(1) as bs by simp
  have "list_all2 (resolvesTo (cluster_name env) (Namespace (Meta pb)) fs) (vpb_Policies (Spec pb)) names"
    unfolding fs by (rule list_all2_mono[OF names]) (rule resolvesTo_mono, auto)
  moreover have "inOrder [bindingPosted (cluster_name env) pb names, ?ready] fs"
    unfolding fs by (intro inOrder_later cs(2))
  ultimately show "\<exists>names. list_all2 (resolvesTo (cluster_name env) (Namespace (Meta pb)) fs) (vpb_Policies (Spec pb)) names
      \<and> inOrder [bindingPosted (cluster_name env) pb names, ?ready] fs" by blast
qed

section \<open>Deleting\<close>

text \<open>The patch that takes the finalizer off an object.\<close>

definition releases :: "('s, 'st) resource client \<Rightarrow> event \<Rightarrow> bool" where
  "releases c e \<longleftrightarrow> (\<exists>x a. e = Kube (KPatch (cl_inj c x) (cl_inj c (removeFinalizer x))) a)"

lemma releases_patch: "releases c e \<Longrightarrow> \<not> noPatch e"
  by (auto simp: releases_def)

lemma emits_TryPatch [emits_intros]:
  assumes "\<And>ns n a. P (Kube (KGet (cl_Kind c) ns n) a)"
    and "\<And>x a. P (Kube (KPatch (cl_inj c x) (cl_inj c (f x))) a)"
  shows "emits P (TryPatch c cur f) env"
  unfolding TryPatch_def tryPatchOnce_def getNamed_def PatchObject_def by (intro emits_intros assms)

definition policyGone :: "string \<Rightarrow> VaultPolicy \<Rightarrow> event \<Rightarrow> bool" where
  "policyGone cluster p e \<longleftrightarrow>
     (\<exists>vc. accepted (NewRequest vc ''DELETE'' (''/v1/sys/policies/acl/'' @ PolicyName cluster p) None) e)"

definition bindingGone :: "string \<Rightarrow> VaultPolicyBinding \<Rightarrow> event \<Rightarrow> bool" where
  "bindingGone cluster pb e \<longleftrightarrow> (\<exists>b vc names. b = kubernetesSubject (vpb_Kubernetes (Spec pb)) names vc
     \<and> accepted (NewRequest vc ''DELETE'' (authRoleURL b (PolicyBindingName cluster pb)) None) e)"

lemma emits_resolvePolicies [emits_intros]:
  "(\<And>n a. P (Kube (KGet ''VaultPolicy'' ns n) a)) \<Longrightarrow> emits P (resolvePolicies cluster ns ps) env"
proof (induction ps)
  case (Cons p ps)
  have "emits P (apiGet VaultPolicies ns n) env" for n
    by (rule emits_apis) (use Cons.prems in \<open>simp add: VaultPolicies_def\<close>)
  with Cons show ?case by (auto intro!: emits_andThen emits_wrapErr emits_ret)
qed (simp add: emits_ret)

lemma emits_NewPolicyBindingClient_noPatch: "emits noPatch (NewPolicyBindingClient pb) env"
  unfolding NewPolicyBindingClient_def
  by (intro emits_andThen emits_pure emits_local emits_resolvePolicies emits_NewClient_noPatch emits_ret noPatch_simps)

lemma finalizer_patch_emits: "emits (\<lambda>_. True) (andThen (wrapErr msg (TryPatch c x f)) (\<lambda>_. ret ())) env"
  by (intro emits_intros TrueI)

text \<open>C28: when a client for Vault can be made, the finalizer of a deleted policy is removed only
  after Vault accepted the deletion of the policy, and that of a deleted binding only after Vault
  accepted the deletion of its authentication role.\<close>

theorem policy_and_binding_released:
  "(runPolicyFinalizer p env t = (r, t @ es) \<and> NewPolicyClientForVault p env t = (Ok vc, t1)
      \<and> (\<exists>e \<in> set es. releases VaultPolicies e)
      \<longrightarrow> inOrder [policyGone (cluster_name env) p, releases VaultPolicies] es)
   \<and> (runPolicyBindingFinalizer pb env t = (r, t @ fs) \<and> NewPolicyBindingClient pb env t = (Ok b, t2)
      \<and> (\<exists>e \<in> set fs. releases VaultPolicyBindings e)
      \<longrightarrow> inOrder [bindingGone (cluster_name env) pb, releases VaultPolicyBindings] fs)"
proof (intro conjI impI; elim conjE)
  assume run: "runPolicyFinalizer p env t = (r, t @ es)" and new: "NewPolicyClientForVault p env t = (Ok vc, t1)"
    and rel: "\<exists>e \<in> set es. releases VaultPolicies e"
  let ?del = "\<lambda>pClient. andThen clusterid_ClusterName (\<lambda>cluster.
        wrapErr ''failed to delete vault policy'' (vPolicy_DeletePolicy pClient (PolicyName cluster p)))"
  have "ensures [policyGone (cluster_name env) p] (?del vc) env"
    unfolding vPolicy_DeletePolicy_def DeletePolicy_def
    by (intro ensures_cluster ensures_wrapErr ensures_weaken[OF ensures_sendRequest]) (auto simp: policyGone_def)
  moreover have "emits noPatch (NewPolicyClientForVault p) env"
    unfolding NewPolicyClientForVault_def by (rule emits_NewClient_noPatch)
  moreover have "emits noPatch (?del vc) env"
    unfolding vPolicy_DeletePolicy_def DeletePolicy_def by (intro emits_intros noPatch_simps)
  ultimately show "inOrder [policyGone (cluster_name env) p, releases VaultPolicies] es"
    using released_after_cleanup[OF run[unfolded runPolicyFinalizer_def] new _ _ _ finalizer_patch_emits
        releases_patch[of VaultPolicies] rel, of "[policyGone (cluster_name env) p]"] by simp
next
  assume run: "runPolicyBindingFinalizer pb env t = (r, t @ fs)" and new: "NewPolicyBindingClient pb env t = (Ok b, t2)"
    and rel: "\<exists>e \<in> set fs. releases VaultPolicyBindings e"
  let ?del = "\<lambda>b. andThen clusterid_ClusterName (\<lambda>cluster.
        wrapErr ''failed to delete the auth role created for policy binding'' (pBinding_Delete b (PolicyBindingName cluster pb)))"
  from NewPolicyBindingClient_Ok[OF new] obtain names v where b: "b = kubernetesSubject (vpb_Kubernetes (Spec pb)) names v" by blast
  then have v: "pb_vClient b = v"
    by (simp add: kubernetesSubject_def setKubernetesDefaults_def split: option.splits)
  have "ensures [bindingGone (cluster_name env) pb] (?del b) env"
    unfolding pBinding_Delete_def
    by (intro ensures_cluster ensures_wrapErr ensures_weaken[OF ensures_sendRequest]) (use b v in \<open>auto simp: bindingGone_def\<close>)
  moreover have "emits noPatch (?del b) env" unfolding pBinding_Delete_def by (intro emits_intros noPatch_simps)
  ultimately show "inOrder [bindingGone (cluster_name env) pb, releases VaultPolicyBindings] fs"
    using released_after_cleanup[OF run[unfolded runPolicyBindingFinalizer_def] new _ _ _ finalizer_patch_emits
        releases_patch[of VaultPolicyBindings] rel, of "[bindingGone (cluster_name env) pb]"]
      emits_NewPolicyBindingClient_noPatch by simp
qed


section \<open>A binding outlives its policy\<close>

lemma resolvePolicies_missing:
  assumes "i \<in> set ps" "pid_Ref i \<noteq> ''''"
    and "\<And>t. kube_answer env t (KGet ''VaultPolicy'' ns (pid_Ref i)) = Inl e"
  shows "yields (\<lambda>_. False) (resolvePolicies cluster ns ps) env"
  using assms(1)
proof (induction ps)
  case (Cons p ps)
  show ?case
  proof (cases "p = i")
    case True
    have "yields (\<lambda>_. False) (apiGet VaultPolicies ns (pid_Ref i)) env"
      using assms(3) by (simp add: yields_def apiGet_def kubeCall_def VaultPolicies_def Let_def)
    then show ?thesis using True assms(2)
      by (auto intro!: yields_andThenI[where R = "\<lambda>_. False"] yields_wrapErr)
  next
    case False
    then have "yields (\<lambda>_. False) (resolvePolicies cluster ns ps) env" using Cons by simp
    then show ?thesis
      unfolding resolvePolicies.simps
      by (intro yields_andThen yields_andThenI[where R = "\<lambda>_. False" and m = "resolvePolicies cluster ns ps"]) auto
  qed
qed simp

definition noVault :: "event \<Rightarrow> bool" where
  "noVault e \<longleftrightarrow> (\<forall>req a. e \<noteq> Vault req a)"

lemma noVault_simps [simp]: "noVault (Kube req a)" "\<not> noVault (Vault vreq va)"
  by (simp_all add: noVault_def)

lemma apiGet_no_panic: "apiGet c ns n env t \<noteq> (Panic s, t')"
  by (auto simp: apiGet_def kubeCall_def Let_def split: sum.splits option.splits)

lemma resolvePolicies_no_panic: "resolvePolicies cluster ns ps env t \<noteq> (Panic s, t')"
proof (induction ps arbitrary: t)
  case (Cons p ps)
  then show ?case
    by (auto simp: andThen_def attempt_def wrapErr_def run_simps apiGet_no_panic split: prod.splits res.splits)
qed (simp add: run_simps)

text \<open>C29: when a policy that a deleted binding refers to cannot be read, as after its own
  deletion, the finalizer of the binding makes no request to Vault at all; when the finalizer can
  then be patched away it returns no error, and the authentication role stays in Vault.\<close>

theorem missing_policy_leaks_binding_role:
  assumes "i \<in> set (vpb_Policies (Spec pb))" and "pid_Ref i \<noteq> ''''"
    and "\<And>t. kube_answer env t (KGet ''VaultPolicy'' (Namespace (Meta pb)) (pid_Ref i)) = Inl e"
  shows "emits noVault (runPolicyBindingFinalizer pb) env
    \<and> ((\<forall>t1. \<exists>x t2. TryPatch VaultPolicyBindings pb removeFinalizer env t1 = (Ok x, t2))
        \<longrightarrow> fst (runPolicyBindingFinalizer pb env t) = Ok ())"
proof
  let ?res = "\<lambda>cluster. resolvePolicies cluster (Namespace (Meta pb)) (vpb_Policies (Spec pb))"
  have ne: "vpb_Policies (Spec pb) \<noteq> []" using assms(1) by auto
  have no: "yields (\<lambda>_. False) (?res cluster) env" for cluster
    by (rule resolvePolicies_missing[OF assms])
  have new: "\<exists>e' t'. NewPolicyBindingClient pb env t = (Err e', t')" for t
  proof -
    obtain r t' where r: "?res (cluster_name env) env t = (r, t')" by fastforce
    then obtain e' where "r = Err e'"
      using no[of "cluster_name env"] resolvePolicies_no_panic by (cases r) (auto simp: yields_def)
    with r ne show ?thesis
      by (simp add: NewPolicyBindingClient_def guard_run cluster_run) (simp add: andThen_def attempt_def run_simps)
  qed
  have quiet: "emits noVault (NewPolicyBindingClient pb) env"
    unfolding NewPolicyBindingClient_def
    by (intro emits_andThen[OF emits_pure(2)] emits_andThen[OF emits_local(4)]
        emits_andThen_yields[OF _ no] emits_resolvePolicies noVault_simps) simp_all
  have never: "yields (\<lambda>_. False) (NewPolicyBindingClient pb) env"
  proof -
    have "NewPolicyBindingClient pb env t \<noteq> (Ok v, t')" for t v t' using new[of t] by auto
    then show ?thesis by (simp add: yields_def)
  qed
  show "emits noVault (runPolicyBindingFinalizer pb) env"
    unfolding runPolicyBindingFinalizer_def
    by (intro emits_andThen emits_attempt_yields[OF quiet never] emits_wrapErr emits_TryPatch emits_ret noVault_simps) simp_all
  show "(\<forall>t1. \<exists>x t2. TryPatch VaultPolicyBindings pb removeFinalizer env t1 = (Ok x, t2))
        \<longrightarrow> fst (runPolicyBindingFinalizer pb env t) = Ok ()"
  proof
    assume patch: "\<forall>t1. \<exists>x t2. TryPatch VaultPolicyBindings pb removeFinalizer env t1 = (Ok x, t2)"
    obtain e' t' where n: "NewPolicyBindingClient pb env t = (Err e', t')" using new by blast
    obtain x t2 where "TryPatch VaultPolicyBindings pb removeFinalizer env t' = (Ok x, t2)" using patch by blast
    then show "fst (runPolicyBindingFinalizer pb env t) = Ok ()"
      by (simp add: runPolicyBindingFinalizer_def andThen_def attempt_def wrapErr_def n run_simps)
  qed
qed

section \<open>Witnesses\<close>

definition demoPolicy :: VaultPolicy where
  "demoPolicy = \<lparr>Meta = ObjectMeta0 ''reader'' ''demo'',
     Spec = \<lparr>vp_VaultRef = ''vault'', vp_VaultPolicyName = '''', vp_PolicyDocument = ''path sys/* {}'', vp_Policy = None\<rparr>,
     Status = RoleStatus0\<rparr>"

definition demoBinding :: VaultPolicyBinding where
  "demoBinding = \<lparr>Meta = ObjectMeta0 ''readers'' ''demo'',
     Spec = \<lparr>vpb_VaultRef = ''vault'', vpb_VaultRoleName = '''',
       vpb_Policies = [\<lparr>pid_Name = ''default'', pid_Ref = ''''\<rparr>, \<lparr>pid_Name = '''', pid_Ref = ''reader''\<rparr>],
       vpb_Kubernetes = Some \<lparr>ks_Path = '''', ks_ServiceAccountNames = [''app''], ks_ServiceAccountNamespaces = [''demo''],
         ks_TTL = ''1h'', ks_MaxTTL = '''', ks_Period = ''''\<rparr>\<rparr>,
     Status = RoleStatus0\<rparr>"

definition policyGet :: "string \<Rightarrow> string \<Rightarrow> string \<Rightarrow> error + obj" where
  "policyGet k ns n =
     (if k = ''VaultPolicy'' then Inr (VaultPolicyObj demoPolicy)
      else if k = ''VaultPolicyBinding'' then
        Inr (VaultPolicyBindingObj (demoBinding\<lparr>Meta := (Meta demoBinding)\<lparr>Finalizers := [Finalizer]\<rparr>\<rparr>))
      else demoGet k ns n)"

definition policyEnv :: env where
  "policyEnv = echoEnv policyGet demoVault (\<lambda>k ky. Inr None)"

theorem policy_and_binding_ready_witness:
  "\<exists>names. list_all2 (resolvesTo '''' ''demo'' (snd (syncVaultPolicyBinding demoBinding policyEnv [])))
       (vpb_Policies (Spec demoBinding)) names
     \<and> inOrder [bindingPosted '''' demoBinding names, writesStatus VaultPolicyBindings
         (setPhaseReady PolicyBindingSuccess ''policy binding is ready to use'' (Generation (Meta demoBinding)))]
         (snd (syncVaultPolicyBinding demoBinding policyEnv []))"
proof -
  let ?r = "syncVaultPolicyBinding demoBinding policyEnv []"
  have "fst ?r = Ok ()" by code_simp
  then have run: "?r = (Ok (), [] @ snd ?r)" by (simp add: prod_eq_iff)
  have m: "DeletionTimestamp (Meta demoBinding) = None" "Namespace (Meta demoBinding) = ''demo''" by code_simp+
  have env: "cluster_name policyEnv = ''''" by (simp add: policyEnv_def echoEnv_def)
  from policy_and_binding_ready[THEN conjunct2, rule_format, OF conjI[OF m(1) run]] show ?thesis
    unfolding env m(2) .
qed

text \<open>The binding was read before it was deleted, so that the patch takes the finalizer off.\<close>

theorem policy_and_binding_released_witness:
  "inOrder [bindingGone '''' demoBinding, releases VaultPolicyBindings]
     (snd (runPolicyBindingFinalizer demoBinding policyEnv []))"
proof -
  let ?f = "runPolicyBindingFinalizer demoBinding policyEnv []"
  let ?n = "NewPolicyBindingClient demoBinding policyEnv []"
  let ?x = "demoBinding\<lparr>Meta := (Meta demoBinding)\<lparr>Finalizers := [Finalizer]\<rparr>\<rparr>"
  have run: "?f = (fst ?f, [] @ snd ?f)" by simp
  have "(case fst ?n of Ok x \<Rightarrow> True | _ \<Rightarrow> False)" by code_simp
  then obtain b where new: "?n = (Ok b, snd ?n)" by (cases "fst ?n") (auto simp: prod_eq_iff)
  have "Kube (KPatch (VaultPolicyBindingObj ?x) (VaultPolicyBindingObj (removeFinalizer ?x)))
      (Inr (VaultPolicyBindingObj (removeFinalizer ?x))) \<in> set (snd ?f)" by code_simp
  moreover have "cl_inj VaultPolicyBindings = VaultPolicyBindingObj" by (simp add: VaultPolicyBindings_def)
  ultimately have rel: "\<exists>e \<in> set (snd ?f). releases VaultPolicyBindings e" unfolding releases_def by metis
  have env: "cluster_name policyEnv = ''''" by (simp add: policyEnv_def echoEnv_def)
  from policy_and_binding_released[THEN conjunct2, rule_format, OF conjI[OF run conjI[OF new rel]]] show ?thesis
    unfolding env .
qed

definition noPolicyEnv :: env where
  "noPolicyEnv = echoEnv (\<lambda>k ns n. if k = ''VaultPolicy'' then Inl (StatusError NotFound ''gone'') else policyGet k ns n)
     demoVault (\<lambda>k ky. Inr None)"

theorem missing_policy_leaks_binding_role_witness:
  "emits noVault (runPolicyBindingFinalizer demoBinding) noPolicyEnv
   \<and> fst (runPolicyBindingFinalizer demoBinding noPolicyEnv []) = Ok ()"
proof
  let ?i = "\<lparr>pid_Name = '''', pid_Ref = ''reader''\<rparr>"
  have i: "?i \<in> set (vpb_Policies (Spec demoBinding))" "pid_Ref ?i \<noteq> ''''" by (simp_all add: demoBinding_def)
  have "kube_answer noPolicyEnv t (KGet ''VaultPolicy'' (Namespace (Meta demoBinding)) (pid_Ref ?i))
      = Inl (StatusError NotFound ''gone'')" for t by (simp add: noPolicyEnv_def echoEnv_def)
  from missing_policy_leaks_binding_role[OF i this] show "emits noVault (runPolicyBindingFinalizer demoBinding) noPolicyEnv" by blast
  show "fst (runPolicyBindingFinalizer demoBinding noPolicyEnv []) = Ok ()" by code_simp
qed

end
