(* ===== verification/Retry_Theorems.thy ===== *)
theory Retry_Theorems
  imports Policies Status_Theorems
begin

text \<open>
  The retry loops of the client utilities: how many calls they make at most,
  when a status update gets through, and why a failed read ends the retrying
  patch.
\<close>

section \<open>How many calls\<close>

text \<open>\<open>costs n m env\<close>: \<open>m\<close> makes at most \<open>n\<close> calls.\<close>

definition costs :: "nat \<Rightarrow> ('env, 'ev, 'a) gom \<Rightarrow> 'env \<Rightarrow> bool" where
  "costs n m env \<longleftrightarrow> (\<forall>t. length (snd (m env t)) \<le> length t + n)"

lemma costsD: "costs n m env \<Longrightarrow> m env t = (r, t') \<Longrightarrow> length t' \<le> length t + n"
  by (metis costs_def snd_conv)


lemma costs_ret: "costs n (ret v) env"
  and costs_fail: "costs n (fail e) env"
  and costs_panic: "costs n (panic s) env"
  and costs_Now: "costs n metav1_Now world"
  by (simp_all add: costs_def go_defs)

lemmas costs_free = costs_ret costs_fail costs_panic costs_Now

lemma costs_attempt:
  assumes m: "costs a m env" and h: "\<And>e. costs b (h e) env" and k: "\<And>v. costs b (k v) env"
  shows "costs (a + b) (attempt m h k) env"
  unfolding costs_def
proof
  fix t
  obtain r t1 where r: "m env t = (r, t1)" by fastforce
  have t1: "length t1 \<le> length t + a" by (rule costsD[OF m r])
  have "length (snd (h e env t1)) \<le> length t1 + b" "length (snd (k v env t1)) \<le> length t1 + b" for e v
    using h k by (auto simp: costs_def)
  then have "length (snd (h e env t1)) \<le> length t + (a + b)" "length (snd (k v env t1)) \<le> length t + (a + b)" for e v
    using t1 by (metis (no_types, lifting) add.assoc add_le_mono1 order_trans)+
  then show "length (snd (attempt m h k env t)) \<le> length t + (a + b)"
    using r t1 by (cases r) (simp_all add: attempt_def)
qed

lemma costs_andThen: "costs a m env \<Longrightarrow> (\<And>v. costs b (k v) env) \<Longrightarrow> costs (a + b) (andThen m k) env"
  unfolding andThen_def by (rule costs_attempt) (simp_all add: costs_free)

lemma costs_call: "costs (Suc 0) (kubeCall req prj) env"
  by (simp add: costs_def kubeCall_def Let_def)

lemma costs_api: "costs (Suc 0) (apiGet c ns n) env" "costs (Suc 0) (apiUpdateStatus c r) env"
  "costs (Suc 0) (apiUpdate c x) env" "costs (Suc 0) (apiPatch c x y) env"
  by (simp_all add: api_defs costs_call)

lemma costs_WaitFor:
  assumes "\<And>s. costs k (cond s) env"
  shows "costs (Suc n * k) (WaitFor n cond s) env"
proof (induction n arbitrary: s)
  case 0
  have "costs 0 ((\<lambda>(s', p). case p of Done \<Rightarrow> ret (s', None) | Stop e \<Rightarrow> ret (s', Some e)
     | Again \<Rightarrow> ret (s', Some ErrWaitTimeout)) v) env" for v
    by (auto simp: costs_free split: prod.splits poll.splits)
  from costs_andThen[OF assms this] show ?case by simp
next
  case (Suc n)
  have "costs (Suc n * k) ((\<lambda>(s', p). case p of Done \<Rightarrow> ret (s', None) | Stop e \<Rightarrow> ret (s', Some e)
     | Again \<Rightarrow> WaitFor n cond s') v) env" for v
    using Suc by (auto simp: costs_free split: prod.splits poll.splits)
  from costs_andThen[OF assms this] show ?case by (simp add: add.commute)
qed

text \<open>The polling part of a retry loop, when at most \<open>N\<close> ticks arrive.\<close>

lemma costs_poll:
  assumes "\<And>t. poll_ticks env t \<le> N" and "\<And>s. costs k (cond s) env" and "\<And>v. costs 0 (g v) env"
  shows "costs (Suc (Suc N) * k) (andThen pollTicks (\<lambda>n. andThen (PollImmediate n cond s) g)) env"
  unfolding costs_def
proof
  fix t
  let ?n = "poll_ticks env t"
  have "costs (Suc (Suc ?n) * k + 0) (andThen (PollImmediate ?n cond s) g) env"
    unfolding PollImmediate_def by (rule costs_andThen[OF costs_WaitFor]) (rule assms)+
  then have "length (snd (andThen (PollImmediate ?n cond s) g env t)) \<le> length t + Suc (Suc ?n) * k"
    by (simp add: costs_def)
  also have "\<dots> \<le> length t + Suc (Suc N) * k" using assms(1)[of t] by (intro add_left_mono mult_right_mono) simp_all
  finally show "length (snd (andThen pollTicks (\<lambda>n. andThen (PollImmediate n cond s) g) env t))
      \<le> length t + Suc (Suc N) * k"
    by (simp add: andThen_def attempt_def pollTicks_def)
qed

lemma costs_updateStatusOnce: "costs 2 (updateStatusOnce c meta f err s) env"
proof -
  obtain cur tries where s: "s = (cur, tries)" by fastforce
  let ?again = "attempt (apiGet c (Namespace meta) (Name meta))
      (\<lambda>e3. if IsRequestRetryable e3 then ret ((cur, Suc tries), Again) else ret ((cur, Suc tries), Stop e3))
      (\<lambda>latest. ret ((latest, Suc tries), Again))"
  have "costs (Suc 0 + 0) ?again env" by (intro costs_attempt costs_api costs_free) (simp add: costs_free)
  then have "costs (0 + (Suc 0 + Suc 0)) (updateStatusOnce c meta f err s) env"
    unfolding updateStatusOnce_def s prod.case
    by (intro costs_andThen costs_attempt costs_api costs_free) (simp_all add: costs_free)
  then show ?thesis by (simp add: numeral_2_eq_2)
qed

lemma costs_tryUpdateOnce: "costs 2 (tryUpdateOnce c meta f s) env"
proof -
  obtain result tries where s: "s = (result, tries)" by fastforce
  have "costs (Suc 0 + 0) (attempt (apiUpdate c (f cur)) (\<lambda>e2. ret ((result, Suc tries), Again))
      (\<lambda>x. ret ((Some x, Suc tries), Done))) env" for cur
    by (intro costs_attempt costs_api costs_free)
  then have "costs (Suc 0 + Suc 0) (tryUpdateOnce c meta f s) env"
    unfolding tryUpdateOnce_def s prod.case by (intro costs_attempt costs_api) (simp_all add: costs_free)
  then show ?thesis by (simp add: numeral_2_eq_2)
qed

lemma costs_tryPatchOnce: "costs 2 (tryPatchOnce c f s) env"
proof -
  obtain ns n out tries where s: "s = ((ns, n), out, tries)" by (cases s) auto
  have get: "costs (Suc 0) (getNamed c ns n) env" by (simp add: getNamed_def costs_api costs_free)
  have "costs (Suc 0) (PatchObject c cur (f cur)) env" for cur by (simp add: PatchObject_def costs_api costs_free)
  then have "costs (Suc 0 + 0) (attempt (PatchObject c cur (f cur)) (\<lambda>e2. ret ((at, None, Suc tries), Again))
      (\<lambda>x. ret ((at, Some x, Suc tries), Done))) env" for cur and at :: "string \<times> string"
    by (intro costs_attempt costs_free)
  then have "costs (Suc 0 + Suc 0) (tryPatchOnce c f s) env"
    unfolding tryPatchOnce_def s prod.case Let_def by (intro costs_attempt get) (simp_all add: costs_free)
  then show ?thesis by (simp add: numeral_2_eq_2)
qed

text \<open>C30: the retry loops end: when at most N ticks arrive before the timeout, a status update
  makes at most 2 N + 5 calls, and the retrying update and patch at most 2 N + 4, whatever the
  API server answers.\<close>

theorem retries_are_bounded:
  assumes "\<And>t. poll_ticks env t \<le> N"
  shows "length (snd (UpdateStatus c meta f env t)) \<le> length t + (2 * N + 5)
    \<and> length (snd (TryUpdate c' meta g env t)) \<le> length t + (2 * N + 4)
    \<and> length (snd (TryPatch c' cur g env t)) \<le> length t + (2 * N + 4)"
proof -
  have up: "costs (Suc (Suc N) * 2) (andThen pollTicks (\<lambda>n. andThen (PollImmediate n (updateStatusOnce c meta f None) s) k)) env"
    if "\<And>v. costs 0 (k v) env" for s and k :: "_ \<Rightarrow> 'x go"
    by (rule costs_poll[OF assms costs_updateStatusOnce that])
  have "costs (Suc 0 + Suc (Suc N) * 2) (UpdateStatus c meta f) env"
    unfolding UpdateStatus_def Let_def
    by (intro costs_andThen[OF costs_api(1)] up) (simp add: costs_free split: prod.splits option.splits)
  moreover have "costs (Suc (Suc N) * 2) (TryUpdate c' meta g) env"
    unfolding TryUpdate_def
    by (rule costs_poll[OF assms costs_tryUpdateOnce]) (simp add: costs_free split: prod.splits option.splits)
  moreover have "costs (Suc (Suc N) * 2) (TryPatch c' cur g) env"
    unfolding TryPatch_def
    by (rule costs_poll[OF assms costs_tryPatchOnce]) (simp add: costs_free split: prod.splits option.splits)
  moreover have "Suc 0 + Suc (Suc N) * 2 = 2 * N + 5" "Suc (Suc N) * 2 = 2 * N + 4" by simp_all
  ultimately show ?thesis unfolding costs_def by metis
qed

theorem retries_are_bounded_witness:
  "length (snd (UpdateStatus AWSRoles (Meta demoAWSRole) (\<lambda>now st. st) demoEnv [])) \<le> 11"
proof -
  have "poll_ticks demoEnv t \<le> 3" for t by (simp add: demoEnv_def echoEnv_def)
  from retries_are_bounded[OF this, of AWSRoles "Meta demoAWSRole" "\<lambda>now st. st" "[]" AWSRoles id] show ?thesis by simp
qed


section \<open>A failed read ends the retrying patch\<close>

lemma WaitFor_nameless:
  "WaitFor n (tryPatchOnce c f) (('''', ''''), out, tries) env t =
     (Ok (((('''', ''''), out, Suc n + tries)), Some ErrWaitTimeout), t)"
proof (induction n arbitrary: tries)
  case 0
  show ?case by (simp add: tryPatchOnce_def getNamed_def andThen_def attempt_def run_simps)
next
  case (Suc n)
  then show ?case by (simp add: tryPatchOnce_def getNamed_def andThen_def attempt_def run_simps)
qed

text \<open>When the first read of the retrying patch fails with an error other than not found, the
  loop keeps the zero object it was given with the error, no attempt after it sends a request, and the
  patch fails with a timeout after one call.\<close>

theorem failed_read_ends_retries:
  assumes "kube_answer env t (KGet (cl_Kind c) (Namespace (cl_Meta c cur)) (Name (cl_Meta c cur))) = Inl e"
    and "\<not> IsNotFound e" and "Name (cl_Meta c cur) \<noteq> ''''"
  shows "TryPatch c cur f env t =
    (Err (Plain (''failed to patch '' @ cl_Kind c @ '' / after '' @ string_of_nat (poll_ticks env t + 2)
        @ '' attempts due to timed out waiting for the condition'')),
     t @ [Kube (KGet (cl_Kind c) (Namespace (cl_Meta c cur)) (Name (cl_Meta c cur))) (Inl e)])"
proof -
  let ?t1 = "t @ [Kube (KGet (cl_Kind c) (Namespace (cl_Meta c cur)) (Name (cl_Meta c cur))) (Inl e)]"
  have "tryPatchOnce c f ((Namespace (cl_Meta c cur), Name (cl_Meta c cur)), None, 0) env t
      = (Ok (((('''', ''''), None, Suc 0)), Again), ?t1)"
    using assms by (simp add: tryPatchOnce_def getNamed_def apiGet_def kubeCall_def attempt_def run_simps)
  then have "PollImmediate (poll_ticks env t) (tryPatchOnce c f)
      ((Namespace (cl_Meta c cur), Name (cl_Meta c cur)), None, 0) env t
      = (Ok (((('''', ''''), None, poll_ticks env t + 2)), Some ErrWaitTimeout), ?t1)"
    by (simp add: PollImmediate_def andThen_def attempt_def WaitFor_nameless)
  then show ?thesis
    by (simp add: TryPatch_def andThen_def attempt_def pollTicks_def run_simps slash_def ErrWaitTimeout_def)
qed

definition brokenReads :: env where
  "brokenReads = echoEnv (\<lambda>k ns n. Inl (StatusError ServiceUnavailable ''busy'')) demoVault (demoCache demoRequest)"

theorem failed_read_ends_retries_witness:
  "length (snd (TryPatch AWSRoles demoAWSRole removeFinalizer brokenReads [])) = 1"
proof -
  have "kube_answer brokenReads [] (KGet (cl_Kind AWSRoles) (Namespace (cl_Meta AWSRoles demoAWSRole))
      (Name (cl_Meta AWSRoles demoAWSRole))) = Inl (StatusError ServiceUnavailable ''busy'')"
    by (simp add: brokenReads_def echoEnv_def)
  moreover have "Name (cl_Meta AWSRoles demoAWSRole) \<noteq> ''''"
    by (simp add: AWSRoles_def demoAWSRole_def ObjectMeta0_def)
  ultimately show ?thesis using failed_read_ends_retries[of brokenReads "[]" AWSRoles demoAWSRole _ removeFinalizer] by simp
qed

section \<open>Conflicts are survived\<close>

text \<open>How many status updates have been sent.\<close>

definition updates :: "trace \<Rightarrow> nat" where
  "updates t = length (filter isStatusUpdate t)"

lemma updates_simps [simp]:
  "updates [] = 0" "updates (t @ t') = updates t + updates t'"
  "updates (Kube (KUpdateStatus ob) a # t) = Suc (updates t)" "updates (Kube (KGet k ns n) b # t) = updates t"
  by (simp_all add: updates_def isStatusUpdate_def)

lemma WaitFor_conflicts:
  assumes get: "\<And>t. \<exists>x. kube_answer env t (KGet (cl_Kind c) (Namespace meta) (Name meta)) = Inr (cl_inj c x)"
    and upd: "\<And>t x. kube_answer env t (KUpdateStatus (cl_inj c x)) =
      (if updates t < u then Inl (StatusError Conflict m) else Inr (cl_inj c x))"
    and typed: "\<And>x. cl_prj c (cl_inj c x) = Some x"
  shows "u \<le> updates t + n \<Longrightarrow>
    \<exists>s t'. WaitFor n (updateStatusOnce c meta f None) (cur, tries) env t = (Ok (s, None), t')"
proof (induction n arbitrary: cur tries t)
  case 0
  then show ?case
    by (simp add: updateStatusOnce_def metav1_Now_def apiUpdateStatus_def kubeCall_def upd typed andThen_def attempt_def run_simps)
next
  case (Suc n)
  let ?new = "cur\<lparr>Status := f (clock env t) (Status cur)\<rparr>"
  show ?case
  proof (cases "updates t < u")
    case False
    then show ?thesis
      by (simp add: updateStatusOnce_def metav1_Now_def apiUpdateStatus_def kubeCall_def upd typed andThen_def attempt_def run_simps)
  next
    case True
    let ?t1 = "t @ [Kube (KUpdateStatus (cl_inj c ?new)) (Inl (StatusError Conflict m))]"
    obtain x where x: "kube_answer env ?t1 (KGet (cl_Kind c) (Namespace meta) (Name meta)) = Inr (cl_inj c x)"
      using get by blast
    let ?t2 = "?t1 @ [Kube (KGet (cl_Kind c) (Namespace meta) (Name meta)) (Inr (cl_inj c x))]"
    have "updateStatusOnce c meta f None (cur, tries) env t = (Ok ((x, Suc tries), Again), ?t2)"
      using True x by (simp add: updateStatusOnce_def metav1_Now_def api_defs kubeCall_def upd typed
          andThen_def attempt_def run_simps)
    moreover have "u \<le> updates ?t2 + n" using Suc.prems by simp
    ultimately show ?thesis using Suc.IH[of ?t2 x "Suc tries"] by (simp add: andThen_def attempt_def)
  qed
qed

text \<open>C31: a status update gets through when the API server answers reads and refuses at most as
  many of its writes with a conflict as there are ticks before the timeout, plus one.\<close>

theorem conflicts_are_survived:
  assumes "\<And>t. \<exists>x. kube_answer env t (KGet (cl_Kind c) (Namespace meta) (Name meta)) = Inr (cl_inj c x)"
    and "\<And>t x. kube_answer env t (KUpdateStatus (cl_inj c x)) =
      (if updates t < updates t0 + k then Inl (StatusError Conflict m) else Inr (cl_inj c x))"
    and "\<And>x. cl_prj c (cl_inj c x) = Some x"
    and "\<And>t. k \<le> Suc (poll_ticks env t)"
  shows "\<exists>x t'. UpdateStatus c meta f env t0 = (Ok x, t')"
proof -
  obtain x where x: "kube_answer env t0 (KGet (cl_Kind c) (Namespace meta) (Name meta)) = Inr (cl_inj c x)"
    using assms(1) by blast
  let ?t1 = "t0 @ [Kube (KGet (cl_Kind c) (Namespace meta) (Name meta)) (Inr (cl_inj c x))]"
  have "updates t0 + k \<le> updates ?t1 + Suc (poll_ticks env ?t1)" using assms(4)[of ?t1] by simp
  from WaitFor_conflicts[OF assms(1,2,3) this] obtain s t' where
    "WaitFor (Suc (poll_ticks env ?t1)) (updateStatusOnce c meta f None) (x, 0) env ?t1 = (Ok (s, None), t')" by blast
  then show ?thesis
    using x assms(3)
    by (cases s) (auto simp del: WaitFor.simps simp: UpdateStatus_def apiGet_def kubeCall_def andThen_def attempt_def
        pollTicks_def PollImmediate_def run_simps Let_def)
qed

text \<open>An API server that refuses the first two status updates.\<close>

definition busyEnv :: env where
  "busyEnv = demoEnv\<lparr>kube_answer := (\<lambda>t req. case req of
       KGet k ns n \<Rightarrow> Inr (AWSRoleObj demoAWSRole)
     | KUpdateStatus ob \<Rightarrow> (if updates t < 2 then Inl (StatusError Conflict ''busy'') else Inr ob)
     | _ \<Rightarrow> Inl (Plain ''''))\<rparr>"

theorem conflicts_are_survived_witness:
  "\<exists>x t'. UpdateStatus AWSRoles (Meta demoAWSRole) setRoleProcessing busyEnv [] = (Ok x, t')"
proof (rule conflicts_are_survived[where k = 2 and m = "''busy''"])
  show "\<exists>x. kube_answer busyEnv t (KGet (cl_Kind AWSRoles) (Namespace (Meta demoAWSRole)) (Name (Meta demoAWSRole)))
      = Inr (cl_inj AWSRoles x)" for t
    by (simp add: busyEnv_def AWSRoles_def)
qed (simp_all add: busyEnv_def AWSRoles_def demoEnv_def echoEnv_def)

end
