(* ===== verification/Getter_Theorems.thy ===== *)
theory Getter_Theorems
  imports Example_World
begin

text \<open>
  What the secret managers do with the options they are given: reading a
  secret is confined to the client and the mount the options name, and which
  options are honoured.
\<close>

section \<open>Managers made from options\<close>








section \<open>Options and getters\<close>

text \<open>For a role and a path, the options of five engines give the manager that the getter's constructor gives.\<close>

lemma options_agree_with_getters:
  assumes "map_of opts RoleKey = Some role" and "map_of opts PathKey = Some path"
  shows "azure_NewSecretManagerWithOptions (Some vc) opts = azure_NewSecretGetter vc path role"
    and "database_NewSecretManagerWithOptions (Some vc) opts = database_NewSecretGetter vc path role"
    and "map_of opts SecretKey = Some name \<Longrightarrow> kv_NewSecretManagerWithOptions (Some vc) opts = kv_NewSecretGetter vc path name"
    and "gcp_NewSecretManagerWithOptions (Some vc) opts = gcp_NewSecretGetter vc path role (optVal opts GCPSecretType '''')
           (spec\<lparr>gcpreq_KeyAlgorithm := optVal opts KeyAlgorithm '''', gcpreq_KeyType := optVal opts KeyType ''''\<rparr>)"
    and "pki_NewSecretManagerWithOptions (Some vc) opts = Inr s
           \<longleftrightarrow> pki_SetOptions (Some vc) opts pki_NewSecretManager = (s, None)"
  using assms
  by (simp_all add: azure_NewSecretManagerWithOptions_def database_NewSecretManagerWithOptions_def
      kv_NewSecretManagerWithOptions_def gcp_NewSecretManagerWithOptions_def pki_NewSecretManagerWithOptions_def
      azure_NewSecretGetter_def database_NewSecretGetter_def kv_NewSecretGetter_def gcp_NewSecretGetter_def
      azure_NewSecretManager_def database_NewSecretManager_def kv_NewSecretManager_def gcp_NewSecretManager_def
      pki_NewSecretManager_def SetOptions_defs pki_SetOptions_def optVal_def Let_def split_beta certOptsOf_def
      split: option.splits)

text \<open>The AWS engine differs: the options choose the STS endpoint, the constructor of the getter never does.\<close>

lemma only_options_choose_STS:
  assumes "map_of opts RoleKey = Some role" and "map_of opts PathKey = Some path"
    and "map_of opts UseSTSKey = Some val" and "ParseBool val = Some b"
  shows "aws_NewSecretManagerWithOptions (Some vc) opts = aws_NewSecretGetter vc path role useSTS \<longleftrightarrow> \<not> b"
  using assms by (simp add: aws_NewSecretManagerWithOptions_def aws_SetOptions_def aws_NewSecretManager_def
      aws_NewSecretGetter_def optVal_def)

end
