(* ===== verification/Admission.thy ===== *)
theory Admission
  imports Access_Request
begin

text \<open>
  The admission webhooks of \<open>pkg/admission\<close>: the validators of the four kinds of
  access requests, the mutators of policy bindings and Vault servers, and the
  validator of Vault servers.  A raw object is what it decodes to.  A JSON
  patch is the object it turns the submitted one into.
\<close>

section \<open>Requests and responses\<close>

datatype Operation = OpCreate | OpUpdate | OpDelete | OpConnect

record AdmissionRequest =
  areq_Operation :: Operation
  areq_SubResource :: string
  areq_Group :: string
  areq_Kind :: string
  areq_Object :: "error + obj"
  areq_OldObject :: "error + obj"

record AdmissionResponse =
  ar_Allowed :: bool
  ar_Code :: nat
  ar_Message :: string
  ar_Patch :: "obj option"

definition allowed :: AdmissionResponse where
  "allowed = \<lparr>ar_Allowed = True, ar_Code = 0, ar_Message = '''', ar_Patch = None\<rparr>"

definition refused :: "nat \<Rightarrow> string \<Rightarrow> AdmissionResponse" where
  "refused code msg = \<lparr>ar_Allowed = False, ar_Code = code, ar_Message = msg, ar_Patch = None\<rparr>"

definition StatusUninitialized :: AdmissionResponse where
  "StatusUninitialized = refused 500 ''not initialized''"

definition StatusInternalServerError :: "error \<Rightarrow> AdmissionResponse" where
  "StatusInternalServerError err = refused 500 (Error err)"

definition StatusBadRequest :: "error \<Rightarrow> AdmissionResponse" where
  "StatusBadRequest err = refused 400 (Error err)"

definition StatusForbidden :: "error \<Rightarrow> AdmissionResponse" where
  "StatusForbidden err = refused 403 (Error err)"

lemma response_simps [simp]:
  "ar_Allowed allowed" "ar_Patch allowed = None" "\<not> ar_Allowed (refused code msg)"
  "\<not> ar_Allowed StatusUninitialized" "\<not> ar_Allowed (StatusBadRequest err)"
  "\<not> ar_Allowed (StatusForbidden err)" "\<not> ar_Allowed (StatusInternalServerError err)"
  by (simp_all add: allowed_def refused_def StatusUninitialized_def StatusBadRequest_def
      StatusForbidden_def StatusInternalServerError_def)

text \<open>The requests a hook looks at.\<close>

definition concerns :: "Operation set \<Rightarrow> string \<Rightarrow> string \<Rightarrow> AdmissionRequest \<Rightarrow> bool" where
  "concerns ops grp kind req \<longleftrightarrow>
     areq_Operation req \<in> ops \<and> areq_SubResource req = ''''
     \<and> areq_Group req = grp \<and> areq_Kind req = kind"


section \<open>Access requests\<close>

text \<open>
  The four validators have the same text up to the kind.  The difference of two
  specs is empty exactly if they are equal; the text of a difference is left
  out of the message.
\<close>

definition isApprovedOrDenied :: "Condition list \<Rightarrow> bool" where
  "isApprovedOrDenied conds \<longleftrightarrow>
     (\<exists>c \<in> set conds. cond_Type c = ConditionRequestApproved \<or> cond_Type c = ConditionRequestDenied)"

definition accessRequestAdmit ::
    "'spec accessRequest client \<Rightarrow> bool \<Rightarrow> AdmissionRequest \<Rightarrow> AdmissionResponse go" where
  "accessRequestAdmit c initialized req =
    (if \<not> concerns {OpUpdate} ''engine.kubevault.com'' (cl_Kind c) req then ret allowed
     else if \<not> initialized then ret StatusUninitialized
     else (case areq_Object req of
       Inl err \<Rightarrow> ret (StatusBadRequest err)
     | Inr ob \<Rightarrow> (case areq_OldObject req of
         Inl err \<Rightarrow> ret (StatusBadRequest err)
       | Inr oldOb \<Rightarrow> (case cl_prj c ob of
           None \<Rightarrow> panic ''interface conversion''
         | Some akReq \<Rightarrow> (case cl_prj c oldOb of
             None \<Rightarrow> panic ''interface conversion''
           | Some oldReq \<Rightarrow>
               if isApprovedOrDenied (req_Conditions (Status akReq)) \<and> Spec oldReq \<noteq> Spec akReq
               then ret (StatusBadRequest (Plain
                      ''once request is approved or denied, .spec can not be changed.''))
               else ret allowed)))))"

definition AWSAccessKeyRequestValidator_Admit :: "bool \<Rightarrow> AdmissionRequest \<Rightarrow> AdmissionResponse go" where
  "AWSAccessKeyRequestValidator_Admit = accessRequestAdmit AWSAccessKeyRequests"

definition AzureAccessKeyRequestValidator_Admit :: "bool \<Rightarrow> AdmissionRequest \<Rightarrow> AdmissionResponse go" where
  "AzureAccessKeyRequestValidator_Admit = accessRequestAdmit AzureAccessKeyRequests"

definition GCPAccessKeyRequestValidator_Admit :: "bool \<Rightarrow> AdmissionRequest \<Rightarrow> AdmissionResponse go" where
  "GCPAccessKeyRequestValidator_Admit = accessRequestAdmit GCPAccessKeyRequests"

definition DatabaseAccessRequestValidator_Admit :: "bool \<Rightarrow> AdmissionRequest \<Rightarrow> AdmissionResponse go" where
  "DatabaseAccessRequestValidator_Admit = accessRequestAdmit DatabaseAccessRequests"


section \<open>Mutators\<close>

definition mutated :: "obj \<Rightarrow> AdmissionResponse" where
  "mutated ob = allowed\<lparr>ar_Patch := Some ob\<rparr>"

lemma mutated_simps [simp]: "ar_Allowed (mutated ob)" "ar_Patch (mutated ob) = Some ob"
  by (simp_all add: mutated_def)

definition setDefaultValues :: "string \<Rightarrow> VaultPolicyBinding \<Rightarrow> VaultPolicyBinding" where
  "setDefaultValues = VaultPolicyBinding_SetDefaults"

definition PolicyBindingMutator_Admit :: "bool \<Rightarrow> AdmissionRequest \<Rightarrow> AdmissionResponse go" where
  "PolicyBindingMutator_Admit initialized req =
    (if \<not> concerns {OpCreate, OpUpdate} ''policy.kubevault.com'' ''VaultPolicyBinding'' req then ret allowed
     else if \<not> initialized then ret StatusUninitialized
     else (case areq_Object req of
       Inl err \<Rightarrow> ret (StatusBadRequest err)
     | Inr ob \<Rightarrow> (case cl_prj VaultPolicyBindings ob of
         None \<Rightarrow> panic ''interface conversion''
       | Some pb \<Rightarrow> andThen clusterid_ClusterName (\<lambda>cluster.
           ret (mutated (VaultPolicyBindingObj (setDefaultValues cluster pb)))))))"

definition upsertAuthMethods :: "AuthMethod list \<Rightarrow> AuthMethod \<Rightarrow> AuthMethod list" where
  "upsertAuthMethods auths newAuth =
     (if \<exists>au \<in> set auths. am_Type au = am_Type newAuth \<and> am_Path au = am_Path newAuth
      then auths else auths @ [newAuth])"

definition kubernetesAuth :: AuthMethod where
  "kubernetesAuth = \<lparr>am_Type = ''kubernetes'', am_Path = ''kubernetes'', am_Description = '''',
     am_Config = None, am_PluginName = '''', am_Local = False\<rparr>"

definition setVaultServerDefaultValues :: "VaultServer \<Rightarrow> VaultServer" where
  "setVaultServerDefaultValues vs =
     vs\<lparr>Spec := (Spec vs)\<lparr>vs_AuthMethods := upsertAuthMethods (vs_AuthMethods (Spec vs)) kubernetesAuth\<rparr>\<rparr>"

definition VaultServerMutator_Admit :: "bool \<Rightarrow> AdmissionRequest \<Rightarrow> AdmissionResponse go" where
  "VaultServerMutator_Admit initialized req =
    (if \<not> concerns {OpCreate, OpUpdate} ''kubevault.com'' ''VaultServer'' req then ret allowed
     else if \<not> initialized then ret StatusUninitialized
     else (case areq_Object req of
       Inl err \<Rightarrow> ret (StatusBadRequest err)
     | Inr ob \<Rightarrow> (case cl_prj VaultServers ob of
         None \<Rightarrow> panic ''interface conversion''
       | Some vs \<Rightarrow> ret (mutated (VaultServerObj (setVaultServerDefaultValues vs))))))"

section \<open>Vault servers\<close>

text \<open>
  The validator keeps whether it was initialised and whether its two clients
  can be used; a client whose constructor failed is a nil pointer.
\<close>

record VaultServerValidator =
  vv_client :: bool
  vv_extClient :: bool
  vv_initialized :: bool

definition VaultServerValidator_Initialize ::
    "error option \<Rightarrow> error option \<Rightarrow> VaultServerValidator \<Rightarrow> VaultServerValidator \<times> error option" where
  "VaultServerValidator_Initialize kubeErr extErr v =
     (let v = v\<lparr>vv_initialized := True\<rparr> in
      case kubeErr of
        Some err \<Rightarrow> (v\<lparr>vv_client := False\<rparr>, Some err)
      | None \<Rightarrow> (let v = v\<lparr>vv_client := True\<rparr> in
          case extErr of
            Some err \<Rightarrow> (v\<lparr>vv_extClient := False\<rparr>, Some err)
          | None \<Rightarrow> (v\<lparr>vv_extClient := True\<rparr>, None)))"

definition quoted :: "string \<Rightarrow> string" where
  "quoted s = [CHR 0x27] @ s @ [CHR 0x27]"

definition missingKey :: "string \<Rightarrow> error" where
  "missingKey k = Plain (''secret data doesn't contain any value for key '' @ quoted k)"

definition validateSecret :: "bool \<Rightarrow> string \<Rightarrow> string \<Rightarrow> string list \<Rightarrow> unit go" where
  "validateSecret kc name ns requiredKeys =
     (if \<not> kc then panic ''invalid memory address or nil pointer dereference''
      else andThen (apiGet Secrets ns name) (\<lambda>sr.
      forEach (\<lambda>k. case map_of (sec_Data sr) k of
          None \<Rightarrow> fail (missingKey k)
        | Some val \<Rightarrow> guard (val = '''') (missingKey k)) requiredKeys))"

text \<open>The secrets a spec names, the keys they need and the context of an error, in the order of the checks.\<close>

type_synonym secretCheck = "string \<times> string list \<times> string"

definition etcdChecks :: "EtcdSpec \<Rightarrow> secretCheck list" where
  "etcdChecks e =
     [(etcd_CredentialSecretName e, [''username'', ''password''], ''for spec.backend.etcd.credentialSecretName''),
      (etcd_TLSSecretName e, [''ca.crt'', ''tls.crt'', ''tls.key''], ''for spec.backend.etcd.tlsSecretName'')]"

definition mysqlChecks :: "MySQLSpec \<Rightarrow> secretCheck list" where
  "mysqlChecks m =
     [(mysql_UserCredentialSecret m, [''username'', ''password''], ''for spec.backend.mySQL.userCredentialSecret''),
      (mysql_TLSCASecret m, [''tls_ca_file''], ''for spec.backend.mySQL.tlsCASecret'')]"

definition s3Checks :: "S3Spec \<Rightarrow> secretCheck list" where
  "s3Checks s =
     [(s3_CredentialSecret s, [''access_key'', ''secret_key''], ''for spec.backend.s3.credentialSecret''),
      (s3_SessionTokenSecret s, [''session_token''], ''for spec.backend.s3.sessionTokenSecret'')]"

definition dynamoChecks :: "DynamoDBSpec \<Rightarrow> secretCheck list" where
  "dynamoChecks d =
     [(dynamo_CredentialSecret d, [''access_key'', ''secret_key''], ''for spec.backend.dynamoDB.credentialSecret''),
      (dynamo_SessionTokenSecret d, [''session_token''], ''for spec.backend.dynamoDB.sessionTokenSecret'')]"

definition swiftChecks :: "SwiftSpec \<Rightarrow> secretCheck list" where
  "swiftChecks s =
     [(swift_CredentialSecret s, [''username'', ''password''], ''for spec.backend.swift.credentialSecret''),
      (swift_AuthTokenSecret s, [''auth_token''], ''for spec.backend.swift.authTokenSecret'')]"

definition consulChecks :: "ConsulSpec \<Rightarrow> secretCheck list" where
  "consulChecks c =
     [(consul_ACLTokenSecretName c, [''aclToken''], ''for spec.backend.consul.aclTokenSecretName''),
      (consul_TLSSecretName c, [''ca.crt'', ''tls.crt'', ''tls.key''], ''for spec.backend.consul.tlsSecretName'')]"

definition checksOf :: "('a \<Rightarrow> 'b list) \<Rightarrow> 'a option \<Rightarrow> 'b list" where
  "checksOf f x = (case x of None \<Rightarrow> [] | Some v \<Rightarrow> f v)"

definition backendChecks :: "BackendStorageSpec \<Rightarrow> secretCheck list" where
  "backendChecks b =
     checksOf etcdChecks (be_Etcd b)
   @ checksOf mysqlChecks (be_MySQL b)
   @ checksOf (\<lambda>pg. [(pg_ConnectionURLSecret pg, [''connection_url''], ''for spec.backend.postgreSQL.connectionURLSecret'')]) (be_PostgreSQL b)
   @ checksOf (\<lambda>g. [(gcs_CredentialSecret g, [''sa.json''], ''for spec.backend.gcs.credentialSecret'')]) (be_Gcs b)
   @ checksOf s3Checks (be_S3 b)
   @ checksOf (\<lambda>a. [(azure_AccountKeySecret a, [''account_key''], ''for spec.backend.azure.accountKeySecret'')]) (be_Azure b)
   @ checksOf dynamoChecks (be_DynamoDB b)
   @ checksOf swiftChecks (be_Swift b)
   @ checksOf consulChecks (be_Consul b)"

definition modeChecks :: "ModeSpec \<Rightarrow> secretCheck list" where
  "modeChecks m =
     checksOf (\<lambda>g. [(gkms_CredentialSecret g, [''sa.json''], ''for spec.unsealer.mode.googleKmsGcs.credentialSecret'')]) (mode_GoogleKmsGcs m)
   @ checksOf (\<lambda>a. [(akms_CredentialSecret a, [''access_key'', ''secret_key''], ''for spec.unsealer.mode.awsKmsSsm.credentialSecret'')]) (mode_AwsKmsSsm m)
   @ checksOf (\<lambda>v. [(akv_AADClientSecret v, [''client-id'', ''client-secret''], ''for spec.unsealer.mode.awsKmsSsm.aadClientSecret''),
                    (akv_ClientCertSecret v, [''client-cert'', ''client-cert-password''], ''for spec.unsealer.mode.awsKmsSsm.clientCertSecret'')]) (mode_AzureKeyVault m)"

definition validateSecrets :: "bool \<Rightarrow> string \<Rightarrow> secretCheck list \<Rightarrow> unit go" where
  "validateSecrets kc ns = forEach (\<lambda>(name, keys, msg).
     if name = '''' then ret () else wrapErr msg (validateSecret kc name ns keys))"

definition countTrue :: "bool list \<Rightarrow> nat" where
  "countTrue bs = length (filter id bs)"

definition numOfBackend :: "BackendStorageSpec \<Rightarrow> nat" where
  "numOfBackend b = countTrue [be_Inmem b, be_File b \<noteq> None, be_Etcd b \<noteq> None, be_MySQL b \<noteq> None,
     be_PostgreSQL b \<noteq> None, be_Gcs b \<noteq> None, be_S3 b \<noteq> None, be_Azure b \<noteq> None,
     be_DynamoDB b \<noteq> None, be_Swift b \<noteq> None, be_Consul b \<noteq> None]"

definition numOfModes :: "ModeSpec \<Rightarrow> nat" where
  "numOfModes m = countTrue [mode_KubernetesSecret m \<noteq> None, mode_GoogleKmsGcs m \<noteq> None,
     mode_AwsKmsSsm m \<noteq> None, mode_AzureKeyVault m \<noteq> None]"

definition exactlyOne :: "string \<Rightarrow> nat \<Rightarrow> unit go" where
  "exactlyOne what n =
     (if n = 0 then fail (Plain (what @ '' is not specified''))
      else if n > 1 then fail (Plain (''more than one '' @ what @ '' is specified''))
      else ret ())"

definition validateUnsealer :: "bool \<Rightarrow> string \<Rightarrow> UnsealerSpec \<Rightarrow> unit go" where
  "validateUnsealer kc ns u =
     andThen (guard (un_SecretShares u \<le> 0) (Plain ''spec.unsealer.secretShares must be greater than zero'')) (\<lambda>_.
     andThen (guard (un_SecretThreshold u \<le> 0) (Plain ''spec.unsealer.secretThreshold must be greater than zero'')) (\<lambda>_.
     andThen (guard (un_SecretThreshold u > un_SecretShares u)
        (Plain ''spec.unsealer.secretShares must be greater than spec.unsealer.secretThreshold'')) (\<lambda>_.
     andThen (validateSecrets kc ns (modeChecks (un_Mode u))) (\<lambda>_.
     exactlyOne ''spec.unsealer.mode'' (numOfModes (un_Mode u))))))"

definition ValidateVaultServer :: "bool \<Rightarrow> bool \<Rightarrow> VaultServer \<Rightarrow> unit go" where
  "ValidateVaultServer client extClient vs =
     andThen (guard (vs_Version (Spec vs) = '''') (Plain (quoted ''spec.version'' @ '' is missing''))) (\<lambda>_.
     if \<not> extClient then panic ''invalid memory address or nil pointer dereference'' else
     andThen (apiGet VaultServerVersions '''' (vs_Version (Spec vs))) (\<lambda>_.
     andThen (case vs_Replicas (Spec vs) of
         Some n \<Rightarrow> guard (n < 1) (Plain ''spec.nodes invalid. Value must be greater than zero'')
       | None \<Rightarrow> ret ()) (\<lambda>_.
     andThen (validateSecrets client (Namespace (Meta vs)) (backendChecks (vs_Backend (Spec vs)))) (\<lambda>_.
     andThen (exactlyOne ''spec.backend'' (numOfBackend (vs_Backend (Spec vs)))) (\<lambda>_.
     case vs_Unsealer (Spec vs) of
       None \<Rightarrow> ret ()
     | Some u \<Rightarrow> validateUnsealer client (Namespace (Meta vs)) u)))))"

text \<open>
  A strategic merge patch between two servers contains a field exactly if the
  field differs.  API version and kind are the same after decoding.
\<close>

definition preconditionsHold :: "VaultServer \<Rightarrow> VaultServer \<Rightarrow> bool" where
  "preconditionsHold obj oldObj \<longleftrightarrow>
     Name (Meta obj) = Name (Meta oldObj) \<and> Namespace (Meta obj) = Namespace (Meta oldObj)
     \<and> vs_Unsealer (Spec obj) = vs_Unsealer (Spec oldObj)
     \<and> vs_Backend (Spec obj) = vs_Backend (Spec oldObj)
     \<and> ptm_NodeSelector (vs_PodTemplate (Spec obj)) = ptm_NodeSelector (vs_PodTemplate (Spec oldObj))"

definition validateUpdate :: "VaultServer \<Rightarrow> VaultServer \<Rightarrow> unit go" where
  "validateUpdate obj oldObj = guard (\<not> preconditionsHold obj oldObj)
     (Plain ''precondition failed. At least one of the following was changed: apiVersion kind name namespace spec.unsealer spec.backend spec.podTemplate.spec.nodeSelector'')"

definition decodeServer :: "obj \<Rightarrow> VaultServer go" where
  "decodeServer ob = (case cl_prj VaultServers ob of
     None \<Rightarrow> panic ''interface conversion'' | Some vs \<Rightarrow> ret vs)"

definition VaultServerValidator_Admit ::
    "VaultServerValidator \<Rightarrow> AdmissionRequest \<Rightarrow> AdmissionResponse go" where
  "VaultServerValidator_Admit v req =
    (if \<not> concerns {OpCreate, OpUpdate, OpDelete} ''kubevault.com'' ''VaultServer'' req then ret allowed
     else if \<not> vv_initialized v then ret StatusUninitialized
     else if areq_Operation req = OpDelete then ret allowed
     else (case areq_Object req of
       Inl err \<Rightarrow> ret (StatusBadRequest err)
     | Inr ob \<Rightarrow>
         let validate = andThen (decodeServer ob) (\<lambda>vs.
           attempt (ValidateVaultServer (vv_client v) (vv_extClient v) vs)
             (\<lambda>err. ret (StatusForbidden err)) (\<lambda>_. ret allowed)) in
         if areq_Operation req = OpUpdate
         then (case areq_OldObject req of
             Inl err \<Rightarrow> ret (StatusBadRequest err)
           | Inr oldOb \<Rightarrow> andThen (decodeServer ob) (\<lambda>vs. andThen (decodeServer oldOb) (\<lambda>oldVs.
               attempt (validateUpdate vs oldVs) (\<lambda>err. ret (StatusBadRequest err)) (\<lambda>_. validate))))
         else validate))"


end
