(* ===== verification/Storage.thy ===== *)
theory Storage
  imports Clients
begin

text \<open>
  The storage backends of \<open>pkg/vault/storage\<close>: choosing the backend of a server,
  what each adds to the pod of Vault, and the storage stanza it writes into
  Vault's configuration.
\<close>

section \<open>Configuration text\<close>

definition dq :: "string \<Rightarrow> string" where
  "dq s = [CHR 0x22] @ s @ [CHR 0x22]"

definition NL :: string where
  "NL = [CHR 0x0A]"

text \<open>A parameter is a key and the text of its value; \<open>strParam\<close> and the like leave out zero values.\<close>

type_synonym param = "string \<times> string"

definition strParam :: "string \<Rightarrow> string \<Rightarrow> param list" where
  "strParam k v = (if v = '''' then [] else [(k, dq v)])"

definition intParam :: "string \<Rightarrow> int \<Rightarrow> param list" where
  "intParam k v = (if v = 0 then [] else [(k, string_of_int v)])"

definition quotedIntParam :: "string \<Rightarrow> int \<Rightarrow> param list" where
  "quotedIntParam k v = (if v = 0 then [] else [(k, dq (string_of_int v))])"

definition flagParam :: "string \<Rightarrow> string \<Rightarrow> bool \<Rightarrow> param list" where
  "flagParam k v b = (if b then [(k, v)] else [])"

definition paramLine :: "param \<Rightarrow> string" where
  "paramLine = (\<lambda>(k, v). k @ '' = '' @ v)"

definition stanza :: "string \<Rightarrow> param list \<Rightarrow> string" where
  "stanza kind params =
     NL @ ''storage '' @ dq kind @ '' {'' @ NL @ join NL (map paramLine params) @ NL @ ''}'' @ NL"


section \<open>The pod\<close>

text \<open>Editing the first container; there being none is an index out of range.\<close>

definition onFirstContainer :: "(Container \<Rightarrow> Container) \<Rightarrow> PodTemplateSpec \<Rightarrow> PodTemplateSpec go" where
  "onFirstContainer f pt = (case ps_Containers (pt_Spec pt) of
     [] \<Rightarrow> panic ''index out of range''
   | c # cs \<Rightarrow> ret (pt\<lparr>pt_Spec := (pt_Spec pt)\<lparr>ps_Containers := f c # cs\<rparr>\<rparr>))"

definition addVolume :: "Volume \<Rightarrow> PodTemplateSpec \<Rightarrow> PodTemplateSpec" where
  "addVolume v pt = pt\<lparr>pt_Spec := (pt_Spec pt)\<lparr>ps_Volumes := ps_Volumes (pt_Spec pt) @ [v]\<rparr>\<rparr>"

definition addMount :: "VolumeMount \<Rightarrow> Container \<Rightarrow> Container" where
  "addMount m c = c\<lparr>c_VolumeMounts := c_VolumeMounts c @ [m]\<rparr>"

definition addEnv :: "EnvVar list \<Rightarrow> Container \<Rightarrow> Container" where
  "addEnv es c = c\<lparr>c_Env := c_Env c @ es\<rparr>"

definition secretEnv :: "string \<Rightarrow> string \<Rightarrow> string \<Rightarrow> EnvVar" where
  "secretEnv name secret k = \<lparr>ev_Name = name, ev_Value = '''', ev_ValueFrom = Some (SecretKeyRef secret k)\<rparr>"

definition mount :: "string \<Rightarrow> string \<Rightarrow> bool \<Rightarrow> VolumeMount" where
  "mount name path ro = \<lparr>vm_Name = name, vm_MountPath = path, vm_ReadOnly = ro\<rparr>"

definition secretVolume :: "string \<Rightarrow> string \<Rightarrow> (string \<times> string) list \<Rightarrow> Volume" where
  "secretVolume name secret items = \<lparr>vol_Name = name, vol_Source = SecretVolume secret items\<rparr>"

definition awsEnvs :: "string \<Rightarrow> string \<Rightarrow> EnvVar list" where
  "awsEnvs cred token =
     (if cred = '''' then [] else [secretEnv ''AWS_ACCESS_KEY_ID'' cred ''access_key'',
        secretEnv ''AWS_SECRET_ACCESS_KEY'' cred ''secret_key''])
   @ (if token = '''' then [] else [secretEnv ''AWS_SESSION_TOKEN'' token ''session_token''])"


section \<open>Backends\<close>

datatype Storage =
    InmemStorage
  | EtcdStorage EtcdSpec
  | GcsStorage GcsSpec
  | S3Storage S3Spec
  | AzureStorage AzureSpec
  | PostgreSQLStorage PostgreSQLSpec string
  | MySQLStorage MySQLSpec string string
  | FileStorage FileSpec string
  | DynamoDBStorage DynamoDBSpec
  | SwiftStorage SwiftSpec
  | ConsulStorage string ConsulSpec

definition dataOr :: "Secret \<Rightarrow> string \<Rightarrow> string \<Rightarrow> string go" where
  "dataOr sr k msg = orFail (Plain msg) (map_of (sec_Data sr) k)"

definition mysql_NewOptions :: "string \<Rightarrow> MySQLSpec \<Rightarrow> Storage go" where
  "mysql_NewOptions ns s =
    (let secret = mysql_UserCredentialSecret s in
     if secret = '''' then ret (MySQLStorage s '''' '''')
     else andThen (wrapErr (''failed to get user credential secret('' @ secret @ '')'') (apiGet Secrets ns secret)) (\<lambda>sr.
          andThen (dataOr sr ''username'' (''username not found in secret('' @ secret @ '')'')) (\<lambda>username.
          andThen (dataOr sr ''password'' (''password not found in secret('' @ secret @ '')'')) (\<lambda>password.
          ret (MySQLStorage s username password)))))"

definition postgresql_NewOptions :: "string \<Rightarrow> PostgreSQLSpec \<Rightarrow> Storage go" where
  "postgresql_NewOptions ns s =
    (let secret = pg_ConnectionURLSecret s in
     if secret = '''' then ret (PostgreSQLStorage s '''')
     else andThen (wrapErr (''failed to get connection url secret('' @ secret @ '')'') (apiGet Secrets ns secret)) (\<lambda>sr.
          andThen (dataOr sr ''connection_url'' (''connection_url not found in secret('' @ secret @ '')'')) (\<lambda>url.
          ret (PostgreSQLStorage s url))))"

definition claimMeta :: "VaultServer \<Rightarrow> FileSpec \<Rightarrow> ObjectMeta" where
  "claimMeta vs s =
    (let t = file_VolumeClaimTemplate s in
     (ObjectMeta0 (if pvct_Name t \<noteq> '''' then pvct_Name t else Name (Meta vs)) (Namespace (Meta vs)))
       \<lparr>Labels := (case pvct_Labels t of Some l \<Rightarrow> l | None \<Rightarrow> VaultServer_OffshootLabels vs)\<rparr>)"

definition newClaim :: "ObjectMeta \<Rightarrow> PersistentVolumeClaim" where
  "newClaim m = \<lparr>pvc_Meta = m, pvc_Spec = \<lparr>pvcs_AccessModes = [], pvcs_Requests = [], pvcs_Rest = ''''\<rparr>\<rparr>"

definition setClaim :: "ObjectMeta \<Rightarrow> FileSpec \<Rightarrow> PersistentVolumeClaim \<Rightarrow> PersistentVolumeClaim" where
  "setClaim objMeta s claim =
    (let tspec = pvct_Spec (file_VolumeClaimTemplate s);
         claim = (if pvcs_AccessModes (pvc_Spec claim) = [] then claim\<lparr>pvc_Spec := tspec\<rparr> else claim)
     in claim\<lparr>pvc_Meta := (pvc_Meta claim)\<lparr>Labels := Labels objMeta\<rparr>,
              pvc_Spec := (pvc_Spec claim)\<lparr>pvcs_Requests := pvcs_Requests tspec\<rparr>\<rparr>)"

definition file_NewOptions :: "VaultServer \<Rightarrow> FileSpec \<Rightarrow> Storage go" where
  "file_NewOptions vs s =
    (let objMeta = claimMeta vs s in
     andThen (wrapErr (''failed to create pvc '' @ slash (Namespace objMeta) (Name objMeta))
        (CreateOrPatch PersistentVolumeClaims objMeta newClaim (setClaim objMeta s)))
       (\<lambda>_. ret (FileStorage s (Name objMeta))))"

definition NewStorage :: "VaultServer \<Rightarrow> Storage go" where
  "NewStorage vs =
    (let s = vs_Backend (Spec vs); ns = Namespace (Meta vs) in
     if be_Inmem s then ret InmemStorage
     else case be_Etcd s of Some e \<Rightarrow> ret (EtcdStorage e) | None \<Rightarrow>
    (case be_Gcs s of Some g \<Rightarrow> ret (GcsStorage g) | None \<Rightarrow>
    (case be_S3 s of Some x \<Rightarrow> ret (S3Storage x) | None \<Rightarrow>
    (case be_Azure s of Some a \<Rightarrow> ret (AzureStorage a) | None \<Rightarrow>
    (case be_PostgreSQL s of Some p \<Rightarrow> postgresql_NewOptions ns p | None \<Rightarrow>
    (case be_MySQL s of Some m \<Rightarrow> mysql_NewOptions ns m | None \<Rightarrow>
    (case be_File s of Some f \<Rightarrow> file_NewOptions vs f | None \<Rightarrow>
    (case be_DynamoDB s of Some d \<Rightarrow> ret (DynamoDBStorage d) | None \<Rightarrow>
    (case be_Swift s of Some w \<Rightarrow> ret (SwiftStorage w) | None \<Rightarrow>
    (case be_Consul s of Some c \<Rightarrow> ret (ConsulStorage ns c) | None \<Rightarrow>
       fail (Plain ''invalid storage backend'')))))))))))"


section \<open>What a backend adds to the pod\<close>

definition mountSecret :: "string \<Rightarrow> string \<Rightarrow> (string \<times> string) list \<Rightarrow> string \<Rightarrow> bool
    \<Rightarrow> PodTemplateSpec \<Rightarrow> PodTemplateSpec go" where
  "mountSecret volume secret items dir ro pt =
     onFirstContainer (addMount (mount volume dir ro)) (addVolume (secretVolume volume secret items) pt)"

definition etcd_Apply :: "EtcdSpec \<Rightarrow> PodTemplateSpec \<Rightarrow> PodTemplateSpec go" where
  "etcd_Apply o' pt =
     andThen (if etcd_TLSSecretName o' \<noteq> ''''
              then mountSecret ''vault-etcd-tls'' (etcd_TLSSecretName o') [] ''/etc/vault/storage/etcd/tls/'' True pt
              else ret pt) (\<lambda>pt.
     let secret = etcd_CredentialSecretName o' in
     if secret \<noteq> ''''
     then onFirstContainer (addEnv [secretEnv ''ETCD_USERNAME'' secret ''username'',
            secretEnv ''ETCD_PASSWORD'' secret ''password'']) pt
     else ret pt)"

definition gcs_Apply :: "GcsSpec \<Rightarrow> PodTemplateSpec \<Rightarrow> PodTemplateSpec go" where
  "gcs_Apply o' pt =
    (if gcs_CredentialSecret o' \<noteq> ''''
     then andThen (mountSecret ''vault-google-credential'' (gcs_CredentialSecret o') []
            ''/etc/vault/storage/gcs/creds'' False pt)
          (onFirstContainer (addEnv [\<lparr>ev_Name = ''GOOGLE_APPLICATION_CREDENTIALS'',
             ev_Value = ''/etc/vault/storage/gcs/creds/sa.json'', ev_ValueFrom = None\<rparr>]))
     else ret pt)"

definition s3_Apply :: "S3Spec \<Rightarrow> PodTemplateSpec \<Rightarrow> PodTemplateSpec go" where
  "s3_Apply o' = onFirstContainer (addEnv (awsEnvs (s3_CredentialSecret o') (s3_SessionTokenSecret o')))"

definition dynamodb_Apply :: "DynamoDBSpec \<Rightarrow> PodTemplateSpec \<Rightarrow> PodTemplateSpec go" where
  "dynamodb_Apply o' = onFirstContainer (addEnv (awsEnvs (dynamo_CredentialSecret o') (dynamo_SessionTokenSecret o')))"

definition azurestorage_Apply :: "AzureSpec \<Rightarrow> PodTemplateSpec \<Rightarrow> PodTemplateSpec go" where
  "azurestorage_Apply o' pt =
    (if azure_AccountKeySecret o' \<noteq> ''''
     then onFirstContainer (addEnv [secretEnv ''AZURE_ACCOUNT_KEY'' (azure_AccountKeySecret o') ''account_key'']) pt
     else ret pt)"

definition mysql_Apply :: "MySQLSpec \<Rightarrow> PodTemplateSpec \<Rightarrow> PodTemplateSpec go" where
  "mysql_Apply o' pt =
    (if mysql_TLSCASecret o' \<noteq> ''''
     then mountSecret ''mysql-tls'' (mysql_TLSCASecret o') [(''tls_ca_file'', ''ca.crt'')] ''/etc/vault/mysql/certs'' False pt
     else ret pt)"

definition file_Apply :: "FileSpec \<Rightarrow> string \<Rightarrow> PodTemplateSpec \<Rightarrow> PodTemplateSpec go" where
  "file_Apply o' claimName pt =
    (if file_Path o' = '''' \<or> claimName = '''' then fail (Plain ''path or pvc name is empty'')
     else onFirstContainer (addMount (mount ''vault-filesystem-backend'' (file_Path o') False))
            (addVolume \<lparr>vol_Name = ''vault-filesystem-backend'', vol_Source = PersistentVolumeClaimVolume claimName\<rparr> pt))"

text \<open>The token secret of Swift is looked at only with a credential secret.\<close>

definition swift_Apply :: "SwiftSpec \<Rightarrow> PodTemplateSpec \<Rightarrow> PodTemplateSpec go" where
  "swift_Apply o' pt =
    (let secret = swift_CredentialSecret o' in
     if secret \<noteq> ''''
     then onFirstContainer (addEnv
            ([secretEnv ''OS_USERNAME'' secret ''username'', secretEnv ''OS_PASSWORD'' secret ''password'']
           @ (if swift_AuthTokenSecret o' \<noteq> ''''
              then [secretEnv ''OS_AUTH_TOKEN'' (swift_AuthTokenSecret o') ''auth_token''] else []))) pt
     else ret pt)"

definition consul_Apply :: "ConsulSpec \<Rightarrow> PodTemplateSpec \<Rightarrow> PodTemplateSpec go" where
  "consul_Apply o' pt =
    (if consul_TLSSecretName o' \<noteq> ''''
     then mountSecret ''vault-consul-tls'' (consul_TLSSecretName o') [] ''/etc/vault/storage/consul/tls/'' True pt
     else ret pt)"

fun Storage_Apply :: "Storage \<Rightarrow> PodTemplateSpec \<Rightarrow> PodTemplateSpec go" where
  "Storage_Apply InmemStorage pt = ret pt"
| "Storage_Apply (EtcdStorage s) pt = etcd_Apply s pt"
| "Storage_Apply (GcsStorage s) pt = gcs_Apply s pt"
| "Storage_Apply (S3Storage s) pt = s3_Apply s pt"
| "Storage_Apply (AzureStorage s) pt = azurestorage_Apply s pt"
| "Storage_Apply (PostgreSQLStorage s url) pt = ret pt"
| "Storage_Apply (MySQLStorage s u p) pt = mysql_Apply s pt"
| "Storage_Apply (FileStorage s claim) pt = file_Apply s claim pt"
| "Storage_Apply (DynamoDBStorage s) pt = dynamodb_Apply s pt"
| "Storage_Apply (SwiftStorage s) pt = swift_Apply s pt"
| "Storage_Apply (ConsulStorage ns s) pt = consul_Apply s pt"


section \<open>The storage stanza\<close>

definition tlsParams :: "string \<Rightarrow> string \<Rightarrow> param list" where
  "tlsParams secret dir =
    (if secret = '''' then []
     else [(''tls_ca_file'', dq (dir @ ''ca.crt'')), (''tls_cert_file'', dq (dir @ ''tls.crt'')),
           (''tls_key_file'', dq (dir @ ''tls.key''))])"

definition boolText :: "bool \<Rightarrow> string" where
  "boolText b = dq (if b then ''true'' else ''false'')"

definition etcdParams :: "EtcdSpec \<Rightarrow> param list" where
  "etcdParams o' =
     strParam ''address'' (etcd_Address o') @ strParam ''etcd_api'' (etcd_EtcdApi o')
   @ strParam ''path'' (etcd_Path o') @ strParam ''discovery_srv'' (etcd_DiscoverySrv o')
   @ [(''ha_enabled'', boolText (etcd_HAEnable o')), (''sync'', boolText (etcd_Sync o'))]
   @ tlsParams (etcd_TLSSecretName o') ''/etc/vault/storage/etcd/tls/''"

definition gcsParams :: "GcsSpec \<Rightarrow> param list" where
  "gcsParams o' =
     strParam ''bucket'' (gcs_Bucket o') @ flagParam ''ha_enabled'' (dq ''true'') (gcs_HAEnabled o')
   @ strParam ''chunk_size'' (gcs_ChunkSize o') @ intParam ''max_parallel'' (gcs_MaxParallel o')"

definition s3Params :: "S3Spec \<Rightarrow> param list" where
  "s3Params o' =
     strParam ''bucket'' (s3_Bucket o') @ strParam ''endpoint'' (s3_Endpoint o')
   @ strParam ''region'' (s3_Region o') @ flagParam ''s3_force_path_style'' (dq ''true'') (s3_ForcePathStyle o')
   @ flagParam ''disable_ssl'' (dq ''true'') (s3_DisableSSL o') @ intParam ''max_parallel'' (s3_MaxParallel o')"

definition azureParams :: "AzureSpec \<Rightarrow> param list" where
  "azureParams o' =
     strParam ''accountName'' (azure_AccountName o') @ strParam ''container'' (azure_Container o')
   @ intParam ''max_parallel'' (azure_MaxParallel o')"

definition postgresqlParams :: "PostgreSQLSpec \<Rightarrow> string \<Rightarrow> param list" where
  "postgresqlParams o' url =
     (if pg_ConnectionURLSecret o' \<noteq> '''' then [(''connection_url'', dq url)] else [])
   @ strParam ''table'' (pg_Table o') @ quotedIntParam ''max_parallel'' (pg_MaxParallel o')"

definition mysqlParams :: "MySQLSpec \<Rightarrow> string \<Rightarrow> string \<Rightarrow> param list" where
  "mysqlParams o' username password =
     strParam ''address'' (mysql_Address o') @ strParam ''database'' (mysql_Database o')
   @ strParam ''table'' (mysql_Table o')
   @ flagParam ''tls_ca_file'' (dq ''/etc/vault/mysql/certs/ca.crt'') (mysql_TLSCASecret o' \<noteq> '''')
   @ strParam ''username'' username @ strParam ''password'' password
   @ quotedIntParam ''max_parallel'' (mysql_MaxParallel o')"

definition dynamodbParams :: "DynamoDBSpec \<Rightarrow> param list" where
  "dynamodbParams o' =
     strParam ''endpoint'' (dynamo_Endpoint o') @ flagParam ''ha_enabled'' (dq ''true'') (dynamo_HaEnabled o')
   @ strParam ''region'' (dynamo_Region o') @ intParam ''read_capacity'' (dynamo_ReadCapacity o')
   @ intParam ''write_capacity'' (dynamo_WriteCapacity o') @ strParam ''table'' (dynamo_Table o')
   @ intParam ''max_parallel'' (dynamo_MaxParallel o')"

definition swiftParams :: "SwiftSpec \<Rightarrow> param list" where
  "swiftParams o' =
     strParam ''auth_url'' (swift_AuthURL o') @ strParam ''container'' (swift_Container o')
   @ strParam ''tenant'' (swift_Tenant o') @ quotedIntParam ''max_parallel'' (swift_MaxParallel o')
   @ strParam ''region'' (swift_Region o') @ strParam ''tenant_id'' (swift_TenantID o')
   @ strParam ''domain'' (swift_Domain o') @ strParam ''project-domain'' (swift_ProjectDomain o')
   @ strParam ''trust_id'' (swift_TrustID o') @ strParam ''storage_url'' (swift_StorageURL o')"

definition consulParams :: "ConsulSpec \<Rightarrow> string option \<Rightarrow> param list" where
  "consulParams o' token =
     strParam ''address'' (consul_Address o') @ strParam ''check_timeout'' (consul_CheckTimeout o')
   @ strParam ''consistency_mode'' (consul_ConsistencyMode o')
   @ strParam ''disable_registration'' (consul_DisableRegistration o')
   @ strParam ''max_parallel'' (consul_MaxParallel o') @ strParam ''path'' (consul_Path o')
   @ strParam ''scheme'' (consul_Scheme o') @ strParam ''service'' (consul_Service o')
   @ strParam ''service_tags'' (consul_ServiceTags o') @ strParam ''service_address'' (consul_ServiceAddress o')
   @ (case token of None \<Rightarrow> [] | Some v \<Rightarrow> [(''token'', dq v)])
   @ strParam ''session_ttl'' (consul_SessionTTL o') @ strParam ''lock_wait_time'' (consul_LockWaitTime o')
   @ tlsParams (consul_TLSSecretName o') ''/etc/vault/storage/consul/tls/''
   @ strParam ''tls_min_version'' (consul_TLSMinVersion o')
   @ flagParam ''tls_skip_verify'' ''true'' (consul_TLSSkipVerify o')"

text \<open>
  A token secret without the key gives the empty configuration and no error:
  the error that is wrapped is nil.
\<close>

definition consul_GetStorageConfig :: "string \<Rightarrow> ConsulSpec \<Rightarrow> string go" where
  "consul_GetStorageConfig ns o' =
    (let secret = consul_ACLTokenSecretName o' in
     if secret = '''' then ret (stanza ''consul'' (consulParams o' None))
     else andThen (wrapErr (''failed to get secret '' @ slash ns secret) (apiGet Secrets ns secret)) (\<lambda>sr.
       case map_of (sec_Data sr) ''aclToken'' of
         None \<Rightarrow> (case errors_Wrap None (''Data field is empty in '' @ slash ns secret) of
             Some e \<Rightarrow> fail e | None \<Rightarrow> ret '''')
       | Some v \<Rightarrow> ret (stanza ''consul'' (consulParams o' (Some v)))))"

fun GetStorageConfig :: "Storage \<Rightarrow> string go" where
  "GetStorageConfig InmemStorage = ret (NL @ ''storage '' @ dq ''inmem'' @ '' {'' @ NL @ ''}'' @ NL)"
| "GetStorageConfig (EtcdStorage s) = ret (stanza ''etcd'' (etcdParams s))"
| "GetStorageConfig (GcsStorage s) = ret (stanza ''gcs'' (gcsParams s))"
| "GetStorageConfig (S3Storage s) = ret (stanza ''s3'' (s3Params s))"
| "GetStorageConfig (AzureStorage s) = ret (stanza ''azure'' (azureParams s))"
| "GetStorageConfig (PostgreSQLStorage s url) = ret (stanza ''postgresql'' (postgresqlParams s url))"
| "GetStorageConfig (MySQLStorage s u p) = ret (stanza ''mysql'' (mysqlParams s u p))"
| "GetStorageConfig (FileStorage s claim) = ret (stanza ''file'' (strParam ''path'' (file_Path s)))"
| "GetStorageConfig (DynamoDBStorage s) = ret (stanza ''dynamodb'' (dynamodbParams s))"
| "GetStorageConfig (SwiftStorage s) = ret (stanza ''swift'' (swiftParams s))"
| "GetStorageConfig (ConsulStorage ns s) = consul_GetStorageConfig ns s"


end
