(* ===== verification/Vault_Pod.thy ===== *)
theory Vault_Pod
  imports "HOL-Library.Word" Storage Vault_Auth
begin

text \<open>
  The pod of a Vault server: the unsealer and exporter containers
  (\<open>pkg/vault/unsealer\<close>, \<open>pkg/vault/exporter\<close>), and the objects built in
  \<open>pkg/controller/vault.go\<close>: configuration, pod template, deployment, service
  and RBAC objects.  The server is passed explicitly, because its pointer is
  shared and changed on the way.
\<close>

section \<open>Durations\<close>

text \<open>
  A duration is a signed 64-bit number of nanoseconds, and the product of two
  wraps as machine words do.
\<close>

lemma int64_word: "int64 x = sint (word_of_int x :: 64 word)"
  by (simp add: int64_def int_word_sint)


definition seconds :: "int \<Rightarrow> int" where
  "seconds n = int64 (1000000000 * n)"

definition padded :: "nat \<Rightarrow> nat \<Rightarrow> string" where
  "padded prec r = replicate (prec - length (string_of_nat r)) (CHR ''0'') @ string_of_nat r"

definition fmtFrac :: "nat \<Rightarrow> nat \<Rightarrow> string" where
  "fmtFrac u prec =
    (let r = u mod 10 ^ prec in
     if r = 0 then '''' else ''.'' @ rev (dropWhile (\<lambda>c. c = CHR ''0'') (rev (padded prec r))))"

definition hoursMinutes :: "nat \<Rightarrow> string" where
  "hoursMinutes s =
    (let m = s div 60 in
     if m = 0 then ''''
     else let h = m div 60 in
       (if h = 0 then '''' else string_of_nat h @ ''h'') @ string_of_nat (m mod 60) @ ''m'')"

definition Duration_String :: "int \<Rightarrow> string" where
  "Duration_String d =
    (let u = nat \<bar>d\<bar>;
         txt = (if u = 0 then ''0s''
           else if u < 1000 then string_of_nat u @ ''ns''
           else if u < 1000000 then string_of_nat (u div 1000) @ fmtFrac u 3 @ [CHR 0xC2, CHR 0xB5] @ ''s''
           else if u < 1000000000 then string_of_nat (u div 1000000) @ fmtFrac u 6 @ ''ms''
           else (let s = u div 1000000000 in hoursMinutes s @ string_of_nat (s mod 60) @ fmtFrac u 9 @ ''s''))
     in (if d < 0 then ''-'' else '''') @ txt)"


section \<open>The unsealer\<close>

definition VaultContainerName :: string where "VaultContainerName = ''vault''"
definition VaultUnsealerContainerName :: string where "VaultUnsealerContainerName = ''vault-unsealer''"
definition VaultInitContainerName :: string where "VaultInitContainerName = ''vault-config''"
definition VaultExporterContainerName :: string where "VaultExporterContainerName = ''vault-exporter''"

lemmas container_names = VaultContainerName_def VaultUnsealerContainerName_def
  VaultInitContainerName_def VaultExporterContainerName_def

datatype Unsealer =
    KubernetesMode KubernetesSecretSpec
  | GoogleMode GoogleKmsGcsSpec
  | AwsMode AwsKmsSsmSpec
  | AzureMode AzureKeyVault

definition newUnsealer :: "UnsealerSpec \<Rightarrow> Unsealer go" where
  "newUnsealer s = (case mode_KubernetesSecret (un_Mode s) of Some k \<Rightarrow> ret (KubernetesMode k) | None \<Rightarrow>
    (case mode_GoogleKmsGcs (un_Mode s) of Some g \<Rightarrow> ret (GoogleMode g) | None \<Rightarrow>
    (case mode_AwsKmsSsm (un_Mode s) of Some a \<Rightarrow> ret (AwsMode a) | None \<Rightarrow>
    (case mode_AzureKeyVault (un_Mode s) of Some z \<Rightarrow> ret (AzureMode z) | None \<Rightarrow>
       fail (Plain ''unsealer mode is not valid/defined'')))))"

record unsealerSrv =
  us_unsealer :: Unsealer
  us_image :: string

definition NewUnsealerService :: "VaultServer \<Rightarrow> string \<Rightarrow> unsealerSrv option go" where
  "NewUnsealerService vs img = (case vs_Unsealer (Spec vs) of
     None \<Rightarrow> ret None
   | Some u \<Rightarrow>
       andThen (wrapErr ''failed to create unsealer service'' (newUnsealer u)) (\<lambda>unslr.
       andThen (ask kube_client_error) (\<lambda>err. case err of
           Some e \<Rightarrow> fail (Wrapped ''failed to create kubernetes client'' e)
         | None \<Rightarrow> ret (Some \<lparr>us_unsealer = unslr, us_image = img\<rparr>))))"

text \<open>The last container with a name, or the zero container.\<close>

definition lastNamed :: "string \<Rightarrow> Container list \<Rightarrow> Container" where
  "lastNamed n cs = fold (\<lambda>c cont. if c_Name c = n then c else cont) cs Container0"

definition setContainers :: "(Container list \<Rightarrow> Container list) \<Rightarrow> PodTemplateSpec \<Rightarrow> PodTemplateSpec" where
  "setContainers f pt = pt\<lparr>pt_Spec := (pt_Spec pt)\<lparr>ps_Containers := f (ps_Containers (pt_Spec pt))\<rparr>\<rparr>"

definition upsertVolumes :: "Volume list \<Rightarrow> PodTemplateSpec \<Rightarrow> PodTemplateSpec" where
  "upsertVolumes vs pt = pt\<lparr>pt_Spec := (pt_Spec pt)\<lparr>ps_Volumes := UpsertVolume (ps_Volumes (pt_Spec pt)) vs\<rparr>\<rparr>"

definition flag :: "string \<Rightarrow> string \<Rightarrow> string list" where
  "flag name v = (if v = '''' then [] else [name @ v])"

definition valueEnv :: "string \<Rightarrow> string \<Rightarrow> EnvVar" where
  "valueEnv name v = \<lparr>ev_Name = name, ev_Value = v, ev_ValueFrom = None\<rparr>"

definition optEnv :: "string \<Rightarrow> string \<Rightarrow> EnvVar list" where
  "optEnv name v = (if v = '''' then [] else [valueEnv name v])"

definition editUnsealer :: "string list \<Rightarrow> EnvVar list \<Rightarrow> VolumeMount list \<Rightarrow> PodTemplateSpec \<Rightarrow> PodTemplateSpec" where
  "editUnsealer args envs mounts = setContainers (\<lambda>cs.
     let cont = lastNamed VaultUnsealerContainerName cs in
     UpsertContainer cs (cont\<lparr>c_Args := c_Args cont @ args, c_Env := UpsertEnvVars (c_Env cont) envs,
       c_VolumeMounts := UpsertVolumeMount (c_VolumeMounts cont) mounts\<rparr>))"

definition k8smode_Apply :: "KubernetesSecretSpec \<Rightarrow> PodTemplateSpec \<Rightarrow> PodTemplateSpec" where
  "k8smode_Apply o' = editUnsealer
     ([''--mode=kubernetes-secret''] @ flag ''--k8s.secret-name='' (ks_SecretName o')) [] []"

definition googlemode_Apply :: "GoogleKmsGcsSpec \<Rightarrow> PodTemplateSpec \<Rightarrow> PodTemplateSpec" where
  "googlemode_Apply o' pt =
    (let args = [''--mode=google-cloud-kms-gcs''] @ flag ''--google.storage-bucket='' (gkms_Bucket o')
           @ flag ''--google.kms-project='' (gkms_KmsProject o') @ flag ''--google.kms-location='' (gkms_KmsLocation o')
           @ flag ''--google.kms-key-ring='' (gkms_KmsKeyRing o') @ flag ''--google.kms-crypto-key='' (gkms_KmsCryptoKey o');
         secret = gkms_CredentialSecret o'; volume = ''vault-unsealer-google-credential''
     in if secret = '''' then editUnsealer args [] [] pt
        else editUnsealer args [valueEnv ''GOOGLE_APPLICATION_CREDENTIALS'' ''/etc/vault/unsealer/google/creds/sa.json'']
               [mount volume ''/etc/vault/unsealer/google/creds'' False]
               (upsertVolumes [secretVolume volume secret []] pt))"

definition awsmode_Apply :: "AwsKmsSsmSpec \<Rightarrow> PodTemplateSpec \<Rightarrow> PodTemplateSpec" where
  "awsmode_Apply o' = editUnsealer
     ([''--mode=aws-kms-ssm''] @ flag ''--aws.kms-key-id='' (akms_KmsKeyID o')
        @ flag ''--aws.ssm-key-prefix='' (akms_SsmKeyPrefix o'))
     (optEnv ''AWS_REGION'' (akms_Region o') @ optEnv ''AWS_KMS_ENDPOINT'' (akms_Endpoint o')
        @ awsEnvs (akms_CredentialSecret o') '''') []"

definition azuremode_Apply :: "AzureKeyVault \<Rightarrow> PodTemplateSpec \<Rightarrow> PodTemplateSpec" where
  "azuremode_Apply o' pt =
    (let args = [''--mode=azure-key-vault''] @ flag ''--azure.vault-base-url='' (akv_VaultBaseURL o')
           @ flag ''--azure.tenant-id='' (akv_TenantID o') @ flag ''--azure.cloud='' (akv_Cloud o')
           @ (if akv_UseManagedIdentity o' then [''--azure.use-managed-identity=true''] else []);
         aad = akv_AADClientSecret o'; cert = akv_ClientCertSecret o'; volume = ''azure-client-cert'';
         envs = (if aad = '''' then [] else [secretEnv ''AZURE_CLIENT_ID'' aad ''client-id'',
                   secretEnv ''AZURE_CLIENT_SECRET'' aad ''client-secret''])
     in if cert = '''' then editUnsealer args envs [] pt
        else editUnsealer (args @ [''--azure.client-cert-path=/etc/vault/unsealer/azure/cert/client.crt''])
               (envs @ [secretEnv ''AZURE_CLIENT_CERT_PASSWORD'' cert ''client-cert-password''])
               [mount volume ''/etc/vault/unsealer/azure/cert'' False]
               (upsertVolumes [secretVolume volume cert [(''client-cert'', ''client.crt'')]] pt))"

fun Unsealer_Apply :: "Unsealer \<Rightarrow> PodTemplateSpec \<Rightarrow> PodTemplateSpec" where
  "Unsealer_Apply (KubernetesMode s) pt = k8smode_Apply s pt"
| "Unsealer_Apply (GoogleMode s) pt = googlemode_Apply s pt"
| "Unsealer_Apply (AwsMode s) pt = awsmode_Apply s pt"
| "Unsealer_Apply (AzureMode s) pt = azuremode_Apply s pt"

text \<open>The flags of the unsealer that follow from the spec, and those of the operator.\<close>

definition unsealerFlags :: "VaultServer \<Rightarrow> UnsealerSpec \<Rightarrow> string list" where
  "unsealerFlags vs u =
     [''run'', ''--v=3'']
   @ (if un_SecretShares u = 0 then [] else [''--secret-shares='' @ string_of_int (un_SecretShares u)])
   @ (if un_SecretThreshold u = 0 then [] else [''--secret-threshold='' @ string_of_int (un_SecretThreshold u)])
   @ (if un_RetryPeriodSeconds u = 0 then []
      else [''--retry-period='' @ Duration_String (seconds (un_RetryPeriodSeconds u))])
   @ (if un_OverwriteExisting u then [''--overwrite-existing=true''] else [])
   @ (case vs_TLS (Spec vs) of Some tls \<Rightarrow> flag ''--vault.ca-cert='' (tls_CABundle tls) | None \<Rightarrow> [])"

definition policyFlags :: "VaultServer \<Rightarrow> bool \<Rightarrow> string list" where
  "policyFlags vs aks =
     [''--policy-manager.name='' @ PolicyNameForPolicyController vs,
      ''--policy-manager.service-account-name='' @ ServiceAccountName vs,
      ''--policy-manager.service-account-namespace='' @ Namespace (Meta vs),
      ''--use-kubeapiserver-fqdn-for-aks='' @ (if aks then ''true'' else ''false'')]"

definition unsealerSrv_Apply :: "unsealerSrv \<Rightarrow> VaultServer \<Rightarrow> PodTemplateSpec \<Rightarrow> PodTemplateSpec go" where
  "unsealerSrv_Apply u vs pt = (case vs_Unsealer (Spec vs) of
     None \<Rightarrow> panic ''invalid memory address or nil pointer dereference''
   | Some unslr \<Rightarrow>
       andThen (ask rest_host) (\<lambda>host.
       andThen (ask rest_ca_data) (\<lambda>loaded.
       andThen (wrapErr ''failed to load TLS files from rest config for kubernetes auth'' (liftE loaded)) (\<lambda>ca.
       let reviewer = ServiceAccountForTokenReviewer vs in
       andThen (wrapErr (''failed to get jwt token secret of service account('' @ slash (Namespace (Meta vs)) reviewer @ '')'')
                  (TryGetJwtTokenSecretNameFromServiceAccount reviewer (Namespace (Meta vs)))) (\<lambda>secret.
       case secret of None \<Rightarrow> panic ''invalid memory address or nil pointer dereference''
       | Some s \<Rightarrow>
       andThen (ask analytics_client_id) (\<lambda>clientID.
       andThen (ask aks_fqdn) (\<lambda>aks.
       ret (Unsealer_Apply (us_unsealer u) (setContainers (\<lambda>cs. UpsertContainer cs
         (Container0\<lparr>c_Name := VaultUnsealerContainerName, c_Image := us_image u,
            c_Args := unsealerFlags vs unslr
              @ [''--auth.k8s-host='' @ host, ''--auth.k8s-ca-cert='' @ ca] @ policyFlags vs aks,
            c_Env := UpsertEnvVars [] [secretEnv ''K8S_TOKEN_REVIEWER_JWT'' (Name (sec_Meta s)) ''token'',
              valueEnv ''APPSCODE_ANALYTICS_CLIENT_ID'' clientID]\<rparr>)) pt)))))))))"

fun Unsealer_GetRBAC :: "Unsealer \<Rightarrow> string \<Rightarrow> string \<Rightarrow> RbacRole list" where
  "Unsealer_GetRBAC (KubernetesMode s) pre ns =
     [\<lparr>rbac_Meta = ObjectMeta0 (pre @ ''-unsealer-secret-reader'') ns,
       rbac_Rules = [\<lparr>rule_APIGroups = [''''], rule_Resources = [''secrets''], rule_ResourceNames = [],
          rule_Verbs = [''create'', ''get'', ''patch'']\<rparr>]\<rparr>]"
| "Unsealer_GetRBAC _ pre ns = []"


section \<open>The exporter\<close>

definition VaultExporterStatsdPort :: int where "VaultExporterStatsdPort = 9125"
definition VaultExporterFetchMetricsPort :: int where "VaultExporterFetchMetricsPort = 9102"
definition PrometheusExporterPortName :: string where "PrometheusExporterPortName = ''prom-http''"

definition exporterSpec :: "VaultServer \<Rightarrow> PrometheusExporterSpec option" where
  "exporterSpec vs = Option.bind (Option.bind (vs_Monitor (Spec vs)) agent_Prometheus) prom_Exporter"

definition exporterContainer :: "string \<Rightarrow> VaultServer \<Rightarrow> Container" where
  "exporterContainer img vs =
    (let c = Container0\<lparr>c_Name := VaultExporterContainerName, c_Image := img, c_ImagePullPolicy := ''IfNotPresent'',
           c_Ports := [\<lparr>cp_Name = ''udp'', cp_Protocol = ''UDP'', cp_ContainerPort = VaultExporterStatsdPort\<rparr>,
             \<lparr>cp_Name = PrometheusExporterPortName, cp_Protocol = ''TCP'', cp_ContainerPort = VaultExporterFetchMetricsPort\<rparr>],
           c_Args := (case vs_TLS (Spec vs) of Some tls \<Rightarrow> flag ''--vault.tls-cacert='' (tls_CABundle tls) | None \<Rightarrow> [])\<rparr>
     in case exporterSpec vs of
          None \<Rightarrow> c
        | Some e \<Rightarrow> c\<lparr>c_Args := c_Args c @ pe_Args e, c_Env := pe_Env e, c_Resources := pe_Resources e,
            c_SecurityContext := pe_SecurityContext e\<rparr>)"

definition exporter_Apply :: "string \<Rightarrow> VaultServer \<Rightarrow> PodTemplateSpec \<Rightarrow> PodTemplateSpec" where
  "exporter_Apply img vs = setContainers (\<lambda>cs. UpsertContainer cs (exporterContainer img vs))"

definition GetTelemetryConfig :: string where
  "GetTelemetryConfig = ''telemetry {'' @ NL @ ''  statsd_address = '' @ dq ''0.0.0.0:9125'' @ NL @ ''}''"


section \<open>The Vault server\<close>

definition VaultClientPort :: int where "VaultClientPort = 8200"
definition VaultClusterPort :: int where "VaultClusterPort = 8201"

record vaultSrv =
  v_strg :: Storage
  v_unslr :: "unsealerSrv option"
  v_exprtr :: string
  v_image :: string

definition NewVault :: "VaultServer \<Rightarrow> vaultSrv go" where
  "NewVault vs =
     andThen (wrapErr ''failed to get vault server version''
        (apiGet VaultServerVersions '''' (vs_Version (Spec vs)))) (\<lambda>version.
     andThen (NewStorage vs) (\<lambda>strg.
     andThen (NewUnsealerService vs (vsv_UnsealerImage (vsv_Spec version))) (\<lambda>unslr.
     ret \<lparr>v_strg = strg, v_unslr = unslr, v_exprtr = vsv_ExporterImage (vsv_Spec version),
          v_image = vsv_VaultImage (vsv_Spec version)\<rparr>)))"

text \<open>
  The TLS assets.  \<open>certstore\<close> and \<open>cert\<close> are calls into a library: a new
  authority, whose certificate is returned, and a server certificate for the
  given names, whose key belongs to it.
\<close>

definition tlsAltNames :: "VaultServer \<Rightarrow> string list" where
  "tlsAltNames vs = [''localhost'', ''*.'' @ Namespace (Meta vs) @ ''.pod'',
     Name (Meta vs) @ ''.'' @ Namespace (Meta vs) @ ''.svc'', ''127.0.0.1'']"

definition setTLS :: "TLSPolicy option \<Rightarrow> VaultServer \<Rightarrow> VaultServer" where
  "setTLS tls vs = vs\<lparr>Spec := (Spec vs)\<lparr>vs_TLS := tls\<rparr>\<rparr>"

definition generateTLS :: "VaultServer \<Rightarrow> TLSPolicy \<Rightarrow> (VaultServer \<times> Secret \<times> string) go" where
  "generateTLS vs tls =
     andThen (wrapErr ''certificate store create error'' (extCall ''certstore.NewCertStore'' [])) (\<lambda>_.
     andThen (wrapErr ''ca certificate create error'' (extCall ''certstore.NewCA'' [])) (\<lambda>ca.
     andThen (wrapErr ''vault server create crt/key pair error''
        (extCall ''certstore.NewServerCertPairBytes'' (ca # tlsAltNames vs))) (\<lambda>crt.
     andThen (ask private_key_of) (\<lambda>keyOf.
     ret (setTLS (Some (tls\<lparr>tls_CABundle := ca\<rparr>)) vs,
          \<lparr>sec_Meta = (ObjectMeta0 (tls_TLSSecret tls) (Namespace (Meta vs)))\<lparr>Labels := VaultServer_OffshootLabels vs\<rparr>,
           sec_Type = '''', sec_Data = [(''tls.crt'', crt), (''tls.key'', keyOf crt)]\<rparr>,
          ca)))))"

definition GetServerTLS :: "VaultServer \<Rightarrow> (VaultServer \<times> Secret \<times> string) go" where
  "GetServerTLS vs =
    (let ns = Namespace (Meta vs);
         tls = (case vs_TLS (Spec vs) of Some p \<Rightarrow> p
                | None \<Rightarrow> \<lparr>tls_TLSSecret = TLSSecretName vs, tls_CABundle = ''''\<rparr>) in
     if vs_TLS (Spec vs) \<noteq> None \<and> tls_TLSSecret tls \<noteq> ''''
     then andThen (apiGet Secrets ns (tls_TLSSecret tls)) (\<lambda>sr. ret (vs, sr, tls_CABundle tls))
     else let vs = setTLS (Some tls) vs in
       attempt (apiGet Secrets ns (tls_TLSSecret tls))
         (\<lambda>_. generateTLS vs tls)
         (\<lambda>sr. ret (vs, sr, tls_CABundle tls)))"

definition GetListenerConfig :: string where
  "GetListenerConfig = NL @ ''listener '' @ dq ''tcp'' @ '' {'' @ NL
     @ ''  address = '' @ dq ''0.0.0.0:8200'' @ NL
     @ ''  cluster_address = '' @ dq ''0.0.0.0:8201'' @ NL
     @ ''  tls_cert_file = '' @ dq ''/etc/vault/tls/tls.crt'' @ NL
     @ ''  tls_key_file  = '' @ dq ''/etc/vault/tls/tls.key'' @ NL @ ''}'' @ NL"

definition GetConfig :: "vaultSrv \<Rightarrow> VaultServer \<Rightarrow> ConfigMap go" where
  "GetConfig v vs =
     andThen (wrapErr ''failed to get storage config'' (GetStorageConfig (v_strg v))) (\<lambda>storageCfg.
     ret \<lparr>cm_Meta = (ObjectMeta0 (ConfigMapName vs) (Namespace (Meta vs)))\<lparr>Labels := VaultServer_OffshootLabels vs\<rparr>,
          cm_Data = [(''vault.hcl'', GetListenerConfig @ NL @ storageCfg @ NL @ GetTelemetryConfig)]\<rparr>)"


subsection \<open>Applying everything to the pod template\<close>

definition initScript :: string where
  "initScript = (let tabs = [CHR 0x09, CHR 0x09, CHR 0x09] in
     ''set -e'' @ NL
   @ tabs @ ''cat /etc/vault/controller/vault.hcl > /etc/vault/config/vault.hcl'' @ NL
   @ tabs @ ''echo '' @ dq '''' @ '' >> /etc/vault/config/vault.hcl'' @ NL
   @ tabs @ ''if [ -f /etc/vault/user/vault.hcl ]; then'' @ NL
   @ tabs @ [CHR 0x09] @ ''  cat /etc/vault/user/vault.hcl >> /etc/vault/config/vault.hcl'' @ NL
   @ tabs @ ''fi'')"

definition initContainer :: "VaultServer \<Rightarrow> Container" where
  "initContainer vs =
    (let ms = UpsertVolumeMount [] [mount ''config'' ''/etc/vault/config'' False,
                mount ''controller-config'' ''/etc/vault/controller'' False];
         ms = (case vs_ConfigSource (Spec vs) of None \<Rightarrow> ms
               | Some src \<Rightarrow> UpsertVolumeMount ms [mount ''user-config'' ''/etc/vault/user'' False])
     in Container0\<lparr>c_Name := VaultInitContainerName, c_Image := ''busybox'', c_ImagePullPolicy := ''IfNotPresent'',
          c_Command := [''/bin/sh''], c_Args := [''-c'', initScript], c_VolumeMounts := ms\<rparr>)"

definition configVolumes :: "VaultServer \<Rightarrow> Volume list" where
  "configVolumes vs =
     [\<lparr>vol_Name = ''config'', vol_Source = EmptyDirVolume\<rparr>,
      \<lparr>vol_Name = ''controller-config'', vol_Source = ConfigMapVolume (ConfigMapName vs)\<rparr>]
   @ (case vs_ConfigSource (Spec vs) of None \<Rightarrow> []
      | Some src \<Rightarrow> [\<lparr>vol_Name = ''user-config'', vol_Source = src\<rparr>])"

definition tlsSecretOf :: "VaultServer \<Rightarrow> string" where
  "tlsSecretOf vs = (case vs_TLS (Spec vs) of
     Some tls \<Rightarrow> if tls_TLSSecret tls \<noteq> '''' then tls_TLSSecret tls else TLSSecretName vs
   | None \<Rightarrow> TLSSecretName vs)"

definition dataName :: "nat \<Rightarrow> string" where
  "dataName i = ''data-'' @ string_of_nat i"

definition dataMounts :: "VaultServer \<Rightarrow> VolumeMount list" where
  "dataMounts vs = map (\<lambda>i. mount (dataName i) (''/etc/vault/data/'' @ dataName i) False)
     [0..<length (vs_DataSources (Spec vs))]"

definition dataVolumes :: "VaultServer \<Rightarrow> Volume list" where
  "dataVolumes vs = map (\<lambda>(i, src). \<lparr>vol_Name = dataName i, vol_Source = src\<rparr>)
     (enumerate 0 (vs_DataSources (Spec vs)))"

definition serverContainers :: "VaultServer \<Rightarrow> PodTemplateSpec \<Rightarrow> PodTemplateSpec" where
  "serverContainers vs pt =
    (let cont = lastNamed VaultContainerName (ps_Containers (pt_Spec pt));
         cont = cont\<lparr>c_VolumeMounts := UpsertVolumeMount (UpsertVolumeMount (c_VolumeMounts cont)
            [mount ''vault-tls-secret'' ''/etc/vault/tls/'' False, mount ''config'' ''/etc/vault/config'' False])
            (dataMounts vs)\<rparr>;
         pt = upsertVolumes (configVolumes vs @ [secretVolume ''vault-tls-secret'' (tlsSecretOf vs) []] @ dataVolumes vs) pt
     in pt\<lparr>pt_Spec := (pt_Spec pt)\<lparr>
          ps_InitContainers := UpsertContainer (ps_InitContainers (pt_Spec pt)) (initContainer vs),
          ps_Containers := UpsertContainer (ps_Containers (pt_Spec pt)) cont\<rparr>\<rparr>)"

definition vaultSrv_Apply :: "vaultSrv \<Rightarrow> VaultServer \<Rightarrow> PodTemplateSpec \<Rightarrow> PodTemplateSpec go" where
  "vaultSrv_Apply v vs pt =
     andThen (Storage_Apply (v_strg v) (serverContainers vs pt)) (\<lambda>pt.
     andThen (case v_unslr v of None \<Rightarrow> ret pt | Some u \<Rightarrow> unsealerSrv_Apply u vs pt) (\<lambda>pt.
     ret (exporter_Apply (v_exprtr v) vs pt)))"


subsection \<open>The objects of a server\<close>

definition serverMeta :: "string \<Rightarrow> VaultServer \<Rightarrow> ObjectMeta" where
  "serverMeta n vs = (ObjectMeta0 n (Namespace (Meta vs)))\<lparr>Labels := VaultServer_OffshootLabels vs\<rparr>"

definition servicePort :: "string \<Rightarrow> int \<Rightarrow> int \<Rightarrow> ServicePort" where
  "servicePort n p target = \<lparr>sp_Name = n, sp_Protocol = ''TCP'', sp_Port = p, sp_TargetPort = target, sp_NodePort = 0\<rparr>"

definition GetService :: "VaultServer \<Rightarrow> Service" where
  "GetService vs =
    (let t = vs_ServiceTemplate (Spec vs) in
     \<lparr>svc_Meta = (serverMeta (VaultServer_OffshootName vs) vs)\<lparr>Annotations := stm_Annotations t\<rparr>,
      svc_Spec = \<lparr>ss_Selector = VaultServer_OffshootSelectors vs,
        ss_Ports = [servicePort ''client'' VaultClientPort 0, servicePort ''cluster'' VaultClusterPort 0],
        ss_ClusterIP = stm_ClusterIP t, ss_Type = stm_Type t, ss_ExternalIPs = stm_ExternalIPs t,
        ss_LoadBalancerIP = stm_LoadBalancerIP t, ss_LoadBalancerSourceRanges = stm_LoadBalancerSourceRanges t,
        ss_ExternalTrafficPolicy = stm_ExternalTrafficPolicy t,
        ss_HealthCheckNodePort = stm_HealthCheckNodePort t,
        ss_SessionAffinityConfig = stm_SessionAffinityConfig t\<rparr>\<rparr>)"

definition GetDeployment :: "VaultServer \<Rightarrow> PodTemplateSpec \<Rightarrow> Deployment" where
  "GetDeployment vs pt =
     \<lparr>dep_Meta = (serverMeta (VaultServer_OffshootName vs) vs)
        \<lparr>Annotations := ptm_Controller_Annotations (vs_PodTemplate (Spec vs))\<rparr>,
      dep_Replicas = vs_Replicas (Spec vs), dep_Selector = VaultServer_OffshootSelectors vs,
      dep_Template = pt, dep_Strategy = RollingUpdate 1 1\<rparr>"

definition GetServiceAccounts :: "VaultServer \<Rightarrow> ServiceAccount list" where
  "GetServiceAccounts vs =
     [\<lparr>sa_Meta = serverMeta (ServiceAccountName vs) vs, sa_Secrets = []\<rparr>,
      \<lparr>sa_Meta = serverMeta (ServiceAccountForTokenReviewer vs) vs, sa_Secrets = []\<rparr>]"

definition saSubject :: "string \<Rightarrow> string \<Rightarrow> Subject" where
  "saSubject n ns = \<lparr>subj_Kind = ''ServiceAccount'', subj_APIGroup = '''', subj_Name = n, subj_Namespace = ns\<rparr>"

definition GetRBACRolesAndRoleBindings :: "vaultSrv \<Rightarrow> VaultServer \<Rightarrow> RbacRole list \<times> RoleBinding list" where
  "GetRBACRolesAndRoleBindings v vs = (case v_unslr v of
     None \<Rightarrow> ([], [])
   | Some u \<Rightarrow>
       let roles = map (\<lambda>r. r\<lparr>rbac_Meta := (rbac_Meta r)\<lparr>Labels := UpsertMap (Labels (rbac_Meta r)) (VaultServer_OffshootLabels vs)\<rparr>\<rparr>)
             (Unsealer_GetRBAC (us_unsealer u) (Name (Meta vs)) (Namespace (Meta vs)))
       in (roles, map (\<lambda>r.
            \<lparr>rb_Meta = (ObjectMeta0 (Name (rbac_Meta r)) (Namespace (rbac_Meta r)))\<lparr>Labels := Labels (rbac_Meta r)\<rparr>,
             rb_RoleRef = \<lparr>rr_APIGroup = rbac_GroupName, rr_Kind = ''Role'', rr_Name = Name (rbac_Meta r)\<rparr>,
             rb_Subjects = [saSubject (ServiceAccountName vs) (Namespace (Meta vs))]\<rparr>) roles))"

definition GetRBACClusterRoleBinding :: "VaultServer \<Rightarrow> RoleBinding" where
  "GetRBACClusterRoleBinding vs =
     \<lparr>rb_Meta = serverMeta (Name (Meta vs) @ ''-k8s-token-reviewer'') vs,
      rb_RoleRef = \<lparr>rr_APIGroup = rbac_GroupName, rr_Kind = ''ClusterRole'', rr_Name = ''system:auth-delegator''\<rparr>,
      rb_Subjects = [saSubject (ServiceAccountForTokenReviewer vs) (Namespace (Meta vs))]\<rparr>"

text \<open>The file system group is set whether or not the spec has one.\<close>

definition setFSGroup :: "VaultServer \<Rightarrow> VaultServer" where
  "setFSGroup vs = vs\<lparr>Spec := (Spec vs)\<lparr>vs_PodTemplate := (vs_PodTemplate (Spec vs))\<lparr>ptm_FSGroup := Some 65535\<rparr>\<rparr>\<rparr>"

definition GetPodTemplate :: "VaultServer \<Rightarrow> Container \<Rightarrow> string \<Rightarrow> VaultServer \<times> PodTemplateSpec" where
  "GetPodTemplate vs0 c saName =
    (let vs = setFSGroup vs0; t = vs_PodTemplate (Spec vs) in
     (vs,
      \<lparr>pt_Meta = (ObjectMeta0 (Name (Meta vs)) (Namespace (Meta vs)))
          \<lparr>Labels := VaultServer_OffshootSelectors vs, Annotations := ptm_Annotations t\<rparr>,
       pt_Spec = \<lparr>ps_InitContainers = [], ps_Containers = [c], ps_Volumes = [], ps_ServiceAccountName = saName,
         ps_NodeSelector = ptm_NodeSelector t, ps_Affinity = ptm_Affinity t, ps_SchedulerName = ptm_SchedulerName t,
         ps_Tolerations = ptm_Tolerations t, ps_ImagePullSecrets = ptm_ImagePullSecrets t,
         ps_PriorityClassName = ptm_PriorityClassName t, ps_Priority = ptm_Priority t,
         ps_FSGroup = ptm_FSGroup t, ps_SecurityContext = ptm_SecurityContext t\<rparr>\<rparr>))"

definition VaultServiceURL :: "string \<Rightarrow> string \<Rightarrow> int \<Rightarrow> string" where
  "VaultServiceURL n ns port = ''https://'' @ n @ ''.'' @ ns @ ''.svc:'' @ string_of_int port"

definition GetContainer :: "vaultSrv \<Rightarrow> VaultServer \<Rightarrow> Container" where
  "GetContainer v vs = Container0\<lparr>c_Name := VaultContainerName, c_Image := v_image v,
     c_Command := [''/bin/vault'', ''server'', ''-config=/etc/vault/config/vault.hcl''],
     c_Env := [valueEnv ''VAULT_API_ADDR'' (VaultServiceURL (Name (Meta vs)) (Namespace (Meta vs)) VaultClientPort),
               valueEnv ''VAULT_CLUSTER_ADDR'' (VaultServiceURL (Name (Meta vs)) (Namespace (Meta vs)) VaultClusterPort)],
     c_SecurityContext := ''capabilities: add: IPC_LOCK'',
     c_Ports := [\<lparr>cp_Name = ''vault-port'', cp_Protocol = '''', cp_ContainerPort = VaultClientPort\<rparr>,
                 \<lparr>cp_Name = ''cluster-port'', cp_Protocol = '''', cp_ContainerPort = VaultClusterPort\<rparr>],
     c_ReadinessProbe := ''HTTPS GET :8200/v1/sys/health initialDelay 10 timeout 10 period 10 failures 5'',
     c_Resources := ptm_Resources (vs_PodTemplate (Spec vs))\<rparr>"


end
