(* ===== verification/Vault_Server.thy ===== *)
theory Vault_Server
  imports Vault_Pod Policies
begin

text \<open>
  The controller of Vault servers (\<open>pkg/controller/vaultservers.go\<close>,
  \<open>appbinding.go\<close>, \<open>monitor.go\<close>): creating or patching every object of a server,
  the application binding, the monitoring agent, and the registration of the
  background tasks.  Events recorded for the user are left out, like log lines.
\<close>

section \<open>Creating or patching the objects\<close>

text \<open>\<open>metav1.NewControllerRef(vs, ...)\<close>\<close>

definition controllerRef :: "VaultServer \<Rightarrow> OwnerReference" where
  "controllerRef vs =
     \<lparr>owner_APIVersion = ''kubevault.com/v1alpha1'', owner_Kind = ''VaultServer'', owner_Name = Name (Meta vs),
      owner_UID = UID (Meta vs), owner_Controller = Some True, owner_BlockOwnerDeletion = Some True\<rparr>"

definition ownedBy :: "VaultServer \<Rightarrow> ObjectMeta \<Rightarrow> ObjectMeta" where
  "ownedBy vs m = EnsureOwnerReference m (Some (controllerRef vs))"

definition upsertLabels :: "ObjectMeta \<Rightarrow> ObjectMeta \<Rightarrow> ObjectMeta" where
  "upsertLabels d m = m\<lparr>Labels := UpsertMap (Labels m) (Labels d)\<rparr>"

definition upsertAnnotations :: "ObjectMeta \<Rightarrow> ObjectMeta \<Rightarrow> ObjectMeta" where
  "upsertAnnotations d m = m\<lparr>Annotations := UpsertMap (Annotations m) (Annotations d)\<rparr>"

definition newServiceAccount :: "ObjectMeta \<Rightarrow> ServiceAccount" where
  "newServiceAccount m = \<lparr>sa_Meta = m, sa_Secrets = []\<rparr>"

definition setServiceAccount :: "VaultServer \<Rightarrow> ServiceAccount \<Rightarrow> ServiceAccount \<Rightarrow> ServiceAccount" where
  "setServiceAccount vs sa x = x\<lparr>sa_Meta := ownedBy vs (upsertLabels (sa_Meta sa) (sa_Meta x))\<rparr>"

definition ensureServiceAccount :: "VaultServer \<Rightarrow> ServiceAccount \<Rightarrow> unit go" where
  "ensureServiceAccount vs sa =
     andThen (CreateOrPatch ServiceAccounts (sa_Meta sa) newServiceAccount (setServiceAccount vs sa)) (\<lambda>_. ret ())"

definition PodSpec0 :: PodSpec where
  "PodSpec0 = \<lparr>ps_InitContainers = [], ps_Containers = [], ps_Volumes = [], ps_ServiceAccountName = '''',
     ps_NodeSelector = [], ps_Affinity = '''', ps_SchedulerName = '''', ps_Tolerations = '''', ps_ImagePullSecrets = [],
     ps_PriorityClassName = '''', ps_Priority = None, ps_FSGroup = None, ps_SecurityContext = ''''\<rparr>"

definition newDeployment :: "ObjectMeta \<Rightarrow> Deployment" where
  "newDeployment m = \<lparr>dep_Meta = m, dep_Replicas = None, dep_Selector = [],
     dep_Template = \<lparr>pt_Meta = ObjectMeta0 '''' '''', pt_Spec = PodSpec0\<rparr>, dep_Strategy = OtherStrategy ''''\<rparr>"

text \<open>Containers and volumes are merged by name into the ones the deployment has.\<close>

definition setPodSpec :: "PodSpec \<Rightarrow> PodSpec \<Rightarrow> PodSpec" where
  "setPodSpec d s =
     s\<lparr>ps_Containers := UpsertContainers (ps_Containers s) (ps_Containers d),
       ps_InitContainers := UpsertContainers (ps_InitContainers s) (ps_InitContainers d),
       ps_ServiceAccountName := ps_ServiceAccountName d, ps_NodeSelector := ps_NodeSelector d,
       ps_Affinity := ps_Affinity d,
       ps_SchedulerName := (if ps_SchedulerName d \<noteq> '''' then ps_SchedulerName d else ps_SchedulerName s),
       ps_Tolerations := ps_Tolerations d, ps_ImagePullSecrets := ps_ImagePullSecrets d,
       ps_PriorityClassName := ps_PriorityClassName d, ps_Priority := ps_Priority d,
       ps_FSGroup := ps_FSGroup d, ps_SecurityContext := ps_SecurityContext d,
       ps_Volumes := UpsertVolume (ps_Volumes s) (ps_Volumes d)\<rparr>"

definition setDeployment :: "VaultServer \<Rightarrow> Deployment \<Rightarrow> Deployment \<Rightarrow> Deployment" where
  "setDeployment vs d x =
    (let t = dep_Template x; dt = dep_Template d in
     x\<lparr>dep_Meta := ownedBy vs (upsertAnnotations (dep_Meta d) (upsertLabels (dep_Meta d) (dep_Meta x))),
       dep_Replicas := dep_Replicas d, dep_Selector := dep_Selector d, dep_Strategy := dep_Strategy d,
       dep_Template := t\<lparr>pt_Meta := (pt_Meta t)\<lparr>Labels := Labels (pt_Meta dt), Annotations := Annotations (pt_Meta dt)\<rparr>,
         pt_Spec := setPodSpec (pt_Spec dt) (pt_Spec t)\<rparr>\<rparr>)"

definition ensureDeployment :: "VaultServer \<Rightarrow> Deployment \<Rightarrow> unit go" where
  "ensureDeployment vs d =
     andThen (CreateOrPatch Deployments (dep_Meta d) newDeployment (setDeployment vs d)) (\<lambda>_. ret ())"

definition newService :: "ObjectMeta \<Rightarrow> Service" where
  "newService m = \<lparr>svc_Meta = m, svc_Spec = \<lparr>ss_Selector = [], ss_Ports = [], ss_ClusterIP = '''', ss_Type = '''',
     ss_ExternalIPs = [], ss_LoadBalancerIP = '''', ss_LoadBalancerSourceRanges = [], ss_ExternalTrafficPolicy = '''',
     ss_HealthCheckNodePort = 0, ss_SessionAffinityConfig = ''''\<rparr>\<rparr>"

definition setService :: "VaultServer \<Rightarrow> Service \<Rightarrow> Service \<Rightarrow> Service" where
  "setService vs svc x =
    (let s = svc_Spec x; d = svc_Spec svc in
     x\<lparr>svc_Meta := ownedBy vs (upsertAnnotations (svc_Meta svc) (upsertLabels (svc_Meta svc) (svc_Meta x))),
       svc_Spec := s\<lparr>ss_Selector := ss_Selector d, ss_Ports := MergeServicePorts (ss_Ports s) (ss_Ports d),
         ss_ClusterIP := (if ss_ClusterIP d \<noteq> '''' then ss_ClusterIP d else ss_ClusterIP s),
         ss_Type := (if ss_Type d \<noteq> '''' then ss_Type d else ss_Type s),
         ss_LoadBalancerIP := (if ss_LoadBalancerIP d \<noteq> '''' then ss_LoadBalancerIP d else ss_LoadBalancerIP s),
         ss_ExternalIPs := ss_ExternalIPs d, ss_LoadBalancerSourceRanges := ss_LoadBalancerSourceRanges d,
         ss_ExternalTrafficPolicy := ss_ExternalTrafficPolicy d,
         ss_HealthCheckNodePort := (if ss_HealthCheckNodePort d > 0 then ss_HealthCheckNodePort d
                                    else ss_HealthCheckNodePort s)\<rparr>\<rparr>)"

definition ensureService :: "VaultServer \<Rightarrow> Service \<Rightarrow> unit go" where
  "ensureService vs svc =
     andThen (CreateOrPatch Services (svc_Meta svc) newService (setService vs svc)) (\<lambda>_. ret ())"

definition setRole :: "VaultServer \<Rightarrow> RbacRole \<Rightarrow> RbacRole \<Rightarrow> RbacRole" where
  "setRole vs role x = x\<lparr>rbac_Meta := ownedBy vs (upsertAnnotations (rbac_Meta role) (upsertLabels (rbac_Meta role) (rbac_Meta x))),
     rbac_Rules := rbac_Rules role\<rparr>"

definition setBinding :: "VaultServer \<Rightarrow> RoleBinding \<Rightarrow> RoleBinding \<Rightarrow> RoleBinding" where
  "setBinding vs rb x = x\<lparr>rb_Meta := ownedBy vs (upsertLabels (rb_Meta rb) (rb_Meta x)),
     rb_RoleRef := rb_RoleRef rb, rb_Subjects := rb_Subjects rb\<rparr>"

definition metaKey :: "ObjectMeta \<Rightarrow> string" where
  "metaKey m = slash (Namespace m) (Name m)"

definition ensureRoleAndRoleBinding :: "VaultServer \<Rightarrow> RbacRole list \<Rightarrow> RoleBinding list \<Rightarrow> unit go" where
  "ensureRoleAndRoleBinding vs roles rBindings =
     andThen (forEach (\<lambda>role. andThen (wrapErr (''failed to create rbac role '' @ metaKey (rbac_Meta role))
        (CreateOrPatch RbacRoles (rbac_Meta role) newRbacRole (setRole vs role))) (\<lambda>_. ret ())) roles) (\<lambda>_.
     forEach (\<lambda>rb. andThen (wrapErr (''failed to create rbac role binding '' @ metaKey (rb_Meta rb))
        (CreateOrPatch RoleBindings (rb_Meta rb) newRoleBinding (setBinding vs rb))) (\<lambda>_. ret ())) rBindings)"

definition setSecret :: "VaultServer \<Rightarrow> Secret \<Rightarrow> Secret \<Rightarrow> Secret" where
  "setSecret vs s x = x\<lparr>sec_Meta := ownedBy vs (upsertAnnotations (sec_Meta s) (upsertLabels (sec_Meta s) (sec_Meta x))),
     sec_Data := sec_Data s\<rparr>"

definition ensureSecret :: "VaultServer \<Rightarrow> Secret \<Rightarrow> unit go" where
  "ensureSecret vs s = andThen (CreateOrPatch Secrets (sec_Meta s) newSecret (setSecret vs s)) (\<lambda>_. ret ())"

definition newConfigMap :: "ObjectMeta \<Rightarrow> ConfigMap" where
  "newConfigMap m = \<lparr>cm_Meta = m, cm_Data = []\<rparr>"

definition setConfigMap :: "VaultServer \<Rightarrow> ConfigMap \<Rightarrow> ConfigMap \<Rightarrow> ConfigMap" where
  "setConfigMap vs cm x = x\<lparr>cm_Meta := ownedBy vs (upsertAnnotations (cm_Meta cm) (upsertLabels (cm_Meta cm) (cm_Meta x))),
     cm_Data := cm_Data cm\<rparr>"

definition ensureConfigMap :: "VaultServer \<Rightarrow> ConfigMap \<Rightarrow> unit go" where
  "ensureConfigMap vs cm = andThen (CreateOrPatch ConfigMaps (cm_Meta cm) newConfigMap (setConfigMap vs cm)) (\<lambda>_. ret ())"

text \<open>
  A cluster role binding has no namespace: the typed client reads it by name
  alone, whatever the namespace in its metadata says.
\<close>

definition ensurClusterRoleBinding :: "VaultServer \<Rightarrow> RoleBinding \<Rightarrow> unit go" where
  "ensurClusterRoleBinding vs crb =
     andThen (wrapErr (''failed to create rbac role '' @ metaKey (rb_Meta crb))
       (CreateOrPatch ClusterRoleBindings ((rb_Meta crb)\<lparr>Namespace := ''''\<rparr>)
          (\<lambda>_. newRoleBinding (rb_Meta crb)) (setBinding vs crb))) (\<lambda>_. ret ())"


section \<open>Monitoring\<close>

text \<open>The agents are a library: \<open>agents.New\<close> gives nil for a type it does not know.\<close>

definition agents_New :: "string \<Rightarrow> string option" where
  "agents_New ty = (if ty \<in> {''prometheus.io'', ''prometheus.io/operator'', ''prometheus.io/coreos-operator'',
       ''coreos-prometheus-operator'', ''prometheus.io/builtin''} then Some ty else None)"

definition agentCall :: "string \<Rightarrow> string \<Rightarrow> VaultServer \<Rightarrow> unit go" where
  "agentCall method agent vs =
     andThen (extCall method [agent, Namespace (Meta vs), StatsServiceName vs]) (\<lambda>_. ret ())"

definition setStatsService :: "VaultServer \<Rightarrow> int \<Rightarrow> Service \<Rightarrow> Service" where
  "setStatsService vs port x =
     x\<lparr>svc_Meta := ownedBy vs ((svc_Meta x)\<lparr>Labels := StatsLabels vs\<rparr>),
       svc_Spec := (svc_Spec x)\<lparr>ss_Selector := VaultServer_OffshootSelectors vs,
         ss_Ports := MergeServicePorts (ss_Ports (svc_Spec x))
           [servicePort PrometheusExporterPortName (if port \<le> 0 then VaultExporterFetchMetricsPort else port)
              VaultExporterFetchMetricsPort]\<rparr>\<rparr>"

definition ensureStatsService :: "VaultServer \<Rightarrow> int \<Rightarrow> Service go" where
  "ensureStatsService vs port =
     CreateOrPatch Services (ObjectMeta0 (StatsServiceName vs) (Namespace (Meta vs))) newService (setStatsService vs port)"

definition ensureStatsServiceDeleted :: "VaultServer \<Rightarrow> unit go" where
  "ensureStatsServiceDeleted vs = apiDelete ''Service'' (Namespace (Meta vs)) (StatsServiceName vs)"

definition newMonitorController :: "VaultServer \<Rightarrow> string option go" where
  "newMonitorController vs = (case vs_Monitor (Spec vs) of
     None \<Rightarrow> fail (Plain ''MonitorSpec not found'')
   | Some m \<Rightarrow> if agent_Prometheus m \<noteq> None then ret (agents_New (agent_Agent m))
              else fail (Plain ''monitoring controller not found''))"

definition setExporterPort :: "VaultServer \<Rightarrow> VaultServer" where
  "setExporterPort vs = vs\<lparr>Spec := (Spec vs)\<lparr>vs_Monitor :=
     map_option (\<lambda>m. m\<lparr>agent_Prometheus := map_option (\<lambda>p. p\<lparr>prom_Exporter :=
       map_option (\<lambda>e. e\<lparr>pe_Port := VaultExporterFetchMetricsPort\<rparr>) (prom_Exporter p)\<rparr>) (agent_Prometheus m)\<rparr>)
     (vs_Monitor (Spec vs))\<rparr>\<rparr>"

definition addOrUpdateMonitor :: "VaultServer \<Rightarrow> VaultServer go" where
  "addOrUpdateMonitor vs =
     andThen (newMonitorController vs) (\<lambda>agent.
     if exporterSpec vs = None then panic ''invalid memory address or nil pointer dereference''
     else let vs = setExporterPort vs in
       (case agent of
          None \<Rightarrow> panic ''invalid memory address or nil pointer dereference''
        | Some a \<Rightarrow> andThen (agentCall ''agent.CreateOrUpdate'' a vs) (\<lambda>_. ret vs)))"

definition KeyAgent :: string where "KeyAgent = ''monitoring.appscode.com/agent''"

definition getOldAgent :: "VaultServer \<Rightarrow> string option go" where
  "getOldAgent vs = attempt (apiGet Services (Namespace (Meta vs)) (StatsServiceName vs))
     (\<lambda>_. ret None)
     (\<lambda>svc. ret (agents_New (case map_of (Annotations (svc_Meta svc)) KeyAgent of Some a \<Rightarrow> a | None \<Rightarrow> '''')))"

definition setAgent :: "string \<Rightarrow> Service \<Rightarrow> Service" where
  "setAgent agent x = x\<lparr>svc_Meta := (svc_Meta x)\<lparr>Annotations := UpsertMap (Annotations (svc_Meta x)) [(KeyAgent, agent)]\<rparr>\<rparr>"

definition setNewAgent :: "VaultServer \<Rightarrow> string \<Rightarrow> unit go" where
  "setNewAgent vs agent =
     andThen (apiGet Services (Namespace (Meta vs)) (StatsServiceName vs)) (\<lambda>svc.
     andThen (Patch Services svc (setAgent agent)) (\<lambda>_. ret ()))"

definition manageMonitor :: "VaultServer \<Rightarrow> VaultServer go" where
  "manageMonitor vs =
     andThen (getOldAgent vs) (\<lambda>oldAgent.
     let deleteOld = (\<lambda>a k. errOf (agentCall ''agent.Delete'' a vs) (\<lambda>_. k)) in
     case vs_Monitor (Spec vs) of
       Some m \<Rightarrow>
         let add = andThen (addOrUpdateMonitor vs) (\<lambda>vs'. andThen (setNewAgent vs' (agent_Agent m)) (\<lambda>_. ret vs')) in
         (case oldAgent of
            Some a \<Rightarrow> if a \<noteq> agent_Agent m then deleteOld a add else add
          | None \<Rightarrow> add)
     | None \<Rightarrow> (case oldAgent of Some a \<Rightarrow> deleteOld a (ret vs) | None \<Rightarrow> ret vs))"


section \<open>Deploying\<close>

text \<open>The object a creation starts from: every field but the metadata is zero.\<close>

definition VaultServerSpec0 :: VaultServerSpec where
  "VaultServerSpec0 = \<lparr>vs_Replicas = None, vs_Version = '''', vs_ConfigSource = None, vs_DataSources = [], vs_TLS = None,
     vs_Backend = \<lparr>be_Inmem = False, be_Etcd = None, be_Gcs = None, be_S3 = None, be_Azure = None, be_PostgreSQL = None,
       be_MySQL = None, be_File = None, be_DynamoDB = None, be_Swift = None, be_Consul = None\<rparr>,
     vs_Unsealer = None, vs_AuthMethods = [], vs_Monitor = None,
     vs_PodTemplate = \<lparr>ptm_Annotations = [], ptm_Controller_Annotations = [], ptm_NodeSelector = [], ptm_Affinity = '''',
       ptm_SchedulerName = '''', ptm_Tolerations = '''', ptm_ImagePullSecrets = [], ptm_PriorityClassName = '''',
       ptm_Priority = None, ptm_FSGroup = None, ptm_SecurityContext = '''', ptm_Resources = ''''\<rparr>,
     vs_ServiceTemplate = \<lparr>stm_Annotations = [], stm_ClusterIP = '''', stm_Type = '''', stm_ExternalIPs = [],
       stm_LoadBalancerIP = '''', stm_LoadBalancerSourceRanges = [], stm_ExternalTrafficPolicy = '''',
       stm_HealthCheckNodePort = 0, stm_SessionAffinityConfig = ''''\<rparr>\<rparr>"

definition VaultServerStatus0 :: VaultServerStatus where
  "VaultServerStatus0 = \<lparr>vss_ObservedGeneration = 0, vss_Phase = '''', vss_Initialized = False, vss_ServiceName = '''',
     vss_ClientPort = 0, vss_VaultStatus = \<lparr>vst_Active = '''', vst_Standby = [], vst_Sealed = [], vst_Unsealed = []\<rparr>,
     vss_UpdatedNodes = [], vss_Conditions = [], vss_AuthMethodStatus = []\<rparr>"

definition newVaultServer :: "ObjectMeta \<Rightarrow> VaultServer" where
  "newVaultServer m = \<lparr>Meta = m, Spec = VaultServerSpec0, Status = VaultServerStatus0\<rparr>"

definition setServerTLS :: "string \<Rightarrow> string \<Rightarrow> VaultServer \<Rightarrow> VaultServer" where
  "setServerTLS secret ca = setTLS (Some \<lparr>tls_TLSSecret = secret, tls_CABundle = ca\<rparr>)"

definition CreateVaultTLSSecret :: "VaultServer \<Rightarrow> VaultServer go" where
  "CreateVaultTLSSecret vs =
     andThen (GetServerTLS vs) (\<lambda>(vs, sr, ca).
     andThen (ensureSecret vs sr) (\<lambda>_.
     andThen (CreateOrPatch VaultServers (Meta vs) newVaultServer (setServerTLS (Name (sec_Meta sr)) ca))
       (\<lambda>_. ret vs)))"

definition CreateVaultConfig :: "vaultSrv \<Rightarrow> VaultServer \<Rightarrow> unit go" where
  "CreateVaultConfig v vs = andThen (GetConfig v vs) (ensureConfigMap vs)"

text \<open>The statistics service is ensured or deleted; an error of either is ignored.\<close>

definition syncStatsService :: "VaultServer \<Rightarrow> unit go" where
  "syncStatsService vs = (case exporterSpec vs of
     Some e \<Rightarrow> errOf (ensureStatsService vs (pe_Port e)) (\<lambda>_. ret ())
   | None \<Rightarrow> errOf (ensureStatsServiceDeleted vs) (\<lambda>_. ret ()))"

definition DeployVault :: "vaultSrv \<Rightarrow> VaultServer \<Rightarrow> VaultServer go" where
  "DeployVault v vs =
     andThen (forEach (ensureServiceAccount vs) (GetServiceAccounts vs)) (\<lambda>_.
     andThen (ensureService vs (GetService vs)) (\<lambda>_.
     andThen (case GetRBACRolesAndRoleBindings v vs of (rList, rBList) \<Rightarrow> ensureRoleAndRoleBinding vs rList rBList) (\<lambda>_.
     andThen (ensurClusterRoleBinding vs (GetRBACClusterRoleBinding vs)) (\<lambda>_.
     case GetPodTemplate vs (GetContainer v vs) (ServiceAccountName vs) of (vs, podT) \<Rightarrow>
     andThen (vaultSrv_Apply v vs podT) (\<lambda>podT.
     andThen (ensureDeployment vs (GetDeployment vs podT)) (\<lambda>_.
     andThen (syncStatsService vs) (\<lambda>_.
     manageMonitor vs)))))))"

definition newAppBinding :: "ObjectMeta \<Rightarrow> AppBinding" where
  "newAppBinding m = \<lparr>ab_Meta = m, ab_Type = '''', ab_Version = '''',
     ab_ClientConfig = \<lparr>cc_URL = None, cc_Service = None, cc_InsecureSkipTLSVerify = False, cc_CABundle = ''''\<rparr>,
     ab_Secret = None, ab_SecretTransforms = [], ab_Parameters = None\<rparr>"

definition serverConfiguration :: "VaultServer \<Rightarrow> VaultServerConfiguration" where
  "serverConfiguration vs =
     \<lparr>vsc_Path = AuthTypeKubernetes, vsc_VaultRole = PolicyNameForPolicyController vs,
      vsc_Kubernetes = Some \<lparr>kac_ServiceAccountName = ServiceAccountName vs,
        kac_TokenReviewerServiceAccountName = ServiceAccountForTokenReviewer vs,
        kac_UsePodServiceAccountForCSIDriver = True\<rparr>,
      vsc_Azure = None, vsc_AWS = None\<rparr>"

definition setAppBinding :: "VaultServer \<Rightarrow> string \<Rightarrow> AppBinding \<Rightarrow> AppBinding" where
  "setAppBinding vs ca x =
     x\<lparr>ab_Meta := ownedBy vs ((ab_Meta x)\<lparr>Labels := VaultServer_OffshootLabels vs\<rparr>),
       ab_ClientConfig := \<lparr>cc_URL = None,
         cc_Service = Some \<lparr>svcref_Scheme = ''HTTPS'', svcref_Name = Name (svc_Meta (GetService vs)),
           svcref_Port = VaultClientPort, svcref_Path = '''', svcref_Query = ''''\<rparr>,
         cc_InsecureSkipTLSVerify = False, cc_CABundle = ca\<rparr>,
       ab_Parameters := Some (Inr (serverConfiguration vs))\<rparr>"

definition ensureAppBindings :: "VaultServer \<Rightarrow> VaultServer go" where
  "ensureAppBindings vs =
     andThen (GetServerTLS vs) (\<lambda>(vs, sr, ca).
     andThen (CreateOrPatch AppBindings (ObjectMeta0 (AppBindingName vs) (Namespace (Meta vs))) newAppBinding
        (setAppBinding vs ca)) (\<lambda>_. ret vs))"


section \<open>Reconciling\<close>

definition ConditionReady :: string where "ConditionReady = ''Ready''"

definition setServerFailed :: "string \<Rightarrow> error \<Rightarrow> int \<Rightarrow> VaultServerStatus \<Rightarrow> VaultServerStatus" where
  "setServerFailed rsn err now st =
     st\<lparr>vss_Conditions := SetCondition now (vss_Conditions st) (conditionTrue ConditionFailed rsn (Error err))\<rparr>"

definition setServerReady :: "int \<Rightarrow> int \<Rightarrow> VaultServerStatus \<Rightarrow> VaultServerStatus" where
  "setServerReady generation now st =
     st\<lparr>vss_ObservedGeneration := generation,
        vss_Conditions := SetCondition now (vss_Conditions st)
          (conditionTrue ConditionReady ''Provisioned'' ''vault server is ready to use'')\<rparr>"

definition serverStep :: "VaultServer \<Rightarrow> string \<Rightarrow> string \<Rightarrow> 'a go \<Rightarrow> ('a \<Rightarrow> 'b go) \<Rightarrow> 'b go" where
  "serverStep vs rsn msg m k =
     attempt m
       (\<lambda>err. errOf (UpdateStatus VaultServers (Meta vs) (setServerFailed rsn err)) (\<lambda>err2.
          case NewAggregate [err2, Some (Wrapped msg err)] of Some e \<Rightarrow> fail e | None \<Rightarrow> panic ''unreachable''))
       k"

definition provision :: "vaultSrv \<Rightarrow> VaultServer \<Rightarrow> VaultServer go" where
  "provision v vs =
     serverStep vs ''FailedToCreateVaultTLSSecret'' ''failed to create vault server tls secret'' (CreateVaultTLSSecret vs) (\<lambda>vs.
     serverStep vs ''FailedToCreateVaultConfig'' ''failed to create vault config'' (CreateVaultConfig v vs) (\<lambda>_.
     serverStep vs ''FailedToDeployVault'' ''failed to deploy vault'' (DeployVault v vs) (\<lambda>vs.
     serverStep vs ''FailedToCreateAppBinding'' ''failed to deploy vault'' (ensureAppBindings vs) (\<lambda>vs.
     andThen (wrapErr ''failed to update status''
        (UpdateStatus VaultServers (Meta vs) (setServerReady (Generation (Meta vs))))) (\<lambda>_. ret vs)))))"


section \<open>Background tasks\<close>

text \<open>
  The controller keeps, per server, the cancel function of its status monitor
  (\<open>ctxCancels\<close>) and of its authentication method task (\<open>authMethodCtx\<close>).  A task
  is an entry of \<open>tasks\<close>, and cancelling one marks it; a task that has been
  cancelled stops at its next look at the context.
\<close>

datatype taskKind = StatusMonitor | AuthMethodTask

record task =
  tk_Kind :: taskKind
  tk_key :: string
  tk_vs :: VaultServer
  tk_cancelled :: bool

record VaultController =
  ctxCancels :: "string \<rightharpoonup> nat"
  authMethodCtx :: "string \<rightharpoonup> nat"
  tasks :: "task list"

definition cancelTask :: "nat \<Rightarrow> task list \<Rightarrow> task list" where
  "cancelTask i ts = ts[i := (ts ! i)\<lparr>tk_cancelled := True\<rparr>]"

definition startTask :: "taskKind \<Rightarrow> VaultServer \<Rightarrow> task list \<Rightarrow> task list" where
  "startTask kind vs ts = ts @ [\<lparr>tk_Kind = kind, tk_key = key vs, tk_vs = vs, tk_cancelled = False\<rparr>]"

text \<open>\<open>if ctx, ok := m[key]; ok { ctx.Cancel(); delete(m, key) }\<close>\<close>

definition stopMonitor :: "string \<Rightarrow> VaultController \<Rightarrow> VaultController" where
  "stopMonitor k c = (case ctxCancels c k of
     None \<Rightarrow> c
   | Some i \<Rightarrow> c\<lparr>tasks := cancelTask i (tasks c), ctxCancels := (ctxCancels c)(k := None)\<rparr>)"

definition stopAuthMethods :: "string \<Rightarrow> VaultController \<Rightarrow> VaultController" where
  "stopAuthMethods k c = (case authMethodCtx c k of
     None \<Rightarrow> c
   | Some i \<Rightarrow> c\<lparr>tasks := cancelTask i (tasks c), authMethodCtx := (authMethodCtx c)(k := None)\<rparr>)"

definition startMonitor :: "VaultServer \<Rightarrow> VaultController \<Rightarrow> VaultController" where
  "startMonitor vs c = (case ctxCancels c (key vs) of
     Some i \<Rightarrow> c
   | None \<Rightarrow> c\<lparr>ctxCancels := (ctxCancels c)(key vs \<mapsto> length (tasks c)),
               tasks := startTask StatusMonitor vs (tasks c)\<rparr>)"

definition runAuthMethodsReconcile :: "VaultServer \<Rightarrow> VaultController \<Rightarrow> VaultController" where
  "runAuthMethodsReconcile vs c =
    (let ts = (case authMethodCtx c (key vs) of Some i \<Rightarrow> cancelTask i (tasks c) | None \<Rightarrow> tasks c) in
     c\<lparr>authMethodCtx := (authMethodCtx c)(key vs \<mapsto> length ts), tasks := startTask AuthMethodTask vs ts\<rparr>)"

definition reconcileVault :: "VaultController \<Rightarrow> vaultSrv \<Rightarrow> VaultServer \<Rightarrow> VaultController go" where
  "reconcileVault c v vs =
     andThen (provision v vs) (\<lambda>vs. ret (runAuthMethodsReconcile vs (startMonitor vs c)))"

definition syncVaultServer :: "VaultController \<Rightarrow> VaultServer \<Rightarrow> VaultController go" where
  "syncVaultServer c vs =
    (if DeletionTimestamp (Meta vs) \<noteq> None then ret c
     else wrapErr (''for VaultServer '' @ key vs) (andThen (NewVault vs) (\<lambda>v. reconcileVault c v vs)))"

definition runVaultServerInjector :: "VaultController \<Rightarrow> string \<Rightarrow> VaultController go" where
  "runVaultServerInjector c k =
     andThen (GetByKey ''VaultServer'' k) (\<lambda>obj. case obj of
       None \<Rightarrow> ret (stopAuthMethods k (stopMonitor k c))
     | Some ob \<Rightarrow> (case cl_prj VaultServers ob of
         None \<Rightarrow> panic ''interface conversion''
       | Some vs \<Rightarrow> syncVaultServer c vs))"


end
