(* ===== verification/Admission_Theorems.thy ===== *)
theory Admission_Theorems
  imports Admission Vault_Server Example_World
begin

text \<open>
  What admission guarantees: the shape of an admitted Vault server, which is
  what building its storage and unsealer relies on, the fields that no admitted
  update changes, and the frozen spec of a decided access request.
\<close>

section \<open>Validated servers\<close>

definition wfUnsealer :: "UnsealerSpec \<Rightarrow> bool" where
  "wfUnsealer u \<longleftrightarrow> 0 < un_SecretThreshold u \<and> un_SecretThreshold u \<le> un_SecretShares u \<and> numOfModes (un_Mode u) = 1"

definition wfServer :: "VaultServer \<Rightarrow> bool" where
  "wfServer vs \<longleftrightarrow>
     vs_Version (Spec vs) \<noteq> '''' \<and> pred_option (\<lambda>n. 1 \<le> n) (vs_Replicas (Spec vs))
     \<and> numOfBackend (vs_Backend (Spec vs)) = 1 \<and> pred_option wfUnsealer (vs_Unsealer (Spec vs))"

text \<open>A secret was read and has a value for every key.\<close>

definition secretSeen :: "string \<Rightarrow> string \<Rightarrow> string list \<Rightarrow> trace \<Rightarrow> bool" where
  "secretSeen ns n ks es \<longleftrightarrow> (\<exists>sr. Kube (KGet ''Secret'' ns n) (Inr (SecretObj sr)) \<in> set es
     \<and> (\<forall>k \<in> set ks. \<exists>v. map_of (sec_Data sr) k = Some v \<and> v \<noteq> ''''))"

definition checksSeen :: "string \<Rightarrow> secretCheck list \<Rightarrow> trace \<Rightarrow> bool" where
  "checksSeen ns cs es \<longleftrightarrow> (\<forall>(n, ks, msg) \<in> set cs. n \<noteq> '''' \<longrightarrow> secretSeen ns n ks es)"

lemma checksSeen_simps [simp]:
  "checksSeen ns [] es" "checksSeen ns (cs @ ds) es \<longleftrightarrow> checksSeen ns cs es \<and> checksSeen ns ds es"
  "checksSeen ns ((n, ks, msg) # cs) es \<longleftrightarrow> (n \<noteq> '''' \<longrightarrow> secretSeen ns n ks es) \<and> checksSeen ns cs es"
  by (auto simp: checksSeen_def)

lemma secretSeen_mono: "secretSeen ns n ks es \<Longrightarrow> set es \<subseteq> set fs \<Longrightarrow> secretSeen ns n ks fs"
  unfolding secretSeen_def by blast

lemma checksSeen_mono: "checksSeen ns cs es \<Longrightarrow> set es \<subseteq> set fs \<Longrightarrow> checksSeen ns cs fs"
  by (auto simp: checksSeen_def elim: secretSeen_mono)

lemma guard_Ok: "guard b e env t = (Ok u, t') \<longleftrightarrow> \<not> b \<and> t' = t"
  by (auto simp: guard_def run_simps)

lemma validateSecret_Ok:
  assumes "validateSecret kc n ns ks env t = (Ok u, t')"
  shows "\<exists>es. t' = t @ es \<and> secretSeen ns n ks es"
proof -
  from assms obtain sr t1 where sr: "apiGet Secrets ns n env t = (Ok sr, t1)"
    and ks: "forEach (\<lambda>k. case map_of (sec_Data sr) k of None \<Rightarrow> fail (missingKey k)
      | Some val \<Rightarrow> guard (val = '''') (missingKey k)) ks env t1 = (Ok u, t')"
    by (auto simp: validateSecret_def run_simps split: if_splits elim!: andThen_Ok)
  from ks have "t' = t1 \<and> (\<forall>k \<in> set ks. \<exists>v. map_of (sec_Data sr) k = Some v \<and> v \<noteq> '''')"
    by (induction ks) (auto simp: run_simps guard_Ok split: option.splits elim!: andThen_Ok)
  moreover from sr have "t1 = t @ [Kube (KGet ''Secret'' ns n) (Inr (SecretObj sr))]"
    using Secrets.apiGet_Ok[OF sr] by (auto simp: apiGet_def kubeCall_def Let_def Secrets_def)
  ultimately show ?thesis unfolding secretSeen_def by fastforce
qed

lemma validateSecrets_Ok:
  "validateSecrets kc ns cs env t = (Ok u, t') \<Longrightarrow> \<exists>es. t' = t @ es \<and> checksSeen ns cs es"
proof (induction cs arbitrary: t)
  case Nil
  then show ?case by (simp add: validateSecrets_def run_simps)
next
  case (Cons c cs)
  obtain n ks msg where c: "c = (n, ks, msg)" by (cases c)
  from Cons.prems obtain t1 where
    first: "(if n = '''' then ret () else wrapErr msg (validateSecret kc n ns ks)) env t = (Ok (), t1)"
    and rest: "validateSecrets kc ns cs env t1 = (Ok u, t')"
    by (auto simp: validateSecrets_def c elim!: andThen_Ok)
  from first have "\<exists>es. t1 = t @ es \<and> (n \<noteq> '''' \<longrightarrow> secretSeen ns n ks es)"
    by (auto simp: run_simps wrapErr_Ok split: if_splits dest: validateSecret_Ok)
  then obtain es where "t1 = t @ es" "n \<noteq> '''' \<longrightarrow> secretSeen ns n ks es" by blast
  moreover from Cons.IH[OF rest] obtain fs where "t' = t1 @ fs" "checksSeen ns cs fs" by blast
  ultimately show ?case
    by (intro exI[of _ "es @ fs"]) (auto simp: c intro: secretSeen_mono checksSeen_mono)
qed

lemma exactlyOne_Ok: "exactlyOne what n env t = (Ok u, t') \<longleftrightarrow> n = 1 \<and> t' = t"
  by (auto simp: exactlyOne_def run_simps)

lemma validateUnsealer_Ok:
  assumes "validateUnsealer kc ns u env t = (Ok x, t')"
  shows "wfUnsealer u \<and> (\<exists>es. t' = t @ es \<and> checksSeen ns (modeChecks (un_Mode u)) es)"
  using assms
  by (auto simp: validateUnsealer_def guard_run wfUnsealer_def exactlyOne_Ok split: if_splits
      elim!: andThen_Ok dest: validateSecrets_Ok)

definition serverChecks :: "VaultServer \<Rightarrow> secretCheck list" where
  "serverChecks vs = backendChecks (vs_Backend (Spec vs))
     @ (case vs_Unsealer (Spec vs) of None \<Rightarrow> [] | Some u \<Rightarrow> modeChecks (un_Mode u))"

lemma ValidateVaultServer_Ok:
  assumes "ValidateVaultServer kc ec vs env t = (Ok x, t')"
  shows "wfServer vs \<and> (\<exists>es. t' = t @ es \<and> checksSeen (Namespace (Meta vs)) (serverChecks vs) es)"
proof -
  let ?ns = "Namespace (Meta vs)"
  from assms obtain ver t1 t2 where ver: "vs_Version (Spec vs) \<noteq> ''''"
    and get: "apiGet VaultServerVersions '''' (vs_Version (Spec vs)) env t = (Ok ver, t1)"
    and repl: "pred_option (\<lambda>n. 1 \<le> n) (vs_Replicas (Spec vs))"
    and sec: "validateSecrets kc ?ns (backendChecks (vs_Backend (Spec vs))) env t1 = (Ok (), t2)"
    and one: "numOfBackend (vs_Backend (Spec vs)) = 1"
    and uns: "(case vs_Unsealer (Spec vs) of None \<Rightarrow> ret () | Some u \<Rightarrow> validateUnsealer kc ?ns u) env t2 = (Ok x, t')"
    by (auto simp: ValidateVaultServer_def guard_run exactlyOne_Ok guard_Ok run_simps
        split: if_splits option.splits elim!: andThen_Ok)
  from get obtain e where t1: "t1 = t @ [e]" by (auto simp: apiGet_def kubeCall_def Let_def)
  from validateSecrets_Ok[OF sec] obtain es where es: "t2 = t1 @ es" "checksSeen ?ns (backendChecks (vs_Backend (Spec vs))) es"
    by blast
  from uns have "pred_option wfUnsealer (vs_Unsealer (Spec vs)) \<and> (\<exists>fs. t' = t2 @ fs
      \<and> checksSeen ?ns (case vs_Unsealer (Spec vs) of None \<Rightarrow> [] | Some u \<Rightarrow> modeChecks (un_Mode u)) fs)"
    by (auto simp: run_simps split: option.splits dest: validateUnsealer_Ok)
  then obtain fs where "pred_option wfUnsealer (vs_Unsealer (Spec vs))" "t' = t @ e # es @ fs"
    "checksSeen ?ns (case vs_Unsealer (Spec vs) of None \<Rightarrow> [] | Some u \<Rightarrow> modeChecks (un_Mode u)) fs"
    using t1 es(1) by auto
  then show ?thesis using ver repl one es(2)
    by (auto simp: wfServer_def serverChecks_def intro!: exI[of _ "e # es @ fs"] intro: checksSeen_mono)
qed

text \<open>The shape is what choosing a storage and an unsealer needs.\<close>

lemma newUnsealer_wf: "wfUnsealer u \<Longrightarrow> \<exists>m. newUnsealer u = ret m"
  by (auto simp: wfUnsealer_def numOfModes_def countTrue_def newUnsealer_def split: option.splits if_splits)

lemma NewOptions_errors:
  "postgresql_NewOptions ns p env t \<noteq> (Err (Plain ''invalid storage backend''), t')"
  "mysql_NewOptions ns m env t \<noteq> (Err (Plain ''invalid storage backend''), t')"
  "file_NewOptions vs f env t \<noteq> (Err (Plain ''invalid storage backend''), t')"
  by (auto simp: Let_def run_simps postgresql_NewOptions_def mysql_NewOptions_def file_NewOptions_def dataOr_def orFail_def
      andThen_def attempt_def wrapErr_def split: option.splits if_splits prod.splits res.splits)

lemma NewStorage_wf:
  assumes "numOfBackend (vs_Backend (Spec vs)) = 1"
  shows "NewStorage vs env t \<noteq> (Err (Plain ''invalid storage backend''), t')"
proof
  let ?s = "vs_Backend (Spec vs)"
  assume "NewStorage vs env t = (Err (Plain ''invalid storage backend''), t')"
  then have "\<not> be_Inmem ?s \<and> be_Etcd ?s = None \<and> be_Gcs ?s = None \<and> be_S3 ?s = None \<and> be_Azure ?s = None
    \<and> be_PostgreSQL ?s = None \<and> be_MySQL ?s = None \<and> be_File ?s = None \<and> be_DynamoDB ?s = None \<and> be_Swift ?s = None
    \<and> be_Consul ?s = None"
    by (simp add: NewStorage_def Let_def NewOptions_errors run_simps split: option.splits if_splits)
  with assms show False by (simp add: numOfBackend_def countTrue_def)
qed


section \<open>Admission of Vault servers\<close>

lemma decodeServer_Server [simp]: "decodeServer (VaultServerObj vs) = ret vs"
  by (simp add: decodeServer_def VaultServers_def)

lemma decodeServer_Ok [simp]: "decodeServer ob env t = (Ok vs, t') \<longleftrightarrow> ob = VaultServerObj vs \<and> t' = t"
  by (auto simp: decodeServer_def VaultServers_def run_simps split: obj.splits)

lemma Admit_allowed:
  assumes "concerns {OpCreate, OpUpdate} ''kubevault.com'' ''VaultServer'' req"
    and "areq_Object req = Inr (VaultServerObj vs)"
    and "VaultServerValidator_Admit v req env t = (Ok resp, t')" "ar_Allowed resp"
  shows "ValidateVaultServer (vv_client v) (vv_extClient v) vs env t = (Ok (), t')"
    and "areq_Operation req = OpUpdate \<Longrightarrow> areq_OldObject req = Inr (VaultServerObj old) \<Longrightarrow> preconditionsHold vs old"
  using assms
  by (auto simp: VaultServerValidator_Admit_def concerns_def monad_laws run_simps validateUpdate_def guard_def attempt_def
      split: if_splits sum.splits prod.splits res.splits elim!: andThen_Ok)

text \<open>The servers that come from an admitted creation by admitted updates.\<close>

inductive serverHistory :: "VaultServerValidator \<Rightarrow> VaultServer \<Rightarrow> VaultServer \<Rightarrow> bool" for v where
  created: "concerns {OpCreate} ''kubevault.com'' ''VaultServer'' req \<Longrightarrow> areq_Object req = Inr (VaultServerObj vs)
    \<Longrightarrow> VaultServerValidator_Admit v req env t = (Ok resp, t') \<Longrightarrow> ar_Allowed resp \<Longrightarrow> serverHistory v vs vs"
| updated: "serverHistory v vs0 old \<Longrightarrow> concerns {OpUpdate} ''kubevault.com'' ''VaultServer'' req
    \<Longrightarrow> areq_OldObject req = Inr (VaultServerObj old) \<Longrightarrow> areq_Object req = Inr (VaultServerObj vs)
    \<Longrightarrow> VaultServerValidator_Admit v req env t = (Ok resp, t') \<Longrightarrow> ar_Allowed resp \<Longrightarrow> serverHistory v vs0 vs"

lemma concerns_mono: "concerns A g k req \<Longrightarrow> A \<subseteq> B \<Longrightarrow> concerns B g k req"
  by (auto simp: concerns_def)

lemma serverHistory_wf: "serverHistory v vs0 vs \<Longrightarrow> wfServer vs \<and> preconditionsHold vs vs0"
proof (induction rule: serverHistory.induct)
  case (created req vs env t resp t')
  from Admit_allowed(1)[OF concerns_mono[OF created(1)] created(2-4)] show ?case
    using ValidateVaultServer_Ok by (auto simp: preconditionsHold_def)
next
  case (updated vs0 old req vs env t resp t')
  have c: "concerns {OpCreate, OpUpdate} ''kubevault.com'' ''VaultServer'' req" "areq_Operation req = OpUpdate"
    using updated(2) by (auto simp: concerns_def)
  from Admit_allowed(1)[OF c(1) updated(4-6)] have "wfServer vs" using ValidateVaultServer_Ok by blast
  moreover from Admit_allowed(2)[OF c(1) updated(4-6) c(2) updated(3)] have "preconditionsHold vs old" .
  ultimately show ?case using updated(7) by (simp add: preconditionsHold_def)
qed

definition demoValidator :: VaultServerValidator where
  "demoValidator = \<lparr>vv_client = True, vv_extClient = True, vv_initialized = True\<rparr>"

definition demoServer :: "string \<Rightarrow> VaultServer" where
  "demoServer ver = \<lparr>Meta = ObjectMeta0 ''vault'' ''demo'',
     Spec = VaultServerSpec0\<lparr>vs_Version := ver, vs_Replicas := Some 1,
       vs_Backend := (vs_Backend VaultServerSpec0)\<lparr>be_Inmem := True\<rparr>,
       vs_Unsealer := Some \<lparr>un_SecretShares = 5, un_SecretThreshold = 3, un_RetryPeriodSeconds = 10,
         un_OverwriteExisting = False, un_StoreRootToken = False,
         un_Mode = \<lparr>mode_KubernetesSecret = Some \<lparr>ks_SecretName = ''keys''\<rparr>, mode_GoogleKmsGcs = None,
           mode_AwsKmsSsm = None, mode_AzureKeyVault = None\<rparr>\<rparr>\<rparr>,
     Status = VaultServerStatus0\<rparr>"

definition demoVersion :: VaultServerVersion where
  "demoVersion = \<lparr>vsv_Meta = ObjectMeta0 ''1.2.3'' '''', vsv_Spec = \<lparr>vsv_Version = ''1.2.3'', vsv_VaultImage = ''vault:1.2.3'',
     vsv_UnsealerImage = ''unsealer'', vsv_ExporterImage = ''exporter'', vsv_Deprecated = False\<rparr>\<rparr>"

definition versionEnv :: env where
  "versionEnv = echoEnv (\<lambda>k ns n. Inr (VaultServerVersionObj demoVersion)) (\<lambda>r. NoResponse (Plain '''')) (\<lambda>k n. Inr None)"

text \<open>C34: A Vault server that comes from an admitted creation by any number of admitted updates, each answered
  in its own environment, names a version, asks for at least one replica, has exactly one storage backend and, if it
  has an unsealer, exactly one mode and a threshold between one and the number of shares; its name, namespace,
  backend, unsealer and node selector are those of the creation.  Choosing its storage therefore never ends in an
  invalid backend, and choosing its unsealer succeeds.\<close>

theorem admitted_server_wellformed:
  assumes "serverHistory v vs0 vs"
  shows "wfServer vs \<and> preconditionsHold vs vs0
    \<and> NewStorage vs env t \<noteq> (Err (Plain ''invalid storage backend''), t')
    \<and> (vs_Unsealer (Spec vs) = Some u \<longrightarrow> (\<exists>m. newUnsealer u = ret m))"
  using serverHistory_wf[OF assms] NewStorage_wf newUnsealer_wf by (auto simp: wfServer_def)

lemma demo_admitted:
  "ver \<noteq> '''' \<Longrightarrow> op = OpCreate \<or> op = OpUpdate \<Longrightarrow> VaultServerValidator_Admit demoValidator
     \<lparr>areq_Operation = op, areq_SubResource = '''', areq_Group = ''kubevault.com'', areq_Kind = ''VaultServer'',
      areq_Object = Inr (VaultServerObj (demoServer ver)), areq_OldObject = Inr (VaultServerObj (demoServer old))\<rparr> versionEnv []
   = (Ok allowed, [Kube (KGet ''VaultServerVersion'' '''' ver) (Inr (VaultServerVersionObj demoVersion))])"
  by (auto simp: validateUpdate_def preconditionsHold_def VaultServerValidator_Admit_def concerns_def demoValidator_def ValidateVaultServer_def demoServer_def
      VaultServerSpec0_def versionEnv_def echoEnv_def go_defs apiGet_def VaultServerVersions_def decodeServer_def
      VaultServers_def validateSecrets_def backendChecks_def checksOf_def exactlyOne_def numOfBackend_def countTrue_def
      validateUnsealer_def modeChecks_def numOfModes_def)

theorem admitted_server_wellformed_witness:
  "serverHistory demoValidator (demoServer ''1.2.3'') (demoServer ''1.3.0'') \<and> wfServer (demoServer ''1.3.0'')"
proof -
  have "serverHistory demoValidator (demoServer ''1.2.3'') (demoServer ''1.2.3'')"
    by (rule serverHistory.created[OF _ _ demo_admitted[of "''1.2.3''" OpCreate "''1.2.3''"]]) (auto simp: concerns_def)
  then have h: "serverHistory demoValidator (demoServer ''1.2.3'') (demoServer ''1.3.0'')"
    by (rule serverHistory.updated[OF _ _ _ _ demo_admitted[of "''1.3.0''" OpUpdate "''1.2.3''"]]) (auto simp: concerns_def)
  from h admitted_server_wellformed[OF h] show ?thesis by simp
qed


section \<open>Decided access requests\<close>

text \<open>
  The status updates of the controller, and decisions: conditions that contain
  an approval or a denial.
\<close>

inductive statusWrite :: "AccessRequestStatus \<Rightarrow> AccessRequestStatus \<Rightarrow> bool" where
  waiting: "statusWrite st (setWaiting now st)"
| failed: "statusWrite st (setFailed rsn err now st)"
| issued: "statusWrite st (setIssued s n now st)"
| available: "statusWrite st (setAvailable generation now st)"
| cleared: "statusWrite st (clearIssued generation now st)"
| decided: "isApprovedOrDenied cs \<Longrightarrow> statusWrite st (st\<lparr>req_Conditions := cs\<rparr>)"

text \<open>
  The life of a request: updates the validator admits, on which the API server
  keeps the status, and writes of the status subresource, on which it keeps the
  rest.
\<close>

inductive requestHistory :: "'spec accessRequest client \<Rightarrow> 'spec accessRequest \<Rightarrow> 'spec accessRequest \<Rightarrow> bool" for c where
  start: "requestHistory c r r"
| specUpdate: "requestHistory c r old \<Longrightarrow> concerns {OpUpdate} ''engine.kubevault.com'' (cl_Kind c) req
    \<Longrightarrow> areq_OldObject req = Inr (cl_inj c old) \<Longrightarrow> areq_Object req = Inr (cl_inj c new)
    \<Longrightarrow> accessRequestAdmit c initialized req env t = (Ok resp, t') \<Longrightarrow> ar_Allowed resp
    \<Longrightarrow> Status new = Status old \<Longrightarrow> requestHistory c r new"
| statusUpdate: "requestHistory c r old \<Longrightarrow> statusWrite (Status old) st \<Longrightarrow> requestHistory c r (old\<lparr>Status := st\<rparr>)"

lemma RemoveCondition_keeps: "c \<in> set cs \<Longrightarrow> cond_Type c \<noteq> ty \<Longrightarrow> c \<in> set (RemoveCondition cs ty)"
proof (cases "GetCondition cs ty")
  case (Some p)
  assume c: "c \<in> set cs" "cond_Type c \<noteq> ty"
  obtain i d where p: "p = (i, d)" by (cases p)
  then have i: "i < length cs" "cs ! i = d" "cond_Type d = ty" using Some GetCondition_Some by blast+
  then have "cs = take i cs @ d # drop (Suc i) cs" by (metis id_take_nth_drop)
  then have "c \<in> set (take i cs @ d # drop (Suc i) cs)" using c(1) by metis
  with c(2) i(3) show ?thesis using Some p by (auto simp: RemoveCondition_def)
qed (simp add: RemoveCondition_def)

lemma SetCondition_keeps: "c \<in> set cs \<Longrightarrow> cond_Type c \<noteq> cond_Type d \<Longrightarrow> c \<in> set (SetCondition now cs d)"
proof (cases "GetCondition cs (cond_Type d)")
  case (Some p)
  assume c: "c \<in> set cs" "cond_Type c \<noteq> cond_Type d"
  obtain i e where p: "p = (i, e)" by (cases p)
  then have i: "i < length cs" "cs ! i = e" "cond_Type e = cond_Type d" using Some GetCondition_Some by blast+
  from c(1) obtain j where j: "j < length cs" "cs ! j = c" by (auto simp: in_set_conv_nth)
  with c(2) i have "i \<noteq> j" by auto
  then have "(cs[i := d\<lparr>cond_LastTransitionTime := now\<rparr>]) ! j = c" using j by simp
  then have "c \<in> set (cs[i := d\<lparr>cond_LastTransitionTime := now\<rparr>])" using j by (metis length_list_update nth_mem)
  with c show ?thesis using Some p by (simp add: SetCondition_def)
qed (simp add: SetCondition_def)

lemma decided_keeps:
  assumes "isApprovedOrDenied cs"
    and "\<And>c. c \<in> set cs \<Longrightarrow> cond_Type c \<in> {ConditionRequestApproved, ConditionRequestDenied} \<Longrightarrow> c \<in> set cs'"
  shows "isApprovedOrDenied cs'"
  using assms unfolding isApprovedOrDenied_def by blast

lemma statusWrite_keeps:
  assumes "statusWrite st st'" "isApprovedOrDenied (req_Conditions st)"
  shows "isApprovedOrDenied (req_Conditions st')"
  using assms
proof (cases rule: statusWrite.cases)
  case (available generation now)
  show ?thesis unfolding available setAvailable_def
    by (rule decided_keeps[OF assms(2)])
      (auto intro!: SetCondition_keeps RemoveCondition_keeps simp: availableCondition_def)
next
  case (failed rsn err now)
  show ?thesis unfolding failed setFailed_def
    by (rule decided_keeps[OF assms(2)]) (auto intro!: SetCondition_keeps simp: failedCondition_def)
qed (simp_all add: setWaiting_def setIssued_def clearIssued_def)

lemma accessRequestAdmit_allowed:
  assumes "typed_client c" "concerns {OpUpdate} ''engine.kubevault.com'' (cl_Kind c) req"
    and "areq_OldObject req = Inr (cl_inj c old)" "areq_Object req = Inr (cl_inj c new)"
    and "accessRequestAdmit c initialized req env t = (Ok resp, t')" "ar_Allowed resp"
    and "isApprovedOrDenied (req_Conditions (Status new))"
  shows "Spec new = Spec old"
  using assms by (auto simp: accessRequestAdmit_def run_simps typed_client.prj_inj split: if_splits)

lemma requestHistory_frozen:
  assumes "requestHistory c r r'" "typed_client c" "isApprovedOrDenied (req_Conditions (Status r))"
  shows "Spec r' = Spec r \<and> isApprovedOrDenied (req_Conditions (Status r'))"
  using assms
proof (induction rule: requestHistory.induct)
  case (specUpdate r old req new initialized env t resp t')
  then show ?case using accessRequestAdmit_allowed[of c req old new initialized env t resp t'] by auto
next
  case (statusUpdate r old st)
  then show ?case using statusWrite_keeps by auto
qed simp

text \<open>C35: Once an access request of any of the four kinds carries an approval or a denial, its spec is
  frozen: after any sequence of updates the validator admits, of status writes of the controller and of further
  decisions, the spec is the one that was decided on, and the decision is still there.  So the credential that is
  issued is the one that was approved.\<close>

theorem decided_request_frozen:
  "(requestHistory AWSAccessKeyRequests r1 s1 \<and> isApprovedOrDenied (req_Conditions (Status r1)) \<longrightarrow>
     Spec s1 = Spec r1 \<and> isApprovedOrDenied (req_Conditions (Status s1)))
   \<and> (requestHistory AzureAccessKeyRequests r2 s2 \<and> isApprovedOrDenied (req_Conditions (Status r2)) \<longrightarrow>
     Spec s2 = Spec r2 \<and> isApprovedOrDenied (req_Conditions (Status s2)))
   \<and> (requestHistory GCPAccessKeyRequests r3 s3 \<and> isApprovedOrDenied (req_Conditions (Status r3)) \<longrightarrow>
     Spec s3 = Spec r3 \<and> isApprovedOrDenied (req_Conditions (Status s3)))
   \<and> (requestHistory DatabaseAccessRequests r4 s4 \<and> isApprovedOrDenied (req_Conditions (Status r4)) \<longrightarrow>
     Spec s4 = Spec r4 \<and> isApprovedOrDenied (req_Conditions (Status s4)))"
  by (auto dest: requestHistory_frozen[OF _ AWSAccessKeyRequests.typed_client_axioms]
      requestHistory_frozen[OF _ AzureAccessKeyRequests.typed_client_axioms]
      requestHistory_frozen[OF _ GCPAccessKeyRequests.typed_client_axioms]
      requestHistory_frozen[OF _ DatabaseAccessRequests.typed_client_axioms])

definition demoUpdate :: AdmissionRequest where
  "demoUpdate = \<lparr>areq_Operation = OpUpdate, areq_SubResource = '''', areq_Group = ''engine.kubevault.com'',
     areq_Kind = ''AWSAccessKeyRequest'', areq_Object = Inr (AWSAccessKeyRequestObj demoRequest),
     areq_OldObject = Inr (AWSAccessKeyRequestObj demoRequest)\<rparr>"

theorem decided_request_frozen_witness:
  "requestHistory AWSAccessKeyRequests demoRequest (demoRequest\<lparr>Status := setFailed ''x'' (Plain ''y'') 1 (Status demoRequest)\<rparr>)
   \<and> isApprovedOrDenied (req_Conditions (Status demoRequest))
   \<and> isApprovedOrDenied (req_Conditions (setFailed ''x'' (Plain ''y'') 1 (Status demoRequest)))"
proof -
  have adm: "accessRequestAdmit AWSAccessKeyRequests True demoUpdate versionEnv [] = (Ok allowed, [])"
    by (simp add: accessRequestAdmit_def demoUpdate_def concerns_def AWSAccessKeyRequests_def run_simps)
  have "requestHistory AWSAccessKeyRequests demoRequest demoRequest"
    by (rule requestHistory.specUpdate[OF requestHistory.start _ _ _ adm])
      (simp_all add: demoUpdate_def concerns_def AWSAccessKeyRequests_def)
  then have h: "requestHistory AWSAccessKeyRequests demoRequest
      (demoRequest\<lparr>Status := setFailed ''x'' (Plain ''y'') 1 (Status demoRequest)\<rparr>)"
    by (rule requestHistory.statusUpdate[OF _ statusWrite.failed])
  have d: "isApprovedOrDenied (req_Conditions (Status demoRequest))"
    by (simp add: isApprovedOrDenied_def demoRequest_def demoCondition_def)
  from h d decided_request_frozen[of demoRequest "demoRequest\<lparr>Status := setFailed ''x'' (Plain ''y'') 1 (Status demoRequest)\<rparr>"]
  show ?thesis by simp
qed

section \<open>Initialisation\<close>

text \<open>
  The validator counts as initialised before its clients are made: when making
  one fails, every later admission of a server with a version panics.
\<close>

lemma failed_initialize_panics:
  assumes "VaultServerValidator_Initialize kubeErr extErr v0 = (v, Some err)" "\<not> vv_extClient v0"
    and "concerns {OpCreate} ''kubevault.com'' ''VaultServer'' req"
    and "areq_Object req = Inr (VaultServerObj vs)" "vs_Version (Spec vs) \<noteq> ''''"
  shows "VaultServerValidator_Admit v req env t = (Panic ''invalid memory address or nil pointer dereference'', t)"
proof -
  from assms(1,2) have "vv_initialized v" "\<not> vv_extClient v"
    by (auto simp: VaultServerValidator_Initialize_def Let_def split: option.splits)
  then show ?thesis using assms(3-5)
    by (simp add: VaultServerValidator_Admit_def ValidateVaultServer_def concerns_def guard_run andThen_def attempt_def
        guard_def run_simps)
qed


end
