(* ===== verification/Pod_Theorems.thy ===== *)
theory Pod_Theorems
  imports Vault_Pod Admission_Theorems
begin

text \<open>
  The pod built for a Vault server is one the API server accepts: every mount
  names a volume of the pod, no two volumes share a name, and the containers
  are Vault first, then the unsealer, then the exporter.
\<close>

section \<open>Mounts and volumes\<close>

definition mountNames :: "Container list \<Rightarrow> string set" where
  "mountNames cs = (\<Union>c \<in> set cs. vm_Name ` set (c_VolumeMounts c))"

definition volumeNames :: "PodTemplateSpec \<Rightarrow> string list" where
  "volumeNames pt = map vol_Name (ps_Volumes (pt_Spec pt))"

text \<open>The names and images of the containers.\<close>

definition containerKey :: "Container \<Rightarrow> string \<times> string" where
  "containerKey c = (c_Name c, c_Image c)"

definition containerKeys :: "PodTemplateSpec \<Rightarrow> (string \<times> string) list" where
  "containerKeys pt = map containerKey (ps_Containers (pt_Spec pt))"

definition mountsOk :: "PodTemplateSpec \<Rightarrow> bool" where
  "mountsOk pt \<longleftrightarrow> mountNames (ps_InitContainers (pt_Spec pt) @ ps_Containers (pt_Spec pt)) \<subseteq> set (volumeNames pt)"

definition podOk :: "PodTemplateSpec \<Rightarrow> bool" where
  "podOk pt \<longleftrightarrow> mountsOk pt \<and> distinct (volumeNames pt)"

lemma mountNames_simps [simp]:
  "mountNames [] = {}" "mountNames (c # cs) = vm_Name ` set (c_VolumeMounts c) \<union> mountNames cs"
  "mountNames (cs @ ds) = mountNames cs \<union> mountNames ds"
  by (auto simp: mountNames_def)

lemma fold_upsertBy_keys: "f ` set (fold (upsertBy f) vs xs) = f ` set xs \<union> f ` set vs"
  by (induction vs arbitrary: xs) (auto simp: upsertBy_keys)

lemma fold_upsertBy_distinct: "distinct (map f xs) \<Longrightarrow> distinct (map f (fold (upsertBy f) vs xs))"
  by (induction vs arbitrary: xs) (auto simp: upsertBy_distinct)

lemma Upsert_names [simp]:
  "vm_Name ` set (UpsertVolumeMount ms ns) = vm_Name ` set ms \<union> vm_Name ` set ns"
  "vol_Name ` set (UpsertVolume vs ws) = vol_Name ` set vs \<union> vol_Name ` set ws"
  by (simp_all add: UpsertVolumeMount_def UpsertVolume_def fold_upsertBy_keys)

lemma UpsertContainer_mounts:
  "mountNames (UpsertContainer cs u) \<subseteq> mountNames cs \<union> vm_Name ` set (c_VolumeMounts u)"
  by (induction cs u rule: UpsertContainer.induct) (auto simp: MergeWithOverwrite_def over_def)

lemma UpsertContainer_new: "c_Name u \<notin> c_Name ` set cs \<Longrightarrow> UpsertContainer cs u = cs @ [u]"
  by (induction cs u rule: UpsertContainer.induct) auto

lemma UpsertContainer_same:
  "distinct (map c_Name cs) \<Longrightarrow> c \<in> set cs \<Longrightarrow> containerKey u = containerKey c
    \<Longrightarrow> map containerKey (UpsertContainer cs u) = map containerKey cs"
proof (induction cs u rule: UpsertContainer.induct)
  case (2 x cs u)
  show ?case
  proof (cases "c_Name x = c_Name u")
    case True
    with 2(2-4) have "c = x" by (force simp: containerKey_def)
    with 2(4) True show ?thesis by (simp add: containerKey_def MergeWithOverwrite_def over_def)
  next
    case False
    with 2 show ?thesis by (auto simp: containerKey_def)
  qed
qed simp

lemma lastNamed_cases: "lastNamed n cs = Container0 \<or> lastNamed n cs \<in> set cs \<and> c_Name (lastNamed n cs) = n"
proof -
  have "fold (\<lambda>c cont. if c_Name c = n then c else cont) cs x = x
      \<or> fold (\<lambda>c cont. if c_Name c = n then c else cont) cs x \<in> set cs
        \<and> c_Name (fold (\<lambda>c cont. if c_Name c = n then c else cont) cs x) = n" for x
  proof (induction cs arbitrary: x)
    case (Cons c cs)
    from Cons[of "if c_Name c = n then c else x"] show ?case by (auto split: if_splits)
  qed simp
  then show ?thesis unfolding lastNamed_def .
qed

lemma lastNamed_mounts: "vm_Name ` set (c_VolumeMounts (lastNamed n cs)) \<subseteq> mountNames cs"
  using lastNamed_cases[of n cs] by (auto simp: mountNames_def Container0_def)

lemma lastNamed_the:
  assumes "distinct (map c_Name cs)" "c \<in> set cs" "c_Name c = n"
  shows "lastNamed n cs = c"
proof -
  have last: "fold (\<lambda>c cont. if c_Name c = n then c else cont) ds x = (if filter (\<lambda>c. c_Name c = n) ds = [] then x
      else last (filter (\<lambda>c. c_Name c = n) ds))" for ds x
    by (induction ds arbitrary: x) simp_all
  have "last (filter (\<lambda>c. c_Name c = n) cs) \<in> set (filter (\<lambda>c. c_Name c = n) cs)"
    using assms(2,3) by (intro last_in_set) (auto simp: filter_empty_conv)
  then have "last (filter (\<lambda>c. c_Name c = n) cs) \<in> set cs" "c_Name (last (filter (\<lambda>c. c_Name c = n) cs)) = c_Name c"
    using assms(3) by simp_all
  then have "last (filter (\<lambda>c. c_Name c = n) cs) = c"
    using assms(1,2) unfolding distinct_map by (auto dest: inj_onD)
  moreover have "filter (\<lambda>c. c_Name c = n) cs \<noteq> []" using assms(2,3) by (auto simp: filter_empty_conv)
  ultimately show ?thesis by (simp add: lastNamed_def last)
qed


section \<open>Each step keeps the pod well formed\<close>

lemma upsertVolumes_names [simp]: "set (volumeNames (upsertVolumes vs pt)) = set (volumeNames pt) \<union> vol_Name ` set vs"
  by (simp add: volumeNames_def upsertVolumes_def)

lemma upsertVolumes_distinct: "distinct (volumeNames pt) \<Longrightarrow> distinct (volumeNames (upsertVolumes vs pt))"
  by (simp add: volumeNames_def upsertVolumes_def UpsertVolume_def fold_upsertBy_distinct)

lemma upsertVolumes_same [simp]:
  "ps_Containers (pt_Spec (upsertVolumes vs pt)) = ps_Containers (pt_Spec pt)"
  "ps_InitContainers (pt_Spec (upsertVolumes vs pt)) = ps_InitContainers (pt_Spec pt)"
  "containerKeys (upsertVolumes vs pt) = containerKeys pt"
  by (simp_all add: upsertVolumes_def containerKeys_def)

lemma setContainers_same [simp]:
  "ps_Containers (pt_Spec (setContainers f pt)) = f (ps_Containers (pt_Spec pt))"
  "ps_InitContainers (pt_Spec (setContainers f pt)) = ps_InitContainers (pt_Spec pt)"
  "volumeNames (setContainers f pt) = volumeNames pt"
  by (simp_all add: setContainers_def volumeNames_def)

text \<open>Upserting a container whose mounts have volumes.\<close>

lemma podOk_upsertContainer:
  assumes "podOk pt" "vm_Name ` set (c_VolumeMounts (u (ps_Containers (pt_Spec pt)))) \<subseteq> set (volumeNames pt)"
  shows "podOk (setContainers (\<lambda>cs. UpsertContainer cs (u cs)) pt)"
  using assms subset_trans[OF UpsertContainer_mounts[of "ps_Containers (pt_Spec pt)" "u (ps_Containers (pt_Spec pt))"]]
  by (simp add: podOk_def mountsOk_def)

lemma podOk_upsertVolumes: "podOk pt \<Longrightarrow> podOk (upsertVolumes vs pt)"
  by (auto simp: podOk_def mountsOk_def upsertVolumes_distinct)

lemma podOk_editUnsealer:
  assumes "podOk pt" "vm_Name ` set ms \<subseteq> set (volumeNames pt)"
  shows "podOk (editUnsealer args envs ms pt)"
  unfolding editUnsealer_def Let_def
  using assms lastNamed_mounts[of VaultUnsealerContainerName "ps_Containers (pt_Spec pt)"]
  by (intro podOk_upsertContainer) (auto simp: podOk_def mountsOk_def)

lemma podOk_Unsealer: "podOk pt \<Longrightarrow> podOk (Unsealer_Apply u pt)"
  by (cases u) (auto simp: k8smode_Apply_def googlemode_Apply_def awsmode_Apply_def azuremode_Apply_def Let_def
      mount_def secretVolume_def intro!: podOk_editUnsealer podOk_upsertVolumes)

lemma podOk_exporter: "podOk pt \<Longrightarrow> podOk (exporter_Apply img vs pt)"
  unfolding exporter_Apply_def
  by (rule podOk_upsertContainer) (auto simp: exporterContainer_def Container0_def Let_def split: option.splits)

text \<open>Storage backends edit the first container and append at most one volume.\<close>

lemma onFirst_addEnv:
  assumes "podOk pt" "onFirstContainer (addEnv es) pt env t = (Ok pt', t')"
  shows "podOk pt' \<and> containerKeys pt' = containerKeys pt \<and> volumeNames pt' = volumeNames pt"
proof (cases "ps_Containers (pt_Spec pt)")
  case (Cons c cs)
  with assms(2) have "pt' = pt\<lparr>pt_Spec := (pt_Spec pt)\<lparr>ps_Containers := addEnv es c # cs\<rparr>\<rparr>"
    by (simp add: onFirstContainer_def run_simps)
  with assms(1) Cons show ?thesis
    by (simp add: podOk_def mountsOk_def containerKeys_def volumeNames_def addEnv_def containerKey_def)
qed (use assms(2) in \<open>simp add: onFirstContainer_def run_simps\<close>)

lemma onFirst_addMount:
  assumes "podOk pt" "vol_Name v \<notin> set (volumeNames pt)"
    "onFirstContainer (addMount (mount (vol_Name v) d ro)) (addVolume v pt) env t = (Ok pt', t')"
  shows "podOk pt' \<and> containerKeys pt' = containerKeys pt \<and> volumeNames pt' = volumeNames pt @ [vol_Name v]"
proof (cases "ps_Containers (pt_Spec pt)")
  case (Cons c cs)
  with assms(3) have "pt' = (addVolume v pt)\<lparr>pt_Spec := (pt_Spec (addVolume v pt))
      \<lparr>ps_Containers := addMount (mount (vol_Name v) d ro) c # cs\<rparr>\<rparr>"
    by (simp add: onFirstContainer_def run_simps addVolume_def)
  with assms(1,2) Cons show ?thesis
    by (simp add: podOk_def mountsOk_def containerKeys_def volumeNames_def addMount_def addVolume_def mount_def containerKey_def) blast
qed (use assms(3) in \<open>simp add: onFirstContainer_def run_simps addVolume_def\<close>)

definition storageVolumes :: "string set" where
  "storageVolumes = {''vault-etcd-tls'', ''vault-google-credential'', ''mysql-tls'', ''vault-filesystem-backend'',
     ''vault-consul-tls''}"

lemma storageVolumes_mem:
  "''vault-etcd-tls'' \<in> storageVolumes" "''vault-google-credential'' \<in> storageVolumes" "''mysql-tls'' \<in> storageVolumes"
  "''vault-filesystem-backend'' \<in> storageVolumes" "''vault-consul-tls'' \<in> storageVolumes"
  by (simp_all add: storageVolumes_def)

text \<open>\<open>keepsPod pt m\<close>: a well formed \<open>pt\<close> becomes a well formed pod with the same containers.\<close>

definition keepsPod :: "PodTemplateSpec \<Rightarrow> PodTemplateSpec go \<Rightarrow> bool" where
  "keepsPod pt m \<longleftrightarrow> (\<forall>env t pt' t'. podOk pt \<longrightarrow> m env t = (Ok pt', t') \<longrightarrow> podOk pt' \<and> containerKeys pt' = containerKeys pt)"

lemma keeps_ret: "keepsPod pt (ret pt)"
  by (auto simp: keepsPod_def run_simps)

lemma keeps_addEnv: "keepsPod pt (onFirstContainer (addEnv es) pt)"
  unfolding keepsPod_def using onFirst_addEnv by blast

lemma keeps_mountSecret:
  assumes "set (volumeNames pt) \<inter> storageVolumes = {}" "vol \<in> storageVolumes"
  shows "keepsPod pt (mountSecret vol secret items d ro pt)"
proof -
  have "vol_Name (secretVolume vol secret items) = vol" by (simp add: secretVolume_def)
  with assms onFirst_addMount[of pt "secretVolume vol secret items"] show ?thesis
    unfolding keepsPod_def mountSecret_def by (metis disjoint_iff)
qed

lemma keeps_andThen: "keepsPod pt m \<Longrightarrow> (\<And>p. keepsPod p (k p)) \<Longrightarrow> keepsPod pt (andThen m k)"
  unfolding keepsPod_def by (metis andThen_Ok)

lemma keeps_if: "keepsPod pt a \<Longrightarrow> keepsPod pt b \<Longrightarrow> keepsPod pt (if c then a else b)"
  by simp

lemmas keeps_rules = keeps_ret keeps_addEnv keeps_mountSecret keeps_if

lemma keeps_file:
  assumes "set (volumeNames pt) \<inter> storageVolumes = {}"
  shows "keepsPod pt (file_Apply sp claim pt)"
proof -
  have "''vault-filesystem-backend'' \<notin> set (volumeNames pt)" using assms storageVolumes_mem(4) by blast
  with onFirst_addMount[of pt "\<lparr>vol_Name = ''vault-filesystem-backend'', vol_Source = PersistentVolumeClaimVolume claim\<rparr>"]
  show ?thesis unfolding keepsPod_def file_Apply_def by (auto simp: run_simps split: if_splits)
qed

lemma keeps_etcd:
  assumes "set (volumeNames pt) \<inter> storageVolumes = {}"
  shows "keepsPod pt (etcd_Apply sp pt)"
  unfolding etcd_Apply_def Let_def by (intro keeps_andThen keeps_rules assms storageVolumes_mem)

lemma keeps_gcs:
  assumes "set (volumeNames pt) \<inter> storageVolumes = {}"
  shows "keepsPod pt (gcs_Apply sp pt)"
  unfolding gcs_Apply_def by (intro keeps_if keeps_andThen keeps_addEnv keeps_mountSecret keeps_ret assms storageVolumes_mem)

lemma Storage_Apply_Ok:
  assumes ok: "podOk pt" and disj: "set (volumeNames pt) \<inter> storageVolumes = {}"
    and run: "Storage_Apply s pt env t = (Ok pt', t')"
  shows "podOk pt' \<and> containerKeys pt' = containerKeys pt"
proof -
  have "keepsPod pt (Storage_Apply s pt)"
    by (cases s; simp add: s3_Apply_def dynamodb_Apply_def azurestorage_Apply_def mysql_Apply_def swift_Apply_def consul_Apply_def
        Let_def keeps_rules keeps_file keeps_etcd keeps_gcs disj storageVolumes_mem)
  with ok run show ?thesis unfolding keepsPod_def by blast
qed


section \<open>The whole pod\<close>

definition serverVolumes :: "string set" where
  "serverVolumes = {''config'', ''controller-config'', ''user-config'', ''vault-tls-secret''} \<union> range dataName"

lemma serverVolumes_storage: "serverVolumes \<inter> storageVolumes = {}"
  by (auto simp: serverVolumes_def storageVolumes_def dataName_def)

lemma data_names: "vm_Name ` set (dataMounts vs) = vol_Name ` set (dataVolumes vs)"
proof -
  let ?n = "length (vs_DataSources (Spec vs))"
  have "vm_Name ` set (dataMounts vs) = dataName ` {..<?n}"
    by (simp add: dataMounts_def mount_def image_image lessThan_atLeast0)
  moreover have "vol_Name ` set (dataVolumes vs) = dataName ` (fst ` set (enumerate 0 (vs_DataSources (Spec vs))))"
    by (force simp: dataVolumes_def image_iff)
  moreover have "fst ` set (enumerate 0 (vs_DataSources (Spec vs))) = {..<?n}"
    by (metis add_0 atLeast0LessThan atLeastLessThan_upt map_fst_enumerate set_map)
  ultimately show ?thesis by simp
qed

lemma data_serverVolumes: "vol_Name ` set (dataVolumes vs) \<subseteq> range dataName"
  by (auto simp: dataVolumes_def)

lemma config_names:
  "vm_Name ` set (c_VolumeMounts (initContainer vs)) = vol_Name ` set (configVolumes vs)"
  "''config'' \<in> vol_Name ` set (configVolumes vs)"
  "vol_Name ` set (configVolumes vs) \<subseteq> {''config'', ''controller-config'', ''user-config''}"
proof -
  let ?u = "case vs_ConfigSource (Spec vs) of None \<Rightarrow> {} | Some _ \<Rightarrow> {''user-config''}"
  have v: "vol_Name ` set (configVolumes vs) = {''config'', ''controller-config''} \<union> ?u"
    unfolding configVolumes_def by (simp split: option.split)
  have "vm_Name ` set (c_VolumeMounts (initContainer vs)) = {''config'', ''controller-config''} \<union> ?u"
    unfolding initContainer_def Let_def by (simp add: mount_def insert_commute split: option.split)
  with v show "vm_Name ` set (c_VolumeMounts (initContainer vs)) = vol_Name ` set (configVolumes vs)" by simp
  show "''config'' \<in> vol_Name ` set (configVolumes vs)" unfolding v by blast
  show "vol_Name ` set (configVolumes vs) \<subseteq> {''config'', ''controller-config'', ''user-config''}"
    unfolding v by (simp split: option.split)
qed

lemma serverContainers_Ok:
  assumes "ps_InitContainers (pt_Spec pt) = []" "ps_Volumes (pt_Spec pt) = []"
    "ps_Containers (pt_Spec pt) = [c]" "c_Name c = VaultContainerName" "c_VolumeMounts c = []"
  shows "podOk (serverContainers vs pt)" "set (volumeNames (serverContainers vs pt)) \<subseteq> serverVolumes"
    "containerKeys (serverContainers vs pt) = [containerKey c]"
proof -
  let ?vols = "configVolumes vs @ [secretVolume ''vault-tls-secret'' (tlsSecretOf vs) []] @ dataVolumes vs"
  let ?p = "upsertVolumes ?vols pt"
  have last: "lastNamed VaultContainerName [c] = c" using assms(4) by (simp add: lastNamed_def)
  have v: "volumeNames (serverContainers vs pt) = volumeNames ?p"
    by (simp add: serverContainers_def Let_def volumeNames_def)
  have vols: "set (volumeNames ?p) = vol_Name ` set (configVolumes vs) \<union> {''vault-tls-secret''} \<union> vol_Name ` set (dataVolumes vs)"
    unfolding upsertVolumes_names using assms(2) by (simp add: volumeNames_def secretVolume_def image_Un Un_assoc)
  show "set (volumeNames (serverContainers vs pt)) \<subseteq> serverVolumes"
    unfolding v vols serverVolumes_def using data_serverVolumes[of vs] config_names(3)[of vs] by blast
  show names: "containerKeys (serverContainers vs pt) = [containerKey c]"
    using assms(3,4) last by (simp add: serverContainers_def Let_def containerKeys_def containerKey_def MergeWithOverwrite_def over_def)
  have init: "mountNames (ps_InitContainers (pt_Spec (serverContainers vs pt))) \<subseteq> set (volumeNames ?p)"
    unfolding vols using assms(1) config_names(1)[of vs]
    by (simp add: serverContainers_def Let_def upsertVolumes_def) blast
  have cont: "mountNames (ps_Containers (pt_Spec (serverContainers vs pt))) \<subseteq> set (volumeNames ?p)"
  proof -
    let ?ms = "UpsertVolumeMount (UpsertVolumeMount [] [mount ''vault-tls-secret'' ''/etc/vault/tls/'' False,
        mount ''config'' ''/etc/vault/config'' False]) (dataMounts vs)"
    have "mountNames (ps_Containers (pt_Spec (serverContainers vs pt))) = vm_Name ` set (over [] ?ms)"
      using assms(3,4,5) last
      by (simp add: serverContainers_def Let_def MergeWithOverwrite_def upsertVolumes_def)
    also have "\<dots> = vm_Name ` set ?ms" by (simp add: over_def)
    also have "\<dots> = {''vault-tls-secret'', ''config''} \<union> vol_Name ` set (dataVolumes vs)"
      by (simp add: mount_def data_names)
    finally show ?thesis unfolding vols using config_names(2)[of vs] by blast
  qed
  have "distinct (volumeNames ?p)"
    by (rule upsertVolumes_distinct) (simp add: volumeNames_def assms(2))
  with init cont show "podOk (serverContainers vs pt)"
    by (simp add: podOk_def mountsOk_def v)
qed


section \<open>The containers\<close>

lemma editUnsealer_keys:
  assumes "distinct (map fst (containerKeys pt))" "VaultUnsealerContainerName \<in> fst ` set (containerKeys pt)"
  shows "containerKeys (editUnsealer args envs ms pt) = containerKeys pt"
proof -
  let ?cs = "ps_Containers (pt_Spec pt)"
  from assms have d: "distinct (map c_Name ?cs)" by (simp add: containerKeys_def containerKey_def comp_def)
  from assms(2) obtain c where c: "c \<in> set ?cs" "c_Name c = VaultUnsealerContainerName"
    by (auto simp: containerKeys_def containerKey_def)
  have "lastNamed VaultUnsealerContainerName ?cs = c" by (rule lastNamed_the[OF d c])
  then show ?thesis unfolding editUnsealer_def containerKeys_def setContainers_same Let_def
    by (auto intro!: UpsertContainer_same[OF d c(1)] simp: containerKey_def)
qed

lemma Unsealer_Apply_keys:
  assumes "distinct (map fst (containerKeys pt))" "VaultUnsealerContainerName \<in> fst ` set (containerKeys pt)"
  shows "containerKeys (Unsealer_Apply u pt) = containerKeys pt"
  using assms by (cases u) (simp_all add: k8smode_Apply_def googlemode_Apply_def awsmode_Apply_def azuremode_Apply_def
      Let_def editUnsealer_keys)

lemma containerKeys_new:
  assumes "c_Name u \<notin> fst ` set (containerKeys pt)"
  shows "containerKeys (setContainers (\<lambda>cs. UpsertContainer cs u) pt) = containerKeys pt @ [containerKey u]"
proof -
  from assms have "c_Name u \<notin> c_Name ` set (ps_Containers (pt_Spec pt))"
    by (simp add: containerKeys_def containerKey_def image_image)
  then show ?thesis by (simp add: containerKeys_def UpsertContainer_new)
qed

lemma unsealerSrv_Apply_Ok:
  assumes run: "unsealerSrv_Apply u vs pt env t = (Ok pt', t')"
    and ok: "podOk pt" and keys: "containerKeys pt = [(VaultContainerName, img)]"
  shows "podOk pt' \<and> containerKeys pt' = [(VaultContainerName, img), (VaultUnsealerContainerName, us_image u)]"
proof -
  from run obtain c where pt': "pt' = Unsealer_Apply (us_unsealer u) (setContainers (\<lambda>cs. UpsertContainer cs c) pt)"
    and c: "containerKey c = (VaultUnsealerContainerName, us_image u)" "c_VolumeMounts c = []"
    by (auto simp: unsealerSrv_Apply_def Let_def run_simps containerKey_def Container0_def
        split: option.splits elim!: andThen_Ok)
  let ?p = "setContainers (\<lambda>cs. UpsertContainer cs c) pt"
  have "podOk ?p" using ok c(2) by (intro podOk_upsertContainer) simp_all
  moreover have p: "containerKeys ?p = [(VaultContainerName, img), (VaultUnsealerContainerName, us_image u)]"
    using c(1) keys by (subst containerKeys_new) (auto simp: containerKey_def container_names)
  moreover have "containerKeys (Unsealer_Apply (us_unsealer u) ?p) = containerKeys ?p"
    by (rule Unsealer_Apply_keys) (simp_all add: p container_names)
  ultimately show ?thesis using podOk_Unsealer by (simp add: pt')
qed

lemma exporter_keys:
  assumes "VaultExporterContainerName \<notin> fst ` set (containerKeys pt)"
  shows "containerKeys (exporter_Apply img vs pt) = containerKeys pt @ [(VaultExporterContainerName, img)]"
proof -
  have "containerKey (exporterContainer img vs) = (VaultExporterContainerName, img)"
    by (simp add: exporterContainer_def Let_def containerKey_def split: option.split)
  then show ?thesis using assms unfolding exporter_Apply_def
    by (subst containerKeys_new) (auto simp: containerKey_def)
qed

lemma vaultSrv_Apply_Ok:
  assumes "vaultSrv_Apply v vs (snd (GetPodTemplate vs0 (GetContainer v vs1) sa)) env t = (Ok pt, t')"
  shows "podOk pt \<and> containerKeys pt = [(VaultContainerName, v_image v)]
    @ (case v_unslr v of None \<Rightarrow> [] | Some u \<Rightarrow> [(VaultUnsealerContainerName, us_image u)])
    @ [(VaultExporterContainerName, v_exprtr v)]"
proof -
  let ?c = "GetContainer v vs1" and ?p0 = "snd (GetPodTemplate vs0 (GetContainer v vs1) sa)"
  have c: "containerKey ?c = (VaultContainerName, v_image v)" "c_Name ?c = VaultContainerName" "c_VolumeMounts ?c = []"
    by (simp_all add: GetContainer_def Container0_def containerKey_def)
  have shape: "ps_InitContainers (pt_Spec ?p0) = []" "ps_Volumes (pt_Spec ?p0) = []" "ps_Containers (pt_Spec ?p0) = [?c]"
    by (simp_all add: GetPodTemplate_def Let_def)
  note base = serverContainers_Ok[OF shape c(2,3), of vs]
  from assms obtain p1 t1 p2 t2 where 1: "Storage_Apply (v_strg v) (serverContainers vs ?p0) env t = (Ok p1, t1)"
    and 2: "(case v_unslr v of None \<Rightarrow> ret p1 | Some u \<Rightarrow> unsealerSrv_Apply u vs p1) env t1 = (Ok p2, t2)"
    and pt: "pt = exporter_Apply (v_exprtr v) vs p2"
    by (auto simp: vaultSrv_Apply_def run_simps elim!: andThen_Ok)
  have "set (volumeNames (serverContainers vs ?p0)) \<inter> storageVolumes = {}"
    using base(2) serverVolumes_storage by blast
  from Storage_Apply_Ok[OF base(1) this 1] base(3) c(1)
  have p1: "podOk p1" "containerKeys p1 = [(VaultContainerName, v_image v)]" by simp_all
  have p2: "podOk p2 \<and> containerKeys p2 = [(VaultContainerName, v_image v)]
    @ (case v_unslr v of None \<Rightarrow> [] | Some u \<Rightarrow> [(VaultUnsealerContainerName, us_image u)])"
    using 2 p1 unsealerSrv_Apply_Ok[OF _ p1] by (cases "v_unslr v") (auto simp: run_simps)
  then have "VaultExporterContainerName \<notin> fst ` set (containerKeys p2)"
    by (auto simp: container_names split: option.splits)
  from exporter_keys[OF this] p2 show ?thesis by (simp add: pt podOk_exporter)
qed

text \<open>C36: Whatever the spec of the server, its storage backend and its
  unsealer mode: when the pod template of a deployment is built, the API server
  can accept it.  No two volumes have the same name, and every mount of every
  init container and container (those of the storage backend, of the unsealer
  mode and of the data sources included) names one of the volumes; and the
  containers are exactly Vault with the image of the server version, the
  unsealer when the spec asks for one, and the exporter, in that order.\<close>

theorem vault_pod_wellformed:
  assumes "vaultSrv_Apply v vs (snd (GetPodTemplate vs0 (GetContainer v vs1) sa)) env t = (Ok pt, t')"
  shows "podOk pt \<and> containerKeys pt = [(VaultContainerName, v_image v)]
    @ (case v_unslr v of None \<Rightarrow> [] | Some u \<Rightarrow> [(VaultUnsealerContainerName, us_image u)])
    @ [(VaultExporterContainerName, v_exprtr v)]"
  by (rule vaultSrv_Apply_Ok[OF assms])

definition demoSrv :: vaultSrv where
  "demoSrv = \<lparr>v_strg = GcsStorage \<lparr>gcs_Bucket = ''b'', gcs_ChunkSize = '''', gcs_MaxParallel = 0, gcs_HAEnabled = False,
      gcs_CredentialSecret = ''gcs''\<rparr>,
    v_unslr = Some \<lparr>us_unsealer = KubernetesMode \<lparr>ks_SecretName = ''keys''\<rparr>, us_image = ''unsealer''\<rparr>,
    v_exprtr = ''exporter'', v_image = ''vault:1.2.3''\<rparr>"

definition readyServer :: VaultServer where
  "readyServer = setTLS (Some \<lparr>tls_TLSSecret = ''tls'', tls_CABundle = ''CA''\<rparr>) ((demoServer ''1.2.3'')
     \<lparr>Spec := (Spec (demoServer ''1.2.3''))\<lparr>vs_Backend := (vs_Backend VaultServerSpec0)
       \<lparr>be_Gcs := Some \<lparr>gcs_Bucket = ''b'', gcs_ChunkSize = '''', gcs_MaxParallel = 0, gcs_HAEnabled = False,
          gcs_CredentialSecret = ''gcs''\<rparr>\<rparr>\<rparr>\<rparr>)"

text \<open>
  Every service account exists and has a token, every secret exists, the server
  is stored without a TLS policy, and the cache has one with a policy.
\<close>

definition tokenEnv :: env where
  "tokenEnv = echoEnv (\<lambda>k ns n.
     if k = ''ServiceAccount'' then Inr (ServiceAccountObj \<lparr>sa_Meta = ObjectMeta0 n ns, sa_Secrets = [''token'']\<rparr>)
     else if k = ''Secret'' then Inr (SecretObj demoToken)
     else if k = ''VaultServer'' then Inr (VaultServerObj (demoServer ''1.2.3''))
     else if k = ''VaultServerVersion'' then Inr (VaultServerVersionObj demoVersion)
     else Inl (StatusError NotFound ''not found'')) (\<lambda>r. NoResponse (Plain ''''))
     (\<lambda>k n. Inr (if n = ''demo/vault'' then Some (VaultServerObj readyServer) else None))"

lemma tokenEnv_run:
  "apiGet ServiceAccounts ns n tokenEnv t = (Ok \<lparr>sa_Meta = ObjectMeta0 n ns, sa_Secrets = [''token'']\<rparr>,
     t @ [Kube (KGet ''ServiceAccount'' ns n) (Inr (ServiceAccountObj \<lparr>sa_Meta = ObjectMeta0 n ns, sa_Secrets = [''token'']\<rparr>))])"
  "apiGet Secrets ns n tokenEnv t = (Ok demoToken, t @ [Kube (KGet ''Secret'' ns n) (Inr (SecretObj demoToken))])"
  "poll_ticks tokenEnv t = 3" "rest_host tokenEnv = ''''" "rest_ca_data tokenEnv = Inr ''''"
  "analytics_client_id tokenEnv = ''''" "aks_fqdn tokenEnv = False" "kube_client_error tokenEnv = None"
  by (simp_all add: apiGet_def ServiceAccounts_def Secrets_def go_defs tokenEnv_def echoEnv_def)

lemma tokenEnv_jwt:
  "\<exists>t'. TryGetJwtTokenSecretNameFromServiceAccount n ns tokenEnv t = (Ok (Some demoToken), t')"
  by (simp add: TryGetJwtTokenSecretNameFromServiceAccount_def tryGetJwtOnce_def GetJwtTokenSecretFromServiceAccount_def
      tokenEnv_run go_defs pollTicks_def PollImmediate_def)

lemma demo_pod:
  assumes "vs_Unsealer (Spec vs) = Some s" "p = snd (GetPodTemplate vs0 (GetContainer demoSrv vs1) sa)"
  shows "\<exists>pt t'. vaultSrv_Apply demoSrv vs p tokenEnv t = (Ok pt, t')"
proof -
  obtain c where c: "ps_Containers (pt_Spec (serverContainers vs p)) = [c]"
    by (simp add: assms(2) serverContainers_def GetPodTemplate_def GetContainer_def Let_def upsertVolumes_def lastNamed_def)
  obtain pt1 where 1: "Storage_Apply (v_strg demoSrv) (serverContainers vs p) tokenEnv t = (Ok pt1, t)"
    using c by (simp add: demoSrv_def gcs_Apply_def mountSecret_def onFirstContainer_def addVolume_def run_simps andThen_def attempt_def)
  obtain u where u: "v_unslr demoSrv = Some u" by (simp add: demoSrv_def)
  from assms(1) obtain pt2 t2 where 2: "unsealerSrv_Apply u vs pt1 tokenEnv t = (Ok pt2, t2)"
    using tokenEnv_jwt[of "ServiceAccountForTokenReviewer vs" "Namespace (Meta vs)" t]
    by (auto simp: unsealerSrv_Apply_def go_defs tokenEnv_run wrapErr_def liftE_def Let_def)
  have "vaultSrv_Apply demoSrv vs p tokenEnv t = (Ok (exporter_Apply (v_exprtr demoSrv) vs pt2), t2)"
    using 1 2 u by (simp add: vaultSrv_Apply_def go_defs)
  then show ?thesis by blast
qed

theorem vault_pod_wellformed_witness:
  "\<exists>pt t'. vaultSrv_Apply demoSrv (demoServer ''1.2.3'')
        (snd (GetPodTemplate (demoServer ''1.2.3'') (GetContainer demoSrv (demoServer ''1.2.3'')) ''vault'')) tokenEnv [] = (Ok pt, t')
     \<and> podOk pt
     \<and> containerKeys pt = [(''vault'', ''vault:1.2.3''), (''vault-unsealer'', ''unsealer''), (''vault-exporter'', ''exporter'')]"
proof -
  let ?vs = "demoServer ''1.2.3''" and ?p0 = "snd (GetPodTemplate (demoServer ''1.2.3'') (GetContainer demoSrv (demoServer ''1.2.3'')) ''vault'')"
  obtain s where "vs_Unsealer (Spec ?vs) = Some s" by (simp add: demoServer_def)
  from demo_pod[OF this refl] obtain pt t' where "vaultSrv_Apply demoSrv ?vs ?p0 tokenEnv [] = (Ok pt, t')" by blast
  from this vault_pod_wellformed[OF this] show ?thesis by (auto simp: demoSrv_def container_names)
qed


section \<open>The retry period of the unsealer\<close>

text \<open>A whole number of seconds in hours, minutes and seconds, without leading zero units.\<close>

definition hms :: "nat \<Rightarrow> string" where
  "hms s = (if s < 60 then string_of_nat s @ ''s''
     else if s < 3600 then string_of_nat (s div 60) @ ''m'' @ string_of_nat (s mod 60) @ ''s''
     else string_of_nat (s div 3600) @ ''h'' @ string_of_nat (s div 60 mod 60) @ ''m'' @ string_of_nat (s mod 60) @ ''s'')"

lemma hoursMinutes_hms: "hoursMinutes s @ string_of_nat (s mod 60) @ ''s'' = hms s"
proof -
  have "s div 60 div 60 = s div 3600" by (simp add: div_mult2_eq[symmetric])
  then show ?thesis by (auto simp: hoursMinutes_def hms_def Let_def div_eq_0_iff)
qed

lemma Duration_String_seconds: "0 < s \<Longrightarrow> Duration_String (1000000000 * int s) = hms s"
proof -
  assume s: "0 < s"
  have n: "nat \<bar>1000000000 * int s\<bar> = 1000000000 * s" by (simp add: nat_mult_distrib)
  have f: "fmtFrac (1000000000 * s) 9 = ''''" by (simp add: fmtFrac_def)
  show ?thesis using s hoursMinutes_hms[of s] unfolding Duration_String_def Let_def n
    by (simp add: f not_less)
qed

text \<open>A product of up to twice the range wraps to a negative duration.\<close>

lemma int64_wraps: "2 ^ 63 \<le> x \<Longrightarrow> x < 2 ^ 64 \<Longrightarrow> int64 x = x - 2 ^ 64"
proof -
  assume x: "2 ^ 63 \<le> x" "x < 2 ^ 64"
  have "(x + 2 ^ 63) mod 2 ^ 64 = (x + 2 ^ 63 - 2 ^ 64) mod 2 ^ 64" by (rule minus_mod_self2[symmetric])
  also have "\<dots> = x + 2 ^ 63 - 2 ^ 64" using x by (intro mod_pos_pos_trivial) simp_all
  finally show ?thesis by (simp add: int64_def)
qed

lemma negative_Duration_String: "d < 0 \<Longrightarrow> \<exists>x. Duration_String d = ''-'' @ x"
  by (simp add: Duration_String_def Let_def)

text \<open>C40: The retry period given to the unsealer is the one of the spec exactly as long as its nanoseconds fit in
  64 bits: from one up to 9223372036 seconds the flag has that number of seconds, in hours, minutes and seconds.
  One second more, and up to 18446744073 seconds, the product has wrapped and the unsealer gets a negative period.\<close>

theorem retry_period_bounds:
  assumes "0 < n" "un_RetryPeriodSeconds u = n"
  shows "(n \<le> 9223372036 \<longrightarrow> seconds n = 1000000000 * n \<and> ''--retry-period='' @ hms (nat n) \<in> set (unsealerFlags vs u))
    \<and> (9223372036 < n \<and> n \<le> 18446744073 \<longrightarrow> seconds n < 0 \<and> (\<exists>x. ''--retry-period=-'' @ x \<in> set (unsealerFlags vs u)))"
proof (intro conjI impI; (elim conjE)?)
  assume n: "n \<le> 9223372036"
  show s: "seconds n = 1000000000 * n" unfolding seconds_def using assms(1) n by (intro int64_id) simp_all
  have "Duration_String (seconds n) = hms (nat n)" using Duration_String_seconds[of "nat n"] assms(1) s by simp
  then show "''--retry-period='' @ hms (nat n) \<in> set (unsealerFlags vs u)" using assms by (simp add: unsealerFlags_def)
next
  assume n: "9223372036 < n" "n \<le> 18446744073"
  have "seconds n = 1000000000 * n - 2 ^ 64" unfolding seconds_def using n by (intro int64_wraps) simp_all
  then show s: "seconds n < 0" using n by simp
  from negative_Duration_String[OF this] obtain x where "Duration_String (seconds n) = ''-'' @ x" by blast
  then have "''--retry-period=-'' @ x \<in> set (unsealerFlags vs u)" using assms by (simp add: unsealerFlags_def)
  then show "\<exists>x. ''--retry-period=-'' @ x \<in> set (unsealerFlags vs u)" by blast
qed

theorem retry_period_bounds_witness:
  "''--retry-period=1m30s'' \<in> set (unsealerFlags (demoServer ''1.2.3'') (the (vs_Unsealer (Spec (demoServer ''1.2.3'')))\<lparr>un_RetryPeriodSeconds := 90\<rparr>))
   \<and> (\<exists>x. ''--retry-period=-'' @ x \<in> set (unsealerFlags (demoServer ''1.2.3'')
        (the (vs_Unsealer (Spec (demoServer ''1.2.3'')))\<lparr>un_RetryPeriodSeconds := 9223372037\<rparr>)))"
proof -
  let ?u = "\<lambda>n. the (vs_Unsealer (Spec (demoServer ''1.2.3'')))\<lparr>un_RetryPeriodSeconds := n\<rparr>"
  have "hms 90 = ''1m30s''" by code_simp
  with retry_period_bounds[of 90 "?u 90" "demoServer ''1.2.3''"] retry_period_bounds[of 9223372037 "?u 9223372037" "demoServer ''1.2.3''"]
  show ?thesis by simp
qed

end
