(* ===== verification/Server_Tasks.thy ===== *)
theory Server_Tasks
  imports Vault_Server
begin

text \<open>
  The two background tasks of a Vault server: the status monitor
  (\<open>pkg/controller/vault_status.go\<close>), which asks every pod for its health and
  writes the phase, and the authentication method task
  (\<open>pkg/controller/auth_method.go\<close>), which waits for the server and for its own
  policy and binding and then enables and disables methods.
\<close>

section \<open>Asking the pods\<close>

definition PodDNSName :: "Pod \<Rightarrow> string" where
  "PodDNSName p = map (\<lambda>c. if c = CHR ''.'' then CHR ''-'' else c) (pod_PodIP p)
     @ ''.'' @ Namespace (pod_Meta p) @ ''.pod''"

record HealthResponse =
  hr_Initialized :: bool
  hr_Sealed :: bool
  hr_Standby :: bool

definition healthRequest :: "VaultClient \<Rightarrow> VaultRequest" where
  "healthRequest vc = (NewRequest vc ''GET'' ''/v1/sys/health'' None)\<lparr>vr_Params :=
     [(''uninitcode'', ''299''), (''sealedcode'', ''299''), (''standbycode'', ''299''),
      (''drsecondarycode'', ''299''), (''performancestandbycode'', ''299'')]\<rparr>"

definition decodeHealth :: "body \<Rightarrow> error + HealthResponse" where
  "decodeHealth b = (case decodeBody b of Inl e \<Rightarrow> Inl e | Inr j \<Rightarrow>
     (case jbool (jfield ''initialized'' j) of Inl e \<Rightarrow> Inl e | Inr i \<Rightarrow>
     (case jbool (jfield ''sealed'' j) of Inl e \<Rightarrow> Inl e | Inr s \<Rightarrow>
     (case jbool (jfield ''standby'' j) of Inl e \<Rightarrow> Inl e | Inr y \<Rightarrow>
        Inr \<lparr>hr_Initialized = i, hr_Sealed = s, hr_Standby = y\<rparr>))))"

definition Health :: "VaultClient \<Rightarrow> HealthResponse go" where
  "Health vc = andThen (rawRequest_ok (healthRequest vc)) (\<lambda>resp. liftE (decodeHealth (Body resp)))"

definition podClient :: "string \<Rightarrow> string \<Rightarrow> VaultClient go" where
  "podClient host port = NewVaultClient \<lparr>cfg_Address = ''https://'' @ host @ '':'' @ port,
     cfg_InsecureSkipVerify = True, cfg_RootCAs = '''', cfg_ServerName = ''''\<rparr>"

definition getVaultStatus :: "Pod \<Rightarrow> HealthResponse go" where
  "getVaultStatus p =
    (let pod = slash (Namespace (pod_Meta p)) (Name (pod_Meta p)) in
     andThen (ask in_cluster) (\<lambda>inCluster.
     andThen (if inCluster then ret (PodDNSName p, ''8200'')
              else andThen (wrapErr (''failed to get vault pod status: port forward failed for pod ('' @ pod @ '').'')
                     (extCall ''portforward.ForwardPort'' [Namespace (pod_Meta p), Name (pod_Meta p)]))
                   (\<lambda>localPort. ret (''localhost'', localPort))) (\<lambda>(podAddr, podPort).
     andThen (wrapErr (''failed to get vault pod status: failed creating client for the vault pod ('' @ pod @ '').'')
        (podClient podAddr podPort)) (\<lambda>vc.
     wrapErr (''failed to get vault pod status: failed requesting health info for the vault pod ('' @ pod @ '').'')
        (Health vc)))))"

record podSummary =
  sm_active :: string
  sm_seal :: "string list"
  sm_unseal :: "string list"
  sm_standBy :: "string list"
  sm_updated :: "string list"
  sm_initiated :: bool
  sm_changed :: bool

definition podSummary0 :: podSummary where
  "podSummary0 = \<lparr>sm_active = '''', sm_seal = [], sm_unseal = [], sm_standBy = [], sm_updated = [],
     sm_initiated = False, sm_changed = False\<rparr>"

definition addPod :: "string \<Rightarrow> string \<Rightarrow> string \<Rightarrow> HealthResponse \<Rightarrow> podSummary \<Rightarrow> podSummary" where
  "addPod vaultImage img n hr s =
     s\<lparr>sm_changed := True,
       sm_updated := (if img = vaultImage then sm_updated s @ [n] else sm_updated s),
       sm_active := (if hr_Initialized hr \<and> \<not> hr_Sealed hr \<and> \<not> hr_Standby hr then n else sm_active s),
       sm_standBy := (if hr_Initialized hr \<and> \<not> hr_Sealed hr \<and> hr_Standby hr then sm_standBy s @ [n] else sm_standBy s),
       sm_seal := (if hr_Sealed hr then sm_seal s @ [n] else sm_seal s),
       sm_unseal := (if hr_Sealed hr then sm_unseal s else sm_unseal s @ [n]),
       sm_initiated := (hr_Initialized hr \<or> sm_initiated s)\<rparr>"

definition visitPod :: "string \<Rightarrow> Pod \<Rightarrow> podSummary \<Rightarrow> podSummary go" where
  "visitPod vaultImage p s =
    (if pod_Phase p \<noteq> ''Running'' \<or> DeletionTimestamp (pod_Meta p) \<noteq> None then ret s
     else attempt (getVaultStatus p) (\<lambda>_. ret s) (\<lambda>hr. case pod_Containers p of
         [] \<Rightarrow> panic ''index out of range''
       | c # _ \<Rightarrow> ret (addPod vaultImage (c_Image c) (Name (pod_Meta p)) hr s)))"

primrec visitPods :: "string \<Rightarrow> Pod list \<Rightarrow> podSummary \<Rightarrow> podSummary go" where
  "visitPods img [] s = ret s"
| "visitPods img (p # ps) s = andThen (visitPod img p s) (visitPods img ps)"

definition setLocalStatus :: "podSummary \<Rightarrow> VaultServerStatus \<Rightarrow> VaultServerStatus" where
  "setLocalStatus m s =
    (if \<not> sm_changed m then s
     else s\<lparr>vss_VaultStatus := \<lparr>vst_Active = sm_active m, vst_Standby = sm_standBy m, vst_Sealed = sm_seal m,
              vst_Unsealed = sm_unseal m\<rparr>,
            vss_Initialized := sm_initiated m, vss_UpdatedNodes := sm_updated m,
            vss_Phase := (if \<not> sm_initiated m then ClusterPhaseUnInitialized
                          else if sm_active m \<noteq> '''' then ClusterPhaseRunning
                          else if sm_seal m \<noteq> [] then ClusterPhaseSealed
                          else vss_Phase s)\<rparr>)"

definition updateLocalVaultCRStatus :: "VaultServer \<Rightarrow> VaultServerStatus \<Rightarrow> VaultServerStatus go" where
  "updateLocalVaultCRStatus vs s =
     attempt (apiGet VaultServerVersions '''' (vs_Version (Spec vs))) (\<lambda>_. ret s) (\<lambda>version.
     attempt (listPods (Namespace (Meta vs)) (VaultServer_OffshootSelectors vs)) (\<lambda>_. ret s) (\<lambda>pods.
     if pods = [] then ret s
     else andThen (visitPods (vsv_VaultImage (vsv_Spec version)) pods podSummary0) (\<lambda>m. ret (setLocalStatus m s))))"


section \<open>Writing the status\<close>

definition copyStatus :: "VaultServerStatus \<Rightarrow> int \<Rightarrow> VaultServerStatus \<Rightarrow> VaultServerStatus" where
  "copyStatus status now s =
     s\<lparr>vss_VaultStatus := vss_VaultStatus status, vss_Initialized := vss_Initialized status,
       vss_UpdatedNodes := vss_UpdatedNodes status, vss_Phase := vss_Phase status,
       vss_ServiceName := vss_ServiceName status, vss_ClientPort := vss_ClientPort status\<rparr>"

text \<open>
  \<open>UpdateVaultServerStatus\<close> with both of its results: when the first read fails
  there is no object, and when the writes fail the object is the zero one the
  typed client returns beside the error.
\<close>

definition UpdateVaultServerStatus_results ::
    "ObjectMeta \<Rightarrow> (int \<Rightarrow> VaultServerStatus \<Rightarrow> VaultServerStatus) \<Rightarrow> (VaultServer option \<times> error option) go" where
  "UpdateVaultServerStatus_results meta transform =
     attempt (apiGet VaultServers (Namespace meta) (Name meta))
       (\<lambda>err. ret (None, Some err))
       (\<lambda>cur. andThen pollTicks (\<lambda>n.
          andThen (PollImmediate n (updateStatusOnce VaultServers meta transform None) (cur, 0)) (\<lambda>((result, tries), err).
          case err of
            None \<Rightarrow> ret (Some result, None)
          | Some e \<Rightarrow> ret (Some (newVaultServer (ObjectMeta0 '''' '''')),
              Some (Plain (''failed to update status of VaultServer '' @ slash (Namespace meta) (Name meta) @ '' after ''
                @ string_of_nat tries @ '' attempts due to '' @ Error e))))))"

text \<open>
  The object the update returned, whatever its error, and whether the server is
  gone, upon which the monitor of its key is stopped.
\<close>

definition updateVaultCRStatus :: "string \<Rightarrow> string \<Rightarrow> VaultServerStatus \<Rightarrow> (VaultServer option \<times> bool) go" where
  "updateVaultCRStatus n ns status =
     attempt (apiGet VaultServers ns n)
       (\<lambda>err. ret (None, IsNotFound err))
       (\<lambda>vault. andThen (UpdateVaultServerStatus_results (Meta vault) (copyStatus status)) (\<lambda>(vault, err). ret (vault, False)))"

definition monitorStatus0 :: "VaultServer \<Rightarrow> VaultServerStatus" where
  "monitorStatus0 vs = VaultServerStatus0\<lparr>vss_Phase := ClusterPhaseProcessing,
     vss_ServiceName := VaultServer_OffshootName vs, vss_ClientPort := VaultClientPort\<rparr>"

text \<open>The loop, for a context that is cancelled after \<open>n\<close> rounds.\<close>

primrec monitorLoop :: "nat \<Rightarrow> VaultServer \<Rightarrow> VaultServerStatus \<Rightarrow> unit go" where
  "monitorLoop 0 vs s = andThen (updateVaultCRStatus (Name (Meta vs)) (Namespace (Meta vs)) s) (\<lambda>_. ret ())"
| "monitorLoop (Suc n) vs s =
     andThen (updateVaultCRStatus (Name (Meta vs)) (Namespace (Meta vs)) s) (\<lambda>(latest, gone).
     case (case latest of Some l \<Rightarrow> (l, Status l) | None \<Rightarrow> (vs, s)) of (vs, s) \<Rightarrow>
     if gone then ret ()
     else andThen (updateLocalVaultCRStatus vs s) (monitorLoop n vs))"

definition monitorAndUpdateStatus :: "VaultServer \<Rightarrow> unit go" where
  "monitorAndUpdateStatus vs = andThen pollTicks (\<lambda>n. monitorLoop n vs (monitorStatus0 vs))"


section \<open>Authentication methods\<close>

subsection \<open>Paths\<close>

text \<open>\<open>filepath.Clean\<close>: split at slashes, drop empty and dot elements, resolve double dots.\<close>

fun splitSlash :: "string \<Rightarrow> string \<Rightarrow> string list" where
  "splitSlash acc [] = [rev acc]"
| "splitSlash acc (c # cs) = (if c = CHR ''/'' then rev acc # splitSlash [] cs else splitSlash (c # acc) cs)"

text \<open>The elements so far are kept last first.\<close>

definition cleanElement :: "bool \<Rightarrow> string \<Rightarrow> string list \<Rightarrow> string list" where
  "cleanElement rooted e st =
    (if e = '''' \<or> e = ''.'' then st
     else if e = ''..'' then
       (case st of
          [] \<Rightarrow> if rooted then [] else [''..'']
        | x # xs \<Rightarrow> if x = ''..'' then ''..'' # st else xs)
     else e # st)"

definition Clean :: "string \<Rightarrow> string" where
  "Clean path =
    (let rooted = (path \<noteq> '''' \<and> hd path = CHR ''/'');
         st = fold (cleanElement rooted) (splitSlash '''' path) []
     in if rooted then ''/'' @ join ''/'' (rev st)
        else if st = [] then ''.'' else join ''/'' (rev st))"


subsection \<open>Vault calls\<close>

text \<open>The authentication mounts with their types; a null entry is a nil pointer.\<close>

definition authMount :: "string \<times> json \<Rightarrow> error + (string \<times> string option)" where
  "authMount = (\<lambda>(p, j). case j of
     JNull \<Rightarrow> Inr (p, None)
   | JObject m \<Rightarrow> (case jstring (jfield ''type'' j) of Inl e \<Rightarrow> Inl e | Inr ty \<Rightarrow> Inr (p, Some ty))
   | _ \<Rightarrow> Inl (Plain ''expected a map''))"

fun collect :: "('e + 'a) list \<Rightarrow> 'e + 'a list" where
  "collect [] = Inr []"
| "collect (x # xs) = (case x of Inl e \<Rightarrow> Inl e | Inr v \<Rightarrow>
     (case collect xs of Inl e \<Rightarrow> Inl e | Inr vs \<Rightarrow> Inr (v # vs)))"

definition authMounts :: "body \<Rightarrow> error + (string \<times> string option) list" where
  "authMounts b = (case ParseSecret b of
       Inl e \<Rightarrow> Inl e
     | Inr None \<Rightarrow> Inl (Plain ''data from server response is empty'')
     | Inr (Some s) \<Rightarrow>
         if nilData b then Inl (Plain ''data from server response is empty'')
         else collect (map authMount (Data s)))"

definition ListAuthMounts :: "VaultClient \<Rightarrow> (string \<times> string option) list go" where
  "ListAuthMounts vc =
     andThen (rawRequest_ok (NewRequest vc ''GET'' ''/v1/sys/auth'' None)) (\<lambda>resp. liftE (authMounts (Body resp)))"

definition optStrings :: "string \<Rightarrow> string list \<Rightarrow> (string \<times> json) list" where
  "optStrings k xs = (if xs = [] then [] else [(k, JList (map JString xs))])"

definition authConfigInput :: "AuthConfig option \<Rightarrow> json" where
  "authConfigInput cfg = (case cfg of
     None \<Rightarrow> JObject [(''options'', JNull), (''default_lease_ttl'', JString ''''), (''max_lease_ttl'', JString ''''),
               (''force_no_cache'', JBool False)]
   | Some cf \<Rightarrow> JObject ([(''options'', JNull), (''default_lease_ttl'', JString (ac_DefaultLeaseTTL cf)),
               (''max_lease_ttl'', JString (ac_MaxLeaseTTL cf)), (''force_no_cache'', JBool False)]
       @ optStrings ''audit_non_hmac_request_keys'' (ac_AuditNonHMACRequestKeys cf)
       @ optStrings ''audit_non_hmac_response_keys'' (ac_AuditNonHMACResponseKeys cf)
       @ optField ''listing_visibility'' (ac_ListingVisibility cf)
       @ optStrings ''passthrough_request_headers'' (ac_PassthroughRequestHeaders cf)
       @ optField ''plugin_name'' (ac_PluginName cf)))"

definition enableAuthOptions :: "AuthMethod \<Rightarrow> json" where
  "enableAuthOptions au = JObject ([(''type'', JString (am_Type au)), (''description'', JString (am_Description au)),
     (''config'', authConfigInput (am_Config au)), (''local'', JBool (am_Local au)), (''seal_wrap'', JBool False),
     (''external_entropy_access'', JBool False), (''options'', JNull)] @ optField ''plugin_name'' (am_PluginName au))"

definition EnableAuthWithOptions :: "VaultClient \<Rightarrow> AuthMethod \<Rightarrow> unit go" where
  "EnableAuthWithOptions vc au =
     sendRequest (NewRequest vc ''POST'' (''/v1/sys/auth/'' @ am_Path au) (Some (enableAuthOptions au)))"


subsection \<open>Enabling and disabling\<close>

definition authStatus :: "string \<Rightarrow> string \<Rightarrow> string \<Rightarrow> string \<Rightarrow> AuthMethodStatus" where
  "authStatus ty path st rsn = \<lparr>ams_Type = ty, ams_Path = path, ams_Status = st, ams_Reason = rsn\<rparr>"

definition enableAuthMethod ::
    "VaultClient \<Rightarrow> (string \<times> string option) list \<Rightarrow> AuthMethod \<Rightarrow> AuthMethodStatus go" where
  "enableAuthMethod vc authList au = (case map_of authList (Clean (am_Path au) @ ''/'') of
     Some None \<Rightarrow> panic ''invalid memory address or nil pointer dereference''
   | Some (Some ty) \<Rightarrow>
       if ty \<noteq> am_Type au
       then ret (authStatus (am_Type au) (am_Path au) AuthMethodEnableFailed (ty @ '' type auth already enabled in this path''))
       else ret (authStatus (am_Type au) (am_Path au) AuthMethodEnableSucceeded '''')
   | None \<Rightarrow> attempt (EnableAuthWithOptions vc au)
       (\<lambda>err. ret (authStatus (am_Type au) (am_Path au) AuthMethodEnableFailed (Error err)))
       (\<lambda>_. ret (authStatus (am_Type au) (am_Path au) AuthMethodEnableSucceeded '''')))"

primrec mapGo :: "('a \<Rightarrow> 'b go) \<Rightarrow> 'a list \<Rightarrow> 'b list go" where
  "mapGo f [] = ret []"
| "mapGo f (x # xs) = andThen (f x) (\<lambda>y. andThen (mapGo f xs) (\<lambda>ys. ret (y # ys)))"

definition enableAuthMethods :: "VaultClient \<Rightarrow> AuthMethod list \<Rightarrow> AuthMethodStatus list go" where
  "enableAuthMethods vc auths = andThen (ListAuthMounts vc) (\<lambda>authList. mapGo (enableAuthMethod vc authList) auths)"

definition toDisable :: "AuthMethod list \<Rightarrow> AuthMethodStatus \<Rightarrow> bool" where
  "toDisable expected au \<longleftrightarrow>
     Clean (ams_Path au) \<notin> (Clean \<circ> am_Path) ` set expected \<and> ams_Status au = AuthMethodEnableSucceeded"

text \<open>The methods that could not be disabled.\<close>

primrec disableAuthMethods ::
    "VaultClient \<Rightarrow> AuthMethod list \<Rightarrow> AuthMethodStatus list \<Rightarrow> AuthMethodStatus list go" where
  "disableAuthMethods vc expected [] = ret []"
| "disableAuthMethods vc expected (au # has) =
    (if toDisable expected au
     then errOf (DisableAuth vc (Clean (ams_Path au))) (\<lambda>err.
       andThen (disableAuthMethods vc expected has) (\<lambda>failed. ret (case err of
           Some e \<Rightarrow> authStatus (ams_Type au) (ams_Path au) AuthMethodDisableFailed (Error e) # failed
         | None \<Rightarrow> failed)))
     else disableAuthMethods vc expected has)"


subsection \<open>The task\<close>

definition policyForAuthController :: string where
  "policyForAuthController = NL @ ''path '' @ dq ''sys/auth'' @ '' {'' @ NL
     @ ''  capabilities = ['' @ dq ''read'' @ '', '' @ dq ''list'' @ '', ]'' @ NL @ ''}'' @ NL @ NL
     @ ''path '' @ dq ''sys/auth/*'' @ '' {'' @ NL
     @ ''  capabilities = ['' @ dq ''sudo'' @ '', '' @ dq ''create'' @ '', '' @ dq ''read'' @ '', '' @ dq ''update''
     @ '', '' @ dq ''delete'' @ '']'' @ NL @ ''}'' @ NL"

definition vaultPolicyForAuthMethod :: "VaultServer \<Rightarrow> VaultPolicy" where
  "vaultPolicyForAuthMethod vs =
     \<lparr>Meta = serverMeta (PolicyNameForAuthMethodController vs) vs,
      Spec = \<lparr>vp_VaultRef = AppBindingName vs, vp_VaultPolicyName = '''', vp_PolicyDocument = policyForAuthController,
              vp_Policy = None\<rparr>,
      Status = RoleStatus0\<rparr>"

definition vaultPolicyBindingForAuthMethod :: "VaultServer \<Rightarrow> VaultPolicyBinding" where
  "vaultPolicyBindingForAuthMethod vs =
     \<lparr>Meta = serverMeta (PolicyNameForAuthMethodController vs) vs,
      Spec = \<lparr>vpb_VaultRef = AppBindingName vs, vpb_VaultRoleName = '''',
              vpb_Policies = [\<lparr>pid_Name = '''', pid_Ref = PolicyNameForAuthMethodController vs\<rparr>],
              vpb_Kubernetes = Some \<lparr>ks_Path = AuthTypeKubernetes, ks_ServiceAccountNames = [ServiceAccountName vs],
                ks_ServiceAccountNamespaces = [Namespace (Meta vs)], ks_TTL = ''24h'', ks_MaxTTL = ''24h'', ks_Period = ''24h''\<rparr>\<rparr>,
      Status = RoleStatus0\<rparr>"

definition newVaultPolicy :: "ObjectMeta \<Rightarrow> VaultPolicy" where
  "newVaultPolicy m = \<lparr>Meta = m, Spec = \<lparr>vp_VaultRef = '''', vp_VaultPolicyName = '''', vp_PolicyDocument = '''',
     vp_Policy = None\<rparr>, Status = RoleStatus0\<rparr>"

definition setPolicy :: "VaultServer \<Rightarrow> VaultPolicy \<Rightarrow> VaultPolicy \<Rightarrow> VaultPolicy" where
  "setPolicy vs vp x = x\<lparr>Meta := ownedBy vs (upsertLabels (Meta vp) (Meta x)),
     Spec := (Spec x)\<lparr>vp_PolicyDocument := vp_PolicyDocument (Spec vp), vp_Policy := vp_Policy (Spec vp),
       vp_VaultRef := vp_VaultRef (Spec vp)\<rparr>\<rparr>"

definition ensureVaultPolicy :: "VaultServer \<Rightarrow> VaultPolicy \<Rightarrow> unit go" where
  "ensureVaultPolicy vs vp =
     andThen (wrapErr (''failed to ensure VaultPolicy '' @ key vp)
       (CreateOrPatch VaultPolicies (Meta vp) newVaultPolicy (setPolicy vs vp))) (\<lambda>_. ret ())"

definition newVaultPolicyBinding :: "ObjectMeta \<Rightarrow> VaultPolicyBinding" where
  "newVaultPolicyBinding m = \<lparr>Meta = m, Spec = \<lparr>vpb_VaultRef = '''', vpb_VaultRoleName = '''', vpb_Policies = [],
     vpb_Kubernetes = None\<rparr>, Status = RoleStatus0\<rparr>"

definition setPolicyBinding :: "VaultServer \<Rightarrow> VaultPolicyBinding \<Rightarrow> VaultPolicyBinding \<Rightarrow> VaultPolicyBinding" where
  "setPolicyBinding vs vpb x = x\<lparr>Meta := ownedBy vs (upsertLabels (Meta vpb) (Meta x)), Spec := Spec vpb\<rparr>"

definition ensureVaultPolicyBinding :: "VaultServer \<Rightarrow> VaultPolicyBinding \<Rightarrow> unit go" where
  "ensureVaultPolicyBinding vs vpb =
     andThen (wrapErr (''failed to ensure VaultPolicyBinding '' @ key vpb)
       (CreateOrPatch VaultPolicyBindings (Meta vpb) newVaultPolicyBinding (setPolicyBinding vs vpb))) (\<lambda>_. ret ())"

text \<open>
  \<open>wait.PollUntil\<close>: the object is read at every tick and once more when the task
  is cancelled; a read that fails ends the wait.
\<close>

definition readyOnce :: "('s, 'st) resource client \<Rightarrow> ('st \<Rightarrow> bool) \<Rightarrow> ('s, 'st) resource
    \<Rightarrow> (('s, 'st) resource \<times> poll) go" where
  "readyOnce c ready x = attempt (apiGet c (Namespace (Meta x)) (Name (Meta x)))
     (\<lambda>e. ret (x, Stop e)) (\<lambda>y. ret (y, if ready (Status y) then Done else Again))"

definition waitUntilReady :: "('s, 'st) resource client \<Rightarrow> ('st \<Rightarrow> bool) \<Rightarrow> ('s, 'st) resource
    \<Rightarrow> ('s, 'st) resource go" where
  "waitUntilReady c ready x =
     andThen pollTicks (\<lambda>n. andThen (WaitFor n (readyOnce c ready) x) (\<lambda>(y, err).
       case err of Some e \<Rightarrow> fail e | None \<Rightarrow> ret y))"

definition waitUntilVaultServerIsReady :: "VaultServer \<Rightarrow> VaultServer go" where
  "waitUntilVaultServerIsReady = waitUntilReady VaultServers (\<lambda>st. vss_Phase st = ClusterPhaseRunning)"

definition waitUntilVaultPolicyIsReady :: "VaultPolicy \<Rightarrow> VaultPolicy go" where
  "waitUntilVaultPolicyIsReady = waitUntilReady VaultPolicies (\<lambda>st. role_Phase st = PolicySuccess)"

definition waitUntilVaultPolicyBindingIsReady :: "VaultPolicyBinding \<Rightarrow> VaultPolicyBinding go" where
  "waitUntilVaultPolicyBindingIsReady = waitUntilReady VaultPolicyBindings (\<lambda>st. role_Phase st = PolicyBindingSuccess)"

definition authControllerConfiguration :: "string \<Rightarrow> VaultServer \<Rightarrow> VaultServerConfiguration" where
  "authControllerConfiguration cluster vs =
     \<lparr>vsc_Path = '''', vsc_VaultRole = PolicyBindingName cluster (vaultPolicyBindingForAuthMethod vs),
      vsc_Kubernetes = Some \<lparr>kac_ServiceAccountName = ServiceAccountName vs, kac_TokenReviewerServiceAccountName = '''',
        kac_UsePodServiceAccountForCSIDriver = False\<rparr>,
      vsc_Azure = None, vsc_AWS = None\<rparr>"

definition newVaultClientForAuthMethodController :: "VaultServer \<Rightarrow> VaultClient go" where
  "newVaultClientForAuthMethodController vs =
     andThen clusterid_ClusterName (\<lambda>cluster.
     andThen (apiGet AppBindings (Namespace (Meta vs)) (AppBindingName vs)) (\<lambda>vApp.
     andThen (wrapErr ''failed to get authentication information''
        (GetAuthInfoFromAppBinding (vApp\<lparr>ab_Parameters := Some (Inr (authControllerConfiguration cluster vs))\<rparr>)))
       NewClientWithAppBinding))"

definition setAuthStatus :: "AuthMethodStatus list \<Rightarrow> int \<Rightarrow> VaultServerStatus \<Rightarrow> VaultServerStatus" where
  "setAuthStatus sts now st = st\<lparr>vss_AuthMethodStatus := sts\<rparr>"

definition applyAuthMethods :: "VaultClient \<Rightarrow> VaultServer \<Rightarrow> unit go" where
  "applyAuthMethods vc vs =
     andThen (enableAuthMethods vc (vs_AuthMethods (Spec vs))) (\<lambda>authStatus.
     andThen (disableAuthMethods vc (vs_AuthMethods (Spec vs)) (vss_AuthMethodStatus (Status vs))) (\<lambda>failed.
     andThen (UpdateStatus VaultServers (Meta vs) (setAuthStatus (authStatus @ failed))) (\<lambda>_. ret ())))"

text \<open>Errors are logged and end the task.\<close>

definition reconcileAuthMethods :: "VaultServer \<Rightarrow> unit go" where
  "reconcileAuthMethods vs =
     errOf (andThen (waitUntilVaultServerIsReady vs) (\<lambda>vs.
       let vp = vaultPolicyForAuthMethod vs; vpb = vaultPolicyBindingForAuthMethod vs in
       andThen (ensureVaultPolicy vs vp) (\<lambda>_.
       andThen (waitUntilVaultPolicyIsReady vp) (\<lambda>_.
       andThen (ensureVaultPolicyBinding vs vpb) (\<lambda>_.
       andThen (waitUntilVaultPolicyBindingIsReady vpb) (\<lambda>_.
       andThen (newVaultClientForAuthMethodController vs) (\<lambda>vc. applyAuthMethods vc vs)))))))
     (\<lambda>_. ret ())"


end
