(* ===== verification/Server_Theorems.thy ===== *)
theory Server_Theorems
  imports Server_Tasks Pod_Theorems
begin

text \<open>
  The Vault server controller: what a run that succeeds has created, the shape
  of the pod it builds, the reachability of the server through the application
  binding, the life of the background tasks, and what goes wrong.
\<close>

section \<open>What provisioning keeps\<close>

text \<open>
  On the way the server gets a TLS policy, a file system group and an exporter
  port; nothing else changes.
\<close>

definition stripServer :: "VaultServer \<Rightarrow> VaultServer" where
  "stripServer vs = vs\<lparr>Spec := (Spec vs)\<lparr>vs_TLS := None, vs_Monitor := None,
     vs_PodTemplate := (vs_PodTemplate (Spec vs))\<lparr>ptm_FSGroup := None\<rparr>\<rparr>\<rparr>"

abbreviation sameServer :: "VaultServer \<Rightarrow> VaultServer \<Rightarrow> bool" where
  "sameServer vs vs' \<equiv> stripServer vs' = stripServer vs"

lemma strip_set [simp]:
  "stripServer (setTLS tls vs) = stripServer vs" "stripServer (setFSGroup vs) = stripServer vs"
  "stripServer (setExporterPort vs) = stripServer vs"
  by (simp_all add: stripServer_def setTLS_def setFSGroup_def setExporterPort_def)

lemma strip_Meta: "Meta (stripServer vs) = Meta vs"
  by (simp add: stripServer_def)

text \<open>What is built from the metadata and the rest of the spec.\<close>

lemma strip_objects:
  "controllerRef (stripServer vs) = controllerRef vs" "serverMeta n (stripServer vs) = serverMeta n vs"
  "ConfigMapName (stripServer vs) = ConfigMapName vs" "GetService (stripServer vs) = GetService vs"
  "GetServiceAccounts (stripServer vs) = GetServiceAccounts vs"
  "GetRBACClusterRoleBinding (stripServer vs) = GetRBACClusterRoleBinding vs"
  "GetDeployment (stripServer vs) pt = GetDeployment vs pt" "AppBindingName (stripServer vs) = AppBindingName vs"
  "serverConfiguration (stripServer vs) = serverConfiguration vs"
  "VaultServer_OffshootLabels (stripServer vs) = VaultServer_OffshootLabels vs"
  by (simp_all add: stripServer_def controllerRef_def serverMeta_def ConfigMapName_def GetService_def Let_def
      VaultServer_OffshootLabels_def VaultServer_OffshootSelectors_def VaultServer_OffshootName_def
      GetServiceAccounts_def ServiceAccountName_def ServiceAccountForTokenReviewer_def GetRBACClusterRoleBinding_def
      GetDeployment_def AppBindingName_def serverConfiguration_def PolicyNameForPolicyController_def)

lemma strip_ownedBy: "ownedBy (stripServer vs) = ownedBy vs"
  by (simp add: ownedBy_def strip_objects fun_eq_iff)

lemma strip_setters:
  "setSecret (stripServer vs) = setSecret vs" "setConfigMap (stripServer vs) = setConfigMap vs"
  "setServiceAccount (stripServer vs) = setServiceAccount vs" "setService (stripServer vs) = setService vs"
  "setBinding (stripServer vs) = setBinding vs" "setDeployment (stripServer vs) = setDeployment vs"
  "setAppBinding (stripServer vs) = setAppBinding vs"
  by (simp_all add: fun_eq_iff setSecret_def setConfigMap_def setServiceAccount_def setService_def setBinding_def
      setDeployment_def setAppBinding_def strip_ownedBy strip_objects)

lemma same_transfer:
  assumes "sameServer vs vs'" "\<And>vs. f (stripServer vs) = f vs"
  shows "f vs' = f vs"
  by (metis assms)

lemmas same_server = same_transfer[of _ _ Meta, OF _ strip_Meta]
  same_transfer[of _ _ GetService, OF _ strip_objects(4)]
  same_transfer[of _ _ GetServiceAccounts, OF _ strip_objects(5)]
  same_transfer[of _ _ GetRBACClusterRoleBinding, OF _ strip_objects(6)]
  same_transfer[of _ _ setSecret, OF _ strip_setters(1)] same_transfer[of _ _ setConfigMap, OF _ strip_setters(2)]
  same_transfer[of _ _ setServiceAccount, OF _ strip_setters(3)] same_transfer[of _ _ setService, OF _ strip_setters(4)]
  same_transfer[of _ _ setBinding, OF _ strip_setters(5)] same_transfer[of _ _ setDeployment, OF _ strip_setters(6)]
  same_transfer[of _ _ setAppBinding, OF _ strip_setters(7)]

lemma GetServerTLS_same: "GetServerTLS vs env t = (Ok (vs', sr, ca), t') \<Longrightarrow> sameServer vs vs'"
  by (auto simp: GetServerTLS_def generateTLS_def Let_def run_simps split: if_splits elim!: andThen_Ok attempt_Ok)

lemma manageMonitor_same: "manageMonitor vs env t = (Ok vs', t') \<Longrightarrow> sameServer vs vs'"
  by (auto simp: manageMonitor_def addOrUpdateMonitor_def Let_def run_simps errOf_def
      split: if_splits option.splits elim!: andThen_Ok attempt_Ok)

section \<open>The calls of a run that ends without an error\<close>

lemma serverStep_Ok:
  assumes "serverStep vs rsn msg m k env t = (Ok v, t')"
  obtains x t1 where "m env t = (Ok x, t1)" "k x env t1 = (Ok v, t')"
  using assms unfolding serverStep_def errOf_def
  by (auto simp: run_simps split: option.splits elim!: attempt_Ok)

lemma ensures_true: "emits (\<lambda>_. True) m env \<Longrightarrow> (\<And>v t t'. m env t = (Ok v, t') \<Longrightarrow> ensures Ps (k v) env) \<Longrightarrow> ensures Ps (andThen m k) env"
  using ensures_andThen[OF ensures_Nil, of m env Ps k] by fastforce

lemma Trim_not_empty: "x \<in> set s \<Longrightarrow> x \<noteq> c \<Longrightarrow> Trim s c \<noteq> []"
proof
  let ?d = "dropWhile (\<lambda>x. x = c) s"
  assume x: "x \<in> set s" "x \<noteq> c" and e: "Trim s c = []"
  have all: "\<forall>y \<in> set ?d. y = c"
    using e unfolding Trim_def rev_is_Nil_conv dropWhile_eq_Nil_conv[of _ "rev _"] set_rev .
  from x have "?d \<noteq> []" unfolding dropWhile_eq_Nil_conv by blast
  then have "hd ?d \<in> set ?d" "hd ?d \<noteq> c" using hd_dropWhile[of "\<lambda>x. x = c" s] by auto
  with all show False by blast
qed

lemma TLSSecretName_not_empty: "TLSSecretName vs \<noteq> ''''"
  unfolding TLSSecretName_def NameWithSuffix_def DNS1123LabelMaxLength_def Let_def
  using Trim_not_empty[of "CHR ''v''" _ "CHR ''-''"] by simp

lemma GetServerTLS_keeps:
  assumes "GetServerTLS vs env t = (Ok (vs', sr, ca), t')" "\<forall>tls. vs_TLS (Spec vs) = Some tls \<longrightarrow> tls_TLSSecret tls \<noteq> ''''"
  shows "\<exists>tls. vs_TLS (Spec vs') = Some tls \<and> tls_TLSSecret tls \<noteq> '''' \<and> tls_CABundle tls = ca"
  using assms TLSSecretName_not_empty[of vs] by (auto simp: GetServerTLS_def generateTLS_def setTLS_def Let_def run_simps
      split: if_splits option.splits elim!: andThen_Ok attempt_Ok)

lemma GetServerTLS_given:
  assumes "GetServerTLS vs env t = (Ok (vs', sr, ca), t')" "vs_TLS (Spec vs) = Some tls" "tls_TLSSecret tls \<noteq> ''''"
  shows "vs' = vs \<and> ca = tls_CABundle tls"
  using assms by (auto simp: GetServerTLS_def Let_def run_simps elim!: andThen_Ok)

lemma emits_GetServerTLS [emits_intros]: "emits (\<lambda>_. True) (GetServerTLS vs) env"
  unfolding GetServerTLS_def generateTLS_def Let_def by (intro emits_intros) auto

lemma CreateVaultTLSSecret_Ok:
  assumes "CreateVaultTLSSecret vs env t = (Ok vs', t')"
  shows "\<exists>sr ca t2. GetServerTLS vs env t = (Ok (vs', sr, ca), t2) \<and> (\<exists>es. t' = t @ es \<and> inOrder
    [ensuredBy Secrets (sec_Meta sr) newSecret (setSecret vs sr),
     ensuredBy VaultServers (Meta vs) newVaultServer (setServerTLS (Name (sec_Meta sr)) ca)] es)"
proof -
  from assms obtain r t1 where r: "GetServerTLS vs env t = (Ok r, t1)"
    and run: "(case r of (vs, sr, ca) \<Rightarrow> andThen (ensureSecret vs sr) (\<lambda>_. andThen (CreateOrPatch VaultServers (Meta vs) newVaultServer
       (setServerTLS (Name (sec_Meta sr)) ca)) (\<lambda>_. ret vs))) env t1 = (Ok vs', t')"
    unfolding CreateVaultTLSSecret_def by (rule andThen_Ok)
  obtain vs1 sr ca where rr: "r = (vs1, sr, ca)" by (cases r)
  from run have m: "andThen (ensureSecret vs1 sr) (\<lambda>_. andThen (CreateOrPatch VaultServers (Meta vs1) newVaultServer
       (setServerTLS (Name (sec_Meta sr)) ca)) (\<lambda>_. ret vs1)) env t1 = (Ok vs', t')" by (simp add: rr)
  then have "vs1 = vs'" by (auto simp: run_simps elim!: andThen_Ok)
  with r rr m have g: "GetServerTLS vs env t = (Ok (vs', sr, ca), t1)"
    and m: "andThen (ensureSecret vs' sr) (\<lambda>_. andThen (CreateOrPatch VaultServers (Meta vs') newVaultServer
       (setServerTLS (Name (sec_Meta sr)) ca)) (\<lambda>_. ret vs')) env t1 = (Ok vs', t')" by simp_all
  have "ensures ([ensuredBy Secrets (sec_Meta sr) newSecret (setSecret vs' sr)] @
     [ensuredBy VaultServers (Meta vs') newVaultServer (setServerTLS (Name (sec_Meta sr)) ca)] @ [])
     (andThen (ensureSecret vs' sr) (\<lambda>_. andThen (CreateOrPatch VaultServers (Meta vs') newVaultServer
       (setServerTLS (Name (sec_Meta sr)) ca)) (\<lambda>_. ret vs'))) env"
    unfolding ensureSecret_def by (intro ensures_andThen ensures_done ensures_intros ensures_ret)
  from ensuresD[OF this m] same_server[OF GetServerTLS_same[OF g]] obtain es where es: "t' = t1 @ es"
    "inOrder [ensuredBy Secrets (sec_Meta sr) newSecret (setSecret vs sr),
     ensuredBy VaultServers (Meta vs) newVaultServer (setServerTLS (Name (sec_Meta sr)) ca)] es" by auto
  from emitsD[OF emits_GetServerTLS g] obtain as where "t1 = t @ as" by blast
  with es g inOrder_later show ?thesis by (metis append.assoc)
qed

lemma emits_GetStorageConfig: "emits (\<lambda>_. True) (GetStorageConfig s) env"
  by (cases s) (auto simp: consul_GetStorageConfig_def intro!: emits_intros)

lemma emits_onFirst: "emits P (onFirstContainer f pt) env"
  unfolding onFirstContainer_def by (cases "ps_Containers (pt_Spec pt)") (simp_all add: emits_intros)

lemma emits_Storage_Apply: "emits (\<lambda>_. True) (Storage_Apply s pt) env"
  by (cases s) (auto simp: etcd_Apply_def gcs_Apply_def s3_Apply_def dynamodb_Apply_def azurestorage_Apply_def file_Apply_def
      mysql_Apply_def swift_Apply_def consul_Apply_def mountSecret_def Let_def intro!: emits_intros emits_onFirst)

lemma emits_unsealerSrv_Apply: "emits (\<lambda>_. True) (unsealerSrv_Apply u vs pt) env"
  unfolding unsealerSrv_Apply_def Let_def by (intro emits_intros emits_mono[OF emits_TryGetJwt]) auto

lemma emits_vaultSrv_Apply: "emits (\<lambda>_. True) (vaultSrv_Apply v vs pt) env"
  unfolding vaultSrv_Apply_def by (intro emits_intros emits_Storage_Apply emits_unsealerSrv_Apply)

lemma emits_ensureRoleAndRoleBinding: "emits (\<lambda>_. True) (ensureRoleAndRoleBinding vs roles rbs) env"
  unfolding ensureRoleAndRoleBinding_def by (intro emits_intros) auto

lemma emits_syncStatsService: "emits (\<lambda>_. True) (syncStatsService vs) env"
  unfolding syncStatsService_def ensureStatsService_def ensureStatsServiceDeleted_def by (intro emits_intros) auto

lemma emits_manageMonitor: "emits (\<lambda>_. True) (manageMonitor vs) env"
  unfolding manageMonitor_def getOldAgent_def addOrUpdateMonitor_def newMonitorController_def setNewAgent_def agentCall_def Let_def
  by (intro emits_intros) auto

lemmas emits_build = emits_GetStorageConfig emits_vaultSrv_Apply emits_ensureRoleAndRoleBinding emits_syncStatsService
  emits_manageMonitor

lemma CreateVaultConfig_Ok:
  assumes "CreateVaultConfig v vs env t = (Ok u, t')"
  shows "\<exists>cm es. t' = t @ es \<and> cm_Meta cm = serverMeta (ConfigMapName vs) vs
    \<and> inOrder [ensuredBy ConfigMaps (cm_Meta cm) newConfigMap (setConfigMap vs cm)] es"
proof -
  from assms obtain cm t1 where g: "GetConfig v vs env t = (Ok cm, t1)" and m: "ensureConfigMap vs cm env t1 = (Ok u, t')"
    unfolding CreateVaultConfig_def by (rule andThen_Ok)
  have ens: "ensures [ensuredBy ConfigMaps (cm_Meta cm) newConfigMap (setConfigMap vs cm)] (ensureConfigMap vs cm) env"
    unfolding ensureConfigMap_def by (intro ensures_done ensures_intros)
  have em: "emits (\<lambda>_. True) (GetConfig v vs) env"
    unfolding GetConfig_def by (intro emits_intros emits_build)
  have "cm_Meta cm = serverMeta (ConfigMapName vs) vs"
    using g by (auto simp: GetConfig_def serverMeta_def run_simps elim!: andThen_Ok)
  with ensuresD[OF ens m] emitsD[OF em g] show ?thesis using inOrder_later by fastforce
qed

definition deployCalls :: "VaultServer \<Rightarrow> (event \<Rightarrow> bool) list" where
  "deployCalls vs =
     map (\<lambda>sa. ensuredBy ServiceAccounts (sa_Meta sa) newServiceAccount (setServiceAccount vs sa)) (GetServiceAccounts vs)
   @ [ensuredBy Services (svc_Meta (GetService vs)) newService (setService vs (GetService vs)),
      ensuredBy ClusterRoleBindings ((rb_Meta (GetRBACClusterRoleBinding vs))\<lparr>Namespace := ''''\<rparr>)
        (\<lambda>_. newRoleBinding (rb_Meta (GetRBACClusterRoleBinding vs))) (setBinding vs (GetRBACClusterRoleBinding vs)),
      (\<lambda>e. \<exists>pt. podOk pt \<and> ensuredBy Deployments (dep_Meta (GetDeployment vs pt)) newDeployment
        (setDeployment vs (GetDeployment vs pt)) e)]"

lemma GetDeployment_same: "sameServer vs vs' \<Longrightarrow> GetDeployment vs' pt = GetDeployment vs pt"
  by (rule same_transfer[where f = "\<lambda>vs. GetDeployment vs pt"]) (simp_all add: strip_objects)

lemma ensures_forEach: "(\<And>x. ensures [P x] (f x) env) \<Longrightarrow> ensures (map P xs) (forEach f xs) env"
proof (induction xs)
  case (Cons x xs)
  then show ?case using ensures_andThen[of "[P x]" "f x" env "map P xs"] by simp
qed (simp add: ensures_ret)

lemma ensures_DeployVault: "ensures (deployCalls vs) (DeployVault v vs) env"
proof -
  let ?sa = "\<lambda>sa. ensuredBy ServiceAccounts (sa_Meta sa) newServiceAccount (setServiceAccount vs sa)"
  let ?svc = "ensuredBy Services (svc_Meta (GetService vs)) newService (setService vs (GetService vs))"
  let ?crb = "ensuredBy ClusterRoleBindings ((rb_Meta (GetRBACClusterRoleBinding vs))\<lparr>Namespace := ''''\<rparr>)
        (\<lambda>_. newRoleBinding (rb_Meta (GetRBACClusterRoleBinding vs))) (setBinding vs (GetRBACClusterRoleBinding vs))"
  let ?dep = "\<lambda>e. \<exists>pt. podOk pt \<and> ensuredBy Deployments (dep_Meta (GetDeployment vs pt)) newDeployment
        (setDeployment vs (GetDeployment vs pt)) e"
  obtain vs1 pt0 where pt0: "GetPodTemplate vs (GetContainer v vs) (ServiceAccountName vs) = (vs1, pt0)" by fastforce
  then have "vs1 = setFSGroup vs" by (simp add: GetPodTemplate_def Let_def)
  then have same: "sameServer vs vs1" by simp
  have dep: "ensures [?dep] (ensureDeployment vs1 (GetDeployment vs1 pt)) env" if "podOk pt" for pt
  proof -
    have "ensures [ensuredBy Deployments (dep_Meta (GetDeployment vs pt)) newDeployment (setDeployment vs (GetDeployment vs pt))]
       (ensureDeployment vs1 (GetDeployment vs1 pt)) env"
      unfolding ensureDeployment_def GetDeployment_same[OF same] same_server[OF same] by (intro ensures_done ensures_intros)
    then show ?thesis by (rule ensures_weaken) (use that in auto)
  qed
  have rest: "ensures ([] @ [?dep] @ [] @ []) (andThen (vaultSrv_Apply v vs1 pt0) (\<lambda>podT.
     andThen (ensureDeployment vs1 (GetDeployment vs1 podT)) (\<lambda>_.
     andThen (syncStatsService vs1) (\<lambda>_. manageMonitor vs1)))) env"
  proof (intro ensures_andThen ensures_Nil[OF emits_build(2)] ensures_Nil[OF emits_build(4)] ensures_Nil[OF emits_build(5)] dep)
    fix pt t t'
    assume "vaultSrv_Apply v vs1 pt0 env t = (Ok pt, t')"
    then show "podOk pt" using vaultSrv_Apply_Ok[of v vs1 vs vs] pt0 by (metis snd_conv)
  qed
  have crb: "ensures [?crb] (ensurClusterRoleBinding vs (GetRBACClusterRoleBinding vs)) env"
    unfolding ensurClusterRoleBinding_def by (intro ensures_done ensures_intros)
  have svc: "ensures [?svc] (ensureService vs (GetService vs)) env"
    unfolding ensureService_def by (intro ensures_done ensures_intros)
  have sa: "ensures (map ?sa (GetServiceAccounts vs)) (forEach (ensureServiceAccount vs) (GetServiceAccounts vs)) env"
    unfolding ensureServiceAccount_def by (intro ensures_forEach ensures_done ensures_intros)
  have "ensures (map ?sa (GetServiceAccounts vs) @ [?svc] @ [] @ [?crb] @ [] @ [?dep] @ [] @ []) (DeployVault v vs) env"
    unfolding DeployVault_def pt0 prod.case
    by (intro ensures_andThen sa svc crb rest ensures_Nil) (simp add: emits_ensureRoleAndRoleBinding split: prod.split)
  then show ?thesis by (simp add: deployCalls_def)
qed

lemma manageMonitor_TLS: "manageMonitor vs env t = (Ok vs', t') \<Longrightarrow> vs_TLS (Spec vs') = vs_TLS (Spec vs)"
  by (auto simp: manageMonitor_def addOrUpdateMonitor_def Let_def run_simps errOf_def setExporterPort_def
      split: if_splits option.splits elim!: andThen_Ok attempt_Ok)

lemma DeployVault_same:
  assumes "DeployVault v vs env t = (Ok vs', t')"
  shows "sameServer vs vs' \<and> vs_TLS (Spec vs') = vs_TLS (Spec vs)"
proof -
  obtain t1 where "manageMonitor (setFSGroup vs) env t1 = (Ok vs', t')"
    using assms by (auto simp: DeployVault_def GetPodTemplate_def Let_def elim!: andThen_Ok)
  from manageMonitor_same[OF this] manageMonitor_TLS[OF this] show ?thesis by (simp, simp add: setFSGroup_def)
qed

lemma ensureAppBindings_Ok:
  assumes "ensureAppBindings vs env t = (Ok vs', t')" "vs_TLS (Spec vs) = Some tls" "tls_TLSSecret tls \<noteq> ''''"
  shows "vs' = vs \<and> (\<exists>es. t' = t @ es \<and> inOrder [ensuredBy AppBindings (ObjectMeta0 (AppBindingName vs) (Namespace (Meta vs)))
     newAppBinding (setAppBinding vs (tls_CABundle tls))] es)"
proof -
  from assms(1) obtain r t1 where g: "GetServerTLS vs env t = (Ok r, t1)"
    and m: "(case r of (vs, sr, ca) \<Rightarrow> andThen (CreateOrPatch AppBindings (ObjectMeta0 (AppBindingName vs) (Namespace (Meta vs))) newAppBinding
        (setAppBinding vs ca)) (\<lambda>_. ret vs)) env t1 = (Ok vs', t')"
    unfolding ensureAppBindings_def by (rule andThen_Ok)
  obtain vs1 sr ca where r: "r = (vs1, sr, ca)" by (cases r)
  from GetServerTLS_given[OF g[unfolded r] assms(2,3)] have "vs1 = vs" "ca = tls_CABundle tls" by simp_all
  with m r have m: "andThen (CreateOrPatch AppBindings (ObjectMeta0 (AppBindingName vs) (Namespace (Meta vs))) newAppBinding
        (setAppBinding vs (tls_CABundle tls))) (\<lambda>_. ret vs) env t1 = (Ok vs', t')" by simp
  then have "vs' = vs" by (auto simp: run_simps elim!: andThen_Ok)
  have "ensures ([ensuredBy AppBindings (ObjectMeta0 (AppBindingName vs) (Namespace (Meta vs))) newAppBinding
        (setAppBinding vs (tls_CABundle tls))] @ []) (andThen (CreateOrPatch AppBindings (ObjectMeta0 (AppBindingName vs) (Namespace (Meta vs))) newAppBinding
        (setAppBinding vs (tls_CABundle tls))) (\<lambda>_. ret vs)) env"
    by (intro ensures_andThen ensures_intros ensures_ret)
  from ensuresD[OF this m] obtain es where "t' = t1 @ es" "inOrder [ensuredBy AppBindings (ObjectMeta0 (AppBindingName vs) (Namespace (Meta vs))) newAppBinding
        (setAppBinding vs (tls_CABundle tls))] es" by auto
  moreover from emitsD[OF emits_GetServerTLS g] obtain as where "t1 = t @ as" by blast
  ultimately show ?thesis using \<open>vs' = vs\<close> inOrder_later by (metis append.assoc)
qed


text \<open>The calls of a run without an error, with the secret, the authority and the configuration it used.\<close>

definition serverCalls :: "VaultServer \<Rightarrow> Secret \<Rightarrow> string \<Rightarrow> ConfigMap \<Rightarrow> (event \<Rightarrow> bool) list" where
  "serverCalls vs sr ca cm =
     [ensuredBy Secrets (sec_Meta sr) newSecret (setSecret vs sr),
      ensuredBy VaultServers (Meta vs) newVaultServer (setServerTLS (Name (sec_Meta sr)) ca),
      ensuredBy ConfigMaps (serverMeta (ConfigMapName vs) vs) newConfigMap (setConfigMap vs cm)]
   @ deployCalls vs
   @ [ensuredBy AppBindings (ObjectMeta0 (AppBindingName vs) (Namespace (Meta vs))) newAppBinding (setAppBinding vs ca),
      writesStatus VaultServers (setServerReady (Generation (Meta vs)))]"

lemma deployCalls_same: "sameServer vs vs' \<Longrightarrow> deployCalls vs' = deployCalls vs"
  by (simp only: deployCalls_def same_server[of vs vs'] GetDeployment_same[of vs vs'])

lemma same_names:
  assumes "sameServer vs vs'"
  shows "serverMeta (ConfigMapName vs') vs' = serverMeta (ConfigMapName vs) vs" "AppBindingName vs' = AppBindingName vs"
  by (rule same_transfer[OF assms, where f = "\<lambda>vs. serverMeta (ConfigMapName vs) vs"], simp add: strip_objects)
    (rule same_transfer[OF assms], simp add: strip_objects)

lemma provision_Ok:
  assumes run: "provision v vs env t = (Ok vs', t')"
    and tls: "\<forall>tls. vs_TLS (Spec vs) = Some tls \<longrightarrow> tls_TLSSecret tls \<noteq> ''''"
  shows "\<exists>sr ca cm t2 vs1 es. GetServerTLS vs env t = (Ok (vs1, sr, ca), t2) \<and> t' = t @ es \<and> inOrder (serverCalls vs sr ca cm) es"
proof -
  from run obtain vs1 t1 u t2 vs2 t3 vs3 t4 where 1: "CreateVaultTLSSecret vs env t = (Ok vs1, t1)"
    and 2: "CreateVaultConfig v vs1 env t1 = (Ok u, t2)" and 3: "DeployVault v vs1 env t2 = (Ok vs2, t3)"
    and 4: "ensureAppBindings vs2 env t3 = (Ok vs3, t4)"
    and 5: "andThen (wrapErr ''failed to update status'' (UpdateStatus VaultServers (Meta vs3)
       (setServerReady (Generation (Meta vs3))))) (\<lambda>_. ret vs3) env t4 = (Ok vs', t')"
    unfolding provision_def by (elim serverStep_Ok) blast
  from CreateVaultTLSSecret_Ok[OF 1] obtain sr ca b es1 where g: "GetServerTLS vs env t = (Ok (vs1, sr, ca), b)"
    and es1: "t1 = t @ es1" "inOrder [ensuredBy Secrets (sec_Meta sr) newSecret (setSecret vs sr),
     ensuredBy VaultServers (Meta vs) newVaultServer (setServerTLS (Name (sec_Meta sr)) ca)] es1" by blast
  from GetServerTLS_keeps[OF g tls] obtain p where p: "vs_TLS (Spec vs1) = Some p" "tls_TLSSecret p \<noteq> ''''" "tls_CABundle p = ca" by blast
  note s1 = GetServerTLS_same[OF g]
  from CreateVaultConfig_Ok[OF 2] s1 obtain cm es2 where es2: "t2 = t1 @ es2"
    "inOrder [ensuredBy ConfigMaps (serverMeta (ConfigMapName vs) vs) newConfigMap (setConfigMap vs cm)] es2"
    unfolding same_server[OF s1] same_names[OF s1] by metis
  from ensuresD[OF ensures_DeployVault 3] obtain es3 where es3: "t3 = t2 @ es3" "inOrder (deployCalls vs) es3"
    by (auto simp: deployCalls_same[OF s1])
  from DeployVault_same[OF 3] s1 p(1) have s2: "sameServer vs vs2" "vs_TLS (Spec vs2) = Some p" by simp_all
  from ensureAppBindings_Ok[OF 4 s2(2) p(2)] obtain es4 where es4: "vs3 = vs2" "t4 = t3 @ es4"
    "inOrder [ensuredBy AppBindings (ObjectMeta0 (AppBindingName vs) (Namespace (Meta vs))) newAppBinding (setAppBinding vs ca)] es4"
    unfolding same_server[OF s2(1)] same_names[OF s2(1)] p(3) by blast
  have "ensures ([writesStatus VaultServers (setServerReady (Generation (Meta vs)))] @ [])
     (andThen (wrapErr ''failed to update status'' (UpdateStatus VaultServers (Meta vs3)
       (setServerReady (Generation (Meta vs3))))) (\<lambda>_. ret vs3)) env"
    unfolding es4(1) same_server[OF s2(1)] by (intro ensures_andThen ensures_intros ensures_ret)
  from ensuresD[OF this 5] obtain es5 where es5: "t' = t4 @ es5"
    "inOrder [writesStatus VaultServers (setServerReady (Generation (Meta vs)))] es5" by auto
  have "inOrder (serverCalls vs sr ca cm) (es1 @ es2 @ es3 @ es4 @ es5)"
    using inOrder_append[OF es1(2) inOrder_append[OF es2(2) inOrder_append[OF es3(2) inOrder_append[OF es4(3) es5(2)]]]]
    by (simp add: serverCalls_def)
  moreover have "t' = t @ es1 @ es2 @ es3 @ es4 @ es5" using es1(1) es2(1) es3(1) es4(2) es5(1) by simp
  ultimately show ?thesis using g by blast
qed


section \<open>A server that is ready\<close>

text \<open>C32: When provisioning a Vault server ends without an error, the calls of the run contain, in this order:
  the TLS secret ensured, the TLS policy with that secret's name and the certificate authority written into the
  server, the configuration map, both service accounts, the service, the cluster role binding of the token
  reviewer, a deployment with a well formed pod, the application binding with the same certificate authority as
  the server's TLS policy, and only then the ready status.  So a server is never marked ready before everything
  it consists of is there.  A TLS policy in the spec is assumed to name its secret.\<close>

theorem server_ready_in_order:
  assumes "provision v vs env t = (Ok vs', t')" "\<forall>tls. vs_TLS (Spec vs) = Some tls \<longrightarrow> tls_TLSSecret tls \<noteq> ''''"
  shows "\<exists>sr ca cm es. t' = t @ es \<and> inOrder (serverCalls vs sr ca cm) es"
  using provision_Ok[OF assms] by blast

text \<open>In the example every call succeeds.\<close>

definition succeeds :: "'a go \<Rightarrow> bool" where
  "succeeds m \<longleftrightarrow> (\<forall>t. \<exists>x t'. m tokenEnv t = (Ok x, t'))"

lemma succeeds_andThen:
  assumes "succeeds m" "\<And>x t t'. m tokenEnv t = (Ok x, t') \<Longrightarrow> succeeds (k x)"
  shows "succeeds (andThen m k)"
  unfolding succeeds_def
proof
  fix t
  from assms(1) obtain x t1 where m: "m tokenEnv t = (Ok x, t1)" unfolding succeeds_def by blast
  from assms(2)[OF m] obtain y t' where "k x tokenEnv t1 = (Ok y, t')" unfolding succeeds_def by blast
  with m show "\<exists>x t'. andThen m k tokenEnv t = (Ok x, t')" by (simp add: andThen_def attempt_def)
qed

lemma succeeds_ret: "succeeds (ret x)"
  by (simp add: succeeds_def run_simps)

lemma succeeds_attempt: "succeeds (andThen m k) \<Longrightarrow> succeeds m \<Longrightarrow> succeeds (attempt m h k)"
  unfolding succeeds_def
proof
  fix t
  assume "\<forall>t. \<exists>x t'. andThen m k tokenEnv t = (Ok x, t')" and "\<forall>t. \<exists>x t'. m tokenEnv t = (Ok x, t')"
  then obtain x t1 y t' where "m tokenEnv t = (Ok x, t1)" "andThen m k tokenEnv t = (Ok y, t')" by blast
  then have "attempt m h k tokenEnv t = (Ok y, t')" by (simp add: andThen_def attempt_def)
  then show "\<exists>x t'. attempt m h k tokenEnv t = (Ok x, t')" by blast
qed

lemma succeeds_serverStep: "succeeds (andThen m k) \<Longrightarrow> succeeds m \<Longrightarrow> succeeds (serverStep vs rsn msg m k)"
  unfolding serverStep_def by (rule succeeds_attempt)

lemma succeeds_errOf: "succeeds m \<Longrightarrow> succeeds (g None) \<Longrightarrow> succeeds (errOf m g)"
  unfolding errOf_def by (intro succeeds_attempt succeeds_andThen)

lemma succeeds_wrapErr: "succeeds m \<Longrightarrow> succeeds (wrapErr msg m)"
  by (simp add: succeeds_def wrapErr_Ok)

lemma succeeds_forEach: "(\<And>x. succeeds (f x)) \<Longrightarrow> succeeds (forEach f xs)"
  by (induction xs) (simp_all add: succeeds_ret succeeds_andThen)

lemmas succeeds_rules = succeeds_ret succeeds_andThen succeeds_wrapErr succeeds_forEach succeeds_errOf

lemma tokenEnv_answers:
  "kube_answer tokenEnv t (KGet k ns n) =
    (if k = ''ServiceAccount'' then Inr (ServiceAccountObj \<lparr>sa_Meta = ObjectMeta0 n ns, sa_Secrets = [''token'']\<rparr>)
     else if k = ''Secret'' then Inr (SecretObj demoToken)
     else if k = ''VaultServer'' then Inr (VaultServerObj (demoServer ''1.2.3''))
     else if k = ''VaultServerVersion'' then Inr (VaultServerVersionObj demoVersion)
     else Inl (StatusError NotFound ''not found''))"
  "kube_answer tokenEnv t (KCreate ob) = Inr ob" "kube_answer tokenEnv t (KPatch cur ob) = Inr ob"
  "kube_answer tokenEnv t (KUpdateStatus ob) = Inr ob" "kube_answer tokenEnv t (KDelete k ns n) = Inr NoObj"
  "sdk_answer tokenEnv t f args = Inr ''sdk''" "clock tokenEnv t = 1000"
  by (simp_all add: tokenEnv_def echoEnv_def)

lemma succeeds_CreateOrPatch:
  assumes "typed_client c" "cl_Kind c \<in> {''ServiceAccount'', ''Secret'', ''VaultServer'', ''VaultServerVersion''}
      \<Longrightarrow> \<exists>x. \<forall>ns n t. apiGet c ns n tokenEnv t = (Ok (x ns n), t @ [Kube (KGet (cl_Kind c) ns n) (Inr (cl_inj c (x ns n)))])"
  shows "succeeds (CreateOrPatch c meta new f)"
  unfolding succeeds_def
proof
  fix t
  have p: "Patch c cur f tokenEnv t1 = (Ok (f cur), t1 @ (if f cur = cur then [] else [Kube (KPatch (cl_inj c cur) (cl_inj c (f cur))) (Inr (cl_inj c (f cur)))]))" for cur t1
    using typed_client.prj_inj[OF assms(1)]
    by (simp add: Patch_def PatchObject_def apiPatch_def kubeCall_def tokenEnv_answers go_defs)
  show "\<exists>x t'. CreateOrPatch c meta new f tokenEnv t = (Ok x, t')"
  proof (cases "cl_Kind c \<in> {''ServiceAccount'', ''Secret'', ''VaultServer'', ''VaultServerVersion''}")
    case True
    from assms(2)[OF this] p show ?thesis by (auto simp: CreateOrPatch_def attempt_def)
  next
    case False
    then show ?thesis using typed_client.prj_inj[OF assms(1)]
      by (simp add: CreateOrPatch_def apiGet_def apiCreate_def kubeCall_def tokenEnv_answers go_defs IsNotFound_def)
  qed
qed


lemma succeeds_clients:
  "succeeds (CreateOrPatch Secrets m1 n1 f1)" "succeeds (CreateOrPatch VaultServers m2 n2 f2)"
  "succeeds (CreateOrPatch ServiceAccounts m3 n3 f3)" "succeeds (CreateOrPatch ConfigMaps m4 n4 f4)"
  "succeeds (CreateOrPatch Services m5 n5 f5)" "succeeds (CreateOrPatch RbacRoles m6 n6 f6)"
  "succeeds (CreateOrPatch RoleBindings m7 n7 f7)" "succeeds (CreateOrPatch ClusterRoleBindings m8 n8 f8)"
  "succeeds (CreateOrPatch Deployments m9 n9 f9)" "succeeds (CreateOrPatch AppBindings m10 n10 f10)"
proof -
  show "succeeds (CreateOrPatch Secrets m1 n1 f1)"
    by (rule succeeds_CreateOrPatch[OF Secrets.typed_client_axioms])
      (rule exI[of _ "\<lambda>ns n. demoToken"], simp add: tokenEnv_run, simp add: Secrets_def)
  show "succeeds (CreateOrPatch VaultServers m2 n2 f2)"
    by (rule succeeds_CreateOrPatch[OF VaultServers.typed_client_axioms])
      (rule exI[of _ "\<lambda>ns n. demoServer ''1.2.3''"], simp add: apiGet_def kubeCall_def tokenEnv_answers VaultServers_def)
  show "succeeds (CreateOrPatch ServiceAccounts m3 n3 f3)"
    by (rule succeeds_CreateOrPatch[OF ServiceAccounts.typed_client_axioms])
      (rule exI[of _ "\<lambda>ns n. \<lparr>sa_Meta = ObjectMeta0 n ns, sa_Secrets = [''token'']\<rparr>"],
       simp add: apiGet_def kubeCall_def tokenEnv_answers ServiceAccounts_def)
qed (rule succeeds_CreateOrPatch; (rule ConfigMaps.typed_client_axioms Services.typed_client_axioms RbacRoles.typed_client_axioms
      RoleBindings.typed_client_axioms ClusterRoleBindings.typed_client_axioms Deployments.typed_client_axioms
      AppBindings.typed_client_axioms |
      simp add: ConfigMaps_def Services_def RbacRoles_def RoleBindings_def ClusterRoleBindings_def Deployments_def AppBindings_def))+


text \<open>A server without a monitor and with an unsealer.\<close>

definition plainServer :: "VaultServer \<Rightarrow> bool" where
  "plainServer vs \<longleftrightarrow> vs_Monitor (Spec vs) = None \<and> vs_Unsealer (Spec vs) \<noteq> None"

lemma succeeds_GetServerTLS: "succeeds (GetServerTLS vs)"
  by (auto simp: succeeds_def GetServerTLS_def Let_def tokenEnv_run go_defs)

lemma manageMonitor_none:
  assumes "vs_Monitor (Spec vs) = None"
  shows "manageMonitor vs tokenEnv t = (Ok vs, t @ [Kube (KGet ''Service'' (Namespace (Meta vs)) (StatsServiceName vs)) (Inl (StatusError NotFound ''not found''))])"
  using assms by (simp add: manageMonitor_def getOldAgent_def apiGet_def kubeCall_def tokenEnv_answers Services_def go_defs Let_def)

lemma succeeds_DeployVault:
  assumes "plainServer vs"
  shows "succeeds (DeployVault demoSrv vs)"
proof -
  have m: "vs_Monitor (Spec (setFSGroup vs)) = None" "exporterSpec (setFSGroup vs) = None"
    using assms by (simp_all add: plainServer_def setFSGroup_def exporterSpec_def)
  obtain s where "vs_Unsealer (Spec (setFSGroup vs)) = Some s" using assms by (auto simp: plainServer_def setFSGroup_def)
  moreover obtain p where pt: "GetPodTemplate vs (GetContainer demoSrv vs) (ServiceAccountName vs) = (setFSGroup vs, p)"
    by (simp add: GetPodTemplate_def Let_def)
  ultimately have pod: "succeeds (vaultSrv_Apply demoSrv (setFSGroup vs) p)"
    using demo_pod[of "setFSGroup vs" s p vs vs "ServiceAccountName vs"] by (simp add: succeeds_def)
  have mon: "succeeds (manageMonitor (setFSGroup vs))" by (simp add: succeeds_def manageMonitor_none[OF m(1)])
  have stats: "succeeds (syncStatsService (setFSGroup vs))" unfolding syncStatsService_def m(2) option.case
    by (rule succeeds_errOf) (simp_all add: succeeds_def ensureStatsServiceDeleted_def apiDelete_def kubeCall_def tokenEnv_answers go_defs)
  obtain rl bl where rbac: "GetRBACRolesAndRoleBindings demoSrv vs = (rl, bl)" by fastforce
  show ?thesis unfolding DeployVault_def rbac prod.case pt
    unfolding ensureServiceAccount_def ensureService_def ensureRoleAndRoleBinding_def ensurClusterRoleBinding_def ensureDeployment_def
    by (intro succeeds_rules succeeds_clients pod mon stats)
qed

lemma CreateVaultTLSSecret_plain:
  assumes "CreateVaultTLSSecret vs env t = (Ok vs', t')" "plainServer vs"
  shows "plainServer vs'"
proof -
  from CreateVaultTLSSecret_Ok[OF assms(1)] obtain sr ca t2 where "GetServerTLS vs env t = (Ok (vs', sr, ca), t2)" by blast
  then show ?thesis using assms(2) by (auto simp: plainServer_def GetServerTLS_def generateTLS_def setTLS_def Let_def run_simps
      split: if_splits option.splits elim!: andThen_Ok attempt_Ok)
qed

lemma succeeds_UpdateStatus: "succeeds (UpdateStatus VaultServers meta f)"
  by (simp add: succeeds_def UpdateStatus_def PollImmediate_def pollTicks_def updateStatusOnce_def metav1_Now_def api_defs kubeCall_def
      tokenEnv_answers tokenEnv_run VaultServers_def go_defs)

lemma demo_provision:
  assumes plain: "plainServer vs"
  shows "\<exists>vs' t'. provision demoSrv vs tokenEnv t = (Ok vs', t')"
proof -
  have tls: "succeeds (CreateVaultTLSSecret vs)" for vs
    unfolding CreateVaultTLSSecret_def ensureSecret_def
    by (rule succeeds_andThen[OF succeeds_GetServerTLS]) (auto intro!: succeeds_rules succeeds_clients)
  have cfg: "succeeds (CreateVaultConfig demoSrv vs)" for vs
    unfolding CreateVaultConfig_def ensureConfigMap_def GetConfig_def demoSrv_def
    by (simp add: succeeds_rules succeeds_clients)
  have app: "succeeds (ensureAppBindings vs)" for vs
    unfolding ensureAppBindings_def
    by (rule succeeds_andThen[OF succeeds_GetServerTLS]) (auto intro!: succeeds_rules succeeds_clients)
  have "succeeds (provision demoSrv vs)"
    unfolding provision_def
    by (intro succeeds_serverStep succeeds_andThen tls cfg app succeeds_wrapErr succeeds_UpdateStatus succeeds_ret)
      (auto dest!: CreateVaultTLSSecret_plain[OF _ plain] intro: succeeds_DeployVault plain)
  then show ?thesis by (simp add: succeeds_def)
qed

theorem server_ready_in_order_witness:
  "\<exists>vs' t' sr ca cm es. provision demoSrv readyServer tokenEnv [] = (Ok vs', t') \<and> t' = es
     \<and> inOrder (serverCalls readyServer sr ca cm) es"
proof -
  have "plainServer readyServer" by (simp add: plainServer_def readyServer_def setTLS_def demoServer_def VaultServerSpec0_def)
  from demo_provision[OF this] obtain vs' t' where run: "provision demoSrv readyServer tokenEnv [] = (Ok vs', t')" by blast
  have "\<forall>tls. vs_TLS (Spec readyServer) = Some tls \<longrightarrow> tls_TLSSecret tls \<noteq> ''''"
    by (simp add: readyServer_def setTLS_def)
  from server_ready_in_order[OF run this] run show ?thesis by auto
qed


section \<open>What goes wrong\<close>

text \<open>C38: A server without a TLS policy whose TLS secret already exists loses its certificate authority.  This is
  the state a run leaves that stored the secret it generated and then failed to write the policy into the server.
  A run from it that ends without an error took the empty bundle for the authority: it wrote the empty bundle into
  the server and into the application binding, left the verification of certificates on, and marked the server
  ready.\<close>

theorem stored_secret_loses_authority:
  assumes run: "provision v vs env t = (Ok vs', t')" and tls: "vs_TLS (Spec vs) = None"
    and secret: "apiGet Secrets (Namespace (Meta vs)) (TLSSecretName vs) env t = (Ok sr, t1)"
  shows "(\<exists>cm es. t' = t @ es \<and> inOrder (serverCalls vs sr '''' cm) es)
    \<and> (let c = ab_ClientConfig (setAppBinding vs '''' x) in cc_CABundle c = '''' \<and> \<not> cc_InsecureSkipTLSVerify c)"
proof -
  have none: "\<forall>tls. vs_TLS (Spec vs) = Some tls \<longrightarrow> tls_TLSSecret tls \<noteq> ''''" using tls by simp
  from provision_Ok[OF run none] obtain sr' ca cm t2 vs1 es where g: "GetServerTLS vs env t = (Ok (vs1, sr', ca), t2)"
    and es: "t' = t @ es" "inOrder (serverCalls vs sr' ca cm) es" by blast
  from g tls secret have "sr' = sr" "ca = ''''"
    by (auto simp: GetServerTLS_def Let_def attempt_def run_simps)
  with es show ?thesis by (auto simp: setAppBinding_def Let_def)
qed

theorem stored_secret_loses_authority_witness:
  "\<exists>vs' t' cm. provision demoSrv (demoServer ''1.2.3'') tokenEnv [] = (Ok vs', t')
     \<and> inOrder (serverCalls (demoServer ''1.2.3'') demoToken '''' cm) t'"
proof -
  let ?vs = "demoServer ''1.2.3''"
  have "plainServer ?vs" and tls: "vs_TLS (Spec ?vs) = None" by (simp_all add: plainServer_def demoServer_def VaultServerSpec0_def)
  from demo_provision[OF this(1)] obtain vs' t' where run: "provision demoSrv ?vs tokenEnv [] = (Ok vs', t')" by blast
  from stored_secret_loses_authority[OF run tls tokenEnv_run(2)] run show ?thesis by auto
qed


section \<open>Reaching the server\<close>

text \<open>C37: The application binding leads to the server.  From the binding the controller maintains, a client is
  configured for the client port of the server's service, which both the service and the Vault container open, with
  the certificate authority of the server and verification on; and the name it verifies is one the server's
  certificate is made for.\<close>

theorem app_binding_reaches_server:
  assumes "Namespace (ab_Meta x) = Namespace (Meta vs)" "ca = '''' \<or> pem_ok env ca"
  shows "\<exists>cfg. VaultConfigFromAppBinding (setAppBinding vs ca x) env t = (Ok cfg, t)
    \<and> cfg_Address cfg = ''HTTPS://'' @ Name (svc_Meta (GetService vs)) @ ''.'' @ Namespace (svc_Meta (GetService vs)) @ ''.svc:8200''
    \<and> VaultClientPort = 8200
    \<and> VaultClientPort \<in> sp_Port ` set (ss_Ports (svc_Spec (GetService vs)))
    \<and> VaultClientPort \<in> cp_ContainerPort ` set (c_Ports (GetContainer v vs))
    \<and> \<not> cfg_InsecureSkipVerify cfg \<and> cfg_RootCAs cfg = ca \<and> cfg_ServerName cfg \<in> set (tlsAltNames vs)"
proof -
  let ?b = "setAppBinding vs ca x"
  have meta: "Namespace (ab_Meta ?b) = Namespace (Meta vs)"
    using assms(1) by (simp add: setAppBinding_def ownedBy_def EnsureOwnerReference_def Let_def split: option.splits)
  have port: "string_of_int 8200 = ''8200''" by (simp add: string_of_int_def string_of_nat.simps char_of_eq_iff)
  have url: "AppBinding_URL ?b = Inr (''HTTPS://'' @ Name (Meta vs) @ ''.'' @ Namespace (Meta vs) @ ''.svc:8200'')"
    using meta port by (simp add: AppBinding_URL_def Let_def urlString_def setAppBinding_def GetService_def serverMeta_def
        VaultServer_OffshootName_def ObjectMeta0_def VaultClientPort_def)
  show ?thesis using assms(2) meta url
    by (simp add: VaultConfigFromAppBinding_def AppBinding_Hostname_def setAppBinding_def
        GetService_def serverMeta_def VaultServer_OffshootName_def ObjectMeta0_def VaultClientPort_def tlsAltNames_def
        GetContainer_def servicePort_def go_defs guard_def liftE_def Let_def)
qed

theorem app_binding_reaches_server_witness:
  "\<exists>cfg. VaultConfigFromAppBinding (setAppBinding (demoServer ''1.2.3'') ''CA'' (newAppBinding (ObjectMeta0 ''vault'' ''demo''))) tokenEnv [] = (Ok cfg, [])
     \<and> cfg_ServerName cfg \<in> set (tlsAltNames (demoServer ''1.2.3''))"
  using app_binding_reaches_server[of "newAppBinding (ObjectMeta0 ''vault'' ''demo'')" "demoServer ''1.2.3''" "''CA''" tokenEnv "[]"]
  by (auto simp: newAppBinding_def demoServer_def ObjectMeta0_def tokenEnv_def echoEnv_def)

section \<open>Further defects\<close>

text \<open>
  The name of the cluster role binding has no namespace: two servers of the same
  name ensure the same object, and the later one takes the binding from the
  earlier one's token reviewer.
\<close>

lemma cluster_role_binding_shared:
  assumes "Name (Meta vs1) = Name (Meta vs2)"
  shows "Name (rb_Meta (GetRBACClusterRoleBinding vs1)) = Name (rb_Meta (GetRBACClusterRoleBinding vs2))
    \<and> rb_Subjects (setBinding vs2 (GetRBACClusterRoleBinding vs2) (setBinding vs1 (GetRBACClusterRoleBinding vs1) x))
      = [saSubject (ServiceAccountForTokenReviewer vs2) (Namespace (Meta vs2))]"
  using assms by (simp add: GetRBACClusterRoleBinding_def serverMeta_def ObjectMeta0_def setBinding_def)

text \<open>A monitor without an exporter is dereferenced.\<close>

lemma monitor_without_exporter_panics:
  assumes "vs_Monitor (Spec vs) = Some m" "agent_Prometheus m = Some p" "prom_Exporter p = None"
  shows "addOrUpdateMonitor vs env t = (Panic ''invalid memory address or nil pointer dereference'', t)"
  using assms by (simp add: addOrUpdateMonitor_def newMonitorController_def exporterSpec_def go_defs)

text \<open>The ready status leaves a failure of an earlier run in place.\<close>

lemma ready_server_keeps_failed:
  assumes "c \<in> set (vss_Conditions st)" "cond_Type c = ConditionFailed"
  shows "c \<in> set (vss_Conditions (setServerReady g now st))"
  using assms by (auto simp: setServerReady_def ConditionReady_def ConditionFailed_def conditionTrue_def intro!: SetCondition_keeps)

end
