(* ===== verification/Task_Theorems.thy ===== *)
theory Task_Theorems
  imports Server_Theorems
begin

text \<open>
  The life of the background tasks of the Vault server controller: a status
  monitor and an authentication method task per server, started, replaced and
  cancelled by the runs of the controller.
\<close>

section \<open>Background tasks\<close>

definition registered :: "taskKind \<Rightarrow> VaultController \<Rightarrow> string \<rightharpoonup> nat" where
  "registered kind c = (case kind of StatusMonitor \<Rightarrow> ctxCancels c | AuthMethodTask \<Rightarrow> authMethodCtx c)"

text \<open>The task \<open>i\<close> runs for the server \<open>k\<close>.\<close>

definition live :: "VaultController \<Rightarrow> taskKind \<Rightarrow> string \<Rightarrow> nat \<Rightarrow> bool" where
  "live c kind k i \<longleftrightarrow> i < length (tasks c) \<and> tk_Kind (tasks c ! i) = kind \<and> tk_key (tasks c ! i) = k
     \<and> \<not> tk_cancelled (tasks c ! i)"

definition tasksOk :: "VaultController \<Rightarrow> bool" where
  "tasksOk c \<longleftrightarrow> (\<forall>kind k i. registered kind c k = Some i \<longleftrightarrow> live c kind k i)"

text \<open>
  The states of the controller: a run on a key, and a status monitor that finds
  its server gone.  A run that ends with an error changes nothing.
\<close>

inductive controllerRuns :: "VaultController \<Rightarrow> bool" where
  start: "controllerRuns \<lparr>ctxCancels = Map.empty, authMethodCtx = Map.empty, tasks = []\<rparr>"
| handled: "controllerRuns c \<Longrightarrow> runVaultServerInjector c k env t = (Ok c', t') \<Longrightarrow> controllerRuns c'"
| monitored: "controllerRuns c \<Longrightarrow> updateVaultCRStatus n ns s env t = (Ok (latest, True), t')
    \<Longrightarrow> controllerRuns (stopMonitor (slash ns n) c)"

lemma tasksOk_start: "tasksOk \<lparr>ctxCancels = Map.empty, authMethodCtx = Map.empty, tasks = []\<rparr>"
  by (auto simp: tasksOk_def registered_def live_def split: taskKind.split)

lemma tasksOkD: "tasksOk c \<Longrightarrow> registered kind c k = Some i \<longleftrightarrow> live c kind k i"
  by (simp add: tasksOk_def)

lemma live_key: "live c kind k i \<Longrightarrow> live c kind' k' i \<Longrightarrow> kind' = kind \<and> k' = k"
  by (auto simp: live_def)

lemma live_cancel: "tasks c' = cancelTask j (tasks c) \<Longrightarrow> live c' kind k i \<longleftrightarrow> live c kind k i \<and> i \<noteq> j"
  by (cases "i = j") (auto simp: live_def cancelTask_def)

lemma live_start:
  "tasks c' = startTask kd vs (tasks c) \<Longrightarrow> live c' kind k i \<longleftrightarrow> live c kind k i \<or> i = length (tasks c) \<and> kind = kd \<and> k = key vs"
  by (auto simp: live_def startTask_def nth_append)

lemma registered_simps:
  "registered StatusMonitor c = ctxCancels c" "registered AuthMethodTask c = authMethodCtx c"
  by (simp_all add: registered_def)

text \<open>Stopping: the entry goes, and with it the task it named.\<close>

lemma stop_effect:
  "registered kind (stopMonitor k c) = (if kind = StatusMonitor then (registered kind c)(k := None) else registered kind c)"
  "live (stopMonitor k c) kind k' i \<longleftrightarrow> live c kind k' i \<and> registered StatusMonitor c k \<noteq> Some i"
  "registered kind (stopAuthMethods k c) = (if kind = AuthMethodTask then (registered kind c)(k := None) else registered kind c)"
  "live (stopAuthMethods k c) kind k' i \<longleftrightarrow> live c kind k' i \<and> registered AuthMethodTask c k \<noteq> Some i"
proof -
  show "registered kind (stopMonitor k c) = (if kind = StatusMonitor then (registered kind c)(k := None) else registered kind c)"
    by (cases kind) (auto simp: stopMonitor_def registered_simps fun_eq_iff split: option.split)
  show "registered kind (stopAuthMethods k c) = (if kind = AuthMethodTask then (registered kind c)(k := None) else registered kind c)"
    by (cases kind) (auto simp: stopAuthMethods_def registered_simps fun_eq_iff split: option.split)
  show "live (stopMonitor k c) kind k' i \<longleftrightarrow> live c kind k' i \<and> registered StatusMonitor c k \<noteq> Some i"
    using live_cancel[of "stopMonitor k c" "the (ctxCancels c k)" c]
    by (cases "ctxCancels c k") (auto simp: stopMonitor_def registered_simps)
  show "live (stopAuthMethods k c) kind k' i \<longleftrightarrow> live c kind k' i \<and> registered AuthMethodTask c k \<noteq> Some i"
    using live_cancel[of "stopAuthMethods k c" "the (authMethodCtx c k)" c]
    by (cases "authMethodCtx c k") (auto simp: stopAuthMethods_def registered_simps)
qed

lemma tasksOk_stop: "tasksOk c \<Longrightarrow> tasksOk (stopMonitor k c)" "tasksOk c \<Longrightarrow> tasksOk (stopAuthMethods k c)"
  unfolding tasksOk_def[of "stopMonitor k c"] tasksOk_def[of "stopAuthMethods k c"]
  by (auto simp: stop_effect tasksOkD dest: live_key split: if_splits)

text \<open>Starting: a monitor only when there is none, an authentication method task always, in place of the old one.\<close>

lemma start_effect:
  assumes "ctxCancels c (key vs) = None"
  shows "registered kind (startMonitor vs c) = (if kind = StatusMonitor then (registered kind c)(key vs \<mapsto> length (tasks c)) else registered kind c)"
    "live (startMonitor vs c) kind k i \<longleftrightarrow> live c kind k i \<or> i = length (tasks c) \<and> kind = StatusMonitor \<and> k = key vs"
  using assms live_start[of "startMonitor vs c" StatusMonitor vs c]
  by (auto simp: startMonitor_def registered_def split: taskKind.split)

lemma restart_effect:
  "registered kind (runAuthMethodsReconcile vs c) =
     (if kind = AuthMethodTask then (registered kind c)(key vs \<mapsto> length (tasks c)) else registered kind c)"
  "live (runAuthMethodsReconcile vs c) kind k i \<longleftrightarrow>
     live c kind k i \<and> registered AuthMethodTask c (key vs) \<noteq> Some i \<or> i = length (tasks c) \<and> kind = AuthMethodTask \<and> k = key vs"
proof -
  let ?c1 = "c\<lparr>tasks := (case authMethodCtx c (key vs) of Some i \<Rightarrow> cancelTask i (tasks c) | None \<Rightarrow> tasks c)\<rparr>"
  have len: "length (tasks ?c1) = length (tasks c)" by (simp add: cancelTask_def split: option.split)
  then show "registered kind (runAuthMethodsReconcile vs c) =
     (if kind = AuthMethodTask then (registered kind c)(key vs \<mapsto> length (tasks c)) else registered kind c)"
    by (simp add: runAuthMethodsReconcile_def Let_def registered_def split: taskKind.split)
  have "live ?c1 kind k i \<longleftrightarrow> live c kind k i \<and> registered AuthMethodTask c (key vs) \<noteq> Some i"
    using live_cancel[of ?c1 "the (authMethodCtx c (key vs))" c]
    by (cases "authMethodCtx c (key vs)") (auto simp: registered_simps live_def)
  moreover have "live (runAuthMethodsReconcile vs c) kind k i \<longleftrightarrow> live ?c1 kind k i \<or> i = length (tasks ?c1) \<and> kind = AuthMethodTask \<and> k = key vs"
    by (rule live_start) (simp add: runAuthMethodsReconcile_def Let_def)
  ultimately show "live (runAuthMethodsReconcile vs c) kind k i \<longleftrightarrow>
     live c kind k i \<and> registered AuthMethodTask c (key vs) \<noteq> Some i \<or> i = length (tasks c) \<and> kind = AuthMethodTask \<and> k = key vs"
    unfolding len by blast
qed

lemma live_bound: "\<not> live c kind k (length (tasks c))"
  by (simp add: live_def)

lemma tasksOk_startMonitor:
  assumes "tasksOk c"
  shows "tasksOk (startMonitor vs c)"
proof (cases "ctxCancels c (key vs)")
  case None
  have "registered kind (startMonitor vs c) k = Some i \<longleftrightarrow> live (startMonitor vs c) kind k i" for kind k i
    using None tasksOkD[OF assms, of StatusMonitor "key vs" i] tasksOkD[OF assms, of kind k i] live_bound[of c kind k]
    by (cases "kind = StatusMonitor \<and> k = key vs") (auto simp: start_effect[OF None] registered_simps)
  then show ?thesis by (simp add: tasksOk_def)
qed (simp add: startMonitor_def assms)

lemma tasksOk_runAuthMethodsReconcile:
  assumes "tasksOk c"
  shows "tasksOk (runAuthMethodsReconcile vs c)"
proof -
  have "registered kind (runAuthMethodsReconcile vs c) k = Some i \<longleftrightarrow> live (runAuthMethodsReconcile vs c) kind k i" for kind k i
    using tasksOkD[OF assms, of AuthMethodTask "key vs" i] tasksOkD[OF assms, of kind k i] live_bound[of c kind k]
      live_key[of c kind k i AuthMethodTask "key vs"]
    by (cases "kind = AuthMethodTask \<and> k = key vs") (auto simp: restart_effect)
  then show ?thesis by (simp add: tasksOk_def)
qed

lemmas tasksOk_steps = tasksOk_stop tasksOk_startMonitor tasksOk_runAuthMethodsReconcile

lemma provision_same: "provision v vs env t = (Ok vs', t') \<Longrightarrow> sameServer vs vs'"
proof -
  assume "provision v vs env t = (Ok vs', t')"
  then obtain vs1 t1 u t2 vs2 t3 vs3 t4 where 1: "CreateVaultTLSSecret vs env t = (Ok vs1, t1)"
    and 3: "DeployVault v vs1 env t2 = (Ok vs2, t3)" and 4: "ensureAppBindings vs2 env t3 = (Ok vs3, t4)"
    and 5: "andThen (wrapErr ''failed to update status'' (UpdateStatus VaultServers (Meta vs3)
       (setServerReady (Generation (Meta vs3))))) (\<lambda>_. ret vs3) env t4 = (Ok vs', t')"
    unfolding provision_def by (elim serverStep_Ok) blast
  from CreateVaultTLSSecret_Ok[OF 1] have "sameServer vs vs1" using GetServerTLS_same by blast
  moreover have "sameServer vs1 vs2" using DeployVault_same[OF 3] ..
  moreover have "sameServer vs2 vs3"
    using 4 by (auto simp: ensureAppBindings_def run_simps elim!: andThen_Ok dest: GetServerTLS_same split: prod.splits)
  moreover have "vs' = vs3" using 5 by (auto simp: run_simps elim!: andThen_Ok)
  ultimately show ?thesis by simp
qed

lemma injector_cases:
  assumes "runVaultServerInjector c k env t = (Ok c', t')"
  obtains "cache_answer env t ''VaultServer'' k = Inr None" "c' = stopAuthMethods k (stopMonitor k c)"
  | vs where "cache_answer env t ''VaultServer'' k = Inr (Some (VaultServerObj vs))" "DeletionTimestamp (Meta vs) \<noteq> None" "c' = c"
  | vs vs' where "cache_answer env t ''VaultServer'' k = Inr (Some (VaultServerObj vs))" "DeletionTimestamp (Meta vs) = None"
      "sameServer vs vs'" "c' = runAuthMethodsReconcile vs' (startMonitor vs' c)"
proof -
  from assms obtain obj where obj: "cache_answer env t ''VaultServer'' k = Inr obj"
    and run: "(case obj of None \<Rightarrow> ret (stopAuthMethods k (stopMonitor k c))
     | Some ob \<Rightarrow> (case cl_prj VaultServers ob of None \<Rightarrow> panic ''interface conversion'' | Some vs \<Rightarrow> syncVaultServer c vs)) env t = (Ok c', t')"
    unfolding runVaultServerInjector_def by (auto simp: GetByKey_def elim!: andThen_Ok split: sum.splits)
  show thesis
  proof (cases obj)
    case None
    with obj run show ?thesis using that(1) by (simp add: run_simps)
  next
    case (Some ob)
    with run obtain vs where prj: "cl_prj VaultServers ob = Some vs" and sync: "syncVaultServer c vs env t = (Ok c', t')"
      by (cases "cl_prj VaultServers ob") (simp_all add: run_simps)
    have vs: "ob = VaultServerObj vs" using VaultServers.inj_prj[OF prj] by (simp add: VaultServers_def)
    show ?thesis
    proof (cases "DeletionTimestamp (Meta vs)")
      case del: None
      with sync obtain v vs' t1 t2 where "provision v vs env t1 = (Ok vs', t2)" "c' = runAuthMethodsReconcile vs' (startMonitor vs' c)"
        by (auto simp: syncVaultServer_def reconcileVault_def wrapErr_Ok run_simps elim!: andThen_Ok)
      with that(3)[of vs vs'] obj Some vs del show ?thesis using provision_same by blast
    qed (use that(2)[of vs] obj Some vs sync in \<open>auto simp: syncVaultServer_def run_simps\<close>)
  qed
qed

lemma controllerRuns_tasksOk: "controllerRuns c \<Longrightarrow> tasksOk c"
proof (induction rule: controllerRuns.induct)
  case (handled c k env t c' t')
  from handled(2) show ?case by (cases rule: injector_cases) (auto intro: tasksOk_steps handled)
qed (auto intro: tasksOk_start tasksOk_stop)

text \<open>C33: The tasks of the controller follow its servers.  Whatever keys it handles, whatever each run meets and
  whichever monitors find their server gone: a status monitor or an authentication method task has not been cancelled exactly when it is the registered one
  of its server, so no server has two tasks of a kind and none is forgotten; a run on a key whose server is gone
  leaves no task of that server running; and a run without an error on a server that is not being deleted leaves
  exactly one task of each kind running for it.\<close>

theorem tasks_follow_servers:
  assumes "controllerRuns c"
  shows "tasksOk c
    \<and> (runVaultServerInjector c k env t = (Ok c', t') \<longrightarrow>
        (cache_answer env t ''VaultServer'' k = Inr None \<longrightarrow> (\<forall>kind i. \<not> live c' kind k i))
      \<and> (\<forall>vs. cache_answer env t ''VaultServer'' k = Inr (Some (VaultServerObj vs)) \<and> DeletionTimestamp (Meta vs) = None
          \<longrightarrow> (\<forall>kind. \<exists>!i. live c' kind (key vs) i)))"
proof -
  have ok: "tasksOk c" by (rule controllerRuns_tasksOk[OF assms])
  have gone: "\<not> live c' kind k i" if "c' = stopAuthMethods k (stopMonitor k c)" for kind i
    using tasksOkD[OF ok, of kind k i] by (cases kind) (auto simp: that stop_effect)
  have running: "\<exists>!i. live c' kind (key vs) i" if "sameServer vs vs'" "c' = runAuthMethodsReconcile vs' (startMonitor vs' c)" for vs vs' kind
  proof -
    have k: "key vs' = key vs" using same_server(1)[OF that(1)] by (simp add: key_def)
    have "tasksOk c'" unfolding that(2) by (intro tasksOk_steps ok)
    moreover have "registered kind c' (key vs) \<noteq> None"
    proof (cases kind)
      case StatusMonitor
      then show ?thesis by (simp add: that(2) restart_effect) (simp add: startMonitor_def registered_simps k split: option.split)
    qed (simp add: that(2) restart_effect k)
    ultimately show ?thesis using tasksOkD by (metis not_None_eq option.inject)
  qed
  show ?thesis
  proof (intro conjI impI allI ok, goal_cases)
    case (1 kind i)
    from 1(1) show ?case by (cases rule: injector_cases) (use 1 gone in auto)
  next
    case (2 vs kind)
    from 2(1) show ?case by (cases rule: injector_cases) (use 2 running in auto)
  qed
qed

lemma readyServer_plain: "plainServer readyServer"
  by (simp add: plainServer_def readyServer_def setTLS_def demoServer_def VaultServerSpec0_def)

lemma demo_run:
  "\<exists>c' t'. runVaultServerInjector c ''demo/vault'' tokenEnv t = (Ok c', t')"
proof -
  have cache: "GetByKey ''VaultServer'' ''demo/vault'' tokenEnv t = (Ok (Some (VaultServerObj readyServer)), t)"
    by (simp add: GetByKey_def tokenEnv_def echoEnv_def)
  have "\<exists>t'. NewVault readyServer tokenEnv t = (Ok demoSrv, t')"
    by (simp add: NewVault_def NewStorage_def NewUnsealerService_def newUnsealer_def readyServer_def setTLS_def demoServer_def
        demoSrv_def demoVersion_def VaultServerSpec0_def apiGet_def kubeCall_def tokenEnv_answers VaultServerVersions_def go_defs
        tokenEnv_run)
  then obtain t1 where v: "NewVault readyServer tokenEnv t = (Ok demoSrv, t1)" by blast
  from demo_provision[OF readyServer_plain] obtain vs' t2 where "provision demoSrv readyServer tokenEnv t1 = (Ok vs', t2)" by blast
  then have "syncVaultServer c readyServer tokenEnv t = (Ok (runAuthMethodsReconcile vs' (startMonitor vs' c)), t2)"
    using v by (simp add: syncVaultServer_def reconcileVault_def wrapErr_def andThen_def attempt_def run_simps readyServer_def
        setTLS_def demoServer_def ObjectMeta0_def)
  then show ?thesis using cache by (simp add: runVaultServerInjector_def andThen_def attempt_def VaultServers_def)
qed

theorem tasks_follow_servers_witness:
  "\<exists>c' t'. controllerRuns c' \<and> tasksOk c'
     \<and> runVaultServerInjector \<lparr>ctxCancels = Map.empty, authMethodCtx = Map.empty, tasks = []\<rparr> ''demo/vault'' tokenEnv [] = (Ok c', t')
     \<and> (\<forall>kind. \<exists>!i. live c' kind ''demo/vault'' i)"
proof -
  let ?c = "\<lparr>ctxCancels = Map.empty, authMethodCtx = Map.empty, tasks = []\<rparr>"
  obtain c' t' where run: "runVaultServerInjector ?c ''demo/vault'' tokenEnv [] = (Ok c', t')" using demo_run by blast
  have cache: "cache_answer tokenEnv [] ''VaultServer'' ''demo/vault'' = Inr (Some (VaultServerObj readyServer))"
    by (simp add: tokenEnv_def echoEnv_def)
  have vs: "DeletionTimestamp (Meta readyServer) = None" "key readyServer = ''demo/vault''"
    by (simp_all add: readyServer_def setTLS_def demoServer_def ObjectMeta0_def key_def slash_def)
  have runs: "controllerRuns c'" by (rule controllerRuns.handled[OF controllerRuns.start run])
  moreover have "tasksOk c'" using tasks_follow_servers[OF runs] by blast
  moreover have "\<forall>kind. \<exists>!i. live c' kind ''demo/vault'' i"
    using tasks_follow_servers[OF controllerRuns.start] run cache vs by metis
  ultimately show ?thesis using run by blast
qed


section \<open>A status write that fails\<close>

text \<open>The two results are those of the status update of the other kinds.\<close>

lemma UpdateVaultServerStatus_results_agree:
  "UpdateStatus VaultServers meta f = andThen (UpdateVaultServerStatus_results meta f) (\<lambda>(result, err).
     case err of Some e \<Rightarrow> fail e | None \<Rightarrow> ret (the result))"
proof (intro ext)
  fix env t
  show "UpdateStatus VaultServers meta f env t = andThen (UpdateVaultServerStatus_results meta f) (\<lambda>(result, err).
     case err of Some e \<Rightarrow> fail e | None \<Rightarrow> ret (the result)) env t"
    unfolding UpdateStatus_def UpdateVaultServerStatus_results_def Let_def andThen_def attempt_def
    by (auto simp: ret_def fail_def VaultServers_def split: prod.split res.split option.split)
qed

text \<open>Nothing but reads of the empty name.\<close>

definition emptyRead :: "event \<Rightarrow> bool" where
  "emptyRead e \<longleftrightarrow> (\<exists>k a. e = Kube (KGet k '''' '''') a)"

lemma emptyName_get:
  assumes "\<forall>t k. \<exists>e. kube_answer env t (KGet k '''' '''') = Inl e \<and> \<not> IsNotFound e"
  shows "\<exists>e a. apiGet c '''' '''' env t = (Err e, t @ [Kube (KGet (cl_Kind c) '''' '''') a]) \<and> \<not> IsNotFound e"
proof -
  from assms obtain e where "kube_answer env t (KGet (cl_Kind c) '''' '''') = Inl e" "\<not> IsNotFound e" by blast
  then show ?thesis by (simp add: apiGet_def kubeCall_def)
qed

lemma blind_monitor:
  assumes empty: "\<forall>t k. \<exists>e. kube_answer env t (KGet k '''' '''') = Inl e \<and> \<not> IsNotFound e"
    and vs: "Name (Meta vs) = ''''" "Namespace (Meta vs) = ''''" "vs_Version (Spec vs) = ''''"
  shows "\<exists>es. monitorLoop n vs s env t = (Ok (), t @ es) \<and> (\<forall>e \<in> set es. emptyRead e)"
proof (induction n arbitrary: t)
  case (Suc n)
  note get = emptyName_get[OF empty]
  obtain e1 a1 where 1: "apiGet VaultServers '''' '''' env t = (Err e1, t @ [Kube (KGet (cl_Kind VaultServers) '''' '''') a1])"
    "\<not> IsNotFound e1" using get by blast
  obtain e2 a2 where 2: "apiGet VaultServerVersions '''' '''' env (t @ [Kube (KGet (cl_Kind VaultServers) '''' '''') a1])
     = (Err e2, (t @ [Kube (KGet (cl_Kind VaultServers) '''' '''') a1]) @ [Kube (KGet (cl_Kind VaultServerVersions) '''' '''') a2])"
    using get by blast
  from Suc[of "(t @ [Kube (KGet (cl_Kind VaultServers) '''' '''') a1]) @ [Kube (KGet (cl_Kind VaultServerVersions) '''' '''') a2]"]
  obtain es where es: "monitorLoop n vs s env ((t @ [Kube (KGet (cl_Kind VaultServers) '''' '''') a1]) @ [Kube (KGet (cl_Kind VaultServerVersions) '''' '''') a2])
      = (Ok (), ((t @ [Kube (KGet (cl_Kind VaultServers) '''' '''') a1]) @ [Kube (KGet (cl_Kind VaultServerVersions) '''' '''') a2]) @ es)"
    "\<forall>e \<in> set es. emptyRead e" by blast
  have "monitorLoop (Suc n) vs s env t = (Ok (), ((t @ [Kube (KGet (cl_Kind VaultServers) '''' '''') a1]) @ [Kube (KGet (cl_Kind VaultServerVersions) '''' '''') a2]) @ es)"
    using 1 2 es(1) vs by (simp add: updateVaultCRStatus_def updateLocalVaultCRStatus_def andThen_def attempt_def ret_def)
  then show ?case using es(2) by (intro exI[of _ "Kube (KGet (cl_Kind VaultServers) '''' '''') a1 # Kube (KGet (cl_Kind VaultServerVersions) '''' '''') a2 # es"])
      (auto simp: emptyRead_def)
next
  case 0
  from empty obtain e where "kube_answer env t (KGet (cl_Kind VaultServers) '''' '''') = Inl e" "\<not> IsNotFound e" by blast
  then show ?case using vs by (simp add: updateVaultCRStatus_def andThen_def attempt_def ret_def apiGet_def kubeCall_def emptyRead_def)
qed

text \<open>C39: One status write that fails for good blinds the status monitor of a server.  The update then returns the
  zero object beside its error, and the monitor takes it for the latest state of the server.  If the client refuses
  reads of the empty name, as it does, then whatever happens later, and however many rounds follow, the monitor only
  asks for objects with the empty name: it never looks at a pod and never writes a status again.\<close>

theorem failed_status_write_blinds_monitor:
  assumes get: "apiGet VaultServers (Namespace (Meta vs)) (Name (Meta vs)) env t = (Ok vault, t0)"
    and refused: "UpdateVaultServerStatus_results (Meta vault) (copyStatus s) env t0 = (Ok (Some x, Some err), t1)"
    and empty: "\<forall>t k. \<exists>e. kube_answer env t (KGet k '''' '''') = Inl e \<and> \<not> IsNotFound e"
  shows "\<exists>es. monitorLoop (Suc n) vs s env t = (Ok (), t1 @ es) \<and> (\<forall>e \<in> set es. emptyRead e)"
proof -
  let ?z = "newVaultServer (ObjectMeta0 '''' '''')"
  have x: "x = ?z" using refused
    by (auto simp: UpdateVaultServerStatus_results_def run_simps split: option.splits elim!: andThen_Ok attempt_Ok)
  have z: "Name (Meta ?z) = ''''" "Namespace (Meta ?z) = ''''" "vs_Version (Spec ?z) = ''''"
    by (simp_all add: newVaultServer_def ObjectMeta0_def VaultServerSpec0_def)
  obtain e a where v: "apiGet VaultServerVersions '''' '''' env t1 = (Err e, t1 @ [Kube (KGet (cl_Kind VaultServerVersions) '''' '''') a])"
    using emptyName_get[OF empty] by blast
  from blind_monitor[OF empty z, of n "Status ?z" "t1 @ [Kube (KGet (cl_Kind VaultServerVersions) '''' '''') a]"]
  obtain es where es: "monitorLoop n ?z (Status ?z) env (t1 @ [Kube (KGet (cl_Kind VaultServerVersions) '''' '''') a])
      = (Ok (), (t1 @ [Kube (KGet (cl_Kind VaultServerVersions) '''' '''') a]) @ es)" "\<forall>e \<in> set es. emptyRead e" by blast
  have "monitorLoop (Suc n) vs s env t = (Ok (), t1 @ Kube (KGet (cl_Kind VaultServerVersions) '''' '''') a # es)"
    using get refused[unfolded x] v es(1) z
    by (simp add: updateVaultCRStatus_def updateLocalVaultCRStatus_def andThen_def attempt_def ret_def)
  then show ?thesis using es(2) by (auto simp: emptyRead_def)
qed


definition refusingEnv :: env where
  "refusingEnv = (echoEnv (\<lambda>k ns n. Inl (Plain '''')) (\<lambda>r. NoResponse (Plain '''')) (\<lambda>k n. Inr None))
     \<lparr>kube_answer := (\<lambda>t req. case req of
        KGet k ns n \<Rightarrow> if n = '''' then Inl (Plain ''resource name may not be empty'') else Inr (VaultServerObj (demoServer ''1.2.3''))
      | _ \<Rightarrow> Inl (Plain ''forbidden'')),
      poll_ticks := (\<lambda>t. 0)\<rparr>"

lemma refusingEnv_run:
  "kube_answer refusingEnv t (KGet k ns n) = (if n = '''' then Inl (Plain ''resource name may not be empty'')
     else Inr (VaultServerObj (demoServer ''1.2.3'')))"
  "kube_answer refusingEnv t (KUpdateStatus ob) = Inl (Plain ''forbidden'')" "poll_ticks refusingEnv t = 0"
  "clock refusingEnv t = 1000"
  by (simp_all add: refusingEnv_def echoEnv_def)

theorem failed_status_write_blinds_monitor_witness:
  "\<exists>x err t1 es. UpdateVaultServerStatus_results (Meta (demoServer ''1.2.3'')) (copyStatus VaultServerStatus0) refusingEnv
       [Kube (KGet ''VaultServer'' ''demo'' ''vault'') (Inr (VaultServerObj (demoServer ''1.2.3'')))] = (Ok (Some x, Some err), t1)
     \<and> monitorLoop 3 (demoServer ''1.2.3'') VaultServerStatus0 refusingEnv [] = (Ok (), t1 @ es)
     \<and> (\<forall>e \<in> set es. emptyRead e)"
proof -
  let ?vs = "demoServer ''1.2.3''"
  have names: "Name (Meta ?vs) = ''vault''" "Namespace (Meta ?vs) = ''demo''" by (simp_all add: demoServer_def ObjectMeta0_def)
  have get: "apiGet VaultServers (Namespace (Meta ?vs)) (Name (Meta ?vs)) refusingEnv t
    = (Ok ?vs, t @ [Kube (KGet ''VaultServer'' ''demo'' ''vault'') (Inr (VaultServerObj ?vs))])" for t
    by (simp add: names apiGet_def kubeCall_def refusingEnv_run VaultServers_def)
  have "\<exists>x err t1. UpdateVaultServerStatus_results (Meta ?vs) (copyStatus VaultServerStatus0) refusingEnv t
     = (Ok (Some x, Some err), t1)" for t
    by (simp add: UpdateVaultServerStatus_results_def get attempt_def andThen_def pollTicks_def refusingEnv_run PollImmediate_def
        updateStatusOnce_def metav1_Now_def apiUpdateStatus_def kubeCall_def ret_def fail_def IsConflict_def)
  then obtain x err t1 where w: "UpdateVaultServerStatus_results (Meta ?vs) (copyStatus VaultServerStatus0) refusingEnv
      ([] @ [Kube (KGet ''VaultServer'' ''demo'' ''vault'') (Inr (VaultServerObj ?vs))]) = (Ok (Some x, Some err), t1)"
    by fastforce
  have "\<forall>t k. \<exists>e. kube_answer refusingEnv t (KGet k '''' '''') = Inl e \<and> \<not> IsNotFound e"
    by (simp add: refusingEnv_run IsNotFound_def)
  from failed_status_write_blinds_monitor[OF get w(1) this, of 2] w show ?thesis by (auto simp: numeral_3_eq_3)
qed

section \<open>Disabling authentication methods\<close>

lemma disableAuthMethods_failed:
  "disableAuthMethods vc expected has env t = (Ok failed, t') \<Longrightarrow> \<forall>au \<in> set failed. ams_Status au = AuthMethodDisableFailed"
proof (induction has arbitrary: t t' failed)
  case (Cons au has)
  show ?case
  proof (cases "toDisable expected au")
    case True
    from Cons.prems True have "\<exists>rest t1. disableAuthMethods vc expected has env t1 = (Ok rest, t')
      \<and> (failed = rest \<or> (\<exists>e. failed = authStatus (ams_Type au) (ams_Path au) AuthMethodDisableFailed (Error e) # rest))"
      by (simp add: errOf_def) (erule attempt_Ok; erule andThen_Ok; auto simp: run_simps)+
    with Cons.IH show ?thesis by (fastforce simp: authStatus_def)
  qed (use Cons in simp)
qed (simp add: run_simps)

text \<open>
  A method that could not be disabled is recorded with a status for which the
  next run does nothing: no request is made, and its entry goes.
\<close>

lemma failed_disable_never_retried:
  assumes "disableAuthMethods vc expected has env t = (Ok failed, t')"
  shows "disableAuthMethods vc' expected' failed env' t2 = (Ok [], t2)"
proof -
  have "disableAuthMethods vc' expected' xs env' t2 = (Ok [], t2)" if "\<forall>au \<in> set xs. ams_Status au = AuthMethodDisableFailed" for xs
    using that by (induction xs) (simp_all add: run_simps toDisable_def AuthMethodDisableFailed_def AuthMethodEnableSucceeded_def)
  with disableAuthMethods_failed[OF assms] show ?thesis by blast
qed

end
