(* ===== verification/Work_Queue.thy ===== *)
theory Work_Queue
  imports World
begin

text \<open>
  The work queue between the informers and the controllers: the deduplicating
  queue, its delayed additions and the retry counts
  (\<open>vendor/k8s.io/client-go/util/workqueue\<close>), the event handler that decides
  which changes of an object are queued and the worker that runs the
  reconcile function and requeues a failed key
  (\<open>vendor/kmodules.xyz/client-go/tools/queue\<close>).

  Time is abstract: an addition that was delayed may be made at any later
  moment.  The queue with its clock is in \<open>Delaying_Queue\<close>.
\<close>

section \<open>The queue\<close>

text \<open>\<open>workqueue.Type\<close>.  What holds a queue extends it, so its operations are those of the holder too.\<close>

record wqType =
  wq_queue :: "string list"
  wq_dirty :: "string set"
  wq_processing :: "string set"
  wq_shuttingDown :: bool

text \<open>The queue with the keys whose addition is delayed, those sent to the waiting
  loop and those it holds, and the failures the rate limiter counts; the times
  are left open.\<close>

record workqueue = wqType +
  wq_waitingForAddCh :: "string list"
  wq_waitingEntryByData :: "string set"
  wq_failures :: "string \<Rightarrow> nat"

definition newQueue :: workqueue where
  "newQueue = \<lparr>wq_queue = [], wq_dirty = {}, wq_processing = {}, wq_shuttingDown = False,
     wq_waitingForAddCh = [], wq_waitingEntryByData = {}, wq_failures = (\<lambda>_. 0)\<rparr>"

definition wq_Add :: "string \<Rightarrow> 'a wqType_scheme \<Rightarrow> 'a wqType_scheme" where
  "wq_Add item q =
     (if wq_shuttingDown q then q
      else if item \<in> wq_dirty q then q
      else let q1 = q\<lparr>wq_dirty := insert item (wq_dirty q)\<rparr> in
           if item \<in> wq_processing q then q1 else q1\<lparr>wq_queue := wq_queue q @ [item]\<rparr>)"

text \<open>\<open>Get\<close> waits for an item; it answers that the queue is shut down when there is none to wait for.\<close>

datatype getResult = Wait | Shutdown | Item string

definition wq_Get :: "'a wqType_scheme \<Rightarrow> getResult \<times> 'a wqType_scheme" where
  "wq_Get q = (case wq_queue q of
     [] \<Rightarrow> (if wq_shuttingDown q then Shutdown else Wait, q)
   | item # rest \<Rightarrow> (Item item, q\<lparr>wq_queue := rest, wq_processing := insert item (wq_processing q),
        wq_dirty := wq_dirty q - {item}\<rparr>))"

definition wq_Done :: "string \<Rightarrow> 'a wqType_scheme \<Rightarrow> 'a wqType_scheme" where
  "wq_Done item q =
     (let q1 = q\<lparr>wq_processing := wq_processing q - {item}\<rparr> in
      if item \<in> wq_dirty q then q1\<lparr>wq_queue := wq_queue q @ [item]\<rparr> else q1)"

definition wq_ShutDown :: "'a wqType_scheme \<Rightarrow> 'a wqType_scheme" where
  "wq_ShutDown q = q\<lparr>wq_shuttingDown := True\<rparr>"


section \<open>Delays and retries\<close>

text \<open>The delay of the rate limiter is never zero (\<open>Delay_Theorems\<close>), so the item goes to the waiting loop.\<close>

definition wq_AddRateLimited :: "string \<Rightarrow> workqueue \<Rightarrow> workqueue" where
  "wq_AddRateLimited item q =
     (let q1 = q\<lparr>wq_failures := (wq_failures q)(item := wq_failures q item + 1)\<rparr> in
      if wq_shuttingDown q then q1 else q1\<lparr>wq_waitingForAddCh := wq_waitingForAddCh q @ [item]\<rparr>)"

definition wq_NumRequeues :: "string \<Rightarrow> workqueue \<Rightarrow> nat" where
  "wq_NumRequeues item q = wq_failures q item"

definition wq_Forget :: "string \<Rightarrow> workqueue \<Rightarrow> workqueue" where
  "wq_Forget item q = q\<lparr>wq_failures := (wq_failures q)(item := 0)\<rparr>"

text \<open>
  The two things the waiting loop does: it receives the next entry, which is
  added when it is due and otherwise held, once per item; and it adds an
  entry it holds.
\<close>

definition waitingLoop_receive :: "bool \<Rightarrow> workqueue \<Rightarrow> workqueue" where
  "waitingLoop_receive ready q = (case wq_waitingForAddCh q of
     [] \<Rightarrow> q
   | item # rest \<Rightarrow>
       let q1 = q\<lparr>wq_waitingForAddCh := rest\<rparr> in
       if ready then wq_Add item q1
       else q1\<lparr>wq_waitingEntryByData := insert item (wq_waitingEntryByData q)\<rparr>)"

definition waitingLoop_fire :: "string \<Rightarrow> workqueue \<Rightarrow> workqueue" where
  "waitingLoop_fire item q =
     (let q1 = wq_Add item q in q1\<lparr>wq_waitingEntryByData := wq_waitingEntryByData q1 - {item}\<rparr>)"


section \<open>The worker\<close>

record 'a Worker =
  wk_name :: string
  wk_maxRetries :: int
  wk_threadiness :: int
  wk_reconcile :: "string \<Rightarrow> 'a go"

definition queue_New :: "string \<Rightarrow> int \<Rightarrow> int \<Rightarrow> (string \<Rightarrow> 'a go) \<Rightarrow> 'a Worker" where
  "queue_New name maxRetries threadiness fn =
     \<lparr>wk_name = name, wk_maxRetries = maxRetries, wk_threadiness = threadiness, wk_reconcile = fn\<rparr>"

text \<open>
  What follows the reconcile function in \<open>processNextEntry\<close>, given the error it
  returned, up to and including the deferred \<open>Done\<close>.
\<close>

definition finishEntry :: "int \<Rightarrow> string \<Rightarrow> error option \<Rightarrow> workqueue \<Rightarrow> workqueue" where
  "finishEntry maxRetries item err q = wq_Done item
     (case err of
        None \<Rightarrow> wq_Forget item q
      | Some e \<Rightarrow> if int (wq_NumRequeues item q) < maxRetries then wq_AddRateLimited item q
                 else wq_Forget item q)"

text \<open>
  One entry by a worker that has the queue to itself: the answer is nothing
  when \<open>Get\<close> waits, else whether to go on and the queue.  A panic of the
  reconcile function is not recovered and ends the operator.
\<close>

definition processNextEntry :: "'a Worker \<Rightarrow> workqueue \<Rightarrow> (bool \<times> workqueue) option go" where
  "processNextEntry w q =
    (let (r, q1) = wq_Get q in
     case r of
       Wait \<Rightarrow> ret None
     | Shutdown \<Rightarrow> ret (Some (False, q1))
     | Item item \<Rightarrow>
         attempt (wk_reconcile w item)
           (\<lambda>err. ret (Some (True, finishEntry (wk_maxRetries w) item (Some err) q1)))
           (\<lambda>_. ret (Some (True, finishEntry (wk_maxRetries w) item None q1))))"


section \<open>Event handlers\<close>

text \<open>The key of an object, \<open>namespace/name\<close>, or the name alone without a namespace.\<close>

definition MetaNamespaceKeyFunc :: "ObjectMeta \<Rightarrow> string" where
  "MetaNamespaceKeyFunc m = (if Namespace m \<noteq> '''' then slash (Namespace m) (Name m) else Name m)"

definition Enqueue :: "('s, 'st) resource \<Rightarrow> workqueue \<Rightarrow> workqueue" where
  "Enqueue r q = wq_Add (MetaNamespaceKeyFunc (Meta r)) q"

text \<open>The status says for which generation of the object it was written.\<close>

definition AlreadyReconciled :: "('st \<Rightarrow> int) \<Rightarrow> ('s, 'st) resource \<Rightarrow> bool" where
  "AlreadyReconciled observed r \<longleftrightarrow> observed (Status r) = Generation (Meta r)"

record ('s, 'st) QueueingEventHandler =
  enqueueAdd :: "('s, 'st) resource \<Rightarrow> bool"
  enqueueUpdate :: "('s, 'st) resource \<Rightarrow> ('s, 'st) resource \<Rightarrow> bool"
  enqueueDelete :: bool

definition NewReconcilableHandler :: "('st \<Rightarrow> int) \<Rightarrow> ('s, 'st) QueueingEventHandler" where
  "NewReconcilableHandler observed =
     \<lparr>enqueueAdd = (\<lambda>o'. \<not> AlreadyReconciled observed o'),
      enqueueUpdate = (\<lambda>old nu. DeletionTimestamp (Meta nu) \<noteq> None \<or> \<not> AlreadyReconciled observed nu),
      enqueueDelete = True\<rparr>"

definition OnAdd :: "('s, 'st) QueueingEventHandler \<Rightarrow> ('s, 'st) resource \<Rightarrow> workqueue \<Rightarrow> workqueue" where
  "OnAdd h obj q = (if enqueueAdd h obj then Enqueue obj q else q)"

definition OnUpdate :: "('s, 'st) QueueingEventHandler \<Rightarrow> ('s, 'st) resource \<Rightarrow> ('s, 'st) resource \<Rightarrow> workqueue \<Rightarrow> workqueue" where
  "OnUpdate h old nu q = (if enqueueUpdate h old nu then Enqueue nu q else q)"

definition OnDelete :: "('s, 'st) QueueingEventHandler \<Rightarrow> ('s, 'st) resource \<Rightarrow> workqueue \<Rightarrow> workqueue" where
  "OnDelete h obj q = (if enqueueDelete h then Enqueue obj q else q)"


section \<open>Interleavings\<close>

text \<open>
  A queue with the keys its worker goroutines are busy with, and the steps the
  goroutines around it take, labelled: an informer adds a key, a worker takes
  or finishes one, the waiting loop receives or adds an entry, the operator
  shuts down.
\<close>

record workers =
  ws_q :: workqueue
  ws_running :: "string list"

datatype step = Added string | Taken string | Finished string "error option" | Received bool | Fired string | ShutDown

inductive qstep :: "int \<Rightarrow> nat \<Rightarrow> workers \<Rightarrow> step \<Rightarrow> workers \<Rightarrow> bool" for maxRetries threads where
  added: "qstep maxRetries threads s (Added k) (s\<lparr>ws_q := wq_Add k (ws_q s)\<rparr>)"
| taken: "length (ws_running s) < threads \<Longrightarrow> wq_Get (ws_q s) = (Item k, q')
    \<Longrightarrow> qstep maxRetries threads s (Taken k) (s\<lparr>ws_q := q', ws_running := k # ws_running s\<rparr>)"
| finished: "k \<in> set (ws_running s)
    \<Longrightarrow> qstep maxRetries threads s (Finished k err)
         (s\<lparr>ws_q := finishEntry maxRetries k err (ws_q s), ws_running := remove1 k (ws_running s)\<rparr>)"
| received: "qstep maxRetries threads s (Received ready) (s\<lparr>ws_q := waitingLoop_receive ready (ws_q s)\<rparr>)"
| fired: "k \<in> wq_waitingEntryByData (ws_q s)
    \<Longrightarrow> qstep maxRetries threads s (Fired k) (s\<lparr>ws_q := waitingLoop_fire k (ws_q s)\<rparr>)"
| shutDown: "qstep maxRetries threads s ShutDown (s\<lparr>ws_q := wq_ShutDown (ws_q s)\<rparr>)"

inductive qsteps :: "int \<Rightarrow> nat \<Rightarrow> workers \<Rightarrow> step list \<Rightarrow> workers \<Rightarrow> bool" for maxRetries threads where
  none: "qsteps maxRetries threads s [] s"
| more: "qstep maxRetries threads s l s' \<Longrightarrow> qsteps maxRetries threads s' ls s''
    \<Longrightarrow> qsteps maxRetries threads s (l # ls) s''"

inductive_cases qstepE: "qstep maxRetries threads s l s'"
inductive_cases qsteps_NilE: "qsteps maxRetries threads s [] s'"

definition idle :: workers where
  "idle = \<lparr>ws_q = newQueue, ws_running = []\<rparr>"

text \<open>A step is determined by its label, so the steps can be run.\<close>

fun doStep :: "int \<Rightarrow> nat \<Rightarrow> step \<Rightarrow> workers \<Rightarrow> workers option" where
  "doStep m threads (Added k) s = Some (s\<lparr>ws_q := wq_Add k (ws_q s)\<rparr>)"
| "doStep m threads (Taken k) s =
     (if length (ws_running s) < threads \<and> fst (wq_Get (ws_q s)) = Item k
      then Some (s\<lparr>ws_q := snd (wq_Get (ws_q s)), ws_running := k # ws_running s\<rparr>) else None)"
| "doStep m threads (Finished k err) s =
     (if k \<in> set (ws_running s)
      then Some (s\<lparr>ws_q := finishEntry m k err (ws_q s), ws_running := remove1 k (ws_running s)\<rparr>) else None)"
| "doStep m threads (Received ready) s = Some (s\<lparr>ws_q := waitingLoop_receive ready (ws_q s)\<rparr>)"
| "doStep m threads (Fired k) s =
     (if k \<in> wq_waitingEntryByData (ws_q s) then Some (s\<lparr>ws_q := waitingLoop_fire k (ws_q s)\<rparr>) else None)"
| "doStep m threads ShutDown s = Some (s\<lparr>ws_q := wq_ShutDown (ws_q s)\<rparr>)"

primrec doSteps :: "int \<Rightarrow> nat \<Rightarrow> step list \<Rightarrow> workers \<Rightarrow> workers option" where
  "doSteps m threads [] s = Some s"
| "doSteps m threads (l # ls) s = Option.bind (doStep m threads l s) (doSteps m threads ls)"

lemma doStep_iff: "qstep m threads s l s' \<longleftrightarrow> doStep m threads l s = Some s'"
proof
  show "qstep m threads s l s' \<Longrightarrow> doStep m threads l s = Some s'" by (cases rule: qstep.cases) auto
  show "doStep m threads l s = Some s' \<Longrightarrow> qstep m threads s l s'"
    by (cases l) (auto intro: qstep.intros simp: prod_eq_iff split: if_splits)
qed

lemma doSteps_iff: "qsteps m threads s ls s' \<longleftrightarrow> doSteps m threads ls s = Some s'"
proof (induction ls arbitrary: s)
  case Nil
  then show ?case by (auto intro: qsteps.none elim: qsteps_NilE)
next
  case (Cons l ls)
  have "qsteps m threads s (l # ls) s' \<longleftrightarrow> (\<exists>s1. qstep m threads s l s1 \<and> qsteps m threads s1 ls s')"
    by (auto intro: qsteps.more elim: qsteps.cases)
  then show ?case by (simp add: Cons doStep_iff bind_eq_Some_conv)
qed

lemma doSteps_append: "doSteps m threads (ls @ ls') s = Option.bind (doSteps m threads ls s) (doSteps m threads ls')"
  by (induction ls arbitrary: s) (simp_all split: bind_split)

text \<open>An entry processed without interference is a take and a finish.\<close>

lemma processNextEntry_steps:
  assumes "processNextEntry w q env t = (Ok (Some (True, q')), t')" and "0 < threads"
  shows "\<exists>k err. qsteps (wk_maxRetries w) threads \<lparr>ws_q = q, ws_running = []\<rparr> [Taken k, Finished k err]
           \<lparr>ws_q = q', ws_running = []\<rparr>"
proof -
  obtain r q1 where g: "wq_Get q = (r, q1)" by (cases "wq_Get q")
  from assms(1) g obtain k err where "r = Item k" "q' = finishEntry (wk_maxRetries w) k err q1"
    by (auto simp: processNextEntry_def ret_def attempt_def split: getResult.splits res.splits prod.splits)
  with g assms(2) show ?thesis by (auto simp: doSteps_iff)
qed

end
