(* ===== verification/Queue_Theorems.thy ===== *)
theory Queue_Theorems
  imports Work_Queue
begin

text \<open>
  The work queue under every interleaving of its informers, workers and timers:
  a key is never worked on twice at a time and never lost, and a key that keeps
  failing is retried a bounded number of times.
\<close>

section \<open>The invariant of the queue\<close>

text \<open>
  What the comment on \<open>workqueue.Type\<close> says of its fields, with the workers: the
  queue holds, once each, the items that need processing and are not being
  processed, and the items being processed are those of the workers, once each.
\<close>

definition wfWorkers :: "nat \<Rightarrow> workers \<Rightarrow> bool" where
  "wfWorkers threads s \<longleftrightarrow>
     distinct (wq_queue (ws_q s)) \<and> set (wq_queue (ws_q s)) = wq_dirty (ws_q s) - wq_processing (ws_q s)
     \<and> distinct (ws_running s) \<and> set (ws_running s) = wq_processing (ws_q s) \<and> length (ws_running s) \<le> threads"

lemmas wq_defs = wq_Add_def wq_Get_def wq_Done_def wq_Forget_def wq_AddRateLimited_def wq_NumRequeues_def
  finishEntry_def waitingLoop_receive_def waitingLoop_fire_def wq_ShutDown_def Let_def

lemma wf_idle: "wfWorkers threads idle"
  by (simp add: wfWorkers_def idle_def newQueue_def)

lemma wf_Add: "wfWorkers threads s \<Longrightarrow> wfWorkers threads (s\<lparr>ws_q := wq_Add k (ws_q s)\<rparr>)"
  by (auto simp: wfWorkers_def wq_Add_def Let_def)

text \<open>Nothing of the invariant depends on delays, retries or the shutdown flag.\<close>

lemma wf_same:
  assumes "wfWorkers threads s" "wq_queue q = wq_queue (ws_q s)" "wq_dirty q = wq_dirty (ws_q s)"
    "wq_processing q = wq_processing (ws_q s)"
  shows "wfWorkers threads (s\<lparr>ws_q := q\<rparr>)"
  using assms by (simp add: wfWorkers_def)

lemma wf_Done:
  assumes "wfWorkers threads s" "k \<in> set (ws_running s)"
  shows "wfWorkers threads (s\<lparr>ws_q := wq_Done k (ws_q s), ws_running := remove1 k (ws_running s)\<rparr>)"
  using assms by (auto simp: wfWorkers_def wq_Done_def Let_def length_remove1)

lemma wf_finish:
  assumes "wfWorkers threads s" "k \<in> set (ws_running s)"
  shows "wfWorkers threads (s\<lparr>ws_q := finishEntry m k err (ws_q s), ws_running := remove1 k (ws_running s)\<rparr>)"
proof -
  obtain q where q: "finishEntry m k err (ws_q s) = wq_Done k q" "wq_queue q = wq_queue (ws_q s)"
    "wq_dirty q = wq_dirty (ws_q s)" "wq_processing q = wq_processing (ws_q s)"
    by (rule that[of "case err of None \<Rightarrow> wq_Forget k (ws_q s)
        | Some e \<Rightarrow> if int (wq_NumRequeues k (ws_q s)) < m then wq_AddRateLimited k (ws_q s) else wq_Forget k (ws_q s)"])
      (auto simp: finishEntry_def wq_Forget_def wq_AddRateLimited_def Let_def split: option.splits)
  show ?thesis
    using wf_Done[OF wf_same[OF assms(1) q(2-4)], of k] assms(2) by (simp add: q(1))
qed

lemma Get_Item:
  assumes "wq_Get (ws_q s) = (Item j, q')" "wfWorkers threads s"
  shows "q' = (ws_q s)\<lparr>wq_queue := tl (wq_queue (ws_q s)), wq_processing := insert j (wq_processing (ws_q s)),
          wq_dirty := wq_dirty (ws_q s) - {j}\<rparr>"
    and "j \<in> wq_dirty (ws_q s)" and "j \<notin> set (ws_running s)"
    and "distinct (tl (wq_queue (ws_q s)))" and "set (tl (wq_queue (ws_q s))) = set (wq_queue (ws_q s)) - {j}"
  using assms by (auto simp: wq_Get_def wfWorkers_def split: list.splits if_splits)

lemma wf_step: "qstep m threads s l s' \<Longrightarrow> wfWorkers threads s \<Longrightarrow> wfWorkers threads s'"
proof (induction rule: qstep.induct)
  case (taken s k q')
  note item = Get_Item[OF taken(2,3)]
  show ?case unfolding item(1) using taken(1,3) item(3-) by (auto simp: wfWorkers_def)
next
  case (received s ready)
  let ?q = "(ws_q s)\<lparr>wq_waitingForAddCh := tl (wq_waitingForAddCh (ws_q s))\<rparr>"
  have "wfWorkers threads (s\<lparr>ws_q := ?q\<rparr>)" by (rule wf_same[OF received]) simp_all
  from wf_Add[OF this] this received show ?case
    by (auto simp: waitingLoop_receive_def wfWorkers_def Let_def split: list.splits)
next
  case (fired k s)
  from wf_Add[OF fired(2), of k] show ?case by (simp add: waitingLoop_fire_def wfWorkers_def Let_def)
qed (simp_all add: wf_Add wf_finish wf_same wq_ShutDown_def)

lemma wf_steps: "qsteps m threads s ls s' \<Longrightarrow> wfWorkers threads s \<Longrightarrow> wfWorkers threads s'"
  by (induction rule: qsteps.induct) (auto dest: wf_step)

text \<open>An item that needs processing goes on doing so until a worker takes it.\<close>

lemma finishEntry_simps [simp]:
  "wq_dirty (finishEntry m k err q) = wq_dirty q"
  "wq_waitingEntryByData (finishEntry m k err q) = wq_waitingEntryByData q"
  by (simp_all add: wq_defs split: option.splits)

lemma wq_Add_simps [simp]:
  "wq_dirty (wq_Add k q) = (if wq_shuttingDown q then wq_dirty q else insert k (wq_dirty q))"
  "wq_waitingForAddCh (wq_Add k q) = wq_waitingForAddCh q"
  "wq_waitingEntryByData (wq_Add k q) = wq_waitingEntryByData q"
  "wq_failures (wq_Add k q) = wq_failures q"
  by (auto simp: wq_Add_def Let_def)

lemma dirty_waiting:
  "wq_dirty q \<subseteq> wq_dirty (waitingLoop_receive ready q)" "wq_dirty q \<subseteq> wq_dirty (waitingLoop_fire k q)"
  by (auto simp: waitingLoop_receive_def waitingLoop_fire_def Let_def split: list.splits)

lemma dirty_step: "qstep m threads s l s' \<Longrightarrow> k \<in> wq_dirty (ws_q s) \<Longrightarrow> k \<in> wq_dirty (ws_q s') \<or> l = Taken k"
proof (induction rule: qstep.induct)
  case (taken s k' q')
  then show ?case by (auto simp: wq_Get_def split: list.splits if_splits)
qed (auto simp: wq_ShutDown_def intro: dirty_waiting[THEN subsetD])

lemma dirty_steps:
  "qsteps m threads s ls s' \<Longrightarrow> k \<in> wq_dirty (ws_q s) \<Longrightarrow> Taken k \<notin> set ls \<Longrightarrow> k \<in> wq_dirty (ws_q s')"
  by (induction rule: qsteps.induct) (auto dest: dirty_step)

text \<open>Workers that go on taking and finishing keys come to every key that is queued.\<close>

fun workerStep :: "step \<Rightarrow> bool" where
  "workerStep (Taken k) = True"
| "workerStep (Finished k err) = (err = None)"
| "workerStep l = False"

lemma Done_None: "finishEntry m j None q = wq_Done j (wq_Forget j q)"
  by (simp add: finishEntry_def)

lemma finish_all:
  assumes "wfWorkers threads s"
  shows "\<exists>ls s'. doSteps m threads ls s = Some s' \<and> list_all workerStep ls \<and> ws_running s' = []
    \<and> wq_dirty (ws_q s') = wq_dirty (ws_q s)"
  using assms
proof (induction "ws_running s" arbitrary: s)
  case Nil
  then show ?case by (intro exI[of _ "[]"]) simp
next
  case (Cons j js)
  let ?s = "s\<lparr>ws_q := finishEntry m j None (ws_q s), ws_running := remove1 j (ws_running s)\<rparr>"
  have step: "doStep m threads (Finished j None) s = Some ?s" using Cons(2)[symmetric] by simp
  then have wf: "wfWorkers threads ?s" using wf_step Cons(3) doStep_iff by blast
  have "js = ws_running ?s" "wq_dirty (ws_q ?s) = wq_dirty (ws_q s)"
    using Cons(2)[symmetric] by (simp_all add: Done_None wq_Done_def wq_Forget_def Let_def)
  with Cons(1)[OF _ wf] obtain ls s' where "doSteps m threads ls ?s = Some s'" "list_all workerStep ls"
    "ws_running s' = []" "wq_dirty (ws_q s') = wq_dirty (ws_q s)" by auto
  with step show ?case by (intro exI[of _ "Finished j None # ls"]) simp
qed

lemma take_up_to:
  assumes "ws_running s = []" "wq_queue (ws_q s) = xs @ k # ys" "0 < threads"
  shows "\<exists>ls s'. doSteps m threads ls s = Some s' \<and> list_all workerStep ls \<and> Taken k \<in> set ls"
  using assms
proof (induction xs arbitrary: s)
  case Nil
  then show ?case by (intro exI[of _ "[Taken k]"]) (simp add: wq_Get_def)
next
  case (Cons x xs)
  let ?s1 = "s\<lparr>ws_q := snd (wq_Get (ws_q s)), ws_running := [x]\<rparr>"
  let ?s2 = "?s1\<lparr>ws_q := finishEntry m x None (ws_q ?s1), ws_running := []\<rparr>"
  have steps: "doStep m threads (Taken x) s = Some ?s1" "doStep m threads (Finished x None) ?s1 = Some ?s2"
    using Cons(2-4) by (simp_all add: wq_Get_def)
  have "wq_queue (ws_q ?s2) = xs @ k # ys"
    using Cons(3) by (simp add: wq_Get_def Done_None wq_Done_def wq_Forget_def Let_def)
  with Cons(1)[of ?s2] Cons(4) obtain ls s' where "doSteps m threads ls ?s2 = Some s'" "list_all workerStep ls" "Taken k \<in> set ls"
    by auto
  with steps show ?case by (intro exI[of _ "Taken x # Finished x None # ls"]) simp
qed

lemma queued_key_reached:
  assumes "wfWorkers threads s" "k \<in> wq_dirty (ws_q s)" "0 < threads"
  shows "\<exists>ls s'. qsteps m threads s ls s' \<and> list_all workerStep ls \<and> Taken k \<in> set ls"
proof -
  from finish_all[OF assms(1)] obtain ls1 s1 where ls1: "doSteps m threads ls1 s = Some s1" "list_all workerStep ls1"
    "ws_running s1 = []" "wq_dirty (ws_q s1) = wq_dirty (ws_q s)" by blast
  from ls1(1) have "wfWorkers threads s1" using wf_steps assms(1) doSteps_iff by blast
  with ls1(3,4) assms(2) have "k \<in> set (wq_queue (ws_q s1))" by (simp add: wfWorkers_def)
  then obtain xs ys where "wq_queue (ws_q s1) = xs @ k # ys" by (meson split_list)
  from take_up_to[OF ls1(3) this assms(3)] obtain ls2 s2 where
    "doSteps m threads ls2 s1 = Some s2" "list_all workerStep ls2" "Taken k \<in> set ls2" by blast
  with ls1(1,2) show ?thesis by (intro exI[of _ "ls1 @ ls2"] exI[of _ s2]) (simp add: doSteps_iff doSteps_append)
qed

text \<open>C8: from the idle queue, under every interleaving of informers, workers, timers and the
  shutdown, at most as many keys are worked on as there are workers and no key by two of them; and
  a key that an informer adds before the shutdown stays queued, or is queued again when the worker
  busy with it is done, until a worker takes it, which the workers can always come to by finishing
  and taking keys.\<close>

theorem keys_worked_on_once_and_never_lost:
  assumes "qsteps m threads idle ls s"
  shows "distinct (ws_running s) \<and> length (ws_running s) \<le> threads
    \<and> distinct (wq_queue (ws_q s)) \<and> set (wq_queue (ws_q s)) \<inter> set (ws_running s) = {}
    \<and> (\<forall>k ls' s'. qsteps m threads s (Added k # ls') s' \<and> \<not> wq_shuttingDown (ws_q s) \<and> Taken k \<notin> set ls'
         \<longrightarrow> k \<in> wq_dirty (ws_q s') \<and> (k \<in> set (wq_queue (ws_q s')) \<or> k \<in> set (ws_running s'))
           \<and> (0 < threads \<longrightarrow> (\<exists>ls'' s''. qsteps m threads s' ls'' s'' \<and> list_all workerStep ls'' \<and> Taken k \<in> set ls'')))"
proof (intro conjI allI impI; (elim conjE)?)
  note wf = wf_steps[OF assms wf_idle]
  show "distinct (ws_running s)" "length (ws_running s) \<le> threads" "distinct (wq_queue (ws_q s))"
    "set (wq_queue (ws_q s)) \<inter> set (ws_running s) = {}"
    using wf by (auto simp: wfWorkers_def)
  fix k ls' s'
  assume run: "qsteps m threads s (Added k # ls') s'" and live: "\<not> wq_shuttingDown (ws_q s)" and nt: "Taken k \<notin> set ls'"
  from run obtain s1 where s1: "qstep m threads s (Added k) s1" "qsteps m threads s1 ls' s'"
    by (cases rule: qsteps.cases) auto
  from s1(1) live have "k \<in> wq_dirty (ws_q s1)" by (cases rule: qstep.cases) (auto simp: wq_Add_def Let_def)
  from dirty_steps[OF s1(2) this nt] show d: "k \<in> wq_dirty (ws_q s')" .
  from wf_steps[OF run wf] d show "k \<in> set (wq_queue (ws_q s')) \<or> k \<in> set (ws_running s')"
    by (auto simp: wfWorkers_def)
  show "\<exists>ls'' s''. qsteps m threads s' ls'' s'' \<and> list_all workerStep ls'' \<and> Taken k \<in> set ls''" if "0 < threads"
    using queued_key_reached[OF wf_steps[OF run wf] d that] .
qed

lemma case_Some: "(case x of None \<Rightarrow> False | Some v \<Rightarrow> P v) \<Longrightarrow> \<exists>v. x = Some v \<and> P v"
  by (cases x) auto

theorem keys_worked_on_once_and_never_lost_witness:
  "\<exists>s s'. qsteps 5 2 idle [Added ''demo/req'', Taken ''demo/req''] s \<and> qsteps 5 2 s [Added ''demo/req''] s'
     \<and> ws_running s' = [''demo/req''] \<and> ''demo/req'' \<in> wq_dirty (ws_q s')"
proof -
  have "case doSteps 5 2 [Added ''demo/req'', Taken ''demo/req''] idle of None \<Rightarrow> False | Some s \<Rightarrow>
    \<not> wq_shuttingDown (ws_q s) \<and> (case doSteps 5 2 [Added ''demo/req''] s of None \<Rightarrow> False | Some s' \<Rightarrow> ws_running s' = [''demo/req''])"
    by code_simp
  from case_Some[OF this] obtain s where s: "qsteps 5 2 idle [Added ''demo/req'', Taken ''demo/req''] s"
      "\<not> wq_shuttingDown (ws_q s)"
      "case doSteps 5 2 [Added ''demo/req''] s of None \<Rightarrow> False | Some s' \<Rightarrow> ws_running s' = [''demo/req'']"
    unfolding doSteps_iff by blast
  from case_Some[OF s(3)] obtain s' where "qsteps 5 2 s [Added ''demo/req''] s'" "ws_running s' = [''demo/req'']"
    unfolding doSteps_iff by blast
  with keys_worked_on_once_and_never_lost[OF s(1)] s(1,2) show ?thesis by (metis empty_iff empty_set)
qed


section \<open>Retries\<close>

text \<open>
  The additions of a key that are still to come, the worker busy with it, and
  the failures counted for it, bound the number of times it will still be
  taken unless an informer adds it again.
\<close>

definition toCome :: "string \<Rightarrow> workers \<Rightarrow> nat" where
  "toCome k s = of_bool (k \<in> wq_dirty (ws_q s)) + count_list (wq_waitingForAddCh (ws_q s)) k
     + of_bool (k \<in> wq_waitingEntryByData (ws_q s))"

definition busy :: "string \<Rightarrow> workers \<Rightarrow> nat" where
  "busy k s = of_bool (k \<in> set (ws_running s))"

definition runsLeft :: "nat \<Rightarrow> nat \<Rightarrow> nat \<Rightarrow> nat \<Rightarrow> nat" where
  "runsLeft M n r f = (if n = 0 then 0 else n * Suc M - f - r)"

lemma runsLeft_laws:
  assumes "f \<le> M"
  shows "n' \<le> n \<Longrightarrow> runsLeft M n' r f \<le> runsLeft M n r f"
    and "0 < n \<Longrightarrow> Suc (runsLeft M n 1 f) \<le> runsLeft M n 0 f"
    and "n' \<le> n \<Longrightarrow> runsLeft M n' 0 (Suc f) \<le> runsLeft M n 1 f"
    and "n' < n \<Longrightarrow> runsLeft M n' 0 0 \<le> runsLeft M n 1 f"
proof -
  have mono: "a * Suc M \<le> b * Suc M" if "a \<le> b" for a b using that by (rule mult_le_mono1)
  show "n' \<le> n \<Longrightarrow> runsLeft M n' r f \<le> runsLeft M n r f"
    using mono[of n' n] unfolding runsLeft_def by (simp split: if_splits; arith)
  show "0 < n \<Longrightarrow> Suc (runsLeft M n 1 f) \<le> runsLeft M n 0 f"
    using mono[of 1 n] assms unfolding runsLeft_def by (simp split: if_splits; arith)
  show "n' \<le> n \<Longrightarrow> runsLeft M n' 0 (Suc f) \<le> runsLeft M n 1 f"
    using mono[of n' n] unfolding runsLeft_def by (simp split: if_splits; arith)
  show "n' < n \<Longrightarrow> runsLeft M n' 0 0 \<le> runsLeft M n 1 f"
    using mono[of "Suc n'" n] assms unfolding runsLeft_def by (simp split: if_splits; arith)
qed

lemma load_Add: "toCome k (s\<lparr>ws_q := wq_Add j q\<rparr>) \<le> toCome k (s\<lparr>ws_q := q\<rparr>) + of_bool (j = k)"
  by (auto simp: toCome_def)

lemma load_receive: "toCome k (s\<lparr>ws_q := waitingLoop_receive ready (ws_q s)\<rparr>) \<le> toCome k s"
proof (cases "wq_waitingForAddCh (ws_q s)")
  case (Cons j rest)
  let ?q = "(ws_q s)\<lparr>wq_waitingForAddCh := rest\<rparr>"
  have "toCome k s = toCome k (s\<lparr>ws_q := ?q\<rparr>) + of_bool (j = k)" using Cons by (simp add: toCome_def)
  with load_Add[where k = k and s = s and j = j and q = ?q] Cons show ?thesis
    by (cases ready) (simp_all add: waitingLoop_receive_def toCome_def)
qed (simp add: waitingLoop_receive_def toCome_def)

lemma load_fire:
  assumes "j \<in> wq_waitingEntryByData (ws_q s)"
  shows "toCome k (s\<lparr>ws_q := waitingLoop_fire j (ws_q s)\<rparr>) \<le> toCome k s"
proof (cases "j = k")
  case True
  with assms show ?thesis by (simp add: waitingLoop_fire_def toCome_def)
qed (simp add: waitingLoop_fire_def toCome_def)

lemma load_failures:
  "wq_failures (waitingLoop_receive ready q) = wq_failures q" "wq_failures (waitingLoop_fire j q) = wq_failures q"
  by (simp_all add: waitingLoop_receive_def waitingLoop_fire_def Let_def split: list.splits)

lemma load_taken:
  assumes "wq_Get (ws_q s) = (Item j, q')" "wfWorkers threads s"
  shows "toCome k s = toCome k (s\<lparr>ws_q := q', ws_running := j # ws_running s\<rparr>) + of_bool (j = k)"
    and "busy k (s\<lparr>ws_q := q', ws_running := j # ws_running s\<rparr>) = busy k s + of_bool (j = k)"
  unfolding Get_Item(1)[OF assms] using Get_Item(2,3)[OF assms] by (cases "j = k"; simp add: toCome_def busy_def)+

lemma finishEntry_waiting:
  "wq_waitingForAddCh (finishEntry m j err q) = wq_waitingForAddCh q @
     (if err \<noteq> None \<and> int (wq_failures q j) < m \<and> \<not> wq_shuttingDown q then [j] else [])"
  "wq_failures (finishEntry m j err q) = (wq_failures q)(j := if err \<noteq> None \<and> int (wq_failures q j) < m
     then Suc (wq_failures q j) else 0)"
  by (auto simp: wq_defs split: option.splits)

lemma load_finished:
  assumes "j \<in> set (ws_running s)" "wfWorkers threads s" "s' = s\<lparr>ws_q := finishEntry m j err (ws_q s), ws_running := remove1 j (ws_running s)\<rparr>"
  shows "k \<noteq> j \<Longrightarrow> toCome k s' = toCome k s \<and> busy k s' = busy k s \<and> wq_failures (ws_q s') k = wq_failures (ws_q s) k"
    and "busy j s = 1" "busy j s' = 0"
    and "wq_failures (ws_q s') j = 0 \<and> toCome j s' = toCome j s \<or>
         wq_failures (ws_q s') j = Suc (wq_failures (ws_q s) j) \<and> wq_failures (ws_q s) j < nat m \<and> toCome j s' \<le> Suc (toCome j s)"
  using assms by (auto simp: toCome_def busy_def wfWorkers_def finishEntry_waiting)

definition leftFor :: "int \<Rightarrow> string \<Rightarrow> workers \<Rightarrow> nat" where
  "leftFor m k s = runsLeft (nat m) (toCome k s + busy k s) (busy k s) (wq_failures (ws_q s) k)"

lemma left_step:
  assumes "qstep m threads s l s'" "wfWorkers threads s" "wq_failures (ws_q s) k \<le> nat m" "l \<noteq> Added k"
  shows "leftFor m k s' + of_bool (l = Taken k) \<le> leftFor m k s \<and> wq_failures (ws_q s') k \<le> nat m"
  using assms
proof (induction rule: qstep.induct)
  case (added s j)
  then show ?case by (simp add: leftFor_def toCome_def busy_def)
next
  case (taken s j q')
  note load = load_taken[OF taken(2,3), of k]
  show ?case
  proof (cases "j = k")
    case True
    have "k \<notin> set (ws_running s)" using Get_Item(3)[OF taken(2,3)] True by simp
    then show ?thesis
      using load runsLeft_laws(2)[OF taken(4), of "toCome k s"] True by (simp add: leftFor_def busy_def taken(4) Get_Item(1)[OF taken(2,3)])
  qed (use load taken(4) in \<open>simp add: leftFor_def Get_Item(1)[OF taken(2,3)]\<close>)
next
  case (finished j s err)
  let ?s' = "s\<lparr>ws_q := finishEntry m j err (ws_q s), ws_running := remove1 j (ws_running s)\<rparr>"
  have s': "?s' = s\<lparr>ws_q := finishEntry m j err (ws_q s), ws_running := remove1 j (ws_running s)\<rparr>" by simp
  note load = load_finished[OF finished(1,2) s']
  show ?case
  proof (cases "k = j")
    case True
    from load(4) show ?thesis
    proof
      assume "wq_failures (ws_q ?s') j = 0
        \<and> toCome j ?s' = toCome j s"
      then show ?thesis using load(2,3) True runsLeft_laws(4)[OF finished(3), of "toCome j s" "Suc (toCome j s)"]
        by (simp add: leftFor_def)
    next
      assume "wq_failures (ws_q ?s') j
          = Suc (wq_failures (ws_q s) j) \<and> wq_failures (ws_q s) j < nat m
        \<and> toCome j ?s' \<le> Suc (toCome j s)"
      then show ?thesis using load(2,3) True runsLeft_laws(3)[OF finished(3), of _ "Suc (toCome j s)"]
        by (simp add: leftFor_def)
    qed
  qed (use load(1)[of k] finished(3) in \<open>simp add: leftFor_def\<close>)
next
  case (received s ready)
  then show ?case using runsLeft_laws(1)[OF received(2)] load_receive[where k = k and s = s and ready = ready]
    by (simp add: leftFor_def busy_def load_failures)
next
  case (fired j s)
  then show ?case using runsLeft_laws(1)[OF fired(3)] load_fire[OF fired(1), of k]
    by (simp add: leftFor_def busy_def load_failures)
next
  case (shutDown s)
  then show ?case by (simp add: leftFor_def toCome_def busy_def wq_ShutDown_def)
qed

lemma left_steps:
  "qsteps m threads s ls s' \<Longrightarrow> wfWorkers threads s \<Longrightarrow> wq_failures (ws_q s) k \<le> nat m \<Longrightarrow> Added k \<notin> set ls
    \<Longrightarrow> leftFor m k s' + count_list ls (Taken k) \<le> leftFor m k s"
proof (induction rule: qsteps.induct)
  case (more s l s' ls s'')
  with left_step[OF more(1,4,5)] wf_step[OF more(1,4)] show ?case by fastforce
qed simp

lemma failures_step: "qstep m threads s l s' \<Longrightarrow> wq_failures (ws_q s) k \<le> nat m \<Longrightarrow> wq_failures (ws_q s') k \<le> nat m"
proof (induction rule: qstep.induct)
  case (taken s j q')
  then show ?case by (auto simp: wq_Get_def split: list.splits if_splits)
qed (auto simp: load_failures finishEntry_waiting wq_ShutDown_def)

lemma failures_bounded: "qsteps m threads s ls s' \<Longrightarrow> wq_failures (ws_q s) k \<le> nat m \<Longrightarrow> wq_failures (ws_q s') k \<le> nat m"
  by (induction rule: qsteps.induct) (auto dest: failures_step)

lemma taken_bound:
  assumes "qsteps m threads s ls s'" "wfWorkers threads s" "wq_failures (ws_q s) k \<le> nat m" "Added k \<notin> set ls"
  shows "count_list ls (Taken k) \<le> (toCome k s + busy k s) * Suc (nat m)"
  using left_steps[OF assms] by (simp add: leftFor_def runsLeft_def split: if_splits)

lemma reached_failures: "qsteps m threads idle ls0 s \<Longrightarrow> wq_failures (ws_q s) k \<le> nat m"
  by (erule failures_bounded) (simp add: idle_def newQueue_def)

lemma added_once_bound:
  assumes reach: "qsteps m threads idle ls0 s" and run: "qsteps m threads s (Added k # ls) s'"
    and once: "Added k \<notin> set ls" and none: "toCome k s + busy k s = 0"
  shows "count_list ls (Taken k) \<le> Suc (nat m)"
proof -
  from run obtain s1 where s1: "qstep m threads s (Added k) s1" "qsteps m threads s1 ls s'"
    by (cases rule: qsteps.cases) auto
  from s1(1) have eq: "s1 = s\<lparr>ws_q := wq_Add k (ws_q s)\<rparr>" by (cases rule: qstep.cases)
  have "toCome k s1 + busy k s1 \<le> 1"
    using none load_Add[where k = k and s = s and j = k and q = "ws_q s"] by (simp add: eq busy_def)
  then have "(toCome k s1 + busy k s1) * Suc (nat m) \<le> 1 * Suc (nat m)" by (rule mult_le_mono1)
  with taken_bound[OF s1(2) wf_step[OF s1(1) wf_steps[OF reach wf_idle]] failures_step[OF s1(1) reached_failures[OF reach]] once]
  show ?thesis by simp
qed

text \<open>C9: whatever happened before, a key with nothing to come that an informer adds once is worked on
  at most one time more than the retries allow, however often it fails; and without a further
  addition, at most that often for each addition still to come or worker busy with it.  The failures
  counted never exceed the retries.\<close>

theorem retries_of_a_key_are_bounded:
  assumes "qsteps m threads idle ls0 s"
  shows "wq_failures (ws_q s) k \<le> nat m
    \<and> (\<forall>ls s'. qsteps m threads s ls s' \<and> Added k \<notin> set ls
         \<longrightarrow> count_list ls (Taken k) \<le> (toCome k s + busy k s) * Suc (nat m))
    \<and> (\<forall>ls s'. qsteps m threads s (Added k # ls) s' \<and> Added k \<notin> set ls \<and> toCome k s + busy k s = 0
         \<longrightarrow> count_list ls (Taken k) \<le> Suc (nat m))"
  by (intro conjI allI impI reached_failures[OF assms]; elim conjE;
      rule taken_bound[OF _ wf_steps[OF assms wf_idle] reached_failures[OF assms]] added_once_bound[OF assms]; assumption)

text \<open>With one retry, a key that fails is worked on twice and dropped.\<close>

definition failsTwice :: "step list" where
  "failsTwice = [Taken ''demo/req'', Finished ''demo/req'' (Some (Plain ''sealed'')), Received True,
     Taken ''demo/req'', Finished ''demo/req'' (Some (Plain ''sealed''))]"

lemma failsTwice_runs: "\<exists>s'. qsteps 1 2 idle (Added ''demo/req'' # failsTwice) s'"
proof -
  have "doSteps 1 2 (Added ''demo/req'' # failsTwice) idle \<noteq> None" by code_simp
  then show ?thesis by (auto simp: doSteps_iff)
qed

theorem retries_of_a_key_are_bounded_witness:
  "count_list failsTwice (Taken ''demo/req'') = 2 \<and> count_list failsTwice (Taken ''demo/req'') \<le> Suc (nat 1)"
proof -
  have "Added ''demo/req'' \<notin> set failsTwice" "toCome ''demo/req'' idle + busy ''demo/req'' idle = 0"
    by (simp_all add: failsTwice_def toCome_def busy_def idle_def newQueue_def)
  with retries_of_a_key_are_bounded[OF qsteps.none[of 1 2], of "''demo/req''"] failsTwice_runs
  have "count_list failsTwice (Taken ''demo/req'') \<le> Suc (nat 1)" by blast
  moreover have "count_list failsTwice (Taken ''demo/req'') = 2" by (simp add: failsTwice_def)
  ultimately show ?thesis by simp
qed


end
