(* ===== verification/Wait_Heap.thy ===== *)
theory Wait_Heap
  imports Prelude "HOL-Library.Multiset"
begin

text \<open>
  The priority queue in which the delaying queue keeps the entries that are not
  due (\<open>waitForPriorityQueue\<close> in
  \<open>vendor/k8s.io/client-go/util/workqueue/delaying_queue.go\<close>) under the binary
  heap of the standard library (\<open>container/heap\<close>).  Every operation of the heap
  keeps the heap order, the entries and the positions the entries record; the
  entry removed is one with the least time.
\<close>

section \<open>Entries and the slice\<close>

record waitFor =
  wf_data :: string
  wf_readyAt :: int
  wf_index :: int

type_synonym waitForPriorityQueue = "waitFor list"

definition pq_Less :: "waitForPriorityQueue \<Rightarrow> nat \<Rightarrow> nat \<Rightarrow> bool" where
  "pq_Less pq i j \<longleftrightarrow> wf_readyAt (pq ! i) < wf_readyAt (pq ! j)"

definition pq_Swap :: "nat \<Rightarrow> nat \<Rightarrow> waitForPriorityQueue \<Rightarrow> waitForPriorityQueue" where
  "pq_Swap i j pq =
     (let pq1 = pq[i := pq ! j, j := pq ! i];
          pq2 = pq1[i := (pq1 ! i)\<lparr>wf_index := int i\<rparr>] in
      pq2[j := (pq2 ! j)\<lparr>wf_index := int j\<rparr>])"

definition pq_Push :: "waitFor \<Rightarrow> waitForPriorityQueue \<Rightarrow> waitForPriorityQueue" where
  "pq_Push item pq = pq @ [item\<lparr>wf_index := int (length pq)\<rparr>]"

definition pq_Pop :: "waitForPriorityQueue \<Rightarrow> waitFor \<times> waitForPriorityQueue" where
  "pq_Pop pq = (let n = length pq in ((pq ! (n - 1))\<lparr>wf_index := - 1\<rparr>, take (n - 1) pq))"

definition pq_Peek :: "waitForPriorityQueue \<Rightarrow> waitFor" where
  "pq_Peek pq = pq ! 0"


section \<open>The heap of the standard library\<close>

text \<open>The parent of position \<open>0\<close> is itself: Go divides \<open>-1\<close> towards zero.\<close>

definition parent :: "nat \<Rightarrow> nat" where
  "parent j = (j - 1) div 2"

lemma parent_less [simp]: "0 < j \<Longrightarrow> parent j < j"
  by (simp add: parent_def)

lemma parent_0 [simp]: "parent 0 = 0"
  by (simp add: parent_def)

lemma parent_eq_iff: "parent j = j \<longleftrightarrow> j = 0"
  by (metis gr0I less_irrefl parent_0 parent_less)

lemma parent_le [simp]: "parent j \<le> j"
  by (simp add: parent_def)

lemma parent_child: "0 < c \<Longrightarrow> parent c = i \<longleftrightarrow> c = 2 * i + 1 \<or> c = 2 * i + 2"
  by (simp add: parent_def) arith

function heap_up :: "nat \<Rightarrow> waitForPriorityQueue \<Rightarrow> waitForPriorityQueue" where
  "heap_up j pq =
     (let i = parent j in
      if i = j \<or> \<not> pq_Less pq j i then pq else heap_up i (pq_Swap i j pq))"
  by auto
termination
  by (relation "measure fst") (auto simp: parent_eq_iff)

text \<open>The child of \<open>i\<close> that is compared with it: the right one when it is the lesser.\<close>

definition lesserChild :: "nat \<Rightarrow> waitForPriorityQueue \<Rightarrow> nat \<Rightarrow> nat" where
  "lesserChild n pq i =
     (let j1 = 2 * i + 1 in if j1 + 1 < n \<and> pq_Less pq (j1 + 1) j1 then j1 + 1 else j1)"

lemma lesserChild_range [simp]: "i < lesserChild n pq i" "2 * i + 1 < n \<Longrightarrow> lesserChild n pq i < n"
  by (simp_all add: lesserChild_def Let_def)

function heap_down :: "nat \<Rightarrow> nat \<Rightarrow> waitForPriorityQueue \<Rightarrow> waitForPriorityQueue \<times> nat" where
  "heap_down i n pq =
     (if 2 * i + 1 \<ge> n then (pq, i)
      else let j = lesserChild n pq i in
        if \<not> pq_Less pq j i then (pq, i) else heap_down j n (pq_Swap i j pq))"
  by auto
termination
  by (relation "measure (\<lambda>(i, n, pq). n - i)") (auto intro: diff_less_mono2)

declare heap_up.simps [simp del] heap_down.simps [simp del]

definition heap_Push :: "waitFor \<Rightarrow> waitForPriorityQueue \<Rightarrow> waitForPriorityQueue" where
  "heap_Push x pq = (let pq1 = pq_Push x pq in heap_up (length pq1 - 1) pq1)"

definition heap_Pop :: "waitForPriorityQueue \<Rightarrow> waitFor \<times> waitForPriorityQueue" where
  "heap_Pop pq = (let n = length pq - 1 in pq_Pop (fst (heap_down 0 n (pq_Swap 0 n pq))))"

text \<open>\<open>down\<close> answers whether the entry moved.\<close>

definition heap_Fix :: "nat \<Rightarrow> waitForPriorityQueue \<Rightarrow> waitForPriorityQueue" where
  "heap_Fix i pq = (let (pq1, i1) = heap_down i (length pq) pq in if i1 > i then pq1 else heap_up i pq1)"


section \<open>What the operations keep\<close>

definition at :: "waitForPriorityQueue \<Rightarrow> nat \<Rightarrow> int" where
  "at pq i = wf_readyAt (pq ! i)"

definition wfIndex :: "waitForPriorityQueue \<Rightarrow> bool" where
  "wfIndex pq \<longleftrightarrow> (\<forall>i < length pq. wf_index (pq ! i) = int i)"

definition entry :: "waitFor \<Rightarrow> string \<times> int" where
  "entry w = (wf_data w, wf_readyAt w)"

definition entries :: "waitForPriorityQueue \<Rightarrow> (string \<times> int) multiset" where
  "entries pq = mset (map entry pq)"

definition heapUpTo :: "nat \<Rightarrow> waitForPriorityQueue \<Rightarrow> bool" where
  "heapUpTo n pq \<longleftrightarrow> (\<forall>c. 0 < c \<and> c < n \<longrightarrow> at pq (parent c) \<le> at pq c)"

abbreviation isHeap :: "waitForPriorityQueue \<Rightarrow> bool" where
  "isHeap pq \<equiv> heapUpTo (length pq) pq"

lemma entry_index [simp]: "entry (w\<lparr>wf_index := i\<rparr>) = entry w"
  by (simp add: entry_def)

lemma entry_readyAt: "wf_readyAt w = snd (entry w)"
  by (simp add: entry_def)

lemma length_Swap [simp]: "length (pq_Swap i j pq) = length pq"
  by (simp add: pq_Swap_def Let_def)

lemma entry_Swap:
  assumes "i < length pq" "j < length pq"
  shows "map entry (pq_Swap i j pq) = (map entry pq)[i := entry (pq ! j), j := entry (pq ! i)]"
  using assms by (intro nth_equalityI) (simp_all add: pq_Swap_def Let_def nth_list_update)

lemma entries_Swap [simp]: "i < length pq \<Longrightarrow> j < length pq \<Longrightarrow> entries (pq_Swap i j pq) = entries pq"
  unfolding entries_def entry_Swap using mset_swap[of j "map entry pq" i] by simp

lemma at_entry: "c < length pq \<Longrightarrow> at pq c = snd (map entry pq ! c)"
  by (simp add: at_def entry_readyAt)

lemma at_Swap [simp]:
  assumes "i < length pq" "j < length pq" "c < length pq"
  shows "at (pq_Swap i j pq) c = at pq (if c = i then j else if c = j then i else c)"
  using assms by (simp add: at_entry entry_Swap nth_list_update)

lemma wfIndex_Swap: "i < length pq \<Longrightarrow> j < length pq \<Longrightarrow> wfIndex pq \<Longrightarrow> wfIndex (pq_Swap i j pq)"
  by (simp add: wfIndex_def pq_Swap_def Let_def nth_list_update)

lemma Less_at: "pq_Less pq i j \<longleftrightarrow> at pq i < at pq j"
  by (simp add: pq_Less_def at_def)

lemma up_keeps:
  "j < length pq \<Longrightarrow> length (heap_up j pq) = length pq \<and> entries (heap_up j pq) = entries pq
     \<and> (wfIndex pq \<longrightarrow> wfIndex (heap_up j pq))"
proof (induction j pq rule: heap_up.induct)
  case (1 j pq)
  have p: "parent j < length pq" using 1(2) parent_le[of j] by linarith
  show ?case
  proof (cases "parent j = j \<or> \<not> pq_Less pq j (parent j)")
    case True
    then have "heap_up j pq = pq" by (simp add: heap_up.simps Let_def)
    then show ?thesis by simp
  next
    case False
    then have "heap_up j pq = heap_up (parent j) (pq_Swap (parent j) j pq)" by (subst heap_up.simps) (simp add: Let_def)
    with 1(1)[OF refl False] 1(2) p show ?thesis by (simp add: wfIndex_Swap)
  qed
qed

lemma down_step:
  "\<not> 2 * i + 1 < n \<or> \<not> pq_Less pq (lesserChild n pq i) i \<Longrightarrow> heap_down i n pq = (pq, i)"
  "2 * i + 1 < n \<Longrightarrow> pq_Less pq (lesserChild n pq i) i
    \<Longrightarrow> heap_down i n pq = heap_down (lesserChild n pq i) n (pq_Swap i (lesserChild n pq i) pq)"
  by (subst heap_down.simps; auto simp: Let_def)+

lemma down_keeps:
  "i < length pq \<Longrightarrow> n \<le> length pq \<Longrightarrow> length (fst (heap_down i n pq)) = length pq
     \<and> entries (fst (heap_down i n pq)) = entries pq \<and> (wfIndex pq \<longrightarrow> wfIndex (fst (heap_down i n pq)))
     \<and> i \<le> snd (heap_down i n pq)"
proof (induction i n pq rule: heap_down.induct)
  case (1 i n pq)
  let ?j = "lesserChild n pq i"
  show ?case
  proof (cases "2 * i + 1 < n \<and> pq_Less pq ?j i")
    case True
    then have "?j < length pq" "i < ?j" using 1(3) lesserChild_range(2)[of i n pq] by (linarith, simp)
    with 1(1)[OF _ refl] 1(2,3) True show ?thesis by (auto simp: down_step(2) wfIndex_Swap intro: le_trans[OF less_imp_le[OF lesserChild_range(1)]])
  qed (use down_step(1)[of i n pq] in auto)
qed


section \<open>The heap order\<close>

text \<open>The order holds but for the entry at \<open>j\<close>, around which it holds as if the entry were not there.\<close>

definition heapExcept :: "nat \<Rightarrow> nat \<Rightarrow> waitForPriorityQueue \<Rightarrow> bool" where
  "heapExcept n j pq \<longleftrightarrow>
     (\<forall>c. 0 < c \<and> c < n \<and> c \<noteq> j \<and> parent c \<noteq> j \<longrightarrow> at pq (parent c) \<le> at pq c)
     \<and> (\<forall>c. 0 < c \<and> c < n \<and> parent c = j \<and> 0 < j \<longrightarrow> at pq (parent j) \<le> at pq c)"

definition childrenOk :: "nat \<Rightarrow> nat \<Rightarrow> waitForPriorityQueue \<Rightarrow> bool" where
  "childrenOk n j pq \<longleftrightarrow> (\<forall>c. 0 < c \<and> c < n \<and> parent c = j \<longrightarrow> at pq j \<le> at pq c)"

definition parentOk :: "nat \<Rightarrow> waitForPriorityQueue \<Rightarrow> bool" where
  "parentOk j pq \<longleftrightarrow> (0 < j \<longrightarrow> at pq (parent j) \<le> at pq j)"

lemma heap_from_parts: "heapExcept n j pq \<Longrightarrow> childrenOk n j pq \<Longrightarrow> parentOk j pq \<Longrightarrow> heapUpTo n pq"
  unfolding heapExcept_def childrenOk_def parentOk_def heapUpTo_def by metis

lemma heap_parts:
  assumes "heapUpTo n pq"
  shows "heapExcept n j pq" "childrenOk n j pq" "j < n \<Longrightarrow> parentOk j pq"
proof -
  have "at pq (parent j) \<le> at pq c" if "0 < c" "c < n" "parent c = j" "0 < j" for c
  proof -
    have "j < n" using that parent_less[of c] by linarith
    with assms that show ?thesis unfolding heapUpTo_def by (metis order_trans)
  qed
  with assms show "heapExcept n j pq" by (auto simp: heapExcept_def heapUpTo_def)
qed (use assms in \<open>auto simp: childrenOk_def parentOk_def heapUpTo_def\<close>)

lemma up_step_order:
  assumes "heapExcept n j pq" "childrenOk n j pq" "j < n" "n \<le> length pq" "0 < j" "pq_Less pq j (parent j)"
  shows "heapExcept n (parent j) (pq_Swap (parent j) j pq)" "childrenOk n (parent j) (pq_Swap (parent j) j pq)"
proof -
  let ?i = "parent j" and ?s = "pq_Swap (parent j) j pq"
  have i: "?i < j" "?i < n" "parent ?i \<le> ?i" using assms parent_less[of j] by (simp, linarith, simp)
  have sw: "at ?s c = at pq (if c = ?i then j else if c = j then ?i else c)" if "c < n" for c
    using i assms that by (intro at_Swap) linarith+
  have lt: "at pq j < at pq ?i" using assms(6) by (simp add: Less_at)
  have pc: "parent c < c" "parent c < n" if "0 < c" "c < n" for c using parent_less[OF that(1)] that by linarith+
  show "childrenOk n ?i ?s"
    using assms(1) lt i unfolding childrenOk_def heapExcept_def by (fastforce simp: sw pc)
  have "at ?s (parent c) \<le> at ?s c" if "0 < c" "c < n" "c \<noteq> ?i" "parent c \<noteq> ?i" for c
    using assms(1) that i \<open>0 < j\<close> pc[OF that(1,2)] unfolding heapExcept_def by (auto simp: sw)
  moreover have "at ?s (parent ?i) \<le> at ?s c" if "0 < c" "c < n" "parent c = ?i" "0 < ?i" for c
  proof -
    have p: "parent ?i < ?i" using that by simp
    then have top: "at ?s (parent ?i) = at pq (parent ?i)" using i sw[of "parent ?i"] by auto
    have up: "at pq (parent ?i) \<le> at pq ?i"
      using assms(1) that(4) i p unfolding heapExcept_def by (metis less_irrefl less_trans)
    show ?thesis
    proof (cases "c = j")
      case False
      then have "at pq ?i \<le> at pq c" "at ?s c = at pq c"
        using assms(1) that i sw[of c] unfolding heapExcept_def by (metis less_irrefl, metis less_irrefl parent_less)
      with up top show ?thesis by simp
    qed (use up top i assms(3) sw[of j] in auto)
  qed
  ultimately show "heapExcept n ?i ?s" by (simp add: heapExcept_def)
qed

lemma up_heap:
  "heapExcept n j pq \<Longrightarrow> childrenOk n j pq \<Longrightarrow> j < n \<Longrightarrow> n \<le> length pq \<Longrightarrow> heapUpTo n (heap_up j pq)"
proof (induction j pq rule: heap_up.induct)
  case (1 j pq)
  show ?case
  proof (cases "parent j = j \<or> \<not> pq_Less pq j (parent j)")
    case True
    then have "heap_up j pq = pq" "parentOk j pq"
      by (simp add: heap_up.simps Let_def, auto simp: parentOk_def Less_at parent_eq_iff)
    with 1(2,3) show ?thesis by (simp add: heap_from_parts)
  next
    case False
    then have j: "0 < j" "heap_up j pq = heap_up (parent j) (pq_Swap (parent j) j pq)"
      by (metis gr0I parent_0) (use False in \<open>subst heap_up.simps, simp add: Let_def\<close>)
    have "parent j < n" using 1(4) parent_le[of j] by linarith
    with 1(1)[OF refl False] up_step_order[OF 1(2-5) j(1)] False 1(5) show ?thesis by (simp add: j(2))
  qed
qed

lemma lesserChild_least:
  assumes "2 * i + 1 < n" "0 < c" "c < n" "parent c = i"
  shows "at pq (lesserChild n pq i) \<le> at pq c"
  using assms by (auto simp: parent_child lesserChild_def Let_def Less_at)

lemma parent_lesserChild [simp]: "parent (lesserChild n pq i) = i"
  by (simp add: lesserChild_def Let_def parent_def)

lemma down_step_order:
  assumes "heapExcept n i pq" "n \<le> length pq" "2 * i + 1 < n" "pq_Less pq (lesserChild n pq i) i"
  defines "j \<equiv> lesserChild n pq i"
  shows "heapExcept n j (pq_Swap i j pq)" "parentOk j (pq_Swap i j pq)"
proof -
  let ?s = "pq_Swap i j pq"
  have j: "i < j" "j < n" "parent j = i" using assms(3) by (simp_all add: j_def)
  have sw: "at ?s c = at pq (if c = i then j else if c = j then i else c)" if "c < n" for c
    using j assms(2) that by (intro at_Swap) linarith+
  have lt: "at pq j < at pq i" using assms(4) by (simp add: Less_at j_def)
  have least: "at pq j \<le> at pq c" if "0 < c" "c < n" "parent c = i" for c
    unfolding j_def by (rule lesserChild_least[OF assms(3) that])
  have pc: "parent c < c" "parent c < n" if "0 < c" "c < n" for c using parent_less[OF that(1)] that by linarith+
  show "parentOk j ?s" using j lt by (simp add: parentOk_def sw)
  have over: "at pq (parent i) \<le> at pq j" if "0 < i"
    using assms(1) that j unfolding heapExcept_def by (metis gr_zeroI not_less_zero)
  have "at ?s (parent c) \<le> at ?s c" if c: "0 < c" "c < n" "c \<noteq> j" "parent c \<noteq> j" for c
  proof -
    consider "c = i" | "c \<noteq> i" "parent c = i" | "c \<noteq> i" "parent c \<noteq> i" by blast
    then show ?thesis
    proof cases
      case 3
      with assms(1) c show ?thesis unfolding heapExcept_def by (simp add: sw pc)
    qed (use c over least j pc[OF c(1,2)] in \<open>auto simp: sw\<close>)
  qed
  moreover have "at ?s (parent j) \<le> at ?s c" if c: "0 < c" "c < n" "parent c = j" for c
  proof -
    have "j < c" using pc[OF c(1,2)] c(3) by simp
    moreover have "at pq j \<le> at pq c" using assms(1) c j \<open>j < c\<close> unfolding heapExcept_def by (metis less_irrefl less_trans)
    ultimately show ?thesis using j c by (simp add: sw)
  qed
  ultimately show "heapExcept n j ?s" by (simp add: heapExcept_def)
qed

lemma down_stops:
  assumes "\<not> (2 * i + 1 < n \<and> pq_Less pq (lesserChild n pq i) i)"
  shows "childrenOk n i pq"
  unfolding childrenOk_def
proof (intro allI impI; elim conjE)
  fix c assume c: "0 < c" "c < n" "parent c = i"
  then have "2 * i + 1 < n" by (auto simp: parent_child)
  with assms lesserChild_least[OF this c, of pq] show "at pq i \<le> at pq c" by (simp add: Less_at)
qed

lemma down_heap:
  "heapExcept n i pq \<Longrightarrow> parentOk i pq \<Longrightarrow> n \<le> length pq \<Longrightarrow> heapUpTo n (fst (heap_down i n pq))"
proof (induction i n pq rule: heap_down.induct)
  case (1 i n pq)
  show ?case
  proof (cases "2 * i + 1 < n \<and> pq_Less pq (lesserChild n pq i) i")
    case True
    with 1(1)[OF _ refl] down_step_order[OF 1(2,4)] 1(4) show ?thesis by (simp add: down_step(2))
  next
    case False
    with heap_from_parts[OF 1(2) down_stops[OF False] 1(3)] show ?thesis by (simp add: down_step(1))
  qed
qed


section \<open>Push, pop and fix\<close>

definition wfHeap :: "waitForPriorityQueue \<Rightarrow> bool" where
  "wfHeap pq \<longleftrightarrow> isHeap pq \<and> wfIndex pq"

lemma wfHeap_Nil [simp]: "wfHeap []"
  by (simp add: wfHeap_def heapUpTo_def wfIndex_def)

text \<open>The order and the recorded positions see no more of a queue than this.\<close>

lemma heapUpTo_cong: "(\<And>c. c < n \<Longrightarrow> at pq c = at pq' c) \<Longrightarrow> heapUpTo n pq = heapUpTo n pq'"
proof -
  assume eq: "\<And>c. c < n \<Longrightarrow> at pq c = at pq' c"
  have "parent c < n" if "0 < c" "c < n" for c using parent_less[OF that(1)] that(2) by linarith
  with eq show ?thesis by (auto simp: heapUpTo_def)
qed

lemma heap_root_least:
  assumes "heapUpTo n pq" "c < n"
  shows "at pq 0 \<le> at pq c"
  using assms(2)
proof (induction c rule: less_induct)
  case (less c)
  show ?case
  proof (cases "c = 0")
    case False
    then have "parent c < c" by simp
    with less assms(1) False show ?thesis by (metis (no_types, lifting) gr0I heapUpTo_def less_trans order_trans)
  qed simp
qed

lemma wfHeap_Peek: "wfHeap pq \<Longrightarrow> w \<in> set pq \<Longrightarrow> wf_readyAt (pq_Peek pq) \<le> wf_readyAt w"
  unfolding wfHeap_def pq_Peek_def in_set_conv_nth using heap_root_least[of "length pq" pq] by (auto simp: at_def)

lemma wfHeap_Push:
  assumes "wfHeap pq"
  shows "wfHeap (heap_Push x pq)" "entries (heap_Push x pq) = add_mset (entry x) (entries pq)"
    "length (heap_Push x pq) = Suc (length pq)"
proof -
  let ?n = "length pq" and ?p = "pq_Push x pq"
  have up: "heap_Push x pq = heap_up ?n ?p" by (simp add: heap_Push_def pq_Push_def)
  have "at ?p c = at pq c" if "c < ?n" for c using that by (simp add: pq_Push_def at_def nth_append)
  then have h: "heapUpTo ?n ?p" using assms heapUpTo_cong[of ?n ?p pq] by (simp add: wfHeap_def)
  have child: "parent c \<noteq> ?n" if "c < Suc ?n" "0 < c" for c using parent_less[OF that(2)] that(1) by linarith
  have parts: "heapExcept (Suc ?n) ?n ?p" "childrenOk (Suc ?n) ?n ?p"
    using h child by (auto simp: heapExcept_def childrenOk_def heapUpTo_def less_Suc_eq)
  have l: "length ?p = Suc ?n" by (simp add: pq_Push_def)
  have ix: "wfIndex ?p" using assms by (simp add: wfHeap_def wfIndex_def pq_Push_def nth_append less_Suc_eq)
  note keep = up_keeps[of ?n ?p, unfolded l]
  show "wfHeap (heap_Push x pq)" using up_heap[OF parts] keep ix l by (simp add: up wfHeap_def)
  show "entries (heap_Push x pq) = add_mset (entry x) (entries pq)" "length (heap_Push x pq) = Suc ?n"
    using keep by (simp_all add: up entries_def pq_Push_def)
qed

lemma wfHeap_Fix:
  assumes "heapExcept (length pq) i pq" "wfIndex pq" "i < length pq"
  shows "wfHeap (heap_Fix i pq)" "entries (heap_Fix i pq) = entries pq"
proof -
  let ?n = "length pq" and ?j = "lesserChild (length pq) pq i"
  note keep = down_keeps[OF assms(3) order_refl]
  have "wfHeap (heap_Fix i pq) \<and> entries (heap_Fix i pq) = entries pq"
  proof (cases "2 * i + 1 < ?n \<and> pq_Less pq ?j i")
    case True
    let ?d = "heap_down ?j ?n (pq_Swap i ?j pq)"
    have j: "?j < ?n" "i < ?j" using True by simp_all
    have "?j \<le> snd ?d" using down_keeps[of ?j "pq_Swap i ?j pq" ?n] j by simp
    with j(2) have "i < snd ?d" by linarith
    with True have fix': "heap_Fix i pq = fst (heap_down i ?n pq)" by (auto simp: heap_Fix_def down_step(2) split: prod.splits)
    have "heapUpTo ?n (fst ?d)"
      using down_heap[of ?n ?j "pq_Swap i ?j pq"] down_step_order[of ?n i pq] assms(1) True by simp
    with fix' keep True assms(2) show ?thesis by (simp add: wfHeap_def down_step(2))
  next
    case False
    then have "heap_Fix i pq = heap_up i pq" by (simp add: heap_Fix_def down_step(1))
    with up_heap[OF assms(1) down_stops[OF False] assms(3) order_refl] up_keeps[OF assms(3)] assms(2)
    show ?thesis by (simp add: wfHeap_def)
  qed
  then show "wfHeap (heap_Fix i pq)" "entries (heap_Fix i pq) = entries pq" by simp_all
qed

text \<open>\<open>down\<close> leaves alone what is beyond its bound, so what is removed is the entry that was at the root.\<close>

lemma down_beyond: "n \<le> c \<Longrightarrow> c < length pq \<Longrightarrow> fst (heap_down i n pq) ! c = pq ! c"
proof (induction i n pq rule: heap_down.induct)
  case (1 i n pq)
  show ?case
  proof (cases "2 * i + 1 < n \<and> pq_Less pq (lesserChild n pq i) i")
    case True
    let ?j = "lesserChild n pq i"
    have "i < ?j" "?j < n" using True by simp_all
    then have "c \<noteq> i" "c \<noteq> ?j" using 1(2) by linarith+
    then have "pq_Swap i ?j pq ! c = pq ! c" by (simp add: pq_Swap_def Let_def)
    with 1 True show ?thesis by (simp add: down_step(2))
  qed (simp add: down_step(1))
qed

lemma wfHeap_Pop:
  assumes "wfHeap pq" "pq \<noteq> []" "heap_Pop pq = (w, pq')"
  shows "wfHeap pq'" "entry w = entry (pq_Peek pq)" "entries pq = add_mset (entry w) (entries pq')"
    "length pq = Suc (length pq')"
proof -
  let ?n = "length pq - 1"
  let ?s = "pq_Swap 0 ?n pq"
  let ?d = "fst (heap_down 0 ?n ?s)"
  have n: "?n < length pq" "0 < length pq" using assms(2) by simp_all
  have keep: "length ?d = length pq" "entries ?d = entries pq" "wfIndex ?d"
    using down_keeps[of 0 ?s ?n] n assms(1) by (simp_all add: wfIndex_Swap wfHeap_def)
  have pop: "w = (?d ! ?n)\<lparr>wf_index := - 1\<rparr>" "pq' = take ?n ?d"
    using assms(3) keep(1) by (auto simp: heap_Pop_def pq_Pop_def Let_def)
  have split: "?d = pq' @ [?d ! ?n]"
    using n keep(1) pop(2) take_Suc_conv_app_nth[of ?n ?d] by simp
  show l: "length pq = Suc (length pq')" using n keep(1) pop(2) by simp
  have "entries ?d = entries (pq' @ [?d ! ?n])" using split by simp
  then show "entries pq = add_mset (entry w) (entries pq')" using keep(2) pop(1) by (simp add: entries_def)
  have "map entry ?s ! ?n = entry (pq ! 0)" using n by (simp add: entry_Swap nth_list_update)
  then show "entry w = entry (pq_Peek pq)"
    using down_beyond[of ?n ?n ?s 0] n pop(1) by (simp add: pq_Peek_def)
  have "at ?s c = at pq c" if "0 < c" "c < ?n" for c using that n by simp
  moreover have "parent c < ?n" if "0 < c" "c < ?n" for c using parent_less[OF that(1)] that(2) by linarith
  ultimately have "heapExcept ?n 0 ?s" using assms(1) by (auto simp: heapExcept_def wfHeap_def heapUpTo_def)
  with down_heap[of ?n 0 ?s] have "heapUpTo ?n ?d" by (simp add: parentOk_def)
  moreover have "at ?d c = at pq' c" if "c < ?n" for c using that by (simp add: pop(2) at_def)
  ultimately have "heapUpTo ?n pq'" using heapUpTo_cong[of ?n ?d pq'] by simp
  moreover have "length pq' = ?n" using l by simp
  ultimately show "wfHeap pq'" using keep(1,3) unfolding pop(2) wfHeap_def wfIndex_def by simp
qed


section \<open>The contract\<close>

text \<open>
  What the delaying queue relies on: a bag of entries to which one is pushed and
  of which the one with the least time is peeked at and popped.
\<close>

locale waiting_queue =
  fixes invar :: "'q \<Rightarrow> bool"
    and bag :: "'q \<Rightarrow> (string \<times> int) multiset"
    and peek :: "'q \<Rightarrow> waitFor"
    and push :: "waitFor \<Rightarrow> 'q \<Rightarrow> 'q"
    and pop :: "'q \<Rightarrow> waitFor \<times> 'q"
  assumes peek_in: "invar q \<Longrightarrow> bag q \<noteq> {#} \<Longrightarrow> entry (peek q) \<in># bag q"
    and peek_least: "invar q \<Longrightarrow> (k, t) \<in># bag q \<Longrightarrow> wf_readyAt (peek q) \<le> t"
    and push_invar: "invar q \<Longrightarrow> invar (push e q)"
    and push_bag: "invar q \<Longrightarrow> bag (push e q) = add_mset (entry e) (bag q)"
    and pop_invar: "invar q \<Longrightarrow> bag q \<noteq> {#} \<Longrightarrow> pop q = (w, q') \<Longrightarrow> invar q'"
    and pop_bag: "invar q \<Longrightarrow> bag q \<noteq> {#} \<Longrightarrow> pop q = (w, q') \<Longrightarrow> bag q = add_mset (entry w) (bag q')"
    and pop_peek: "invar q \<Longrightarrow> bag q \<noteq> {#} \<Longrightarrow> pop q = (w, q') \<Longrightarrow> entry w = entry (peek q)"
begin

text \<open>Looking at the first entry tells whether any is due.\<close>

lemma due_iff:
  assumes "invar q" "bag q \<noteq> {#}"
  shows "wf_readyAt (peek q) > now \<longleftrightarrow> (\<forall>(k, t) \<in># bag q. now < t)"
  using peek_in[OF assms] peek_least[OF assms(1)] by (fastforce simp: entry_def)

text \<open>The entry popped is the first that is due, and what is left is due no earlier.\<close>

lemma pop_least:
  assumes "invar q" "bag q \<noteq> {#}" "pop q = (w, q')"
  shows "wf_readyAt w = wf_readyAt (peek q)" "(k, t) \<in># bag q \<Longrightarrow> wf_readyAt w \<le> t"
  using pop_peek[OF assms] peek_least[OF assms(1)] by (auto simp: entry_def)

end

lemma entries_empty [simp]: "entries pq = {#} \<longleftrightarrow> pq = []"
  by (simp add: entries_def)

interpretation wait_heap: waiting_queue wfHeap entries pq_Peek heap_Push heap_Pop
proof unfold_locales
  fix pq k t assume "wfHeap pq" "(k, t) \<in># entries pq"
  then show "wf_readyAt (pq_Peek pq) \<le> t" using wfHeap_Peek[of pq] by (auto simp: entries_def entry_def)
next
  fix pq assume "wfHeap pq" "entries pq \<noteq> {#}"
  then show "entry (pq_Peek pq) \<in># entries pq" by (simp add: entries_def pq_Peek_def)
qed (simp_all add: wfHeap_Push wfHeap_Pop)

end
