(* ===== verification/Delaying_Queue.thy ===== *)
theory Delaying_Queue
  imports Work_Queue Wait_Heap
begin

text \<open>
  The delays of the work queue: the rate limiters
  (\<open>vendor/k8s.io/client-go/util/workqueue/default_rate_limiters.go\<close>), the
  additions they delay and the waiting loop that makes them when they are due
  (\<open>delaying_queue.go\<close>, \<open>rate_limiting_queue.go\<close>).  Times and durations are in
  nanoseconds.  The token bucket is a library of its own; the delay it answers
  is an argument, which the library keeps from being negative.
\<close>

section \<open>Rate limiters\<close>

record ItemExponentialFailureRateLimiter =
  rl_failures :: "string \<Rightarrow> nat"
  rl_baseDelay :: int
  rl_maxDelay :: int

datatype RateLimiter = ItemExponential ItemExponentialFailureRateLimiter | Bucket

definition Millisecond :: int where
  "Millisecond = 1000000"

definition Second :: int where
  "Second = 1000 * Millisecond"

definition NewItemExponentialFailureRateLimiter :: "int \<Rightarrow> int \<Rightarrow> RateLimiter" where
  "NewItemExponentialFailureRateLimiter baseDelay maxDelay =
     ItemExponential \<lparr>rl_failures = (\<lambda>_. 0), rl_baseDelay = baseDelay, rl_maxDelay = maxDelay\<rparr>"

definition DefaultControllerRateLimiter :: "RateLimiter list" where
  "DefaultControllerRateLimiter =
     [NewItemExponentialFailureRateLimiter (5 * Millisecond) (1000 * Second), Bucket]"

text \<open>
  The product of the base delay and the power of two is exact as a
  \<open>float64\<close>, or infinite; the largest \<open>int64\<close> it is compared with is rounded to
  \<open>2 ^ 63\<close>.
\<close>

definition backoff :: "ItemExponentialFailureRateLimiter \<Rightarrow> nat \<Rightarrow> int" where
  "backoff r exp =
     (let b = rl_baseDelay r * 2 ^ exp in
      if b > 2 ^ 63 then rl_maxDelay r
      else if b > rl_maxDelay r then rl_maxDelay r
      else b)"

fun When :: "int \<Rightarrow> string \<Rightarrow> RateLimiter \<Rightarrow> int \<times> RateLimiter" where
  "When reserve item (ItemExponential r) =
     (let exp = rl_failures r item in
      (backoff r exp, ItemExponential (r\<lparr>rl_failures := (rl_failures r)(item := exp + 1)\<rparr>)))"
| "When reserve item Bucket = (reserve, Bucket)"

fun NumRequeues :: "string \<Rightarrow> RateLimiter \<Rightarrow> nat" where
  "NumRequeues item (ItemExponential r) = rl_failures r item"
| "NumRequeues item Bucket = 0"

fun Forget :: "string \<Rightarrow> RateLimiter \<Rightarrow> RateLimiter" where
  "Forget item (ItemExponential r) = ItemExponential (r\<lparr>rl_failures := (rl_failures r)(item := 0)\<rparr>)"
| "Forget item Bucket = Bucket"

text \<open>The limiter that asks several and answers with the worst, from \<open>ret\<close> on.\<close>

primrec MaxOf_When :: "int \<Rightarrow> string \<Rightarrow> int \<Rightarrow> RateLimiter list \<Rightarrow> int \<times> RateLimiter list" where
  "MaxOf_When reserve item ret' [] = (ret', [])"
| "MaxOf_When reserve item ret' (l # ls) =
     (let (curr, l1) = When reserve item l;
          (r, ls1) = MaxOf_When reserve item (if curr > ret' then curr else ret') ls in
      (r, l1 # ls1))"

primrec MaxOf_NumRequeues :: "string \<Rightarrow> nat \<Rightarrow> RateLimiter list \<Rightarrow> nat" where
  "MaxOf_NumRequeues item ret' [] = ret'"
| "MaxOf_NumRequeues item ret' (l # ls) =
     (let curr = NumRequeues item l in MaxOf_NumRequeues item (if curr > ret' then curr else ret') ls)"

definition MaxOf_Forget :: "string \<Rightarrow> RateLimiter list \<Rightarrow> RateLimiter list" where
  "MaxOf_Forget item ls = map (Forget item) ls"


section \<open>The delaying queue\<close>

text \<open>
  The keys of \<open>waitingEntryByData\<close>; its values are pointers to the entries of
  \<open>waitingForQueue\<close> with those keys.
\<close>

record delayingType = wqType +
  dt_rateLimiter :: "RateLimiter list"
  dt_waitingForAddCh :: "waitFor list"
  dt_waitingForQueue :: waitForPriorityQueue
  dt_waitingEntryByData :: "string set"

definition NewRateLimitingQueue :: "RateLimiter list \<Rightarrow> delayingType" where
  "NewRateLimitingQueue rateLimiter =
     \<lparr>wq_queue = [], wq_dirty = {}, wq_processing = {}, wq_shuttingDown = False, dt_rateLimiter = rateLimiter,
      dt_waitingForAddCh = [], dt_waitingForQueue = [], dt_waitingEntryByData = {}\<rparr>"

definition AddAfter :: "int \<Rightarrow> string \<Rightarrow> int \<Rightarrow> delayingType \<Rightarrow> delayingType" where
  "AddAfter now item duration q =
     (if wq_shuttingDown q then q
      else if duration \<le> 0 then wq_Add item q
      else q\<lparr>dt_waitingForAddCh := dt_waitingForAddCh q
               @ [\<lparr>wf_data = item, wf_readyAt = now + duration, wf_index = 0\<rparr>]\<rparr>)"

definition dq_AddRateLimited :: "int \<Rightarrow> int \<Rightarrow> string \<Rightarrow> delayingType \<Rightarrow> delayingType" where
  "dq_AddRateLimited now reserve item q =
     (let (d, ls) = MaxOf_When reserve item 0 (dt_rateLimiter q) in
      AddAfter now item d (q\<lparr>dt_rateLimiter := ls\<rparr>))"

definition dq_NumRequeues :: "string \<Rightarrow> delayingType \<Rightarrow> nat" where
  "dq_NumRequeues item q = MaxOf_NumRequeues item 0 (dt_rateLimiter q)"

definition dq_Forget :: "string \<Rightarrow> delayingType \<Rightarrow> delayingType" where
  "dq_Forget item q = q\<lparr>dt_rateLimiter := MaxOf_Forget item (dt_rateLimiter q)\<rparr>"

definition insertEntry :: "waitFor \<Rightarrow> delayingType \<Rightarrow> delayingType" where
  "insertEntry e q =
     (if wf_data e \<in> dt_waitingEntryByData q
      then case List.find (\<lambda>w. wf_data w = wf_data e) (dt_waitingForQueue q) of
             Some existing \<Rightarrow>
               if wf_readyAt existing > wf_readyAt e
               then q\<lparr>dt_waitingForQueue := heap_Fix (nat (wf_index existing))
                        (map (\<lambda>w. if wf_data w = wf_data e then w\<lparr>wf_readyAt := wf_readyAt e\<rparr> else w)
                             (dt_waitingForQueue q))\<rparr>
               else q
           | None \<Rightarrow> q
      else q\<lparr>dt_waitingForQueue := heap_Push e (dt_waitingForQueue q),
              dt_waitingEntryByData := insert (wf_data e) (dt_waitingEntryByData q)\<rparr>)"

text \<open>One turn of the loop that adds the entries that are due; nothing when none is.\<close>

definition popReady :: "int \<Rightarrow> delayingType \<Rightarrow> delayingType option" where
  "popReady now q =
     (if dt_waitingForQueue q = [] then None
      else if wf_readyAt (pq_Peek (dt_waitingForQueue q)) > now then None
      else let (e, pq) = heap_Pop (dt_waitingForQueue q);
               q1 = wq_Add (wf_data e) (q\<lparr>dt_waitingForQueue := pq\<rparr>) in
           Some (q1\<lparr>dt_waitingEntryByData := dt_waitingEntryByData q1 - {wf_data e}\<rparr>))"

definition receiveEntry :: "int \<Rightarrow> delayingType \<Rightarrow> delayingType" where
  "receiveEntry now q = (case dt_waitingForAddCh q of
     [] \<Rightarrow> q
   | e # rest \<Rightarrow>
       let q1 = q\<lparr>dt_waitingForAddCh := rest\<rparr> in
       if wf_readyAt e > now then insertEntry e q1 else wq_Add (wf_data e) q1)"

lemma Add_fields [simp]:
  "dt_rateLimiter (wq_Add k q) = dt_rateLimiter q" "dt_waitingForAddCh (wq_Add k q) = dt_waitingForAddCh q"
  "dt_waitingForQueue (wq_Add k q) = dt_waitingForQueue q" "dt_waitingEntryByData (wq_Add k q) = dt_waitingEntryByData q"
  "wq_shuttingDown (wq_Add k q) = wq_shuttingDown q" "wq_processing (wq_Add k q) = wq_processing q"
  by (simp_all add: wq_Add_def Let_def)

lemma length_Pop: "pq \<noteq> [] \<Longrightarrow> length (snd (heap_Pop pq)) < length pq"
  using down_keeps[of 0 "pq_Swap 0 (length pq - 1) pq" "length pq - 1"]
  by (simp add: heap_Pop_def pq_Pop_def Let_def)

lemma popReady_shorter: "popReady now q = Some q' \<Longrightarrow> length (dt_waitingForQueue q') < length (dt_waitingForQueue q)"
  using length_Pop[of "dt_waitingForQueue q"] by (auto simp: popReady_def Let_def split: if_splits prod.splits)

function addReady :: "int \<Rightarrow> delayingType \<Rightarrow> delayingType" where
  "addReady now q = (case popReady now q of None \<Rightarrow> q | Some q1 \<Rightarrow> addReady now q1)"
  by auto
termination
  by (relation "measure (\<lambda>(now, q). length (dt_waitingForQueue q))") (auto simp: popReady_shorter)

declare addReady.simps [simp del]


section \<open>Time\<close>

definition finishEntryAt :: "int \<Rightarrow> int \<Rightarrow> int \<Rightarrow> string \<Rightarrow> error option \<Rightarrow> delayingType \<Rightarrow> delayingType" where
  "finishEntryAt maxRetries now reserve item err q = wq_Done item
     (case err of
        None \<Rightarrow> dq_Forget item q
      | Some e \<Rightarrow> if int (dq_NumRequeues item q) < maxRetries then dq_AddRateLimited now reserve item q
                 else dq_Forget item q)"

text \<open>
  The queue, the keys its workers are busy with and the clock; what happens to
  them: an informer adds a key, a worker takes one, or finishes one while the
  bucket answers a delay, time passes, the waiting loop adds the entry that is
  due first or receives one, the operator shuts down.  The waiting loop ends
  with the shutdown; what it might still do then adds no key.
\<close>

record timed =
  td_q :: delayingType
  td_running :: "string list"
  td_now :: int

datatype queueEvent = EAdded string | ETaken string | EFinished string "error option" int | EPassed int | EFired | EReceived
  | EShutDown

fun happen :: "int \<Rightarrow> nat \<Rightarrow> queueEvent \<Rightarrow> timed \<Rightarrow> timed option" where
  "happen m threads (EAdded k) s = Some (s\<lparr>td_q := wq_Add k (td_q s)\<rparr>)"
| "happen m threads (ETaken k) s =
     (if length (td_running s) < threads \<and> fst (wq_Get (td_q s)) = Item k
      then Some (s\<lparr>td_q := snd (wq_Get (td_q s)), td_running := k # td_running s\<rparr>) else None)"
| "happen m threads (EFinished k err reserve) s =
     (if k \<in> set (td_running s) \<and> reserve \<ge> 0
      then Some (s\<lparr>td_q := finishEntryAt m (td_now s) reserve k err (td_q s), td_running := remove1 k (td_running s)\<rparr>)
      else None)"
| "happen m threads (EPassed d) s = (if d \<ge> 0 then Some (s\<lparr>td_now := td_now s + d\<rparr>) else None)"
| "happen m threads EFired s = map_option (\<lambda>q. s\<lparr>td_q := q\<rparr>) (popReady (td_now s) (td_q s))"
| "happen m threads EReceived s = Some (s\<lparr>td_q := receiveEntry (td_now s) (td_q s)\<rparr>)"
| "happen m threads EShutDown s = Some (s\<lparr>td_q := wq_ShutDown (td_q s)\<rparr>)"

primrec happens :: "int \<Rightarrow> nat \<Rightarrow> queueEvent list \<Rightarrow> timed \<Rightarrow> timed option" where
  "happens m threads [] s = Some s"
| "happens m threads (e # es) s = Option.bind (happen m threads e s) (happens m threads es)"

text \<open>A queue as \<open>queue.New\<close> makes it, at a time.\<close>

definition idleAt :: "int \<Rightarrow> timed" where
  "idleAt now = \<lparr>td_q = NewRateLimitingQueue DefaultControllerRateLimiter, td_running = [], td_now = now\<rparr>"

end
