(* ===== verification/Delay_Theorems.thy ===== *)
theory Delay_Theorems
  imports Delaying_Queue Queue_Theorems
begin

text \<open>
  The delaying queue does what the work queue without times may do, so what
  holds under every interleaving holds for it; it makes a retry no earlier than
  the back-off of its key, and its loop adds exactly the entries that are due.
\<close>

section \<open>The invariant of the delaying queue\<close>

definition keys :: "waitForPriorityQueue \<Rightarrow> string list" where
  "keys pq = map wf_data pq"

definition limiters :: "(string \<Rightarrow> nat) \<Rightarrow> RateLimiter list" where
  "limiters f = [ItemExponential \<lparr>rl_failures = f, rl_baseDelay = 5 * Millisecond, rl_maxDelay = 1000 * Second\<rparr>, Bucket]"

definition wfDelaying :: "delayingType \<Rightarrow> bool" where
  "wfDelaying q \<longleftrightarrow> (\<exists>f. dt_rateLimiter q = limiters f) \<and> wfHeap (dt_waitingForQueue q)
     \<and> distinct (keys (dt_waitingForQueue q)) \<and> dt_waitingEntryByData q = set (keys (dt_waitingForQueue q))"

lemma keys_entries: "mset (keys pq) = image_mset fst (entries pq)"
  by (simp add: keys_def entries_def entry_def multiset.map_comp comp_def)

lemma keys_same: "entries pq = entries pq' \<Longrightarrow> distinct (keys pq) = distinct (keys pq') \<and> set (keys pq) = set (keys pq')"
  by (metis keys_entries mset_eq_imp_distinct_iff mset_eq_setD)

lemma keys_add:
  assumes "entries pq = add_mset (k, t) (entries pq')"
  shows "distinct (keys pq) \<longleftrightarrow> k \<notin> set (keys pq') \<and> distinct (keys pq')" "set (keys pq) = insert k (set (keys pq'))"
proof -
  have "mset (keys pq) = mset (k # keys pq')" using assms by (simp add: keys_entries)
  then show "distinct (keys pq) \<longleftrightarrow> k \<notin> set (keys pq') \<and> distinct (keys pq')" "set (keys pq) = insert k (set (keys pq'))"
    by (metis distinct.simps(2) mset_eq_imp_distinct_iff, metis list.simps(15) mset_eq_setD)
qed

lemma When_limiters:
  "MaxOf_When reserve k 0 (limiters f) =
     (max (min (5 * Millisecond * 2 ^ f k) (1000 * Second)) (max 0 reserve), limiters (f(k := f k + 1)))"
  by (simp add: limiters_def backoff_def Let_def Millisecond_def Second_def)

lemma NumRequeues_limiters [simp]: "MaxOf_NumRequeues k 0 (limiters f) = f k"
  by (simp add: limiters_def Let_def)

lemma Forget_limiters [simp]: "MaxOf_Forget k (limiters f) = limiters (f(k := 0))"
  by (simp add: limiters_def MaxOf_Forget_def)

lemma delay_least: "5 * Millisecond \<le> min (5 * Millisecond * 2 ^ n) (1000 * Second)"
  by (simp add: Millisecond_def Second_def)

section \<open>The operations keep it\<close>

lemma wf_new: "wfDelaying (NewRateLimitingQueue DefaultControllerRateLimiter)"
  by (auto simp: wfDelaying_def NewRateLimitingQueue_def DefaultControllerRateLimiter_def limiters_def
      NewItemExponentialFailureRateLimiter_def keys_def)

lemma wf_wqType:
  assumes "wfDelaying q"
  shows "wfDelaying (wq_Add k q)" "wfDelaying (wq_Done k q)" "wfDelaying (wq_ShutDown q)" "wfDelaying (snd (wq_Get q))"
    "wfDelaying (q\<lparr>dt_waitingForAddCh := ch\<rparr>)"
  using assms by (simp_all add: wfDelaying_def wq_Done_def wq_ShutDown_def wq_Get_def Let_def split: list.splits)

lemma wf_limited:
  assumes "wfDelaying q"
  shows "wfDelaying (dq_AddRateLimited now reserve k q)" "wfDelaying (dq_Forget k q)"
proof -
  from assms obtain f where f: "dt_rateLimiter q = limiters f" by (auto simp: wfDelaying_def)
  with assms show "wfDelaying (dq_AddRateLimited now reserve k q)" "wfDelaying (dq_Forget k q)"
    by (auto simp: wfDelaying_def dq_AddRateLimited_def AddAfter_def dq_Forget_def When_limiters)
qed

lemma wf_finishEntryAt: "wfDelaying q \<Longrightarrow> wfDelaying (finishEntryAt m now reserve k err q)"
  by (simp add: finishEntryAt_def wf_wqType wf_limited split: option.splits)

lemma heapExcept_cong:
  assumes "\<And>c. c < n \<Longrightarrow> c \<noteq> i \<Longrightarrow> at pq c = at pq' c" "heapExcept n i pq"
  shows "heapExcept n i pq'"
proof -
  have "parent c < n \<and> parent c \<noteq> c" if "0 < c" "c < n" for c using parent_less[OF that(1)] that(2) by linarith
  with assms show ?thesis unfolding heapExcept_def by metis
qed

text \<open>Making an entry due earlier in place is repaired by \<open>Fix\<close> at the position the entry records.\<close>

definition retime :: "string \<Rightarrow> int \<Rightarrow> waitForPriorityQueue \<Rightarrow> waitForPriorityQueue" where
  "retime k t pq = map (\<lambda>w. if wf_data w = k then w\<lparr>wf_readyAt := t\<rparr> else w) pq"

lemma keys_retime [simp]: "keys (retime k t pq) = keys pq"
  by (simp add: keys_def retime_def)

lemma wfHeap_retime:
  assumes "wfHeap pq" "distinct (keys pq)" "List.find (\<lambda>w. wf_data w = k) pq = Some e"
  shows "wfHeap (heap_Fix (nat (wf_index e)) (retime k t pq))"
    "entries (heap_Fix (nat (wf_index e)) (retime k t pq)) = entries (retime k t pq)"
proof -
  from assms(3) obtain i where i: "i < length pq" "pq ! i = e" "wf_data e = k"
    by (auto simp: find_Some_iff)
  with assms(1) have ix: "nat (wf_index e) = i" by (auto simp: wfHeap_def wfIndex_def)
  have "wf_data (pq ! c) \<noteq> k" if "c < length pq" "c \<noteq> i" for c
    using assms(2) i that nth_eq_iff_index_eq[of "keys pq" c i] by (auto simp: keys_def)
  then have "at pq c = at (retime k t pq) c" if "c < length pq" "c \<noteq> i" for c
    using that by (simp add: at_def retime_def)
  then have "heapExcept (length pq) i (retime k t pq)"
    using heapExcept_cong heap_parts(1) assms(1) unfolding wfHeap_def by blast
  moreover have "wfIndex (retime k t pq)" using assms(1) by (auto simp: wfHeap_def wfIndex_def retime_def)
  ultimately show "wfHeap (heap_Fix (nat (wf_index e)) (retime k t pq))"
    "entries (heap_Fix (nat (wf_index e)) (retime k t pq)) = entries (retime k t pq)"
    using wfHeap_Fix[of "retime k t pq" i] i(1) by (simp_all add: ix retime_def)
qed

lemma known_found:
  assumes "wfDelaying q" "k \<in> dt_waitingEntryByData q"
  shows "\<exists>e. List.find (\<lambda>w. wf_data w = k) (dt_waitingForQueue q) = Some e"
  using assms by (auto simp: wfDelaying_def keys_def find_None_iff simp flip: not_None_eq)

lemma insertEntry_cases:
  assumes "wfDelaying q"
  obtains (new) "wf_data e \<notin> dt_waitingEntryByData q"
      "insertEntry e q = q\<lparr>dt_waitingForQueue := heap_Push e (dt_waitingForQueue q),
        dt_waitingEntryByData := insert (wf_data e) (dt_waitingEntryByData q)\<rparr>"
    | (later) "wf_data e \<in> dt_waitingEntryByData q" "insertEntry e q = q"
    | (sooner) x where "wf_data e \<in> dt_waitingEntryByData q"
        "List.find (\<lambda>w. wf_data w = wf_data e) (dt_waitingForQueue q) = Some x"
        "insertEntry e q = q\<lparr>dt_waitingForQueue :=
           heap_Fix (nat (wf_index x)) (retime (wf_data e) (wf_readyAt e) (dt_waitingForQueue q))\<rparr>"
proof (cases "wf_data e \<in> dt_waitingEntryByData q")
  case True
  with known_found[OF assms] obtain x where "List.find (\<lambda>w. wf_data w = wf_data e) (dt_waitingForQueue q) = Some x" by blast
  with True show thesis
    by (cases "wf_readyAt x > wf_readyAt e") (auto intro: that simp: insertEntry_def retime_def)
qed (auto intro: that simp: insertEntry_def)

lemma wf_insertEntry:
  assumes "wfDelaying q"
  shows "wfDelaying (insertEntry e q)"
  using assms
proof (cases rule: insertEntry_cases[where e = e])
  case new
  note push = wait_heap.push_invar[of "dt_waitingForQueue q" e] wait_heap.push_bag[of "dt_waitingForQueue q" e]
  from assms new push keys_add[of "heap_Push e (dt_waitingForQueue q)" "wf_data e" "wf_readyAt e"]
  show ?thesis by (auto simp: wfDelaying_def entry_def)
next
  case (sooner x)
  let ?h = "dt_waitingForQueue q" and ?r = "retime (wf_data e) (wf_readyAt e) (dt_waitingForQueue q)"
  have "wfHeap ?h" "distinct (keys ?h)" using assms by (simp_all add: wfDelaying_def)
  note fix' = wfHeap_retime[OF this sooner(2), of "wf_readyAt e"]
  from assms fix'(1) keys_same[OF fix'(2)] sooner(3) show ?thesis by (simp add: wfDelaying_def)
qed (simp add: assms)

lemma wf_receive: "wfDelaying q \<Longrightarrow> wfDelaying (receiveEntry now q)"
  by (simp add: receiveEntry_def wf_wqType wf_insertEntry Let_def split: list.splits)

text \<open>What one turn of the loop over the due entries does.\<close>

lemma popReady_Some:
  assumes "wfDelaying q" "popReady now q = Some q'"
  obtains k t pq where "t \<le> now" "k \<in> dt_waitingEntryByData q" "\<forall>(j, u) \<in># entries (dt_waitingForQueue q). t \<le> u"
    "entries (dt_waitingForQueue q) = add_mset (k, t) (entries pq)" "wfHeap pq"
    "q' = wq_Add k (q\<lparr>dt_waitingForQueue := pq, dt_waitingEntryByData := dt_waitingEntryByData q - {k}\<rparr>)"
proof -
  let ?h = "dt_waitingForQueue q"
  obtain w pq where pop: "heap_Pop ?h = (w, pq)" by (cases "heap_Pop ?h")
  from assms(2) have h: "entries ?h \<noteq> {#}" "wf_readyAt (pq_Peek ?h) \<le> now" by (auto simp: popReady_def split: if_splits)
  from assms(1) have wf: "wfHeap ?h" "dt_waitingEntryByData q = set (keys ?h)" by (simp_all add: wfDelaying_def)
  note least = wait_heap.pop_least[OF wf(1) h(1) pop]
  have e: "entries ?h = add_mset (wf_data w, wf_readyAt w) (entries pq)"
    using wait_heap.pop_bag[OF wf(1) h(1) pop] by (simp add: entry_def)
  show thesis
  proof (rule that[OF _ _ _ e wait_heap.pop_invar[OF wf(1) h(1) pop]])
    show "wf_readyAt w \<le> now" using h(2) least(1) by simp
    show "\<forall>(k, t) \<in># entries ?h. wf_readyAt w \<le> t" using least(2) by blast
    show "wf_data w \<in> dt_waitingEntryByData q" using keys_add[OF e] wf(2) by simp
    show "q' = wq_Add (wf_data w) (q\<lparr>dt_waitingForQueue := pq, dt_waitingEntryByData := dt_waitingEntryByData q - {wf_data w}\<rparr>)"
      using assms(2) h pop by (cases q) (auto simp: popReady_def Let_def wq_Add_def)
  qed
qed

lemma popReady_None: "wfDelaying q \<Longrightarrow> popReady now q = None \<longleftrightarrow> (\<forall>(k, t) \<in># entries (dt_waitingForQueue q). now < t)"
  using wait_heap.due_iff[of "dt_waitingForQueue q" now]
  by (cases "dt_waitingForQueue q = []") (auto simp: popReady_def wfDelaying_def entries_def Let_def split: prod.splits)

lemma wf_popReady:
  assumes "wfDelaying q" "popReady now q = Some q'"
  shows "wfDelaying q'"
  using assms
proof (cases rule: popReady_Some)
  case (1 k t pq)
  from keys_add[OF 1(4)] assms(1) 1(5) have "wfDelaying (q\<lparr>dt_waitingForQueue := pq, dt_waitingEntryByData := dt_waitingEntryByData q - {k}\<rparr>)"
    by (auto simp: wfDelaying_def)
  with 1(6) show ?thesis by (simp add: wf_wqType)
qed

lemma wf_happen:
  assumes "happen m threads e s = Some s'" "wfDelaying (td_q s)"
  shows "wfDelaying (td_q s')"
  using assms by (cases e) (auto simp: wf_wqType wf_finishEntryAt wf_receive wf_popReady split: if_splits)

lemma wf_happens: "happens m threads es s = Some s' \<Longrightarrow> wfDelaying (td_q s) \<Longrightarrow> wfDelaying (td_q s')"
  by (induction es arbitrary: s) (auto simp: bind_eq_Some_conv dest: wf_happen)

lemma wf_idleAt [simp]: "wfDelaying (td_q (idleAt now))"
  by (simp add: idleAt_def wf_new)


section \<open>Without the times\<close>

text \<open>The queue that is left when the times are forgotten.\<close>

definition untimed :: "delayingType \<Rightarrow> workqueue" where
  "untimed q = \<lparr>wq_queue = wq_queue q, wq_dirty = wq_dirty q, wq_processing = wq_processing q,
     wq_shuttingDown = wq_shuttingDown q, wq_waitingForAddCh = map wf_data (dt_waitingForAddCh q),
     wq_waitingEntryByData = dt_waitingEntryByData q, wq_failures = (\<lambda>k. dq_NumRequeues k q)\<rparr>"

definition untimedWorkers :: "timed \<Rightarrow> workers" where
  "untimedWorkers s = \<lparr>ws_q = untimed (td_q s), ws_running = td_running s\<rparr>"

lemma untimed_wqType:
  "untimed (wq_Add k q) = wq_Add k (untimed q)" "untimed (wq_Done k q) = wq_Done k (untimed q)"
  "untimed (wq_ShutDown q) = wq_ShutDown (untimed q)"
  "wq_Get (untimed q) = (fst (wq_Get q), untimed (snd (wq_Get q)))"
  by (simp_all add: untimed_def wq_Add_def wq_Done_def wq_ShutDown_def wq_Get_def dq_NumRequeues_def Let_def split: list.splits)

lemma untimed_limited:
  assumes "wfDelaying q"
  shows "untimed (dq_Forget k q) = wq_Forget k (untimed q)"
    "untimed (dq_AddRateLimited now reserve k q) = wq_AddRateLimited k (untimed q)"
proof -
  from assms obtain f where f: "dt_rateLimiter q = limiters f" by (auto simp: wfDelaying_def)
  have d: "\<not> max (min (5 * Millisecond * 2 ^ f k) (1000 * Second)) (max 0 reserve) \<le> 0"
    unfolding not_le less_max_iff_disj by (rule disjI1, rule less_le_trans[OF _ delay_least]) (simp add: Millisecond_def)
  from f show "untimed (dq_Forget k q) = wq_Forget k (untimed q)"
    by (auto simp: untimed_def dq_Forget_def wq_Forget_def dq_NumRequeues_def)
  from f d show "untimed (dq_AddRateLimited now reserve k q) = wq_AddRateLimited k (untimed q)"
    by (auto simp: untimed_def dq_AddRateLimited_def AddAfter_def wq_AddRateLimited_def dq_NumRequeues_def When_limiters)
qed

lemma untimed_finish:
  "wfDelaying q \<Longrightarrow> untimed (finishEntryAt m now reserve k err q) = finishEntry m k err (untimed q)"
  by (simp add: finishEntryAt_def finishEntry_def untimed_wqType untimed_limited split: option.splits)
     (simp add: wq_NumRequeues_def untimed_def)

lemma untimed_receive:
  assumes "wfDelaying q"
  shows "untimed (receiveEntry now q) = waitingLoop_receive (list_all (\<lambda>e. wf_readyAt e \<le> now) (take 1 (dt_waitingForAddCh q))) (untimed q)"
proof (cases "dt_waitingForAddCh q")
  case (Cons e rest)
  let ?q = "q\<lparr>dt_waitingForAddCh := rest\<rparr>"
  have wf: "wfDelaying ?q" using assms by (simp add: wf_wqType)
  have "untimed (insertEntry e ?q) = (untimed ?q)\<lparr>wq_waitingEntryByData := insert (wf_data e) (dt_waitingEntryByData q)\<rparr>"
    by (cases rule: insertEntry_cases[OF wf, where e = e]) (simp_all add: untimed_def dq_NumRequeues_def insert_absorb)
  moreover have "untimed ?q = (untimed q)\<lparr>wq_waitingForAddCh := map wf_data rest\<rparr>"
    by (simp add: untimed_def dq_NumRequeues_def)
  ultimately show ?thesis using Cons
    by (simp add: receiveEntry_def waitingLoop_receive_def untimed_wqType Let_def) (simp add: untimed_def)
qed (simp add: receiveEntry_def waitingLoop_receive_def untimed_def)

lemma untimed_popReady:
  assumes "wfDelaying q" "popReady now q = Some q'"
  shows "\<exists>k \<in> wq_waitingEntryByData (untimed q). untimed q' = waitingLoop_fire k (untimed q)"
  using assms
proof (cases rule: popReady_Some)
  case (1 k t pq)
  have "untimed q' = waitingLoop_fire k (untimed q)"
    by (simp add: 1(6) untimed_wqType waitingLoop_fire_def Let_def) (simp add: untimed_def dq_NumRequeues_def wq_Add_def Let_def)
  with 1(2) show ?thesis by (auto simp: untimed_def)
qed

text \<open>The steps that are not the waiting loop's, and those an event amounts to.\<close>

fun isOuter :: "step \<Rightarrow> bool" where
  "isOuter (Received r) = False"
| "isOuter (Fired k) = False"
| "isOuter l = True"

fun outerSteps :: "queueEvent \<Rightarrow> step list" where
  "outerSteps (EAdded k) = [Added k]"
| "outerSteps (ETaken k) = [Taken k]"
| "outerSteps (EFinished k err reserve) = [Finished k err]"
| "outerSteps EShutDown = [ShutDown]"
| "outerSteps e = []"

lemma untimed_happen:
  assumes "happen m threads e s = Some s'" "wfDelaying (td_q s)"
  shows "\<exists>ls. doSteps m threads ls (untimedWorkers s) = Some (untimedWorkers s') \<and> filter isOuter ls = outerSteps e"
proof (cases e)
  case EFired
  with assms obtain q' where q': "popReady (td_now s) (td_q s) = Some q'" "s' = s\<lparr>td_q := q'\<rparr>" by auto
  with untimed_popReady[OF assms(2) q'(1)] obtain k where
    "k \<in> wq_waitingEntryByData (untimed (td_q s))" "untimed (td_q s') = waitingLoop_fire k (untimed (td_q s))"
    "td_running s' = td_running s" by auto
  with EFired show ?thesis by (intro exI[of _ "[Fired k]"]) (simp add: untimedWorkers_def)
next
  case EReceived
  with assms show ?thesis
    by (intro exI[of _ "[Received (list_all (\<lambda>e. wf_readyAt e \<le> td_now s) (take 1 (dt_waitingForAddCh (td_q s))))]"])
       (auto simp: untimedWorkers_def untimed_receive)
next
  case (EPassed d)
  with assms show ?thesis by (intro exI[of _ "[]"]) (auto simp: untimedWorkers_def split: if_splits)
qed (use assms in \<open>intro exI[of _ "outerSteps e"], auto simp: untimedWorkers_def untimed_wqType untimed_finish split: if_splits\<close>)+

lemma untimed_happens:
  "happens m threads es s = Some s' \<Longrightarrow> wfDelaying (td_q s)
    \<Longrightarrow> \<exists>ls. qsteps m threads (untimedWorkers s) ls (untimedWorkers s') \<and> filter isOuter ls = concat (map outerSteps es)"
proof (induction es arbitrary: s)
  case (Cons e es)
  then obtain s1 where s1: "happen m threads e s = Some s1" "happens m threads es s1 = Some s'"
    by (auto simp: bind_eq_Some_conv)
  from untimed_happen[OF s1(1) Cons(3)] obtain ls1 where
    ls1: "doSteps m threads ls1 (untimedWorkers s) = Some (untimedWorkers s1)" "filter isOuter ls1 = outerSteps e" by blast
  from Cons(1)[OF s1(2) wf_happen[OF s1(1) Cons(3)]] obtain ls2 where
    ls2: "qsteps m threads (untimedWorkers s1) ls2 (untimedWorkers s')" "filter isOuter ls2 = concat (map outerSteps es)" by blast
  have "doSteps m threads (ls1 @ ls2) (untimedWorkers s) = Some (untimedWorkers s')"
    using ls1(1) ls2(1) by (simp add: doSteps_append doSteps_iff)
  then have "qsteps m threads (untimedWorkers s) (ls1 @ ls2) (untimedWorkers s')" by (simp add: doSteps_iff)
  with ls1(2) ls2(2) show ?case by (intro exI[of _ "ls1 @ ls2"]) simp
qed (auto intro: qsteps.none)

lemma untimed_idle [simp]: "untimedWorkers (idleAt t) = idle"
  by (simp add: untimedWorkers_def idleAt_def untimed_def idle_def newQueue_def NewRateLimitingQueue_def
      DefaultControllerRateLimiter_def dq_NumRequeues_def NewItemExponentialFailureRateLimiter_def)

text \<open>So a key is taken as often with times as without.\<close>

lemma count_outer:
  assumes "filter isOuter ls = concat (map outerSteps es)"
  shows "count_list ls (Taken k) = count_list es (ETaken k)" "Added k \<in> set ls \<longleftrightarrow> EAdded k \<in> set es"
proof -
  have "count_list ls (Taken k) = count_list (filter isOuter ls) (Taken k)" by (induction ls) auto
  moreover have "count_list (outerSteps e) (Taken k) = of_bool (e = ETaken k)" for e by (cases e) auto
  then have "count_list (concat (map outerSteps es)) (Taken k) = count_list es (ETaken k)" by (induction es) auto
  ultimately show "count_list ls (Taken k) = count_list es (ETaken k)" using assms by simp
  have "Added k \<in> set ls \<longleftrightarrow> Added k \<in> set (filter isOuter ls)" by auto
  moreover have "Added k \<in> set (outerSteps e) \<longleftrightarrow> e = EAdded k" for e by (cases e) auto
  ultimately show "Added k \<in> set ls \<longleftrightarrow> EAdded k \<in> set es" using assms by simp
qed

lemma timed_added_once_bound:
  assumes reach: "happens m threads es0 (idleAt t) = Some s" and run: "happens m threads (EAdded k # es) s = Some s'"
    and once: "EAdded k \<notin> set es" and none: "toCome k (untimedWorkers s) + busy k (untimedWorkers s) = 0"
  shows "count_list es (ETaken k) \<le> Suc (nat m)" "length (td_running s') \<le> threads"
proof -
  let ?s1 = "s\<lparr>td_q := wq_Add k (td_q s)\<rparr>"
  from run have run1: "happens m threads es ?s1 = Some s'" by simp
  from untimed_happens[OF reach] obtain ls0 where ls0: "qsteps m threads idle ls0 (untimedWorkers s)" by auto
  have "wfDelaying (td_q ?s1)" using wf_happens[OF reach] by (simp add: wf_wqType)
  from untimed_happens[OF run1 this] obtain ls where
    ls: "qsteps m threads (untimedWorkers ?s1) ls (untimedWorkers s')" "filter isOuter ls = concat (map outerSteps es)" by blast
  have "untimedWorkers ?s1 = (untimedWorkers s)\<lparr>ws_q := wq_Add k (ws_q (untimedWorkers s))\<rparr>"
    by (simp add: untimedWorkers_def untimed_wqType)
  then have "qstep m threads (untimedWorkers s) (Added k) (untimedWorkers ?s1)" by (simp add: qstep.added)
  then have run2: "qsteps m threads (untimedWorkers s) (Added k # ls) (untimedWorkers s')" using ls(1) by (rule qsteps.more)
  from added_once_bound[OF ls0 run2 _ none] once count_outer[OF ls(2)]
  show "count_list es (ETaken k) \<le> Suc (nat m)" by simp
  from wf_steps[OF run2 wf_steps[OF ls0 wf_idle]] show "length (td_running s') \<le> threads"
    by (simp add: wfWorkers_def untimedWorkers_def)
qed

text \<open>C10: whatever happens to a queue with its rate limiters, heap of waiting entries and clock, the
  queue without the times may do: the informers, workers and the shutdown act as they did, and the
  waiting loop receives and adds keys in between.\<close>

theorem delaying_queue_refines_queue:
  assumes "happens m threads es (idleAt t) = Some s"
  shows "\<exists>ls. qsteps m threads idle ls (untimedWorkers s) \<and> filter isOuter ls = concat (map outerSteps es)"
  using untimed_happens[OF assms] by simp


theorem delaying_queue_refines_queue_witness:
  "\<exists>s ls. happens 5 2 [EAdded ''demo/req'', ETaken ''demo/req''] (idleAt 0) = Some s
     \<and> qsteps 5 2 idle ls (untimedWorkers s) \<and> filter isOuter ls = [Added ''demo/req'', Taken ''demo/req'']"
proof -
  have "happens 5 2 [EAdded ''demo/req'', ETaken ''demo/req''] (idleAt 0) \<noteq> None" by code_simp
  then obtain s where s: "happens 5 2 [EAdded ''demo/req'', ETaken ''demo/req''] (idleAt 0) = Some s" by blast
  from delaying_queue_refines_queue[OF s] s show ?thesis by auto
qed


section \<open>The entries that are due\<close>

text \<open>Adding keys one after the other, and forgetting that they wait.\<close>

definition addAll :: "(string \<times> int) list \<Rightarrow> delayingType \<Rightarrow> delayingType" where
  "addAll due q = fold (\<lambda>(k, t). wq_Add k) due q"

lemma Add_heap: "(wq_Add k q)\<lparr>dt_waitingForQueue := pq, dt_waitingEntryByData := ks\<rparr>
    = wq_Add k (q\<lparr>dt_waitingForQueue := pq, dt_waitingEntryByData := ks\<rparr>)"
  by (cases q) (simp add: wq_Add_def Let_def)

lemma addAll_heap: "(addAll due q)\<lparr>dt_waitingForQueue := pq, dt_waitingEntryByData := ks\<rparr>
    = addAll due (q\<lparr>dt_waitingForQueue := pq, dt_waitingEntryByData := ks\<rparr>)"
  unfolding addAll_def by (induction due arbitrary: q) (auto simp: Add_heap)

lemma addAll_again:
  "addAll due (q\<lparr>dt_waitingForQueue := pq, dt_waitingEntryByData := ks\<rparr>)
     \<lparr>dt_waitingForQueue := pq', dt_waitingEntryByData := ks'\<rparr>
    = (addAll due q)\<lparr>dt_waitingForQueue := pq', dt_waitingEntryByData := ks'\<rparr>"
  by (simp add: addAll_heap)

lemma addReady_due:
  assumes "wfDelaying q"
  shows "\<exists>due. mset due = filter_mset (\<lambda>(k, t). t \<le> now) (entries (dt_waitingForQueue q)) \<and> sorted (map snd due)
     \<and> entries (dt_waitingForQueue (addReady now q)) = filter_mset (\<lambda>(k, t). now < t) (entries (dt_waitingForQueue q))
     \<and> addReady now q = (addAll due q)\<lparr>dt_waitingForQueue := dt_waitingForQueue (addReady now q),
          dt_waitingEntryByData := set (keys (dt_waitingForQueue (addReady now q)))\<rparr>"
  using assms
proof (induction now q rule: addReady.induct)
  case (1 now q)
  show ?case
  proof (cases "popReady now q")
    case None
    then have eq: "addReady now q = q" by (simp add: addReady.simps)
    from None popReady_None[OF 1(2)] have "\<forall>(k, t) \<in># entries (dt_waitingForQueue q). now < t" by blast
    then have "filter_mset (\<lambda>(k, t). t \<le> now) (entries (dt_waitingForQueue q)) = {#}"
      "filter_mset (\<lambda>(k, t). now < t) (entries (dt_waitingForQueue q)) = entries (dt_waitingForQueue q)"
      by (auto simp: filter_mset_eq_conv)
    with eq 1(2) show ?thesis by (intro exI[of _ "[]"]) (simp add: addAll_def wfDelaying_def)
  next
    case (Some q1)
    then have eq: "addReady now q = addReady now q1" by (simp add: addReady.simps)
    obtain k t pq where pop: "t \<le> now" "k \<in> dt_waitingEntryByData q"
      "\<forall>(j, u) \<in># entries (dt_waitingForQueue q). t \<le> u" "entries (dt_waitingForQueue q) = add_mset (k, t) (entries pq)"
      "wfHeap pq"
      "q1 = wq_Add k (q\<lparr>dt_waitingForQueue := pq, dt_waitingEntryByData := dt_waitingEntryByData q - {k}\<rparr>)"
      by (rule popReady_Some[OF 1(2) Some])
    from 1(1)[OF Some wf_popReady[OF 1(2) Some]] obtain due where due:
      "mset due = filter_mset (\<lambda>(k, t). t \<le> now) (entries pq)" "sorted (map snd due)"
      "entries (dt_waitingForQueue (addReady now q1)) = filter_mset (\<lambda>(k, t). now < t) (entries pq)"
      "addReady now q1 = (addAll due q1)\<lparr>dt_waitingForQueue := dt_waitingForQueue (addReady now q1),
          dt_waitingEntryByData := set (keys (dt_waitingForQueue (addReady now q1)))\<rparr>" by (auto simp: pop(6))
    have "t \<le> u" if "(j, u) \<in> set due" for j u
    proof -
      have "(j, u) \<in># entries (dt_waitingForQueue q)"
        using that arg_cong[OF due(1), of set_mset] by (auto simp: pop(4))
      with pop(3) show ?thesis by blast
    qed
    then have "sorted (map snd ((k, t) # due))" using due(2) by auto
    moreover have "addAll due q1 = addAll ((k, t) # due) (q\<lparr>dt_waitingForQueue := pq, dt_waitingEntryByData := dt_waitingEntryByData q - {k}\<rparr>)"
      by (simp add: addAll_def pop(6))
    then have "addReady now q1 = (addAll ((k, t) # due) q)\<lparr>dt_waitingForQueue := dt_waitingForQueue (addReady now q1),
          dt_waitingEntryByData := set (keys (dt_waitingForQueue (addReady now q1)))\<rparr>"
      using due(4) by (metis addAll_again)
    ultimately show ?thesis using due(1,3) pop(1,4) by (intro exI[of _ "(k, t) # due"]) (simp add: eq)
  qed
qed


section \<open>The back-off\<close>

text \<open>Key \<open>k\<close> is not to be worked on before \<open>T\<close>, unless it is added anew.\<close>

definition quiet :: "int \<Rightarrow> string \<Rightarrow> timed \<Rightarrow> bool" where
  "quiet T k s \<longleftrightarrow> k \<notin> wq_dirty (td_q s) \<and> k \<notin> set (td_running s)
     \<and> (\<forall>w \<in> set (dt_waitingForAddCh (td_q s)). wf_data w = k \<longrightarrow> T \<le> wf_readyAt w)
     \<and> (\<forall>t. (k, t) \<in># entries (dt_waitingForQueue (td_q s)) \<longrightarrow> T \<le> t)"

lemma insertEntry_entries:
  assumes "wfDelaying q" "(j, t) \<in># entries (dt_waitingForQueue (insertEntry e q))"
  shows "(j, t) \<in># entries (dt_waitingForQueue q) \<or> (j, t) = entry e"
  using assms(1)
proof (cases rule: insertEntry_cases[where e = e])
  case new
  have "wfHeap (dt_waitingForQueue q)" using assms(1) by (simp add: wfDelaying_def)
  with new assms(2) wait_heap.push_bag show ?thesis by auto
next
  case (sooner x)
  have "wfHeap (dt_waitingForQueue q)" "distinct (keys (dt_waitingForQueue q))" using assms(1) by (simp_all add: wfDelaying_def)
  with sooner wfHeap_retime(2) assms(2) have "(j, t) \<in># entries (retime (wf_data e) (wf_readyAt e) (dt_waitingForQueue q))" by simp
  then show ?thesis by (auto simp: entries_def retime_def entry_def image_iff split: if_splits)
qed (use assms in auto)

lemma insertEntry_fields [simp]:
  "wq_dirty (insertEntry e q) = wq_dirty q" "dt_waitingForAddCh (insertEntry e q) = dt_waitingForAddCh q"
  by (simp_all add: insertEntry_def split: option.splits)

lemma dirty_Add: "wq_dirty (wq_Add k q) \<subseteq> insert k (wq_dirty q)"
  by (auto simp: wq_Add_def Let_def)

lemma quiet_receive:
  assumes "wfDelaying (td_q s)" "quiet T k s" "td_now s < T"
  shows "quiet T k (s\<lparr>td_q := receiveEntry (td_now s) (td_q s)\<rparr>)"
proof (cases "dt_waitingForAddCh (td_q s)")
  case (Cons e rest)
  let ?q = "(td_q s)\<lparr>dt_waitingForAddCh := rest\<rparr>"
  have e: "wf_data e = k \<Longrightarrow> T \<le> wf_readyAt e" using assms(2) Cons by (simp add: quiet_def)
  show ?thesis
  proof (cases "wf_readyAt e > td_now s")
    case True
    have "wfDelaying ?q" using assms(1) by (simp add: wf_wqType)
    with insertEntry_entries[OF this, of k _ e] True assms(2) Cons e show ?thesis
      by (auto simp: quiet_def receiveEntry_def entry_def)
  next
    case False
    with e assms(3) have "wf_data e \<noteq> k" by auto
    with False assms(2) Cons dirty_Add[of "wf_data e" ?q] show ?thesis by (auto simp: quiet_def receiveEntry_def)
  qed
qed (use assms(2) in \<open>simp add: quiet_def receiveEntry_def\<close>)

lemma quiet_fired:
  assumes "wfDelaying (td_q s)" "quiet T k s" "td_now s < T" "popReady (td_now s) (td_q s) = Some q'"
  shows "quiet T k (s\<lparr>td_q := q'\<rparr>)"
  using assms(1,4)
proof (cases rule: popReady_Some)
  case (1 j t pq)
  from assms(2,3) 1(1,4) have "j \<noteq> k" by (auto simp: quiet_def)
  with assms(2) 1(4,6) dirty_Add[of j "(td_q s)\<lparr>dt_waitingForQueue := pq, dt_waitingEntryByData := dt_waitingEntryByData (td_q s) - {j}\<rparr>"]
  show ?thesis by (auto simp: quiet_def)
qed

lemma quiet_finished:
  assumes "quiet T k s" "j \<noteq> k"
  shows "quiet T k (s\<lparr>td_q := finishEntryAt m now reserve j err (td_q s), td_running := remove1 j (td_running s)\<rparr>)"
proof -
  have "k \<notin> set (remove1 j (td_running s))" using assms(1) notin_set_remove1 by (fastforce simp: quiet_def)
  with assms show ?thesis
    by (auto simp: quiet_def finishEntryAt_def wq_Done_def dq_Forget_def dq_AddRateLimited_def AddAfter_def Let_def
        split: option.splits prod.splits if_splits dest!: subsetD[OF dirty_Add])
qed

lemma quiet_happen:
  assumes "happen m threads e s = Some s'" "wfDelaying (td_q s)" "wfWorkers threads (untimedWorkers s)"
    "quiet T k s" "e \<noteq> EAdded k" "td_now s < T"
  shows "quiet T k s' \<and> e \<noteq> ETaken k"
proof (cases e)
  case (EAdded j)
  with assms dirty_Add[of j "td_q s"] show ?thesis by (auto simp: quiet_def)
next
  case (ETaken j)
  have "set (wq_queue (td_q s)) \<subseteq> wq_dirty (td_q s)" using assms(3) by (auto simp: wfWorkers_def untimedWorkers_def untimed_def)
  with assms ETaken show ?thesis by (auto simp: quiet_def wq_Get_def split: list.splits if_splits)
next
  case (EFinished j err reserve)
  with assms have "j \<noteq> k" by (auto simp: quiet_def split: if_splits)
  with quiet_finished[OF assms(4)] EFinished assms(1) show ?thesis by (auto split: if_splits)
next
  case EFired
  with assms quiet_fired[OF assms(2,4,6)] show ?thesis by auto
next
  case EReceived
  with assms quiet_receive[OF assms(2,4,6)] show ?thesis by auto
qed (use assms in \<open>auto simp: quiet_def wq_ShutDown_def split: if_splits\<close>)

lemma wfWorkers_happens:
  "happens m threads es (idleAt t) = Some s \<Longrightarrow> wfDelaying (td_q s) \<and> wfWorkers threads (untimedWorkers s)"
  using untimed_happens[of m threads es "idleAt t" s] wf_happens[of m threads es "idleAt t" s]
  by (auto dest: wf_steps[OF _ wf_idle])

lemma happens_append: "happens m threads (es @ es') s = Option.bind (happens m threads es s) (happens m threads es')"
  by (induction es arbitrary: s) (simp_all split: bind_split)

lemma now_happens: "happens m threads es s = Some s' \<Longrightarrow> td_now s \<le> td_now s'"
proof (induction es arbitrary: s)
  case (Cons e es)
  then obtain s1 where s1: "happen m threads e s = Some s1" "happens m threads es s1 = Some s'" by (auto simp: bind_eq_Some_conv)
  from s1(1) have "td_now s \<le> td_now s1" by (cases e) (auto split: if_splits)
  with Cons(1)[OF s1(2)] show ?case by simp
qed simp

lemma quiet_happens:
  assumes "happens m threads es0 (idleAt t) = Some s" "happens m threads es s = Some s'" "quiet T k s"
    "EAdded k \<notin> set es" "ETaken k \<in> set es"
  shows "T \<le> td_now s'"
  using assms
proof (induction es arbitrary: s es0)
  case (Cons e es)
  then obtain s1 where s1: "happen m threads e s = Some s1" "happens m threads es s1 = Some s'" by (auto simp: bind_eq_Some_conv)
  have run: "happens m threads (es0 @ [e]) (idleAt t) = Some s1" using Cons(2) s1(1) by (simp add: happens_append)
  show ?case
  proof (cases "td_now s < T")
    case True
    have "quiet T k s1 \<and> e \<noteq> ETaken k"
      using quiet_happen[OF s1(1) _ _ Cons(4) _ True] wfWorkers_happens[OF Cons(2)] Cons(5) by auto
    with Cons(1)[OF run s1(2)] Cons(5,6) show ?thesis by auto
  qed (use now_happens[OF Cons(3)] in linarith)
qed simp

text \<open>A worker done with a failed key, none of whose additions is to come, leaves it quiet.\<close>

lemma quiet_failed:
  assumes "happens m threads es (idleAt t) = Some s" "happen m threads (EFinished k (Some err) reserve) s = Some s1"
    "toCome k (untimedWorkers s) = 0"
    and T: "int (dq_NumRequeues k (td_q s)) < m
      \<Longrightarrow> T \<le> td_now s + min (5 * Millisecond * 2 ^ dq_NumRequeues k (td_q s)) (1000 * Second)"
  shows "quiet T k s1"
proof -
  note wf = wfWorkers_happens[OF assms(1)]
  from wf obtain f where f: "dt_rateLimiter (td_q s) = limiters f" by (auto simp: wfDelaying_def)
  then have n: "dq_NumRequeues k (td_q s) = f k" by (simp add: dq_NumRequeues_def)
  from assms(3) have none: "k \<notin> wq_dirty (td_q s)" "k \<notin> wf_data ` set (dt_waitingForAddCh (td_q s))"
    "k \<notin> dt_waitingEntryByData (td_q s)"
    by (auto simp: toCome_def untimedWorkers_def untimed_def count_list_0_iff)
  then have heap: "(k, u) \<notin># entries (dt_waitingForQueue (td_q s))" for u
    using wf by (auto simp: wfDelaying_def keys_def entries_def entry_def)
  have run: "k \<notin> set (remove1 k (td_running s))" using wf by (simp add: wfWorkers_def untimedWorkers_def)
  have d: "0 < min (5 * Millisecond * 2 ^ f k) (1000 * Second)"
    by (rule less_le_trans[OF _ delay_least]) (simp add: Millisecond_def)
  have s1: "s1 = s\<lparr>td_q := finishEntryAt m (td_now s) reserve k (Some err) (td_q s), td_running := remove1 k (td_running s)\<rparr>"
    using assms(2) by (auto split: if_splits)
  show ?thesis
  proof (cases "int (f k) < m")
    case True
    with T n have "T \<le> td_now s + max (min (5 * Millisecond * 2 ^ f k) (1000 * Second)) (max 0 reserve)" by simp
    with True d none heap run n f show ?thesis
      by (auto simp: s1 quiet_def finishEntryAt_def wq_Done_def dq_AddRateLimited_def AddAfter_def When_limiters Let_def)
  next
    case False
    with none heap run n show ?thesis
      by (auto simp: s1 quiet_def finishEntryAt_def wq_Done_def dq_Forget_def Let_def)
  qed
qed

text \<open>C11: once a worker has failed on a key with no other addition to come, the key is worked on
  again, unless an informer adds it, only if it has retries left and no earlier than five milliseconds
  doubled for every failure counted, up to a thousand seconds.  The loop over the waiting entries adds
  exactly those that are due, the earliest first, and keeps the others.\<close>

theorem backoff_is_kept:
  assumes "happens m threads es0 (idleAt t) = Some s"
  shows "(\<forall>k err reserve s1 es s2. happen m threads (EFinished k (Some err) reserve) s = Some s1
        \<and> toCome k (untimedWorkers s) = 0
        \<and> happens m threads es s1 = Some s2 \<and> EAdded k \<notin> set es \<and> ETaken k \<in> set es
      \<longrightarrow> int (dq_NumRequeues k (td_q s)) < m
        \<and> td_now s + min (5 * Millisecond * 2 ^ dq_NumRequeues k (td_q s)) (1000 * Second) \<le> td_now s2)
    \<and> (\<exists>due. mset due = filter_mset (\<lambda>(k, t). t \<le> td_now s) (entries (dt_waitingForQueue (td_q s)))
        \<and> sorted (map snd due)
        \<and> entries (dt_waitingForQueue (addReady (td_now s) (td_q s)))
            = filter_mset (\<lambda>(k, t). td_now s < t) (entries (dt_waitingForQueue (td_q s)))
        \<and> addReady (td_now s) (td_q s) = (addAll due (td_q s))
             \<lparr>dt_waitingForQueue := dt_waitingForQueue (addReady (td_now s) (td_q s)),
              dt_waitingEntryByData := set (keys (dt_waitingForQueue (addReady (td_now s) (td_q s))))\<rparr>)"
proof (intro conjI allI impI; (elim conjE)?)
  fix k err reserve s1 es s2
  assume step: "happen m threads (EFinished k (Some err) reserve) s = Some s1" and none: "toCome k (untimedWorkers s) = 0"
    and run: "happens m threads es s1 = Some s2" "EAdded k \<notin> set es" "ETaken k \<in> set es"
  have reach: "happens m threads (es0 @ [EFinished k (Some err) reserve]) (idleAt t) = Some s1"
    using assms step by (simp add: happens_append)
  note bound = quiet_happens[OF reach run(1) _ run(2,3)]
  show left: "int (dq_NumRequeues k (td_q s)) < m"
    using bound[of "td_now s2 + 1"] quiet_failed[OF assms step none, of "td_now s2 + 1"] by fastforce
  show "td_now s + min (5 * Millisecond * 2 ^ dq_NumRequeues k (td_q s)) (1000 * Second) \<le> td_now s2"
    by (rule bound, rule quiet_failed[OF assms step none]) simp
qed (use addReady_due wfWorkers_happens[OF assms] in blast)

definition retriedOnce :: "queueEvent list" where
  "retriedOnce = [EReceived, EPassed (5 * Millisecond), EFired, ETaken ''demo/req'']"

theorem backoff_is_kept_witness:
  "\<exists>s s1 s2. happens 5 2 [EAdded ''demo/req'', ETaken ''demo/req''] (idleAt 0) = Some s
     \<and> happen 5 2 (EFinished ''demo/req'' (Some (Plain ''sealed'')) 0) s = Some s1
     \<and> happens 5 2 retriedOnce s1 = Some s2 \<and> td_now s + 5 * Millisecond \<le> td_now s2"
proof -
  have "case happens 5 2 [EAdded ''demo/req'', ETaken ''demo/req''] (idleAt 0) of None \<Rightarrow> False | Some s \<Rightarrow>
      toCome ''demo/req'' (untimedWorkers s) = 0 \<and> dq_NumRequeues ''demo/req'' (td_q s) = 0
      \<and> (case happen 5 2 (EFinished ''demo/req'' (Some (Plain ''sealed'')) 0) s of None \<Rightarrow> False | Some s1 \<Rightarrow>
          happens 5 2 retriedOnce s1 \<noteq> None)"
    by code_simp
  then obtain s s1 s2 where run: "happens 5 2 [EAdded ''demo/req'', ETaken ''demo/req''] (idleAt 0) = Some s"
      "happen 5 2 (EFinished ''demo/req'' (Some (Plain ''sealed'')) 0) s = Some s1" "happens 5 2 retriedOnce s1 = Some s2"
      "toCome ''demo/req'' (untimedWorkers s) = 0" "dq_NumRequeues ''demo/req'' (td_q s) = 0"
    by (fastforce split: option.splits)
  have "EAdded ''demo/req'' \<notin> set retriedOnce" "ETaken ''demo/req'' \<in> set retriedOnce" by (simp_all add: retriedOnce_def)
  with backoff_is_kept[OF run(1)] run have "td_now s + min (5 * Millisecond * 2 ^ 0) (1000 * Second) \<le> td_now s2" by metis
  with run(1-3) show ?thesis by (simp add: Millisecond_def Second_def)
qed

end
