(* ===== verification/Wiring.thy ===== *)
theory Wiring
  imports Work_Queue Access_Request Secret_Engine Policies Vault_Server
begin

text \<open>
  How the controller is put together (\<open>pkg/controller/config.go\<close>,
  \<open>controller.go\<close> and the functions \<open>init...Watcher\<close>): for each of the fourteen
  kinds a queue whose workers run its injector and a handler that queues the
  changes of its objects, made once the cluster has been prepared and started
  once the caches are filled.
\<close>

section \<open>Configuration\<close>

record config =
  cfg_EnableRBAC :: bool
  cfg_DockerRegistry :: string
  cfg_MaxNumRequeues :: int
  cfg_NumThreads :: int
  cfg_ResyncPeriod :: int
  cfg_EnableValidatingWebhook :: bool
  cfg_EnableMutatingWebhook :: bool

text \<open>A queue with its worker, and the handler of the informer that feeds it.\<close>

record ('s, 'st, 'a) watcher =
  wt_queue :: "'a Worker"
  wt_handler :: "('s, 'st) QueueingEventHandler"

definition newWatcher :: "config \<Rightarrow> string \<Rightarrow> (string \<Rightarrow> 'a go) \<Rightarrow> ('st \<Rightarrow> int) \<Rightarrow> ('s, 'st, 'a) watcher" where
  "newWatcher c kind injector observed =
     \<lparr>wt_queue = queue_New kind (cfg_MaxNumRequeues c) (cfg_NumThreads c) injector,
      wt_handler = NewReconcilableHandler observed\<rparr>"


section \<open>Finalizers under way\<close>

text \<open>\<open>mapFinalizer\<close>, a set of keys behind a lock; the controllers make one and do not ask it.\<close>

record mapFinalizer =
  mf_keys :: "string set"

definition NewMapFinalizer :: mapFinalizer where
  "NewMapFinalizer = \<lparr>mf_keys = {}\<rparr>"

definition IsAlreadyProcessing :: "string \<Rightarrow> mapFinalizer \<Rightarrow> bool" where
  "IsAlreadyProcessing k f \<longleftrightarrow> k \<in> mf_keys f"

definition mapFinalizer_Add :: "string \<Rightarrow> mapFinalizer \<Rightarrow> mapFinalizer" where
  "mapFinalizer_Add k f = f\<lparr>mf_keys := insert k (mf_keys f)\<rparr>"

definition mapFinalizer_Delete :: "string \<Rightarrow> mapFinalizer \<Rightarrow> mapFinalizer" where
  "mapFinalizer_Delete k f = f\<lparr>mf_keys := mf_keys f - {k}\<rparr>"

lemma IsAlreadyProcessing_simps [simp]:
  "\<not> IsAlreadyProcessing k NewMapFinalizer"
  "IsAlreadyProcessing k (mapFinalizer_Add j f) \<longleftrightarrow> k = j \<or> IsAlreadyProcessing k f"
  "IsAlreadyProcessing k (mapFinalizer_Delete j f) \<longleftrightarrow> k \<noteq> j \<and> IsAlreadyProcessing k f"
  by (auto simp: IsAlreadyProcessing_def NewMapFinalizer_def mapFinalizer_Add_def mapFinalizer_Delete_def)


section \<open>The watchers\<close>

definition initVaultServerWatcher ::
    "config \<Rightarrow> VaultController \<Rightarrow> (VaultServerSpec, VaultServerStatus, VaultController) watcher" where
  "initVaultServerWatcher c ctrl = newWatcher c ''VaultServer'' (runVaultServerInjector ctrl) vss_ObservedGeneration"

definition initVaultPolicyWatcher :: "config \<Rightarrow> (VaultPolicySpec, RoleStatus, unit) watcher" where
  "initVaultPolicyWatcher c = newWatcher c ''VaultPolicy'' runVaultPolicyInjector role_ObservedGeneration"

definition initVaultPolicyBindingWatcher :: "config \<Rightarrow> (VaultPolicyBindingSpec, RoleStatus, unit) watcher" where
  "initVaultPolicyBindingWatcher c =
     newWatcher c ''VaultPolicyBinding'' runVaultPolicyBindingInjector role_ObservedGeneration"

definition initPostgresRoleWatcher :: "config \<Rightarrow> (PostgresRoleSpec, RoleStatus, unit) watcher" where
  "initPostgresRoleWatcher c = newWatcher c ''PostgresRole'' runPostgresRoleInjector role_ObservedGeneration"

definition initMySQLRoleWatcher :: "config \<Rightarrow> (MySQLRoleSpec, RoleStatus, unit) watcher" where
  "initMySQLRoleWatcher c = newWatcher c ''MySQLRole'' runMySQLRoleInjector role_ObservedGeneration"

definition initMongoDBRoleWatcher :: "config \<Rightarrow> (MongoDBRoleSpec, RoleStatus, unit) watcher" where
  "initMongoDBRoleWatcher c = newWatcher c ''MongoDBRole'' runMongoDBRoleInjector role_ObservedGeneration"

definition initDatabaseAccessWatcher :: "config \<Rightarrow> (DatabaseAccessRequestSpec, AccessRequestStatus, unit) watcher" where
  "initDatabaseAccessWatcher c =
     newWatcher c ''DatabaseAccessRequest'' runDatabaseAccessRequestInjector req_ObservedGeneration"

definition initAWSRoleWatcher :: "config \<Rightarrow> (AWSRoleSpec, RoleStatus, unit) watcher" where
  "initAWSRoleWatcher c = newWatcher c ''AWSRole'' runAWSRoleInjector role_ObservedGeneration"

definition initAWSAccessKeyWatcher :: "config \<Rightarrow> (AWSAccessKeyRequestSpec, AccessRequestStatus, unit) watcher" where
  "initAWSAccessKeyWatcher c =
     newWatcher c ''AWSAccessKeyRequest'' runAWSAccessKeyRequestInjector req_ObservedGeneration"

definition initGCPRoleWatcher :: "config \<Rightarrow> (GCPRoleSpec, RoleStatus, unit) watcher" where
  "initGCPRoleWatcher c = newWatcher c ''GCPRole'' runGCPRoleInjector role_ObservedGeneration"

definition initGCPAccessKeyWatcher :: "config \<Rightarrow> (GCPAccessKeyRequestSpec, AccessRequestStatus, unit) watcher" where
  "initGCPAccessKeyWatcher c =
     newWatcher c ''GCPAccessKeyRequest'' runGCPAccessKeyRequestInjector req_ObservedGeneration"

definition initAzureRoleWatcher :: "config \<Rightarrow> (AzureRoleSpec, RoleStatus, unit) watcher" where
  "initAzureRoleWatcher c = newWatcher c ''AzureRole'' runAzureRoleInjector role_ObservedGeneration"

definition initAzureAccessKeyWatcher :: "config \<Rightarrow> (AzureAccessKeyRequestSpec, AccessRequestStatus, unit) watcher" where
  "initAzureAccessKeyWatcher c =
     newWatcher c ''AzureAccessKeyRequest'' runAzureAccessKeyRequestInjector req_ObservedGeneration"

definition initSecretEngineWatcher :: "config \<Rightarrow> (SecretEngineSpec, RoleStatus, unit) watcher" where
  "initSecretEngineWatcher c = newWatcher c ''SecretEngine'' runSecretEngineInjector role_ObservedGeneration"


section \<open>Making and starting the controller\<close>

definition crds :: "string list" where
  "crds = [''VaultServer'', ''VaultServerVersion'', ''VaultPolicy'', ''VaultPolicyBinding'', ''AppBinding'',
     ''AWSAccessKeyRequest'', ''AWSRole'', ''AzureAccessKeyRequest'', ''AzureRole'', ''DatabaseAccessRequest'',
     ''GCPAccessKeyRequest'', ''GCPRole'', ''MongoDBRole'', ''MySQLRole'', ''PostgresRole'', ''SecretEngine'']"

definition ensureCustomResourceDefinitions :: "unit go" where
  "ensureCustomResourceDefinitions = andThen (extCall ''apiextensions.RegisterCRDs'' crds) (\<lambda>_. ret ())"

definition VaultController0 :: VaultController where
  "VaultController0 = \<lparr>ctxCancels = Map.empty, authMethodCtx = Map.empty, tasks = []\<rparr>"

record queues =
  vsQueue :: "(VaultServerSpec, VaultServerStatus, VaultController) watcher"
  vplcyQueue :: "(VaultPolicySpec, RoleStatus, unit) watcher"
  vplcyBindingQueue :: "(VaultPolicyBindingSpec, RoleStatus, unit) watcher"
  pgRoleQueue :: "(PostgresRoleSpec, RoleStatus, unit) watcher"
  myRoleQueue :: "(MySQLRoleSpec, RoleStatus, unit) watcher"
  mgRoleQueue :: "(MongoDBRoleSpec, RoleStatus, unit) watcher"
  dbAccessQueue :: "(DatabaseAccessRequestSpec, AccessRequestStatus, unit) watcher"
  awsRoleQueue :: "(AWSRoleSpec, RoleStatus, unit) watcher"
  awsAccessQueue :: "(AWSAccessKeyRequestSpec, AccessRequestStatus, unit) watcher"
  gcpRoleQueue :: "(GCPRoleSpec, RoleStatus, unit) watcher"
  gcpAccessQueue :: "(GCPAccessKeyRequestSpec, AccessRequestStatus, unit) watcher"
  azureRoleQueue :: "(AzureRoleSpec, RoleStatus, unit) watcher"
  azureAccessQueue :: "(AzureAccessKeyRequestSpec, AccessRequestStatus, unit) watcher"
  secretEngineQueue :: "(SecretEngineSpec, RoleStatus, unit) watcher"

definition initWatchers :: "config \<Rightarrow> VaultController \<Rightarrow> queues" where
  "initWatchers c ctrl = \<lparr>
     vsQueue = initVaultServerWatcher c ctrl, vplcyQueue = initVaultPolicyWatcher c,
     vplcyBindingQueue = initVaultPolicyBindingWatcher c, pgRoleQueue = initPostgresRoleWatcher c,
     myRoleQueue = initMySQLRoleWatcher c, mgRoleQueue = initMongoDBRoleWatcher c,
     dbAccessQueue = initDatabaseAccessWatcher c, awsRoleQueue = initAWSRoleWatcher c,
     awsAccessQueue = initAWSAccessKeyWatcher c, gcpRoleQueue = initGCPRoleWatcher c,
     gcpAccessQueue = initGCPAccessKeyWatcher c, azureRoleQueue = initAzureRoleWatcher c,
     azureAccessQueue = initAzureAccessKeyWatcher c, secretEngineQueue = initSecretEngineWatcher c\<rparr>"

text \<open>\<open>Config.New\<close>: checking the version, registering the definitions and the webhooks are calls to the cluster.\<close>

definition Config_New :: "config \<Rightarrow> (VaultController \<times> queues) go" where
  "Config_New c =
     andThen (extCall ''discovery.IsDefaultSupportedVersion'' []) (\<lambda>_.
     andThen ensureCustomResourceDefinitions (\<lambda>_.
     andThen (if cfg_EnableMutatingWebhook c
              then andThen (extCall ''UpdateMutatingWebhookCABundle'' [''mutators.kubevault.com'']) (\<lambda>_. ret ())
              else ret ()) (\<lambda>_.
     andThen (if cfg_EnableValidatingWebhook c
              then andThen (extCall ''UpdateValidatingWebhookCABundle'' [''validators.kubevault.com'']) (\<lambda>_. ret ())
              else ret ()) (\<lambda>_.
     ret (VaultController0, initWatchers c VaultController0)))))"

text \<open>\<open>RunInformers\<close>: the names of the queues whose workers are started, given whether each cache was filled.\<close>

definition RunInformers :: "bool list \<Rightarrow> queues \<Rightarrow> string list" where
  "RunInformers synced c =
    (if list_all id synced then
       [wk_name (wt_queue (vsQueue c)), wk_name (wt_queue (vplcyQueue c)), wk_name (wt_queue (vplcyBindingQueue c)),
        wk_name (wt_queue (pgRoleQueue c)), wk_name (wt_queue (myRoleQueue c)), wk_name (wt_queue (mgRoleQueue c)),
        wk_name (wt_queue (awsRoleQueue c)), wk_name (wt_queue (dbAccessQueue c)), wk_name (wt_queue (awsAccessQueue c)),
        wk_name (wt_queue (gcpRoleQueue c)), wk_name (wt_queue (gcpAccessQueue c)), wk_name (wt_queue (azureRoleQueue c)),
        wk_name (wt_queue (azureAccessQueue c)), wk_name (wt_queue (secretEngineQueue c))]
     else [])"

text \<open>
  \<open>Run\<close>: the queues started in a goroutine of their own, and the two watches that keep the
  certificates of the webhook configurations current, whose errors are dropped.
\<close>

definition syncBundle :: "bool \<Rightarrow> string \<Rightarrow> string \<Rightarrow> unit go" where
  "syncBundle enabled watch webhook =
     (if enabled then attempt (extCall watch [webhook]) (\<lambda>_. ret ()) (\<lambda>_. ret ()) else ret ())"

definition Controller_Run :: "config \<Rightarrow> bool list \<Rightarrow> queues \<Rightarrow> string list go" where
  "Controller_Run c synced qs =
     andThen (syncBundle (cfg_EnableMutatingWebhook c) ''SyncMutatingWebhookCABundle'' ''mutators.kubevault.com'') (\<lambda>_.
     andThen (syncBundle (cfg_EnableValidatingWebhook c) ''SyncValidatingWebhookCABundle'' ''validators.kubevault.com'') (\<lambda>_.
     ret (RunInformers synced qs)))"

end
