(* ===== verification/Api_Server.thy ===== *)
theory Api_Server
  imports Wiring Admission
begin

text \<open>
  The extension API server of the operator (\<open>pkg/server/server.go\<close>): which
  admission hooks it serves, under which group, version and resource, and the
  hooks that initialise them after the start.
\<close>

section \<open>Admission hooks\<close>

datatype AdmissionHook = VaultServerValidatorHook | DatabaseAccessRequestValidatorHook
  | AWSAccessKeyRequestValidatorHook | GCPAccessKeyRequestValidatorHook | AzureAccessKeyRequestValidatorHook
  | PolicyBindingMutatorHook | VaultServerMutatorHook

record GroupVersionResource =
  gvr_Group :: string
  gvr_Version :: string
  gvr_Resource :: string

fun Resource :: "AdmissionHook \<Rightarrow> GroupVersionResource" where
  "Resource VaultServerValidatorHook =
     \<lparr>gvr_Group = ''validators.kubevault.com'', gvr_Version = ''v1alpha1'', gvr_Resource = ''vaultservervalidators''\<rparr>"
| "Resource DatabaseAccessRequestValidatorHook = \<lparr>gvr_Group = ''validators.engine.kubevault.com'',
     gvr_Version = ''v1alpha1'', gvr_Resource = ''databaseaccessrequestvalidators''\<rparr>"
| "Resource AWSAccessKeyRequestValidatorHook = \<lparr>gvr_Group = ''validators.engine.kubevault.com'',
     gvr_Version = ''v1alpha1'', gvr_Resource = ''awsaccesskeyrequestvalidators''\<rparr>"
| "Resource GCPAccessKeyRequestValidatorHook = \<lparr>gvr_Group = ''validators.engine.kubevault.com'',
     gvr_Version = ''v1alpha1'', gvr_Resource = ''gcpaccesskeyrequestvalidators''\<rparr>"
| "Resource AzureAccessKeyRequestValidatorHook = \<lparr>gvr_Group = ''validators.engine.kubevault.com'',
     gvr_Version = ''v1alpha1'', gvr_Resource = ''azureaccesskeyrequestvalidators''\<rparr>"
| "Resource PolicyBindingMutatorHook =
     \<lparr>gvr_Group = ''mutators.kubevault.com'', gvr_Version = ''v1alpha1'', gvr_Resource = ''vaultpolicybindingmutators''\<rparr>"
| "Resource VaultServerMutatorHook =
     \<lparr>gvr_Group = ''mutators.kubevault.com'', gvr_Version = ''v1alpha1'', gvr_Resource = ''vaultservermutators''\<rparr>"

definition enabledHooks :: "config \<Rightarrow> AdmissionHook list" where
  "enabledHooks c =
     (if cfg_EnableValidatingWebhook c
      then [VaultServerValidatorHook, DatabaseAccessRequestValidatorHook, AWSAccessKeyRequestValidatorHook,
            GCPAccessKeyRequestValidatorHook, AzureAccessKeyRequestValidatorHook] else [])
     @ (if cfg_EnableMutatingWebhook c then [PolicyBindingMutatorHook, VaultServerMutatorHook] else [])"

text \<open>Maps are association lists; \<open>m[k] = append(m[k], v)\<close>.\<close>

definition appendAt :: "'k \<Rightarrow> 'v \<Rightarrow> ('k \<times> 'v list) list \<Rightarrow> ('k \<times> 'v list) list" where
  "appendAt k v m = AList.update k ((case map_of m k of None \<Rightarrow> [] | Some vs \<Rightarrow> vs) @ [v]) m"

definition admissionHooksByGroupThenVersion ::
    "AdmissionHook list \<Rightarrow> (string \<times> (string \<times> AdmissionHook list) list) list" where
  "admissionHooksByGroupThenVersion admissionHooks = fold (\<lambda>hook r.
     let gvr = Resource hook;
         group = (case map_of r (gvr_Group gvr) of None \<Rightarrow> [] | Some g \<Rightarrow> g) in
     AList.update (gvr_Group gvr) (appendAt (gvr_Version gvr) hook group) r) admissionHooks []"

definition appendUniqueGroupVersion :: "(string \<times> string) list \<Rightarrow> (string \<times> string) list \<Rightarrow> (string \<times> string) list" where
  "appendUniqueGroupVersion gvs elems = remdups (gvs @ elems)"

record APIGroupInfo =
  PrioritizedVersions :: "(string \<times> string) list"
  VersionedResourcesStorageMap :: "(string \<times> (string \<times> AdmissionHook) list) list"

text \<open>Serving one hook: the storage of its resource is the review of its \<open>Admit\<close>.\<close>

definition serveHook :: "AdmissionHook \<Rightarrow> APIGroupInfo \<Rightarrow> APIGroupInfo" where
  "serveHook hook i =
    (let gvr = Resource hook;
         storage = (case map_of (VersionedResourcesStorageMap i) (gvr_Version gvr) of None \<Rightarrow> [] | Some s \<Rightarrow> s) in
     i\<lparr>PrioritizedVersions := appendUniqueGroupVersion (PrioritizedVersions i) [(gvr_Group gvr, gvr_Version gvr)],
       VersionedResourcesStorageMap := AList.update (gvr_Version gvr)
         (AList.update (gvr_Resource gvr) hook storage) (VersionedResourcesStorageMap i)\<rparr>)"

definition apiGroupInfo :: "(string \<times> AdmissionHook list) list \<Rightarrow> APIGroupInfo" where
  "apiGroupInfo versionMap =
     fold serveHook (concat (map snd versionMap)) \<lparr>PrioritizedVersions = [], VersionedResourcesStorageMap = []\<rparr>"

definition postStartHookName :: "AdmissionHook \<Rightarrow> string" where
  "postStartHookName hook = (let gvr = Resource hook in
     ''admit-'' @ gvr_Resource gvr @ ''.'' @ gvr_Version gvr @ ''.'' @ gvr_Group gvr @ ''-init'')"

text \<open>A second hook of the same name ends the process.\<close>

definition AddPostStartHookOrDie :: "string \<Rightarrow> string list \<Rightarrow> string list go" where
  "AddPostStartHookOrDie name registered =
     (if name = '''' \<or> name \<in> set registered then panic ''Error registering PostStartHook''
      else ret (registered @ [name]))"

record APIServer =
  as_groups :: "APIGroupInfo list"
  as_postStartHooks :: "string list"
  as_Controller :: VaultController
  as_queues :: queues

text \<open>\<open>InstallAPIGroup\<close> is a call of the library for each group; the names of the groups are its arguments.\<close>

primrec addHooks :: "string list \<Rightarrow> string list \<Rightarrow> string list go" where
  "addHooks [] registered = ret registered"
| "addHooks (n # ns) registered = andThen (AddPostStartHookOrDie n registered) (addHooks ns)"

definition APIServer_New :: "config \<Rightarrow> APIServer go" where
  "APIServer_New c =
     andThen (extCall ''GenericConfig.New'' [''vault-apiserver'']) (\<lambda>_.
     andThen (Config_New c) (\<lambda>(ctrl, qs).
     let hooks = enabledHooks c; byGroup = admissionHooksByGroupThenVersion hooks in
     andThen (forEach (\<lambda>(group, versionMap).
         andThen (extCall ''InstallAPIGroup'' [group]) (\<lambda>_. ret ())) byGroup) (\<lambda>_.
     andThen (addHooks (map postStartHookName hooks
                @ (if cfg_EnableValidatingWebhook c then [''validating-webhook-xray''] else [])) []) (\<lambda>names.
     ret \<lparr>as_groups = map (\<lambda>(group, versionMap). apiGroupInfo versionMap) byGroup, as_postStartHooks = names,
          as_Controller = ctrl, as_queues = qs\<rparr>))))"


section \<open>Every enabled hook is served and initialised\<close>

definition servedAt :: "AdmissionHook \<Rightarrow> APIGroupInfo \<Rightarrow> bool" where
  "servedAt hook i \<longleftrightarrow> (let gvr = Resource hook in
     (gvr_Group gvr, gvr_Version gvr) \<in> set (PrioritizedVersions i)
     \<and> Option.bind (map_of (VersionedResourcesStorageMap i) (gvr_Version gvr)) (\<lambda>s. map_of s (gvr_Resource gvr)) = Some hook)"

definition allServed :: "AdmissionHook list \<Rightarrow> bool" where
  "allServed hooks \<longleftrightarrow> list_all (\<lambda>h. list_ex (servedAt h) (map (\<lambda>(g, vm). apiGroupInfo vm) (admissionHooksByGroupThenVersion hooks))) hooks"

lemma addHooks_distinct:
  "distinct (registered @ ns) \<Longrightarrow> '''' \<notin> set ns \<Longrightarrow> addHooks ns registered env t = (Ok (registered @ ns), t)"
  by (induction ns arbitrary: registered) (auto simp: AddPostStartHookOrDie_def andThen_def attempt_def ret_def)

text \<open>
  Making the server does not die of its own hooks: their names differ.  And
  when it succeeds, each enabled hook answers under its own resource and is
  initialised after the start.
\<close>

lemma enabled_hooks_ok:
  "allServed (enabledHooks c)"
  "distinct (map postStartHookName (enabledHooks c) @ (if cfg_EnableValidatingWebhook c then [''validating-webhook-xray''] else []))"
  "'''' \<notin> set (map postStartHookName (enabledHooks c) @ (if cfg_EnableValidatingWebhook c then [''validating-webhook-xray''] else []))"
proof -
  let ?v = "[VaultServerValidatorHook, DatabaseAccessRequestValidatorHook, AWSAccessKeyRequestValidatorHook,
            GCPAccessKeyRequestValidatorHook, AzureAccessKeyRequestValidatorHook]"
  let ?m = "[PolicyBindingMutatorHook, VaultServerMutatorHook]"
  have "allServed [] \<and> allServed ?v \<and> allServed ?m \<and> allServed (?v @ ?m)" by code_simp
  then show "allServed (enabledHooks c)" by (simp add: enabledHooks_def)
  have "distinct (map postStartHookName (?v @ ?m) @ [''validating-webhook-xray''])"
    "'''' \<notin> set (map postStartHookName (?v @ ?m) @ [''validating-webhook-xray''])" by code_simp+
  then show "distinct (map postStartHookName (enabledHooks c) @ (if cfg_EnableValidatingWebhook c then [''validating-webhook-xray''] else []))"
    "'''' \<notin> set (map postStartHookName (enabledHooks c) @ (if cfg_EnableValidatingWebhook c then [''validating-webhook-xray''] else []))"
    unfolding enabledHooks_def by (auto split: if_splits)
qed

lemma api_server_serves_hooks:
  assumes "APIServer_New c env t = (Ok s, t')"
  shows "list_all (\<lambda>h. list_ex (servedAt h) (as_groups s) \<and> postStartHookName h \<in> set (as_postStartHooks s)) (enabledHooks c)"
proof -
  let ?names = "map postStartHookName (enabledHooks c) @ (if cfg_EnableValidatingWebhook c then [''validating-webhook-xray''] else [])"
  from assms obtain t1 t2 where groups: "as_groups s = map (\<lambda>(g, vm). apiGroupInfo vm) (admissionHooksByGroupThenVersion (enabledHooks c))"
    and names: "addHooks ?names [] env t1 = (Ok (as_postStartHooks s), t2)"
    unfolding APIServer_New_def Let_def by (elim andThen_Ok) (auto simp: ret_def elim!: andThen_Ok split: prod.splits)
  have "addHooks ?names [] env t1 = (Ok ?names, t1)"
    using addHooks_distinct[of "[]" ?names] enabled_hooks_ok(2,3)[of c] by simp
  with names have "as_postStartHooks s = ?names" by simp
  with groups enabled_hooks_ok(1)[of c] show ?thesis by (simp add: allServed_def list_all_iff)
qed

end
