(* ===== verification/Wiring_Theorems.thy ===== *)
theory Wiring_Theorems
  imports Api_Server Queue_Theorems Admission_Theorems
begin

text \<open>
  How the controllers behave behind their queues: which queues are started, and
  what becomes of an approved request whose credential cannot be issued.
\<close>

section \<open>Queues\<close>

text \<open>Every watcher that is made has its queue started, under the name of its kind.\<close>

definition startedQueues :: "string list" where
  "startedQueues = [''VaultServer'', ''VaultPolicy'', ''VaultPolicyBinding'', ''PostgresRole'', ''MySQLRole'', ''MongoDBRole'',
     ''AWSRole'', ''DatabaseAccessRequest'', ''AWSAccessKeyRequest'', ''GCPRole'', ''GCPAccessKeyRequest'', ''AzureRole'',
     ''AzureAccessKeyRequest'', ''SecretEngine'']"

lemma RunInformers_initWatchers: "RunInformers [True] (initWatchers c ctrl) = startedQueues"
  by (simp add: RunInformers_def initWatchers_def newWatcher_def queue_New_def startedQueues_def
      initVaultServerWatcher_def initVaultPolicyWatcher_def initVaultPolicyBindingWatcher_def initPostgresRoleWatcher_def
      initMySQLRoleWatcher_def initMongoDBRoleWatcher_def initDatabaseAccessWatcher_def initAWSRoleWatcher_def
      initAWSAccessKeyWatcher_def initGCPRoleWatcher_def initGCPAccessKeyWatcher_def initAzureRoleWatcher_def
      initAzureAccessKeyWatcher_def initSecretEngineWatcher_def)

lemma all_queues_started:
  assumes "Config_New c env t = (Ok (ctrl, qs), t')"
  shows "set (RunInformers [True] qs) = set crds - {''VaultServerVersion'', ''AppBinding''}
    \<and> distinct (RunInformers [True] qs)"
proof -
  have "qs = initWatchers c VaultController0"
    using assms unfolding Config_New_def by (elim andThen_Ok) (simp add: ret_def)
  moreover have "set startedQueues = set crds - {''VaultServerVersion'', ''AppBinding''}" "distinct startedQueues" by code_simp+
  ultimately show ?thesis by (simp add: RunInformers_initWatchers)
qed


section \<open>Failed requests\<close>

text \<open>The status an update writes, when it is one, is marked with the given generation.\<close>

definition marks :: "'spec accessRequest client \<Rightarrow> int \<Rightarrow> event \<Rightarrow> bool" where
  "marks c generation e \<longleftrightarrow>
     (\<forall>new a. e = Kube (KUpdateStatus (cl_inj c new)) a \<longrightarrow> req_ObservedGeneration (Status new) = generation)"

lemma marks_simps [simp]:
  "marks c g (Vault r va)" "marks c g (Ext f args s)" "marks c g (Kube (KGet kd ns n) a)"
  "marks c g (Kube (KDelete kd ns n) a)"
  by (simp_all add: marks_def)

lemma emits_marks_UpdateStatus:
  assumes "typed_client c" "\<And>now st. req_ObservedGeneration (f now st) = g"
  shows "emits (marks c g) (UpdateStatus c meta f) env"
proof (rule emits_UpdateStatus)
  have inj: "inj (cl_inj c)" using assms(1) by (metis injI option.inject typed_client.prj_inj)
  show "marks c g (Kube (KUpdateStatus (cl_inj c (cur\<lparr>Status := f now (Status cur)\<rparr>))) a)" for cur now a
    using assms(2) by (auto simp: marks_def inj_eq[OF inj])
qed simp

lemma andThen_calls:
  assumes "snd (m env t) = t @ es" "es \<noteq> []" "\<And>v. emits (\<lambda>_. True) (f v) env"
  shows "\<exists>es. snd (andThen m f env t) = t @ es \<and> es \<noteq> []"
proof (cases "m env t")
  case (Pair r t1)
  then have t1: "t1 = t @ es" using assms(1) by simp
  show ?thesis
  proof (cases r)
    case (Ok v)
    obtain es' where "snd (f v env t1) = t1 @ es'" using assms(3) by (rule emitsE)
    then show ?thesis using Pair Ok t1 assms(2)
      by (intro exI[of _ "es @ es'"]) (simp add: andThen_def attempt_def)
  qed (use Pair t1 assms(2) in \<open>simp_all add: andThen_def attempt_def fail_def\<close>)
qed

lemma UpdateStatus_calls: "\<exists>es. snd (UpdateStatus c meta f env t) = t @ es \<and> es \<noteq> []"
  unfolding UpdateStatus_def
proof (rule andThen_calls)
  let ?req = "KGet (cl_Kind c) (Namespace meta) (Name meta)"
  show "snd (apiGet c (Namespace meta) (Name meta) env t) = t @ [Kube ?req (kube_answer env t ?req)]"
    by (simp add: apiGet_def kubeCall_def Let_def)
  show "emits (\<lambda>_. True) (let err = None in andThen pollTicks (\<lambda>n.
      andThen (PollImmediate n (updateStatusOnce c meta f err) (v, 0)) (\<lambda>((result, tries), err'). case err' of
          None \<Rightarrow> ret result
        | Some e \<Rightarrow> fail (Plain (''failed to update status of '' @ cl_Kind c @ '' ''
             @ slash (Namespace meta) (Name meta) @ '' after '' @ string_of_nat tries
             @ '' attempts due to '' @ Error e))))) env" for v
    unfolding updateStatusOnce_def Let_def by (intro emits_intros TrueI)
qed simp

lemma factoryEvent_marks: "factoryEvent e \<Longrightarrow> marks c g e"
  by (auto simp: factoryEvent_def marks_def)

text \<open>What follows a failed reconcile.\<close>

definition cleanup :: "'spec accessKind \<Rightarrow> CredentialManager \<Rightarrow> 'spec accessRequest \<Rightarrow> error \<Rightarrow> unit go" where
  "cleanup k cm req err =
     errOf (revokeLease cm (req_Lease (Status req))) (\<lambda>err1.
     errOf (deleteCredSecret req) (\<lambda>err2.
     if err1 \<noteq> None \<or> err2 \<noteq> None then returnErr (NewAggregate [err2, err1])
     else errOf (UpdateStatus (ak_client k) (Meta req) (clearIssued (Generation (Meta req))))
       (\<lambda>err3. returnErr (errors_Wrap (NewAggregate [err3, Some err])
                  (''For '' @ ak_Kind k @ '' '' @ key req)))))"

context access_controller
begin

text \<open>A failed cleanup ends with the call that failed.\<close>

lemma cleanup_error_calls:
  assumes "isManager cm"
  shows "revokeLease cm lease env t = (Err e, t') \<Longrightarrow> \<exists>r a. t' = t @ [Vault r a]"
    and "deleteCredSecret req env t = (Err e, t') \<Longrightarrow> \<exists>kd ns n a. t' = t @ [Kube (KDelete kd ns n) a]"
proof -
  from assms obtain vc where "credential_manager cm vc" by (auto simp: isManager_def)
  then show "revokeLease cm lease env t = (Err e, t') \<Longrightarrow> \<exists>r a. t' = t @ [Vault r a]"
    by (auto simp: revokeLease_def ret_def credential_manager.revoke_call Let_def split: option.splits if_splits)
  show "deleteCredSecret req env t = (Err e, t') \<Longrightarrow> \<exists>kd ns n a. t' = t @ [Kube (KDelete kd ns n) a]"
    by (auto simp: deleteCredSecret_def ret_def apiDelete_def kubeCall_def Let_def split: option.splits)
qed

lemma cleanup_marks:
  assumes cm: "isManager cm" and run: "cleanup k cm req err env t2 = (Err e, t @ [ev])"
  shows "marks (ak_client k) (Generation (Meta req)) ev"
proof -
  let ?U = "UpdateStatus (ak_client k) (Meta req) (clearIssued (Generation (Meta req)))"
  obtain rA tA where A: "revokeLease cm (req_Lease (Status req)) env t2 = (rA, tA)" by fastforce
  obtain rB tB where B: "deleteCredSecret req env tA = (rB, tB)" by fastforce
  have dk: "\<exists>es. tB = tA @ es \<and> (\<forall>e\<in>set es. marks (ak_client k) (Generation (Meta req)) e)"
    using B by (auto simp: deleteCredSecret_def ret_def apiDelete_def kubeCall_def Let_def split: option.splits)
  show ?thesis
  proof (cases "(\<exists>x. rA = Err x) \<or> (\<exists>x. rB = Err x)")
    case True
    then have tB: "tB = t @ [ev]" using run A B
      by (auto simp: cleanup_def errOf_def attempt_def returnErr_def ret_def fail_def split: res.splits option.splits)
    show ?thesis
    proof (cases "\<exists>x. rB = Err x")
      case True
      then show ?thesis using cleanup_error_calls(2)[OF cm] B tB by fastforce
    next
      case False
      with True obtain x r a where "tA = t2 @ [Vault r a]" using cleanup_error_calls(1)[OF cm] A by blast
      with dk tB obtain es where "t @ [ev] = t2 @ Vault r a # es"
        "\<forall>e\<in>set (Vault r a # es). marks (ak_client k) (Generation (Meta req)) e" by auto
      then show ?thesis by (metis last_appendR last_in_set last_snoc list.discI)
    qed
  next
    case False
    then have "snd (?U env tB) = t @ [ev]" using run A B
      by (auto simp: cleanup_def errOf_def attempt_def returnErr_def ret_def fail_def split: res.splits option.splits prod.splits)
    moreover obtain es where "snd (?U env tB) = tB @ es" "es \<noteq> []" using UpdateStatus_calls by blast
    moreover obtain es' where "snd (?U env tB) = tB @ es'" "\<forall>e\<in>set es'. marks (ak_client k) (Generation (Meta req)) e"
      using emits_marks_UpdateStatus[OF client, of "clearIssued (Generation (Meta req))"] by (rule emitsE) (simp add: clearIssued_def)
    ultimately show ?thesis by (metis append_eq_append_conv2 last_appendR last_in_set last_snoc same_append_eq)
  qed
qed

text \<open>A run that fails and ends with an accepted write of the status has marked it as observed.\<close>

lemma failure_marks_last_write:
  assumes run: "processApproved k req env t = (Err e, t @ es @ [ev])"
  shows "marks (ak_client k) (Generation (Meta req)) ev"
proof -
  let ?P = "marks (ak_client k) (Generation (Meta req))"
  have new: "\<not> successfullyProcessed req" using run by (auto simp: processApproved_def ret_def split: if_splits)
  obtain r1 t1 where r1: "ak_NewCredentialManager k req env t = (r1, t1)" by fastforce
  obtain es1 where t1: "t1 = t @ es1" "\<forall>e\<in>set es1. ?P e"
    using emitsD[OF mgr_emits r1] factoryEvent_marks by blast
  show ?thesis
  proof (cases r1)
    case (Err err)
    let ?f = "\<lambda>now st. (setFailed ''FailedToCreateCredentialManager'' err now st)\<lparr>req_ObservedGeneration := Generation (Meta req)\<rparr>"
    have "snd (processApproved k req env t) = snd (UpdateStatus (ak_client k) (Meta req) ?f env t1)"
      unfolding processApproved_def using new r1 Err
      by (auto simp: attempt_def failWith_def errOf_def returnErr_def ret_def fail_def split: prod.splits res.splits option.splits)
    moreover obtain es2 where "snd (UpdateStatus (ak_client k) (Meta req) ?f env t1) = t1 @ es2" "\<forall>e\<in>set es2. ?P e"
      using emits_marks_UpdateStatus[OF client, of ?f] by (rule emitsE) simp
    ultimately have "es @ [ev] = es1 @ es2" "\<forall>e\<in>set (es1 @ es2). ?P e" using run t1 by auto
    then show ?thesis by (metis in_set_conv_decomp)
  next
    case (Panic p)
    then show ?thesis using run new r1 by (simp add: processApproved_def attempt_def)
  next
    case (Ok cm)
    have cm: "isManager cm" using yieldsD[OF mgr_yields r1[unfolded Ok]] by simp
    from run new r1 Ok obtain err t2 where rec: "reconcileAccessRequest k cm req env t1 = (Err err, t2)"
      by (auto simp: processApproved_def attempt_def ret_def split: prod.splits res.splits)
    have "cleanup k cm req err env t2 = (Err e, (t @ es) @ [ev])"
      using run new r1 Ok rec by (simp add: processApproved_def attempt_def cleanup_def)
    then show ?thesis by (rule cleanup_marks[OF cm])
  qed
qed

end

text \<open>
  A request is abandoned by its handler after a failed run that recorded the
  failure, for as long as it is not deleted: no add or update of the object
  queues it, whatever updates the validator admits after the decision.  The
  API server gives an object a new generation only with a new spec, and only
  the controller writes the observed generation.
\<close>

definition abandonsFailed :: "'spec accessKind \<Rightarrow> ('spec, AccessRequestStatus) QueueingEventHandler \<Rightarrow> bool" where
  "abandonsFailed k h \<longleftrightarrow> (\<forall>req env t e es new ob nu old q.
     processApproved k req env t = (Err e, t @ es @ [Kube (KUpdateStatus (cl_inj (ak_client k) new)) (Inr ob)])
     \<and> Generation (Meta new) = Generation (Meta req) \<and> isApprovedOrDenied (req_Conditions (Status new))
     \<and> requestHistory (ak_client k) new nu \<and> DeletionTimestamp (Meta nu) = None
     \<and> (Spec nu = Spec new \<longrightarrow> Generation (Meta nu) = Generation (Meta new))
     \<and> req_ObservedGeneration (Status nu) = req_ObservedGeneration (Status new)
     \<longrightarrow> OnAdd h nu q = q \<and> OnUpdate h old nu q = q)"

context access_controller
begin

lemma abandons: "abandonsFailed k (NewReconcilableHandler req_ObservedGeneration)"
  unfolding abandonsFailed_def
proof (intro allI impI, elim conjE)
  fix req env t e es new ob nu old q
  assume run: "processApproved k req env t = (Err e, t @ es @ [Kube (KUpdateStatus (cl_inj (ak_client k) new)) (Inr ob)])"
    and g: "Generation (Meta new) = Generation (Meta req)" and d: "isApprovedOrDenied (req_Conditions (Status new))"
    and h: "requestHistory (ak_client k) new nu" and alive: "DeletionTimestamp (Meta nu) = None"
    and gen: "Spec nu = Spec new \<longrightarrow> Generation (Meta nu) = Generation (Meta new)"
    and obs: "req_ObservedGeneration (Status nu) = req_ObservedGeneration (Status new)"
  have "req_ObservedGeneration (Status new) = Generation (Meta req)"
    using failure_marks_last_write[OF run] by (simp add: marks_def)
  with g gen obs requestHistory_frozen[OF h client d]
  have "AlreadyReconciled req_ObservedGeneration nu" by (simp add: AlreadyReconciled_def)
  with alive show "OnAdd (NewReconcilableHandler req_ObservedGeneration) nu q = q
      \<and> OnUpdate (NewReconcilableHandler req_ObservedGeneration) old nu q = q"
    by (simp add: OnAdd_def OnUpdate_def NewReconcilableHandler_def)
qed

end

lemma access_handlers:
  "wt_handler (initAWSAccessKeyWatcher c) = NewReconcilableHandler req_ObservedGeneration"
  "wt_handler (initAzureAccessKeyWatcher c) = NewReconcilableHandler req_ObservedGeneration"
  "wt_handler (initGCPAccessKeyWatcher c) = NewReconcilableHandler req_ObservedGeneration"
  "wt_handler (initDatabaseAccessWatcher c) = NewReconcilableHandler req_ObservedGeneration"
  by (simp_all add: initAWSAccessKeyWatcher_def initAzureAccessKeyWatcher_def initGCPAccessKeyWatcher_def
      initDatabaseAccessWatcher_def newWatcher_def)

text \<open>C7: for all four kinds, once a run on an approved request has failed and recorded that in the
  status, the handler of its informer never queues the request again before it is deleted: the
  generation is marked as observed, and the validator keeps the spec of a decided request as it is.
  The retries of the queue are all the request gets.\<close>

theorem failed_request_abandoned:
  "abandonsFailed awsAccessKind (wt_handler (initAWSAccessKeyWatcher c))
   \<and> abandonsFailed azureAccessKind (wt_handler (initAzureAccessKeyWatcher c))
   \<and> abandonsFailed gcpAccessKind (wt_handler (initGCPAccessKeyWatcher c))
   \<and> abandonsFailed dbAccessKind (wt_handler (initDatabaseAccessWatcher c))"
  unfolding access_handlers
  using aws_access.abandons azure_access.abandons gcp_access.abandons db_access.abandons by blast

text \<open>Vault was not there when the approved request was handled: the AppBinding is missing.\<close>

definition noVault :: env where
  "noVault = echoEnv (\<lambda>kd ns n. if kd = ''AppBinding'' then Inl (StatusError NotFound ''not found'') else demoGet kd ns n)
     demoVault (demoCache demoRequest)"

definition demoConfig :: config where
  "demoConfig = \<lparr>cfg_EnableRBAC = True, cfg_DockerRegistry = ''kubevault'', cfg_MaxNumRequeues = 5, cfg_NumThreads = 2,
     cfg_ResyncPeriod = 600000000000, cfg_EnableValidatingWebhook = True, cfg_EnableMutatingWebhook = True\<rparr>"

theorem failed_request_abandoned_witness:
  "\<exists>e es new ob. processApproved awsAccessKind demoRequest noVault [] =
       (Err e, es @ [Kube (KUpdateStatus (AWSAccessKeyRequestObj new)) (Inr ob)])
     \<and> isApprovedOrDenied (req_Conditions (Status new))
     \<and> OnUpdate (wt_handler (initAWSAccessKeyWatcher demoConfig)) demoRequest new newQueue = newQueue
     \<and> OnAdd (wt_handler (initAWSAccessKeyWatcher demoConfig)) new newQueue = newQueue"
proof -
  let ?run = "processApproved awsAccessKind demoRequest noVault []"
  let ?check = "\<lambda>(r, tr). (case r of Err _ \<Rightarrow> True | _ \<Rightarrow> False) \<and> (case rev tr of
      Kube (KUpdateStatus (AWSAccessKeyRequestObj new)) (Inr ob) # _ \<Rightarrow>
        Generation (Meta new) = 2 \<and> isApprovedOrDenied (req_Conditions (Status new)) \<and> DeletionTimestamp (Meta new) = None
    | _ \<Rightarrow> False)"
  have "?check ?run" by code_simp
  then obtain e es new ob where run: "?run = (Err e, es @ [Kube (KUpdateStatus (AWSAccessKeyRequestObj new)) (Inr ob)])"
    and new: "Generation (Meta new) = 2" "isApprovedOrDenied (req_Conditions (Status new))" "DeletionTimestamp (Meta new) = None"
    by (cases ?run) (auto split: res.splits list.splits event.splits kubeRequest.splits obj.splits sum.splits
        simp: rev_eq_Cons_iff)
  have run': "processApproved awsAccessKind demoRequest noVault [] =
      (Err e, [] @ es @ [Kube (KUpdateStatus (cl_inj (ak_client awsAccessKind) new)) (Inr ob)])"
    using run by (simp add: awsAccessKind_def AWSAccessKeyRequests_def)
  have "Generation (Meta new) = Generation (Meta demoRequest)" using new(1) by (simp add: demoRequest_def)
  moreover have "abandonsFailed awsAccessKind (wt_handler (initAWSAccessKeyWatcher demoConfig))"
    using failed_request_abandoned by (rule conjunct1)
  ultimately have "OnAdd (wt_handler (initAWSAccessKeyWatcher demoConfig)) new newQueue = newQueue
     \<and> OnUpdate (wt_handler (initAWSAccessKeyWatcher demoConfig)) demoRequest new newQueue = newQueue"
    using run' new(2,3) requestHistory.start[of "ak_client awsAccessKind" new] unfolding abandonsFailed_def by metis
  with run new(2) show ?thesis by blast
qed


end
