(* ===== verification/Operator.thy ===== *)
theory Operator
  imports Api_Server
begin

text \<open>
  Starting the operator (\<open>pkg/cmds\<close>): its options and flags, the configuration
  made from them, the API server with its controller, and what the server does
  after the start; the events and image names it uses (\<open>pkg/eventer\<close>,
  \<open>pkg/docker\<close>).  The generic API server, the flag parser and the clients are
  libraries whose calls the environment answers.
\<close>

section \<open>Images\<close>

record Docker =
  dk_Registry :: string
  dk_Image :: string
  dk_Tag :: string

definition ACRegistry :: string where
  "ACRegistry = ''kubevault''"

definition ToContainerImage :: "Docker \<Rightarrow> string" where
  "ToContainerImage docker = dk_Registry docker @ ''/'' @ dk_Image docker @ '':'' @ dk_Tag docker"


section \<open>Options\<close>

record ExtraOptions =
  eo_DockerRegistry :: string
  eo_MaxNumRequeues :: int
  eo_NumThreads :: int
  eo_QPS :: int
  eo_Burst :: int
  eo_ResyncPeriod :: int
  eo_EnableValidatingWebhook :: bool
  eo_EnableMutatingWebhook :: bool

text \<open>The rates are whole numbers, the period is in seconds.\<close>

definition NewExtraOptions :: ExtraOptions where
  "NewExtraOptions = \<lparr>eo_DockerRegistry = ACRegistry, eo_MaxNumRequeues = 5, eo_NumThreads = 2, eo_QPS = 100,
     eo_Burst = 100, eo_ResyncPeriod = 10 * 60, eo_EnableValidatingWebhook = False, eo_EnableMutatingWebhook = False\<rparr>"

text \<open>A flag with the value it was parsed to; the variable \<open>AddGoFlags\<close> binds it to is set.\<close>

datatype flag = DockerRegistryFlag string | QPSFlag int | BurstFlag int | ResyncPeriodFlag int
  | EnableMutatingWebhookFlag bool | EnableValidatingWebhookFlag bool

fun AddGoFlags :: "flag \<Rightarrow> ExtraOptions \<Rightarrow> ExtraOptions" where
  "AddGoFlags (DockerRegistryFlag v) s = s\<lparr>eo_DockerRegistry := v\<rparr>"
| "AddGoFlags (QPSFlag v) s = s\<lparr>eo_QPS := v\<rparr>"
| "AddGoFlags (BurstFlag v) s = s\<lparr>eo_Burst := v\<rparr>"
| "AddGoFlags (ResyncPeriodFlag v) s = s\<lparr>eo_ResyncPeriod := v\<rparr>"
| "AddGoFlags (EnableMutatingWebhookFlag v) s = s\<lparr>eo_EnableMutatingWebhook := v\<rparr>"
| "AddGoFlags (EnableValidatingWebhookFlag v) s = s\<lparr>eo_EnableValidatingWebhook := v\<rparr>"

definition optionsOf :: "flag list \<Rightarrow> ExtraOptions" where
  "optionsOf flags = fold AddGoFlags flags NewExtraOptions"

text \<open>The clients of a configuration, in the order they are made; the first that fails ends it.\<close>

definition clientKinds :: "string list" where
  "clientKinds = [''kubernetes.NewForConfig'', ''cs.NewForConfig'', ''crd_cs.NewForConfig'', ''prom.NewForConfig'',
     ''appcat_cs.NewForConfig'']"

definition NewConfig :: config where
  "NewConfig = \<lparr>cfg_EnableRBAC = False, cfg_DockerRegistry = '''', cfg_MaxNumRequeues = 0, cfg_NumThreads = 0,
     cfg_ResyncPeriod = 0, cfg_EnableValidatingWebhook = False, cfg_EnableMutatingWebhook = False\<rparr>"

definition ApplyTo :: "ExtraOptions \<Rightarrow> config \<Rightarrow> config go" where
  "ApplyTo s cfg =
     andThen (forEach (\<lambda>k. andThen (extCall k []) (\<lambda>_. ret ())) clientKinds) (\<lambda>_.
     ret (cfg\<lparr>cfg_DockerRegistry := eo_DockerRegistry s, cfg_MaxNumRequeues := eo_MaxNumRequeues s,
       cfg_NumThreads := eo_NumThreads s, cfg_ResyncPeriod := eo_ResyncPeriod s,
       cfg_EnableMutatingWebhook := eo_EnableMutatingWebhook s,
       cfg_EnableValidatingWebhook := eo_EnableValidatingWebhook s\<rparr>))"

definition VaultServerOptions_Config :: "ExtraOptions \<Rightarrow> config go" where
  "VaultServerOptions_Config o' =
     andThen (attempt (extCall ''SecureServing.MaybeDefaultWithSelfSignedCerts'' [''localhost'', ''127.0.0.1''])
       (\<lambda>err. fail (Plain (''error creating self-signed certificates: '' @ Error err))) (\<lambda>_. ret ())) (\<lambda>_.
     andThen (extCall ''RecommendedOptions.ApplyTo'' []) (\<lambda>_.
     ApplyTo o' NewConfig))"


section \<open>Events\<close>

record ObjectReference =
  ref_Namespace :: string
  ref_Name :: string

record coreEvent =
  ev_Name :: string
  ev_Namespace :: string
  ev_InvolvedObject :: ObjectReference
  ev_Reason :: string
  ev_Message :: string
  ev_FirstTimestamp :: int
  ev_LastTimestamp :: int
  ev_Count :: int
  ev_Type :: string
  ev_Source :: string

text \<open>The digits of \<open>%x\<close>.\<close>

definition hexDigit :: "nat \<Rightarrow> char" where
  "hexDigit n = ''0123456789abcdef'' ! n"

fun hex :: "nat \<Rightarrow> string" where
  "hex n = (if n < 16 then [hexDigit n] else hex (n div 16) @ [hexDigit (n mod 16)])"

declare hex.simps [simp del]

definition eventFor :: "string \<Rightarrow> ObjectReference \<Rightarrow> string \<Rightarrow> string \<Rightarrow> string \<Rightarrow> int \<Rightarrow> coreEvent" where
  "eventFor component ref eventType reason message t =
     \<lparr>ev_Name = ref_Name ref @ ''.'' @ hex (nat t), ev_Namespace = ref_Namespace ref, ev_InvolvedObject = ref,
      ev_Reason = reason, ev_Message = message, ev_FirstTimestamp = t, ev_LastTimestamp = t, ev_Count = 1,
      ev_Type = eventType, ev_Source = component\<rparr>"

text \<open>The reference is what the library makes of the object; the answer is the name of the event created.\<close>

definition CreateEvent :: "string \<Rightarrow> error + ObjectReference \<Rightarrow> string \<Rightarrow> string \<Rightarrow> string \<Rightarrow> string go" where
  "CreateEvent component obj eventType reason message =
     andThen (liftE obj) (\<lambda>ref.
     andThen metav1_Now (\<lambda>t.
     let e = eventFor component ref eventType reason message t in
     extCall ''CoreV1.Events.Create'' [ev_Namespace e, ev_Name e, ev_Type e, ev_Reason e, ev_Message e, ev_Source e]))"

definition CreateEventWithLog :: "string \<Rightarrow> error + ObjectReference \<Rightarrow> string \<Rightarrow> string \<Rightarrow> string \<Rightarrow> unit go" where
  "CreateEventWithLog component obj eventType reason message =
     attempt (CreateEvent component obj eventType reason message) (\<lambda>err. ret ()) (\<lambda>_. ret ())"


section \<open>The probe of the webhooks\<close>

text \<open>The server that is submitted to see whether the validating webhook refuses it.\<close>

definition xrayObject :: VaultServer where
  "xrayObject = newVaultServer (ObjectMeta0 ''test-vaultserver-for-webhook-xray'' ''default'')
     \<lparr>Spec := VaultServerSpec0\<lparr>vs_Replicas := Some 1, vs_Version := ''0.11.1''\<rparr>\<rparr>"

text \<open>
  The goroutine started after the start: when the library finds the webhook
  inactive, the workload of the operator's pod gets an event, if it is found,
  and the process ends.
\<close>

definition validatingWebhookXray :: "(string \<Rightarrow> error + ObjectReference) \<Rightarrow> unit go" where
  "validatingWebhookXray GetReference =
     attempt (extCall ''xray.IsActive'' [Namespace (Meta xrayObject), Name (Meta xrayObject)])
       (\<lambda>err. attempt (extCall ''dynamic_util.DetectWorkload'' [''pods''])
          (\<lambda>e2. panic (Error err))
          (\<lambda>w. andThen (CreateEventWithLog ''vault-operator'' (GetReference w) ''Warning''
                  ''AdmissionWebhookNotActivated'' (Error err)) (\<lambda>_. panic (Error err))))
       (\<lambda>_. ret ())"


section \<open>Running\<close>

text \<open>
  The queues that are started.  The controller runs in a goroutine of its own
  beside the generic server; whether a cache it waits for is filled is an
  argument.
\<close>

definition VaultServer_Run :: "config \<Rightarrow> bool list \<Rightarrow> APIServer \<Rightarrow> string list go" where
  "VaultServer_Run c synced op =
     andThen (Controller_Run c synced (as_queues op)) (\<lambda>started.
     andThen (extCall ''GenericAPIServer.PrepareRun.Run'' []) (\<lambda>_. ret started))"

definition VaultServerOptions_Run :: "bool list \<Rightarrow> ExtraOptions \<Rightarrow> (APIServer \<times> string list) go" where
  "VaultServerOptions_Run synced o' =
     andThen (VaultServerOptions_Config o') (\<lambda>config.
     andThen (APIServer_New config) (\<lambda>s.
     andThen (VaultServer_Run config synced s) (\<lambda>started. ret (s, started))))"

text \<open>\<open>Complete\<close> and \<open>Validate\<close> accept everything.\<close>

definition NewCmdRun :: "bool list \<Rightarrow> flag list \<Rightarrow> (APIServer \<times> string list) go" where
  "NewCmdRun synced flags = VaultServerOptions_Run synced (optionsOf flags)"

end
