(* ===== verification/Operator_Theorems.thy ===== *)
theory Operator_Theorems
  imports Operator Wiring_Theorems Delay_Theorems
begin

text \<open>
  A started operator: the limits of its queues do not depend on the flags, its
  own validator refuses the object of the probe, and a failed probe ends it.
\<close>

section \<open>Queues\<close>

definition limitsOf :: "('s, 'st, 'a) watcher \<Rightarrow> int \<times> int" where
  "limitsOf w = (wk_maxRetries (wt_queue w), wk_threadiness (wt_queue w))"

definition queueLimits :: "queues \<Rightarrow> (int \<times> int) list" where
  "queueLimits c = [limitsOf (vsQueue c), limitsOf (vplcyQueue c), limitsOf (vplcyBindingQueue c), limitsOf (pgRoleQueue c),
     limitsOf (myRoleQueue c), limitsOf (mgRoleQueue c), limitsOf (dbAccessQueue c), limitsOf (awsRoleQueue c),
     limitsOf (awsAccessQueue c), limitsOf (gcpRoleQueue c), limitsOf (gcpAccessQueue c), limitsOf (azureRoleQueue c),
     limitsOf (azureAccessQueue c), limitsOf (secretEngineQueue c)]"

lemma queueLimits_initWatchers:
  "queueLimits (initWatchers c ctrl) = replicate 14 (cfg_MaxNumRequeues c, cfg_NumThreads c)"
  by (simp add: queueLimits_def limitsOf_def initWatchers_def newWatcher_def queue_New_def numeral_nat
      initVaultServerWatcher_def initVaultPolicyWatcher_def initVaultPolicyBindingWatcher_def initPostgresRoleWatcher_def
      initMySQLRoleWatcher_def initMongoDBRoleWatcher_def initDatabaseAccessWatcher_def initAWSRoleWatcher_def
      initAWSAccessKeyWatcher_def initGCPRoleWatcher_def initGCPAccessKeyWatcher_def initAzureRoleWatcher_def
      initAzureAccessKeyWatcher_def initSecretEngineWatcher_def)

lemma flags_keep_limits:
  "eo_MaxNumRequeues (optionsOf flags) = 5" "eo_NumThreads (optionsOf flags) = 2"
proof -
  have "eo_MaxNumRequeues (AddGoFlags f o') = eo_MaxNumRequeues o' \<and> eo_NumThreads (AddGoFlags f o') = eo_NumThreads o'" for f o'
    by (cases f) simp_all
  then have "eo_MaxNumRequeues (fold AddGoFlags flags o') = eo_MaxNumRequeues o'
      \<and> eo_NumThreads (fold AddGoFlags flags o') = eo_NumThreads o'" for o'
    by (induction flags arbitrary: o') simp_all
  then show "eo_MaxNumRequeues (optionsOf flags) = 5" "eo_NumThreads (optionsOf flags) = 2"
    by (simp_all add: optionsOf_def NewExtraOptions_def)
qed

lemma Config_yields:
  "yields (\<lambda>c. cfg_MaxNumRequeues c = eo_MaxNumRequeues o' \<and> cfg_NumThreads c = eo_NumThreads o') (VaultServerOptions_Config o') env"
  unfolding yields_def VaultServerOptions_Config_def ApplyTo_def by (auto simp: ret_def elim!: andThen_Ok)

lemma APIServer_queues: "yields (\<lambda>s. as_queues s = initWatchers c VaultController0) (APIServer_New c) env"
  unfolding yields_def APIServer_New_def Config_New_def Let_def by (auto simp: ret_def elim!: andThen_Ok)

text \<open>Whatever the flags, a key of each of the fourteen queues is retried five times and each queue
  has two workers; the queues are started once every cache is filled.\<close>

theorem operator_queue_limits:
  assumes "NewCmdRun synced flags env t = (Ok (s, started), t')"
  shows "queueLimits (as_queues s) = replicate 14 (5, 2)
    \<and> started = (if list_all id synced then startedQueues else [])"
proof -
  from assms obtain c t1 t2 where c: "VaultServerOptions_Config (optionsOf flags) env t = (Ok c, t1)"
    and new: "APIServer_New c env t1 = (Ok s, t2)" and run: "started = RunInformers synced (as_queues s)"
    unfolding NewCmdRun_def VaultServerOptions_Run_def VaultServer_Run_def Controller_Run_def
    by (auto simp: ret_def elim!: andThen_Ok split: prod.splits)
  from APIServer_queues new have q: "as_queues s = initWatchers c VaultController0" unfolding yields_def by blast
  from Config_yields c flags_keep_limits have "cfg_MaxNumRequeues c = 5 \<and> cfg_NumThreads c = 2" unfolding yields_def by metis
  moreover have "started = (if list_all id synced then startedQueues else [])"
    using RunInformers_initWatchers[of c VaultController0] unfolding run q by (simp add: RunInformers_def)
  ultimately show ?thesis by (simp add: q queueLimits_initWatchers)
qed


section \<open>The start\<close>

text \<open>What returns a value whatever happened before.\<close>

definition returns :: "'a go \<Rightarrow> env \<Rightarrow> bool" where
  "returns m env \<longleftrightarrow> (\<forall>t. \<exists>v t'. m env t = (Ok v, t'))"

lemma returns_andThen: "returns m env \<Longrightarrow> (\<And>v. returns (f v) env) \<Longrightarrow> returns (andThen m f) env"
  unfolding returns_def andThen_def attempt_def by (metis (mono_tags, lifting) old.prod.case res.simps(10))

lemma returns_attempt: "returns m env \<Longrightarrow> (\<And>v. returns (f v) env) \<Longrightarrow> returns (attempt m h f) env"
  unfolding returns_def attempt_def by (metis (mono_tags, lifting) old.prod.case res.simps(10))

lemma returns_ret: "returns (ret v) env"
  by (simp add: returns_def ret_def)

lemma returns_forEach: "(\<And>x. returns (f x) env) \<Longrightarrow> returns (forEach f xs) env"
  by (induction xs) (simp_all add: returns_ret returns_andThen)

lemmas returns_intros = returns_andThen returns_attempt returns_ret returns_forEach

text \<open>The operator starts when no library call fails.\<close>

lemma operator_starts:
  assumes "\<And>t f args. \<exists>v. sdk_answer env t f args = Inr v"
  shows "returns (NewCmdRun synced flags) env"
proof -
  have ext: "returns (extCall f args) env" for f args
    unfolding returns_def
  proof
    fix t
    from assms obtain v where "sdk_answer env t f args = Inr v" by blast
    then show "\<exists>v t'. extCall f args env t = (Ok v, t')" by (simp add: extCall_def Let_def)
  qed
  have hooks: "returns (addHooks (map postStartHookName (enabledHooks c)
      @ (if cfg_EnableValidatingWebhook c then [''validating-webhook-xray''] else [])) []) env" for c
    using addHooks_distinct[of "[]"] enabled_hooks_ok(2,3)[of c] by (simp add: returns_def)
  have new: "returns (Config_New c) env" for c
    unfolding Config_New_def ensureCustomResourceDefinitions_def by (auto intro!: returns_intros ext)
  have server: "returns (APIServer_New c) env" for c
    unfolding APIServer_New_def Let_def using hooks[of c] new[of c] by (auto intro!: returns_intros ext)
  have config: "returns (VaultServerOptions_Config o') env" for o'
    unfolding VaultServerOptions_Config_def ApplyTo_def by (auto intro!: returns_intros ext)
  have "returns (syncBundle b w h) env" for b w h unfolding syncBundle_def by (auto intro!: returns_intros ext)
  then show ?thesis unfolding NewCmdRun_def VaultServerOptions_Run_def VaultServer_Run_def Controller_Run_def
    by (auto intro!: returns_intros ext server config)
qed


section \<open>The probe\<close>

text \<open>The object of the probe, also after the mutator, is refused by the validator.\<close>

theorem probe_object_refused:
  assumes "vv_initialized v"
  shows "yields (\<lambda>r. \<not> ar_Allowed r) (VaultServerValidator_Admit v \<lparr>areq_Operation = OpCreate, areq_SubResource = '''',
     areq_Group = ''kubevault.com'', areq_Kind = ''VaultServer'',
     areq_Object = Inr (VaultServerObj (setVaultServerDefaultValues xrayObject)), areq_OldObject = Inl (Plain '''')\<rparr>) env"
proof -
  have spec: "vs_Version (Spec (setVaultServerDefaultValues xrayObject)) = ''0.11.1''"
    "vs_Backend (Spec (setVaultServerDefaultValues xrayObject)) = vs_Backend VaultServerSpec0"
    by (simp_all add: setVaultServerDefaultValues_def xrayObject_def newVaultServer_def VaultServerSpec0_def)
  have none: "numOfBackend (vs_Backend VaultServerSpec0) = 0"
    by (simp add: numOfBackend_def countTrue_def VaultServerSpec0_def)
  have "yields (\<lambda>_. False) (ValidateVaultServer a b (setVaultServerDefaultValues xrayObject)) env" for a b
    unfolding yields_def ValidateVaultServer_def spec none exactlyOne_def
    by (auto simp: fail_def panic_def split: if_splits elim!: andThen_Ok)
  with assms show ?thesis
    by (auto simp: yields_def VaultServerValidator_Admit_def concerns_def decodeServer_def VaultServers_def ret_def
        elim!: andThen_Ok attempt_Ok)
qed

text \<open>The operator ends with a panic exactly when its probe fails, whether or not the event about it
  could be created; otherwise it goes on.\<close>

lemma CreateEventWithLog_ret: "\<exists>t'. CreateEventWithLog c ref ty r msg env t = (Ok (), t')"
  by (cases ref) (auto simp: CreateEventWithLog_def CreateEvent_def attempt_def andThen_def extCall_def ret_def liftE_def
      metav1_Now_def Let_def fail_def split: sum.splits)

lemma failed_probe_ends:
  assumes "validatingWebhookXray ref env t = (r, t')"
  shows "case sdk_answer env t ''xray.IsActive'' [''default'', ''test-vaultserver-for-webhook-xray''] of
      Inl err \<Rightarrow> r = Panic (Error err) | Inr v \<Rightarrow> r = Ok ()"
proof -
  have obj: "Namespace (Meta xrayObject) = ''default''" "Name (Meta xrayObject) = ''test-vaultserver-for-webhook-xray''"
    by (simp_all add: xrayObject_def newVaultServer_def ObjectMeta0_def)
  have "fst (andThen (CreateEventWithLog c ref' ty rs msg) (\<lambda>_. panic e) env t1) = Panic e" for c ref' ty rs msg e t1
    using CreateEventWithLog_ret[of c ref' ty rs msg env t1] by (auto simp: andThen_def attempt_def panic_def)
  then show ?thesis
    using assms unfolding validatingWebhookXray_def obj
    by (auto simp: attempt_def extCall_def Let_def ret_def panic_def prod_eq_iff split: sum.splits)
qed


section \<open>Names of events\<close>

definition unhexDigit :: "char \<Rightarrow> nat" where
  "unhexDigit c = length (takeWhile (\<lambda>d. d \<noteq> c) ''0123456789abcdef'')"

definition unhex :: "string \<Rightarrow> nat" where
  "unhex = foldl (\<lambda>a c. 16 * a + unhexDigit c) 0"

lemma unhexDigit: "n < 16 \<Longrightarrow> unhexDigit (hexDigit n) = n"
proof -
  have "\<forall>n \<in> set [0..<16]. unhexDigit (hexDigit n) = n" by code_simp
  then show "n < 16 \<Longrightarrow> unhexDigit (hexDigit n) = n" by simp
qed

lemma unhex_hex: "unhex (hex n) = n"
proof (induction n rule: hex.induct)
  case (1 n)
  then show ?case by (subst hex.simps) (auto simp: unhex_def unhexDigit)
qed

text \<open>Events about the same object that are created at different times have different names.\<close>

lemma event_names_differ:
  assumes "0 \<le> t" "0 \<le> t'" "t \<noteq> t'"
  shows "ev_Name (eventFor c ref ty r msg t) \<noteq> ev_Name (eventFor c' ref ty' r' msg' t')"
  using assms unhex_hex[of "nat t"] unhex_hex[of "nat t'"] by (auto simp: eventFor_def)

end
