(* ===== verification/Spec2Isabelle.thy ===== *)
theory Spec2Isabelle
  imports Access_Theorems Issue_Theorems Status_Theorems Auth_Theorems Role_Theorems Engine_Theorems Policy_Theorems
    Retry_Theorems Getter_Theorems Admission_Theorems Pod_Theorems Server_Theorems Task_Theorems Queue_Theorems
    Delay_Theorems Wiring_Theorems Operator_Theorems
begin

text \<open>
  A verification library for the KubeVault operator, a Kubernetes operator
  that runs HashiCorp Vault servers and manages policies, secret engines, roles
  and credentials in them.

  \<^bold>\<open>The program.\<close>  The operator watches fourteen kinds of custom resources.
  For each kind an informer hands changed objects to an event handler, which
  queues the key of the object; worker goroutines take keys from the queue and
  run the injector of the kind (\<open>run...Injector\<close> in \<open>pkg/controller\<close>).  An
  injector reads the object from the cache, adds a finalizer, and reconciles
  the object, or runs its finalizer when it is being deleted.  Reconciling talks
  to the Kubernetes API server through typed clients with create-or-patch and
  update-status helpers (\<open>client/clientset/.../util\<close>) and to Vault through a
  client made from an AppBinding (\<open>pkg/vault\<close>).  Admission webhooks
  (\<open>pkg/admission\<close>) check and default the objects before they are stored.

  \<^bold>\<open>Modelling.\<close>  An operation is a function \<open>'a go\<close> from an environment and a
  trace to a result and a longer trace (\<open>Prelude\<close>, \<open>World\<close>).  The trace lists
  the calls to Kubernetes, to Vault and to libraries with their answers; the
  environment chooses each answer from the trace so far, so a theorem for all
  environments covers every failure, conflict and concurrent change the outside
  can show.  A result is a value, a returned error or a run-time panic, and
  errors are values with their wrapping.  Log lines and events for the user
  leave no trace.  Objects are records with the fields of the Go structs the
  code uses, a pointer is an option, a map is an association list, a duration
  or a wrapped integer is reduced to 64 bits where that matters.

  \<^bold>\<open>Theories and sources.\<close>
  \<^item> \<open>Prelude\<close>: errors, the monad, polling, and the calculus \<open>emits\<close>, \<open>yields\<close>,
    \<open>wp\<close> in which the footprints of operations are proved.  \<open>Meta_Util\<close>: the
    helpers of \<open>kmodules.xyz/client-go\<close> on conditions, finalizers, owners and
    maps, with the contract \<open>condition_map\<close>.
  \<^item> \<open>Core_Types\<close>, \<open>Engine_Api\<close>, \<open>Policy_Api\<close>, \<open>Kubevault_Api\<close>: the types of
    \<open>apis/\<close> with their names, defaults and labels.
  \<^item> \<open>World\<close>, \<open>Clients\<close>: requests and answers, reading, patching and updating with
    retries; the contract \<open>typed_client\<close> of every client.  \<open>Vault_Sys\<close>: the system
    calls of Vault.  \<open>Finalizers\<close>, \<open>Sequences\<close>: shared lemmas on finalizers and
    on the order of calls.  \<open>Example_World\<close>: the environment of the witnesses.
  \<^item> \<open>Vault_Auth\<close> (\<open>pkg/vault/auth\<close>, \<open>pkg/vault/vault.go\<close>): the eight ways to log in,
    with the contract \<open>auth_method\<close>.
  \<^item> \<open>Secret_Getters\<close> (\<open>pkg/vault/secret\<close>): the six secret engines a credential
    is read from, with the contract \<open>secret_manager\<close>.  \<open>Credential\<close>
    (\<open>pkg/vault/credential\<close>): the managers that issue and revoke, with the contract
    \<open>credential_manager\<close>.
  \<^item> \<open>Access_Request\<close>: the controllers of the four kinds of access requests, one
    definition over a record of what differs, with the contract
    \<open>access_controller\<close>.  \<open>Roles\<close> (\<open>pkg/vault/role\<close> and the six role
    controllers), \<open>Secret_Engine\<close> (\<open>secret_engine.go\<close>, \<open>pkg/vault/engine\<close>),
    \<open>Policies\<close> (\<open>vault_policy.go\<close>, \<open>vault_policy_binding.go\<close>, \<open>pkg/vault/policy\<close>,
    \<open>pkg/vault/policybinding\<close>).
  \<^item> \<open>Storage\<close> (\<open>pkg/vault/storage\<close>), \<open>Vault_Pod\<close> (\<open>vault.go\<close>, \<open>pkg/vault/unsealer\<close>,
    \<open>pkg/vault/exporter\<close>, \<open>pkg/vault/util\<close>): everything that is put into the pod
    of a server.  \<open>Vault_Server\<close> (\<open>vaultservers.go\<close>, \<open>appbinding.go\<close>, \<open>monitor.go\<close>):
    provisioning and the table of background tasks.  \<open>Server_Tasks\<close>
    (\<open>vault_status.go\<close>, \<open>auth_method.go\<close>): those tasks.
  \<^item> \<open>Admission\<close> (\<open>pkg/admission\<close>): validators and mutators.  \<open>Work_Queue\<close> (the
    vendored work queue, worker and event handler): the queue as a step relation
    over all interleavings.  \<open>Delaying_Queue\<close>: the same queue with its clock, rate
    limiters and waiting loop, over the binary heap of \<open>Wait_Heap\<close> with the contract
    \<open>waiting_queue\<close>.
  \<^item> \<open>Wiring\<close> (\<open>config.go\<close>, \<open>controller.go\<close>, \<open>util.go\<close>), \<open>Api_Server\<close> (\<open>pkg/server\<close>)
    and \<open>Operator\<close> (\<open>pkg/cmds\<close>, \<open>pkg/eventer\<close>, \<open>pkg/docker\<close>): how the parts are put
    together and started.

  \<^bold>\<open>What is shown.\<close>
  \<^item> \<open>Access_Theorems\<close>, \<open>Issue_Theorems\<close>: a credential is read only for an
    approved request, in the order secret, lease, reader role, binding, status;
    finalizers and failed requests revoke first; the controllers follow a decision
    table; what leaks when a run fails late.
  \<^item> \<open>Status_Theorems\<close>, \<open>Retry_Theorems\<close>: updates apply to the latest read, end,
    survive conflicts, and which errors they mistreat.
  \<^item> \<open>Auth_Theorems\<close>, \<open>Getter_Theorems\<close>: clients come from the AppBinding they
    are asked for; reading a secret is confined to client and mount; which options
    are ignored or refused.
  \<^item> \<open>Role_Theorems\<close>, \<open>Engine_Theorems\<close>, \<open>Policy_Theorems\<close>: an object is reported
    ready only after Vault accepted what it stands for, and released only after
    Vault accepted its removal, whenever a client for Vault can be made; an
    authentication role is written back field by field as it was read; which specs
    the engine operations disagree on; the written policy grants the requests of the
    operator.
  \<^item> \<open>Admission_Theorems\<close>: admitted servers are well-formed and stay so, a decided
    request is frozen.  \<open>Pod_Theorems\<close>: the pod of a server is well-formed; bounds
    of the retry period.  \<open>Server_Theorems\<close>: a server is ready only after all its
    objects are in place, and its AppBinding reaches it.  \<open>Task_Theorems\<close>: the
    background tasks that run are those of existing servers.
  \<^item> \<open>Queue_Theorems\<close>: no key is worked on twice at a time or lost, and retries
    are bounded.  \<open>Wait_Heap\<close>, \<open>Delay_Theorems\<close>: the heap keeps its order, its entries
    and their positions; the queue with its clock refines the queue without; a retry
    comes no earlier than its back-off, and the waiting loop adds exactly the entries
    that are due.  \<open>Wiring_Theorems\<close>: every queue is started; a failed request is never
    queued again.  \<open>Operator_Theorems\<close>: no flag changes retries or workers; the operator
    starts when no library call fails; the object of the webhook probe is refused by
    the validator it probes.  At the end of this theory: what start, wiring, queue and
    delays together give a key.

  \<^bold>\<open>Bounds.\<close>  A polling loop takes the number of ticks until its timeout from the
  environment (\<open>poll_ticks\<close>), so theorems hold for every number; the loop runs
  once more than it ticks.  The status monitor runs as many rounds as the
  environment gives before its context is cancelled.  In \<open>Work_Queue\<close> a delayed
  addition may be made at any later moment; in \<open>Delaying_Queue\<close> time is in
  nanoseconds and passes by any amount between two events, and the delay of the
  token bucket is any that is not negative.  What a worker does once its reconcile
  function has returned is one step, and the channel to the waiting loop has room.

  \<^bold>\<open>Identified.\<close>  A nil and an empty slice, map or text of an object are the same in
  the model, as they are once the API server has dropped empty fields: so for the
  access modes of a claim, a certificate bundle and the service accounts of a
  binding.  A number of an authentication role is an integer, as Vault sends it, not
  any text of \<open>json.Number\<close>.  The path of a Vault request is the one given, before the
  client library cleans it.

  \<^bold>\<open>Not modelled.\<close>  Parsing of flags, analytics and signals (\<open>cmd\<close>, \<open>root.go\<close>), the
  generic API server and the library that runs the webhook probe.  Events for the
  user that a controller records are output and leave no trace.  Typed clients,
  informers, listers, deep copies, protobuf and OpenAPI code are generated.
  Signing of cloud requests, making certificates and the monitoring agents are
  library calls that the environment answers.  Tools and end-to-end tests
  (\<open>hack\<close>, \<open>test\<close>) are not part of the operator.
\<close>

section \<open>Across the parts\<close>

text \<open>C12: however the operator is started, each of its fourteen queues gives a key the same: once
  an informer has added it, with no other addition of it to come and no worker busy with it, and until
  it is added anew, its injector runs at most six times, however often it fails and whatever the delays
  of the retries are, and at most two injectors of its kind run at a time.\<close>

theorem operator_retry_budget:
  assumes "NewCmdRun synced flags env t = (Ok (op, started), t')" and "(m, n) \<in> set (queueLimits (as_queues op))"
    and "happens m (nat n) es0 (idleAt now) = Some s"
    and "toCome k (untimedWorkers s) + busy k (untimedWorkers s) = 0"
    and "happens m (nat n) (EAdded k # es) s = Some s'" and "EAdded k \<notin> set es"
  shows "length (queueLimits (as_queues op)) = 14 \<and> count_list es (ETaken k) \<le> 6 \<and> length (td_running s') \<le> 2"
proof -
  from operator_queue_limits[OF assms(1)] have limits: "queueLimits (as_queues op) = replicate 14 (5, 2)" by simp
  with assms(2) have "m = 5" "n = 2" by auto
  with limits timed_added_once_bound[OF assms(3,5,6,4)] show ?thesis by simp
qed

text \<open>A key that fails on every run, with its five retries, is dropped after the sixth.\<close>

definition failAndRetry :: "queueEvent list" where
  "failAndRetry = [ETaken ''demo/req'', EFinished ''demo/req'' (Some (Plain ''sealed'')) 0, EReceived, EPassed Second, EFired]"

definition failingRun :: "queueEvent list" where
  "failingRun = concat (replicate 5 failAndRetry) @ [ETaken ''demo/req'', EFinished ''demo/req'' (Some (Plain ''sealed'')) 0]"

theorem operator_retry_budget_witness:
  "\<exists>op started t' s'. NewCmdRun [True] [BurstFlag 10] demoEnv [] = (Ok (op, started), t')
     \<and> happens 5 2 (EAdded ''demo/req'' # failingRun) (idleAt 0) = Some s'
     \<and> count_list failingRun (ETaken ''demo/req'') = 6 \<and> length (td_running s') \<le> 2"
proof -
  have "returns (NewCmdRun [True] [BurstFlag 10]) demoEnv"
    by (rule operator_starts) (simp add: demoEnv_def echoEnv_def)
  then obtain op started t' where run: "NewCmdRun [True] [BurstFlag 10] demoEnv [] = (Ok (op, started), t')"
    unfolding returns_def by (metis surj_pair)
  have limit: "(5, 2) \<in> set (queueLimits (as_queues op))" using operator_queue_limits[OF run] by simp
  have idle: "happens 5 (nat 2) [] (idleAt 0) = Some (idleAt 0)" by simp
  have none: "toCome ''demo/req'' (untimedWorkers (idleAt 0)) + busy ''demo/req'' (untimedWorkers (idleAt 0)) = 0"
    by (simp add: toCome_def busy_def idle_def newQueue_def)
  have "happens 5 (nat 2) (EAdded ''demo/req'' # failingRun) (idleAt 0) \<noteq> None" by code_simp
  then obtain s' where s': "happens 5 (nat 2) (EAdded ''demo/req'' # failingRun) (idleAt 0) = Some s'" by blast
  have "EAdded ''demo/req'' \<notin> set failingRun" "count_list failingRun (ETaken ''demo/req'') = 6" by code_simp+
  with operator_retry_budget[OF run limit idle none s'] run s' show ?thesis by auto
qed

end
